(* ===== verification/Prelude.thy ===== *)
theory Prelude
  imports Complex_Main "HOL-Library.Multiset"
begin

text \<open>
  Shared vocabulary of the VisualNotes model: the types that name the
  application's values (screen and canvas points, save states), the few
  JavaScript built-ins the handlers call (\<open>Math.max\<close>/\<open>Math.min\<close> clamping,
  \<open>Math.round\<close>, \<open>String.prototype.toLowerCase\<close> and \<open>includes\<close>,
  the \<open>a || b\<close> default, \<open>[...new Set(xs)]\<close>, \<open>encodeURIComponent\<close> with the
  receiving side's decoder, \<open>{ ...obj, [k]: v }\<close>, \<open>toLocaleString\<close> of integers, \<open>JSON.stringify\<close> of strings with
  the reader \<open>JSON.parse\<close> applies), and the generic list lemmas the component theories
  share. JavaScript numbers are modelled as \<^typ>\<open>real\<close> (exact arithmetic;
  IEEE rounding is not modelled), strings as \<^typ>\<open>string\<close>.
\<close>

named_theorems handler_simps "evaluation rules of the React state handlers"

type_synonym point = "real \<times> real"
  \<comment> \<open>a JavaScript \<open>{ x, y }\<close> object\<close>

subsection \<open>JavaScript built-ins\<close>

definition js_clamp :: "real \<Rightarrow> real \<Rightarrow> real \<Rightarrow> real" where
  "js_clamp lo hi v = max lo (min hi v)"
  \<comment> \<open>\<open>Math.max(lo, Math.min(hi, v))\<close>\<close>

definition js_round :: "real \<Rightarrow> int" where
  "js_round v = \<lfloor>v + 1 / 2\<rfloor>"
  \<comment> \<open>\<open>Math.round\<close>: halves round towards \<open>+\<infinity>\<close>\<close>

definition js_or_num :: "real option \<Rightarrow> real \<Rightarrow> real" where
  "js_or_num v d = (case v of None \<Rightarrow> d | Some n \<Rightarrow> if n = 0 then d else n)"
  \<comment> \<open>\<open>v || d\<close> on a possibly missing number: \<open>undefined\<close> and \<open>0\<close> are falsy\<close>

definition lower_char :: "char \<Rightarrow> char" where
  "lower_char c = (let n = of_char c :: nat in
     if 65 \<le> n \<and> n \<le> 90 then char_of (n + 32) else c)"

definition toLowerCase :: "string \<Rightarrow> string" where
  "toLowerCase s = map lower_char s"

definition nl :: string where
  "nl = [CHR 0x0A]"
  \<comment> \<open>\<open>\n\<close>\<close>

definition bullet :: string where
  "bullet = [CHR 0xE2, CHR 0x80, CHR 0xA2]"
  \<comment> \<open>the bullet character U+2022 in UTF-8\<close>

fun join_lines :: "string list \<Rightarrow> string" where
  "join_lines [] = []"
| "join_lines [l] = l"
| "join_lines (l # ls) = l @ nl @ join_lines ls"
  \<comment> \<open>a template literal written over several lines\<close>

fun digits_of_nat :: "nat \<Rightarrow> string" where
  "digits_of_nat n =
     (if n < 10 then [char_of (48 + n)] else digits_of_nat (n div 10) @ [char_of (48 + n mod 10)])"

declare digits_of_nat.simps [simp del]

definition js_string_of_int :: "int \<Rightarrow> string" where
  "js_string_of_int i = (if i < 0 then ''-'' @ digits_of_nat (nat (- i)) else digits_of_nat (nat i))"
  \<comment> \<open>\<open>String(i)\<close> and \<open>${i}\<close> on an integral number\<close>

fun starts_with :: "string \<Rightarrow> string \<Rightarrow> bool" where
  "starts_with s [] = True"
| "starts_with [] (c # q) = False"
| "starts_with (d # s) (c # q) = (d = c \<and> starts_with s q)"

fun str_includes :: "string \<Rightarrow> string \<Rightarrow> bool" where
  "str_includes [] q = (q = [])"
| "str_includes (d # s) q = (starts_with (d # s) q \<or> str_includes s q)"
  \<comment> \<open>\<open>s.includes(q)\<close>: the search scans the start positions of \<open>s\<close>\<close>

fun set_insert_all :: "'a list \<Rightarrow> 'a list \<Rightarrow> 'a list" where
  "set_insert_all acc [] = acc"
| "set_insert_all acc (x # xs) =
     set_insert_all (if x \<in> set acc then acc else acc @ [x]) xs"
  \<comment> \<open>\<open>Set.prototype.add\<close> over an array: a \<open>Set\<close> keeps insertion order\<close>

definition js_set_spread :: "'a list \<Rightarrow> 'a list" where
  "js_set_spread xs = set_insert_all [] xs"
  \<comment> \<open>\<open>[...new Set(xs)]\<close>: the first occurrence of each value, in order\<close>

definition uri_unreserved :: "char \<Rightarrow> bool" where
  "uri_unreserved c =
     (let n = of_char c :: nat in
      (48 \<le> n \<and> n \<le> 57) \<or> (65 \<le> n \<and> n \<le> 90) \<or> (97 \<le> n \<and> n \<le> 122) \<or>
      c \<in> set (''-_.!~*()'' @ [CHR 0x27]))"
  \<comment> \<open>the characters \<open>encodeURIComponent\<close> leaves as they are\<close>

definition hex_digit :: "nat \<Rightarrow> char" where
  "hex_digit n = char_of (if n < 10 then 48 + n else 55 + n)"

definition hex_value :: "char \<Rightarrow> nat option" where
  "hex_value c =
     (let n = of_char c :: nat in
      if 48 \<le> n \<and> n \<le> 57 then Some (n - 48)
      else if 65 \<le> n \<and> n \<le> 70 then Some (n - 55)
      else if 97 \<le> n \<and> n \<le> 102 then Some (n - 87) else None)"

definition uri_escape :: "char \<Rightarrow> string" where
  "uri_escape c =
     (if uri_unreserved c then [c]
      else [CHR ''%'', hex_digit (of_char c div 16), hex_digit (of_char c mod 16)])"

definition encodeURIComponent :: "string \<Rightarrow> string" where
  "encodeURIComponent s = concat (map uri_escape s)"
  \<comment> \<open>strings are UTF-8 byte sequences, so each byte outside the unreserved set is
      written \<open>%XX\<close> with upper-case hexadecimal digits\<close>

fun uri_decode :: "string \<Rightarrow> string" where
  "uri_decode (c # h # l # rest) =
     (case (hex_value h, hex_value l) of
        (Some a, Some b) \<Rightarrow> if c = CHR ''%'' then char_of (16 * a + b) # uri_decode rest
                            else c # uri_decode (h # l # rest)
      | _ \<Rightarrow> c # uri_decode (h # l # rest))"
| "uri_decode cs = cs"
  \<comment> \<open>the receiving side's \<open>decodeURIComponent\<close> on well-formed input\<close>

definition js_space :: "char \<Rightarrow> bool" where
  "js_space c = (of_char c \<in> {9, 10, 11, 12, 13, 32 :: nat})"
  \<comment> \<open>the ASCII white space \<open>String.prototype.trim\<close> removes (the Unicode spaces it
      also removes do not occur in the inputs of the model)\<close>

definition js_trim :: "string \<Rightarrow> string" where
  "js_trim s = rev (dropWhile js_space (rev (dropWhile js_space s)))"

definition upper_char :: "char \<Rightarrow> char" where
  "upper_char c = (let n = of_char c :: nat in
     if 97 \<le> n \<and> n \<le> 122 then char_of (n - 32) else c)"

definition toUpperCase :: "string \<Rightarrow> string" where
  "toUpperCase s = map upper_char s"

fun obj_set :: "string \<Rightarrow> 'a \<Rightarrow> (string \<times> 'a) list \<Rightarrow> (string \<times> 'a) list" where
  "obj_set k v [] = [(k, v)]"
| "obj_set k v ((k', v') # ps) = (if k' = k then (k, v) # ps else (k', v') # obj_set k v ps)"
  \<comment> \<open>\<open>{ ...prev, [k]: v }\<close>: an existing key keeps its place, a new one is appended\<close>

definition obj_get :: "string \<Rightarrow> (string \<times> 'a) list \<Rightarrow> 'a option" where
  "obj_get k ps = map_of ps k"
  \<comment> \<open>\<open>obj[k]\<close>, \<open>None\<close> for \<open>undefined\<close>\<close>

datatype js_val = JBool bool | JStr string | JNum int
  \<comment> \<open>the values of the settings objects whose fields have mixed types\<close>

datatype js_type = TBool | TStr | TNum

fun js_typeof :: "js_val \<Rightarrow> js_type" where
  "js_typeof (JBool _) = TBool"
| "js_typeof (JStr _) = TStr"
| "js_typeof (JNum _) = TNum"
  \<comment> \<open>\<open>typeof v\<close>: boolean, string, number\<close>

definition obj_typed :: "(string \<times> js_type) list \<Rightarrow> (string \<times> js_val) list \<Rightarrow> bool" where
  "obj_typed schema obj = (map (\<lambda>(k, v). (k, js_typeof v)) obj = schema)"
  \<comment> \<open>the object has exactly the schema's keys, in order, with values of their types\<close>

definition bs :: char where
  "bs = CHR 0x5C"

definition hex_lower :: "nat \<Rightarrow> char" where
  "hex_lower n = char_of (if n < 10 then 48 + n else 87 + n)"

definition json_escape :: "char \<Rightarrow> string" where
  "json_escape c =
     (let n = of_char c :: nat in
      if c = CHR 0x22 then [bs, CHR 0x22] else if c = bs then [bs, bs]
      else if n = 8 then [bs, CHR ''b''] else if n = 12 then [bs, CHR ''f'']
      else if n = 10 then [bs, CHR ''n''] else if n = 13 then [bs, CHR ''r'']
      else if n = 9 then [bs, CHR ''t'']
      else if n < 32 then [bs, CHR ''u'', CHR ''0'', CHR ''0'', hex_lower (n div 16), hex_lower (n mod 16)]
      else [c])"

definition json_string :: "string \<Rightarrow> string" where
  "json_string s = CHR 0x22 # concat (map json_escape s) @ [CHR 0x22]"
  \<comment> \<open>\<open>JSON.stringify\<close> of a string (bytes from 0x80 on are UTF-8 and pass through)\<close>

fun json_read_chars :: "string \<Rightarrow> (string \<times> string) option" where
  "json_read_chars [] = None"
| "json_read_chars (c # cs) =
     (if c = CHR 0x22 then Some ([], cs)
      else if c = bs then
        (case cs of
           [] \<Rightarrow> None
         | e # r \<Rightarrow>
             (if e = CHR ''u'' then
                (case r of
                   a # b # h # l # r' \<Rightarrow>
                     (case (hex_value a, hex_value b, hex_value h, hex_value l) of
                        (Some 0, Some 0, Some x, Some y) \<Rightarrow>
                          map_option (\<lambda>(s, rest). (char_of (16 * x + y) # s, rest)) (json_read_chars r')
                      | _ \<Rightarrow> None)
                 | _ \<Rightarrow> None)
              else
                (let d = (if e = CHR 0x22 then Some (CHR 0x22) else if e = bs then Some bs
                          else if e = CHR ''/'' then Some (CHR ''/'')
                          else if e = CHR ''b'' then Some (char_of (8::nat))
                          else if e = CHR ''f'' then Some (char_of (12::nat))
                          else if e = CHR ''n'' then Some (char_of (10::nat))
                          else if e = CHR ''r'' then Some (char_of (13::nat))
                          else if e = CHR ''t'' then Some (char_of (9::nat)) else None)
                 in case d of None \<Rightarrow> None
                    | Some ch \<Rightarrow> map_option (\<lambda>(s, rest). (ch # s, rest)) (json_read_chars r))))
      else if of_char c < (32::nat) then None
      else map_option (\<lambda>(s, rest). (c # s, rest)) (json_read_chars cs))"
  \<comment> \<open>the string body of \<open>JSON.parse\<close>, up to the closing quote\<close>

fun group3 :: "string \<Rightarrow> string" where
  "group3 (a # b # c # d # rest) = a # b # c # CHR '','' # group3 (d # rest)"
| "group3 xs = xs"
  \<comment> \<open>a comma after every three digits, read from the least significant end\<close>

definition js_toLocaleString :: "int \<Rightarrow> string" where
  "js_toLocaleString i =
     (if i < 0 then ''-'' else []) @ rev (group3 (rev (digits_of_nat (nat \<bar>i\<bar>))))"
  \<comment> \<open>\<open>Number.prototype.toLocaleString()\<close> of an integer in the en-US locale\<close>

subsection \<open>Generic lemmas\<close>

lemma js_clamp_bounds [simp]:
  "lo \<le> hi \<Longrightarrow> lo \<le> js_clamp lo hi v \<and> js_clamp lo hi v \<le> hi"
  by (auto simp: js_clamp_def)

lemma js_clamp_id [simp]:
  "lo \<le> v \<Longrightarrow> v \<le> hi \<Longrightarrow> js_clamp lo hi v = v"
  by (simp add: js_clamp_def)

lemma starts_with_iff: "starts_with s q \<longleftrightarrow> (\<exists>r. s = q @ r)"
  by (induction s q rule: starts_with.induct) auto

text \<open>The scanning search agrees with the reference definition of a substring.\<close>

lemma str_includes_iff: "str_includes s q \<longleftrightarrow> (\<exists>ps ss. s = ps @ q @ ss)"
proof (induction s)
  case Nil
  then show ?case by simp
next
  case (Cons d s)
  have "(\<exists>ps ss. d # s = ps @ q @ ss) \<longleftrightarrow>
        (\<exists>r. d # s = q @ r) \<or> (\<exists>ps ss. s = ps @ q @ ss)"
    by (auto simp: Cons_eq_append_conv)
  with Cons.IH show ?case by (simp add: starts_with_iff)
qed

lemma str_includes_Nil [simp]: "str_includes s []"
  by (cases s) simp_all

lemma set_insert_all_set [simp]: "set (set_insert_all acc xs) = set acc \<union> set xs"
  by (induction acc xs rule: set_insert_all.induct) auto

lemma set_insert_all_distinct [simp]:
  "distinct acc \<Longrightarrow> distinct (set_insert_all acc xs)"
  by (induction acc xs rule: set_insert_all.induct) auto

lemma set_insert_all_prefix: "\<exists>r. set_insert_all acc xs = acc @ r"
proof (induction acc xs rule: set_insert_all.induct)
  case (1 acc)
  show ?case by simp
next
  case (2 acc x xs)
  then obtain r where
    "set_insert_all (if x \<in> set acc then acc else acc @ [x]) xs =
     (if x \<in> set acc then acc else acc @ [x]) @ r" by blast
  then show ?case by (cases "x \<in> set acc") auto
qed

lemma set_insert_all_append:
  "set_insert_all acc (xs @ ys) = set_insert_all (set_insert_all acc xs) ys"
  by (induction acc xs rule: set_insert_all.induct) auto

lemma set_insert_all_distinct_id:
  "distinct (acc @ xs) \<Longrightarrow> set_insert_all acc xs = acc @ xs"
  by (induction acc xs rule: set_insert_all.induct) auto

lemma set_insert_all_known:
  "set xs \<subseteq> set acc \<Longrightarrow> set_insert_all acc xs = acc"
  by (induction acc xs rule: set_insert_all.induct) auto

text \<open>Percent-encoding is undone by the decoder and never produces a query separator.\<close>

lemma hex_value_digit [simp]: "n < 16 \<Longrightarrow> hex_value (hex_digit n) = Some n"
  by (auto simp: hex_value_def hex_digit_def Let_def)

lemma uri_decode_plain [simp]: "c \<noteq> CHR ''%'' \<Longrightarrow> uri_decode (c # xs) = c # uri_decode xs"
  by (cases xs rule: uri_decode.cases) (auto split: option.splits)

lemma uri_unreserved_not_pct [simp]: "uri_unreserved c \<Longrightarrow> c \<noteq> CHR ''%''"
  by (auto simp: uri_unreserved_def)

lemma of_char_div_16 [simp]: "of_char c div 16 < (16::nat)"
  using nat_of_char_less_256 [of c] by (simp add: div_less_iff_less_mult)

lemma uri_decode_escape [simp]: "uri_decode (uri_escape c @ xs) = c # uri_decode xs"
proof (cases "uri_unreserved c")
  case True then show ?thesis by (simp add: uri_escape_def)
next
  case False
  have "char_of (16 * (of_char c div 16) + of_char c mod 16) = c"
    by simp
  with False show ?thesis by (simp add: uri_escape_def)
qed

lemma uri_decode_encode: "uri_decode (encodeURIComponent s) = s"
  by (induction s) (simp_all add: encodeURIComponent_def)

lemma uri_escape_reserved:
  assumes "\<not> uri_unreserved d" "hex_value d = None" "d \<noteq> CHR ''%''"
  shows "d \<notin> set (uri_escape c)"
proof -
  have "d \<noteq> hex_digit n" if "n < 16" for n
    using that assms(2) hex_value_digit [of n] by auto
  with assms show ?thesis by (auto simp: uri_escape_def)
qed

lemma encode_reserved:
  "\<not> uri_unreserved d \<Longrightarrow> hex_value d = None \<Longrightarrow> d \<noteq> CHR ''%'' \<Longrightarrow>
   d \<notin> set (encodeURIComponent s)"
  using uri_escape_reserved by (auto simp: encodeURIComponent_def)

lemma encode_no_amp: "CHR ''&'' \<notin> set (encodeURIComponent s)"
  by (rule encode_reserved) (simp_all add: uri_unreserved_def hex_value_def)

lemma uri_decode_no_pct: "CHR ''%'' \<notin> set s \<Longrightarrow> uri_decode s = s"
proof (induction s)
  case (Cons c s)
  then have "c \<noteq> CHR ''%''" by auto
  with Cons show ?case by simp
qed simp

lemma digits_of_nat_chars:
  "c \<in> set (digits_of_nat n) \<Longrightarrow> (48::nat) \<le> of_char c \<and> of_char c \<le> (57::nat)"
proof (induction n rule: digits_of_nat.induct)
  case (1 n)
  have "48 + n mod 10 < 256" by simp
  with 1 show ?case
    by (cases "n < 10") (auto simp: digits_of_nat.simps [of n])
qed

lemma js_string_of_int_chars:
  "c \<in> set (js_string_of_int i) \<Longrightarrow> c = CHR ''-'' \<or> (48::nat) \<le> of_char c \<and> of_char c \<le> (57::nat)"
  by (auto simp: js_string_of_int_def split: if_splits dest: digits_of_nat_chars)

lemma js_string_of_int_no_char:
  "of_char d < (45::nat) \<or> of_char d = (46::nat) \<or> of_char d = (47::nat) \<or> (57::nat) < of_char d \<Longrightarrow>
   d \<notin> set (js_string_of_int i)"
  using js_string_of_int_chars [of d i] by auto

text \<open>JSON string escaping is undone by the reader; keyed object updates behave as a map.\<close>

lemma hex_value_lower [simp]: "n < 16 \<Longrightarrow> hex_value (hex_lower n) = Some n"
  by (auto simp: hex_value_def hex_lower_def Let_def)

lemma char_of_eq_of_char:
  assumes "of_char c = (n::nat)" shows "c = char_of n"
proof -
  have "char_of (of_char c :: nat) = c" by simp
  from this [unfolded assms] show ?thesis by simp
qed

lemma json_read_escape [simp]:
  "json_read_chars (json_escape c @ xs) = map_option (\<lambda>(s, rest). (c # s, rest)) (json_read_chars xs)"
proof -
  have lt: "of_char c < (256::nat)" by simp
  show ?thesis
  proof (cases "of_char c < (32::nat)")
    case True
    then have "of_char c div 16 < (2::nat)" by simp
    then have "of_char c div 16 = (0::nat) \<or> of_char c div 16 = (1::nat)" by linarith
    then show ?thesis using True
      by (auto simp: json_escape_def Let_def bs_def hex_value_def hex_lower_def dest!: char_of_eq_of_char)
  next
    case False
    then show ?thesis
      by (auto simp: json_escape_def Let_def bs_def)
  qed
qed

lemma json_read_string: "json_read_chars (tl (json_string s) @ rest) = Some (s, rest)"
  by (induction s) (simp_all add: json_string_def)


lemma obj_get_set [simp]: "obj_get k (obj_set k' v ps) = (if k = k' then Some v else obj_get k ps)"
  by (induction k' v ps rule: obj_set.induct) (auto simp: obj_get_def)

lemma obj_typed_set:
  "obj_typed schema obj \<Longrightarrow> map_of schema k = Some (js_typeof v) \<Longrightarrow> obj_typed schema (obj_set k v obj)"
proof (induction obj arbitrary: schema)
  case (Cons p obj)
  obtain k' v' where p: "p = (k', v')" by fastforce
  from Cons.prems p obtain schema' where
    s: "schema = (k', js_typeof v') # schema'" and t: "obj_typed schema' obj"
    by (auto simp: obj_typed_def)
  show ?case
  proof (cases "k' = k")
    case True
    with Cons.prems(2) s have "js_typeof v = js_typeof v'" by simp
    with True p s t show ?thesis by (simp add: obj_typed_def)
  next
    case False
    with Cons.prems(2) s have "map_of schema' k = Some (js_typeof v)" by simp
    with Cons.IH [OF t] False p s show ?thesis by (simp add: obj_typed_def)
  qed
qed (simp add: obj_typed_def)

lemma obj_keys_set [simp]: "k \<in> set (map fst ps) \<Longrightarrow> map fst (obj_set k v ps) = map fst ps"
  by (induction k v ps rule: obj_set.induct) auto



text \<open>The grouped rendering of an integer is its decimal digits with separators:
  dropping the commas gives back \<open>String(i)\<close>, and below a thousand there is none.\<close>

lemma group3_filter: "CHR '','' \<notin> set xs \<Longrightarrow> filter (\<lambda>c. c \<noteq> CHR '','') (group3 xs) = xs"
  by (induction xs rule: group3.induct) auto

lemma group3_short: "length xs \<le> 3 \<Longrightarrow> group3 xs = xs"
  by (cases xs rule: group3.cases) auto

lemma digits_of_nat_length: "n < 1000 \<Longrightarrow> length (digits_of_nat n) \<le> 3"
proof -
  assume "n < 1000"
  then have "n div 10 div 10 < 10" by simp
  then show ?thesis
    by (simp add: digits_of_nat.simps [of n] digits_of_nat.simps [of "n div 10"]
                  digits_of_nat.simps [of "n div 10 div 10"])
qed

lemma toLocaleString_digits:
  "filter (\<lambda>c. c \<noteq> CHR '','') (js_toLocaleString i) = js_string_of_int i"
proof -
  have "CHR '','' \<notin> set (rev (digits_of_nat m))" for m
    using digits_of_nat_chars [of "CHR '',''" m] by auto
  then have "filter (\<lambda>c. c \<noteq> CHR '','') (rev (group3 (rev (digits_of_nat m)))) = digits_of_nat m" for m
    by (simp add: rev_filter [symmetric] group3_filter)
  then show ?thesis
    by (simp add: js_toLocaleString_def js_string_of_int_def)
qed

lemma toLocaleString_small: "0 \<le> i \<Longrightarrow> i < 1000 \<Longrightarrow> js_toLocaleString i = js_string_of_int i"
  using digits_of_nat_length [of "nat i"]
  by (simp add: js_toLocaleString_def js_string_of_int_def group3_short)

end
