(* ===== verification/Viewport.thy ===== *)
theory Viewport
  imports Prelude
begin

text \<open>
  The whiteboard viewport: the zoom scalar and pan offset of
  \<open>src/src/pages/whiteboard-interface/index.jsx\<close> and the coordinate arithmetic of
  \<open>components/WhiteboardCanvas.jsx\<close>. The zoom handlers are modelled one definition
  each; the pointer conversion is modelled with the bounding rectangle the code
  reads, which is that of the canvas \<open>div\<close> already translated by the pan offset
  (the CSS \<open>transform: translate(pan)\<close> of line 251). The spec's transform
  (\<open>screen = pan + logical * zoom\<close>) is stated as the abstract contract, and the
  lemmas compare the code against it.
\<close>

subsection \<open>Zoom\<close>

definition valid_zoom :: "real \<Rightarrow> bool" where
  "valid_zoom z \<longleftrightarrow> 0.1 \<le> z \<and> z \<le> 3"

definition wheel_factor :: "real \<Rightarrow> real" where
  "wheel_factor deltaY = (if deltaY > 0 then 0.9 else 1.1)"

definition wheel_zoom :: "real \<Rightarrow> real \<Rightarrow> real" where
  "wheel_zoom zoomLevel deltaY = max 0.1 (min 3 (zoomLevel * wheel_factor deltaY))"
  \<comment> \<open>\<open>handleWheel\<close>: the new zoom passed to \<open>onZoomChange\<close>\<close>

definition zoom_in_level :: "real \<Rightarrow> real" where
  "zoom_in_level prev = min 3 (prev * 1.2)"

definition zoom_out_level :: "real \<Rightarrow> real" where
  "zoom_out_level prev = max 0.1 (prev / 1.2)"

definition zoom_percent :: "real \<Rightarrow> int" where
  "zoom_percent zoomLevel = js_round (zoomLevel * 100)"
  \<comment> \<open>the zoom level indicator, \<open>Math.round(zoomLevel * 100)\<close>\<close>

subsection \<open>Coordinates\<close>

definition canvas_rect :: "point \<Rightarrow> point \<Rightarrow> point" where
  "canvas_rect origin panOffset = (fst origin + fst panOffset, snd origin + snd panOffset)"
  \<comment> \<open>\<open>canvasRef.current.getBoundingClientRect()\<close>: left and top of the translated canvas\<close>

definition pointer_logical :: "point \<Rightarrow> real \<Rightarrow> point \<Rightarrow> point \<Rightarrow> point" where
  "pointer_logical origin zoomLevel panOffset client =
     (let rect = canvas_rect origin panOffset in
      ((fst client - fst rect - fst panOffset) / zoomLevel,
       (snd client - snd rect - snd panOffset) / zoomLevel))"

definition element_screen :: "point \<Rightarrow> real \<Rightarrow> point \<Rightarrow> point \<Rightarrow> point" where
  "element_screen origin zoomLevel panOffset p =
     (let rect = canvas_rect origin panOffset in
      (fst rect + fst p * zoomLevel, snd rect + snd p * zoomLevel))"
  \<comment> \<open>an element's \<open>left\<close>/\<open>top\<close> is \<open>x * zoomLevel\<close> inside the translated canvas\<close>

definition drag_pan :: "point \<Rightarrow> point \<Rightarrow> point \<Rightarrow> point" where
  "drag_pan panOffset dragStart client =
     (let deltaX = fst client - fst dragStart; deltaY = snd client - snd dragStart in
      (fst panOffset + deltaX, snd panOffset + deltaY))"

definition minimap_viewport :: "point \<Rightarrow> real \<Rightarrow> real \<times> real \<times> real \<times> real" where
  "minimap_viewport panOffset zoomLevel =
     (- fst panOffset / 10, - snd panOffset / 10, 100 / zoomLevel, 100 / zoomLevel)"
  \<comment> \<open>left, top (px) and width, height (percent) of the minimap's viewport box\<close>

subsection \<open>The spec's transform\<close>

definition spec_logical_to_screen :: "real \<Rightarrow> point \<Rightarrow> point \<Rightarrow> point" where
  "spec_logical_to_screen zoom pan p = (fst p * zoom + fst pan, snd p * zoom + snd pan)"

definition spec_screen_to_logical :: "real \<Rightarrow> point \<Rightarrow> point \<Rightarrow> point" where
  "spec_screen_to_logical zoom pan s = ((fst s - fst pan) / zoom, (snd s - snd pan) / zoom)"

definition offset :: "point \<Rightarrow> point \<Rightarrow> point" where
  "offset origin s = (fst origin + fst s, snd origin + snd s)"
  \<comment> \<open>a point relative to the canvas container, in client coordinates\<close>

lemmas viewport_defs [handler_simps] =
  wheel_zoom_def zoom_in_level_def zoom_out_level_def wheel_factor_def
  canvas_rect_def pointer_logical_def element_screen_def drag_pan_def

subsection \<open>Zoom bounds\<close>

lemma wheel_zoom_clamp: "wheel_zoom z d = js_clamp 0.1 3 (z * wheel_factor d)"
  by (simp add: wheel_zoom_def js_clamp_def)

lemma wheel_zoom_valid: "valid_zoom (wheel_zoom z d)"
  by (simp add: valid_zoom_def wheel_zoom_def)

lemma zoom_in_level_valid: "valid_zoom z \<Longrightarrow> valid_zoom (zoom_in_level z)"
  by (simp add: valid_zoom_def zoom_in_level_def)

lemma zoom_out_level_valid: "valid_zoom z \<Longrightarrow> valid_zoom (zoom_out_level z)"
  by (simp add: valid_zoom_def zoom_out_level_def)

lemma valid_zoom_pos: "valid_zoom z \<Longrightarrow> 0 < z"
  by (simp add: valid_zoom_def)

lemma zoom_percent_bounds:
  assumes "valid_zoom z"
  shows "10 \<le> zoom_percent z \<and> zoom_percent z \<le> 300"
proof -
  from assms have "10 \<le> z * 100 \<and> z * 100 \<le> 300" by (simp add: valid_zoom_def)
  then have "10 \<le> \<lfloor>z * 100 + 1 / 2\<rfloor> \<and> \<lfloor>z * 100 + 1 / 2\<rfloor> \<le> 300"
    by (auto simp: le_floor_iff floor_le_iff)
  then show ?thesis by (simp add: zoom_percent_def js_round_def)
qed

subsection \<open>Coordinates against the spec\<close>

lemma spec_roundtrip:
  "zoom \<noteq> 0 \<Longrightarrow> spec_screen_to_logical zoom pan (spec_logical_to_screen zoom pan p) = p"
  by (simp add: spec_screen_to_logical_def spec_logical_to_screen_def)

lemma element_screen_spec:
  "element_screen origin zoom pan p = offset origin (spec_logical_to_screen zoom pan p)"
  by (simp add: element_screen_def canvas_rect_def offset_def spec_logical_to_screen_def)

lemma pointer_logical_spec:
  "pointer_logical origin zoom pan (offset origin s) =
     (fst (spec_screen_to_logical zoom pan s) - fst pan / zoom,
      snd (spec_screen_to_logical zoom pan s) - snd pan / zoom)"
  by (simp add: pointer_logical_def canvas_rect_def offset_def spec_screen_to_logical_def
      diff_divide_distrib add_divide_distrib)

lemma pointer_element_screen:
  "zoom \<noteq> 0 \<Longrightarrow>
   pointer_logical origin zoom pan (element_screen origin zoom pan p) =
     (fst p - fst pan / zoom, snd p - snd pan / zoom)"
  by (simp add: pointer_logical_def element_screen_def canvas_rect_def diff_divide_distrib)

lemma drag_pan_trans:
  "drag_pan (drag_pan pan a b) b c = drag_pan pan a c"
  by (simp add: drag_pan_def)

subsection \<open>Properties\<close>

text \<open>
  C4. The pointer conversion of the canvas is the inverse of the render position
  only when the pan offset is zero: clicking the screen point where a logical
  point is drawn gives back that logical point exactly when \<open>panOffset = (0, 0)\<close>.
  The code subtracts the pan once more than the rendering adds it.
\<close>

theorem pointer_roundtrip_iff_no_pan:
  assumes "zoom \<noteq> 0"
  shows "pointer_logical origin zoom pan (element_screen origin zoom pan p) = p \<longleftrightarrow>
         pan = (0, 0)"
proof -
  have "pointer_logical origin zoom pan (element_screen origin zoom pan p) =
        (fst p - fst pan / zoom, snd p - snd pan / zoom)"
    using assms by (rule pointer_element_screen)
  also have "\<dots> = p \<longleftrightarrow> fst pan / zoom = 0 \<and> snd pan / zoom = 0"
    by (cases p) auto
  also have "\<dots> \<longleftrightarrow> pan = (0, 0)"
    using assms by (cases pan) auto
  finally show ?thesis .
qed

lemma pointer_roundtrip_iff_no_pan_witness:
  "(2::real) \<noteq> 0 \<and>
   pointer_logical (0, 0) 2 (4, 0) (element_screen (0, 0) 2 (4, 0) (1, 1)) \<noteq> (1, 1) \<and>
   pointer_logical (0, 0) 2 (4, 0) (element_screen (0, 0) 2 (4, 0) (1, 1)) = (-1, 1)"
  using pointer_roundtrip_iff_no_pan [of 2 "(0, 0)" "(4, 0)" "(1, 1)"]
  by (simp add: pointer_logical_def element_screen_def canvas_rect_def)

text \<open>
  C5. Rendering refines the spec's transform: an element at logical point \<open>p\<close> is
  drawn at the client point \<open>origin + (p * zoom + pan)\<close>, the spec's
  \<open>logicalToScreen\<close> offset by the canvas container's position.
\<close>

theorem render_refines_spec_transform:
  "element_screen origin zoom pan p = offset origin (spec_logical_to_screen zoom pan p) \<and>
   (zoom \<noteq> 0 \<longrightarrow>
      spec_screen_to_logical zoom pan (spec_logical_to_screen zoom pan p) = p)"
  by (simp add: element_screen_spec spec_roundtrip)

lemma render_refines_spec_transform_witness:
  "element_screen (10, 20) 2 (3, 4) (1, 1) = offset (10, 20) (spec_logical_to_screen 2 (3, 4) (1, 1)) \<and>
   spec_screen_to_logical 2 (3, 4) (spec_logical_to_screen 2 (3, 4) (1, 1)) = (1, 1) \<and>
   element_screen (10, 20) 2 (3, 4) (1, 1) = (15, 26)"
  using render_refines_spec_transform [of "(10, 20)" 2 "(3, 4)" "(1, 1)"]
  by (simp add: element_screen_def canvas_rect_def)

text \<open>
  C6. A wheel tick from a zoom in \<open>[0.1, 3]\<close> moves the zoom in the direction of
  the scroll and clamps on that side only: scrolling down (\<open>deltaY > 0\<close>)
  multiplies by 0.9 and can only meet the lower bound; any other \<open>deltaY\<close>,
  zero included, multiplies by 1.1 and can only meet the upper bound.
\<close>

theorem wheel_zoom_direction:
  assumes "valid_zoom z"
  shows "(0 < d \<longrightarrow> wheel_zoom z d = max 0.1 (z * 0.9) \<and> wheel_zoom z d \<le> z) \<and>
         (d \<le> 0 \<longrightarrow> wheel_zoom z d = min 3 (z * 1.1) \<and> z \<le> wheel_zoom z d)"
  using assms by (auto simp: valid_zoom_def wheel_zoom_def wheel_factor_def)

lemma wheel_zoom_direction_witness:
  "valid_zoom 2.9 \<and> wheel_zoom 2.9 0 = min 3 (2.9 * 1.1) \<and> 2.9 \<le> wheel_zoom 2.9 0 \<and>
   wheel_zoom 2.9 0 = 3"
proof -
  have v: "valid_zoom 2.9" by (simp add: valid_zoom_def)
  show ?thesis
    using v wheel_zoom_direction [OF v, of 0] by (simp add: wheel_zoom_def wheel_factor_def)
qed

end
