(* ===== verification/Elements.thy ===== *)
theory Elements
  imports Prelude
begin

text \<open>
  The whiteboard's element store. A JavaScript element object is a record whose
  optional keys are \<^typ>\<open>'a option\<close> fields (\<open>None\<close> is \<open>undefined\<close>); the
  object the canvas hands to \<open>onElementCreate\<close> has no \<open>id\<close> and is an
  \<open>el_draft\<close>, which \<open>handleElementCreate\<close> extends with the fresh id
  (\<open>{...element, id}\<close>). The store is the \<open>elements\<close> array of
  \<open>src/src/pages/whiteboard-interface/index.jsx\<close>, appended to on creation and
  mapped over on update. The render of one element (\<open>renderElement\<close> of
  \<open>WhiteboardCanvas.jsx\<close>), the minimap boxes and the properties panel of
  \<open>WhiteboardSidebar.jsx\<close> read elements and are modelled as functions to a
  display value.
\<close>

subsection \<open>Data\<close>

datatype element_type = CardEl | StickyEl | TextEl | PathEl | ArrowEl
  \<comment> \<open>the \<open>type\<close> strings \<open>'card'\<close>, \<open>'sticky'\<close>, \<open>'text'\<close>, \<open>'path'\<close>, \<open>'arrow'\<close>\<close>

record content =
  c_title :: "string option"
  c_description :: "string option"
  c_tags :: "string list option"
  c_text :: "string option"
  c_color :: "string option"
  c_fontSize :: "real option"
  c_fontWeight :: "string option"

definition no_content :: content where
  "no_content = \<lparr>c_title = None, c_description = None, c_tags = None, c_text = None,
     c_color = None, c_fontSize = None, c_fontWeight = None\<rparr>"

record el_draft =
  el_type :: element_type
  el_x :: "real option"
  el_y :: "real option"
  el_width :: "real option"
  el_height :: "real option"
  el_content :: "content option"
  el_path :: "point list option"
  el_line :: "(point \<times> point) option"  \<comment> \<open>\<open>x1, y1, x2, y2\<close> of an arrow\<close>
  el_strokeWidth :: "real option"
  el_color :: "string option"

record element = el_draft +
  el_id :: real

definition blank_draft :: "element_type \<Rightarrow> el_draft" where
  "blank_draft t = \<lparr>el_type = t, el_x = None, el_y = None, el_width = None, el_height = None,
     el_content = None, el_path = None, el_line = None, el_strokeWidth = None, el_color = None\<rparr>"

subsection \<open>The drafts the canvas creates\<close>

definition text_draft :: "point \<Rightarrow> el_draft" where
  "text_draft p = (blank_draft TextEl)\<lparr>el_x := Some (fst p), el_y := Some (snd p),
     el_width := Some 200, el_height := Some 40,
     el_content := Some (no_content\<lparr>c_text := Some ''New text'', c_fontSize := Some 16\<rparr>)\<rparr>"

definition sticky_draft :: "point \<Rightarrow> el_draft" where
  "sticky_draft p = (blank_draft StickyEl)\<lparr>el_x := Some (fst p), el_y := Some (snd p),
     el_width := Some 200, el_height := Some 120,
     el_content := Some (no_content\<lparr>c_text := Some ''New note'', c_color := Some ''#FEF3C7''\<rparr>)\<rparr>"

definition path_draft :: "point list \<Rightarrow> el_draft" where
  "path_draft ps = (blank_draft PathEl)\<lparr>el_path := Some ps, el_strokeWidth := Some 2,
     el_color := Some ''#000000''\<rparr>"

subsection \<open>Store operations\<close>

type_synonym element_store = "element list"

definition with_id :: "real \<Rightarrow> el_draft \<Rightarrow> element" where
  "with_id fresh d = el_draft.extend d (element.fields fresh)"
  \<comment> \<open>\<open>{...element, id: Date.now() + Math.random()}\<close>\<close>

definition store_create :: "real \<Rightarrow> el_draft \<Rightarrow> element_store \<Rightarrow> element_store" where
  "store_create fresh d els = els @ [with_id fresh d]"
  \<comment> \<open>\<open>setElements(prev => [...prev, newElement])\<close>\<close>

definition store_find :: "real \<Rightarrow> element_store \<Rightarrow> element option" where
  "store_find elementId els = find (\<lambda>el. el_id el = elementId) els"
  \<comment> \<open>\<open>elements.find(el => el.id === elementId)\<close>; \<open>None\<close> is \<open>undefined\<close>\<close>

record el_patch =
  up_x :: "real option"
  up_y :: "real option"
  up_width :: "real option"
  up_height :: "real option"
  up_content :: "content option"

definition merge_patch :: "el_patch \<Rightarrow> element \<Rightarrow> element" where
  "merge_patch u el = el\<lparr>
     el_x := (case up_x u of None \<Rightarrow> el_x el | Some v \<Rightarrow> Some v),
     el_y := (case up_y u of None \<Rightarrow> el_y el | Some v \<Rightarrow> Some v),
     el_width := (case up_width u of None \<Rightarrow> el_width el | Some v \<Rightarrow> Some v),
     el_height := (case up_height u of None \<Rightarrow> el_height el | Some v \<Rightarrow> Some v),
     el_content := (case up_content u of None \<Rightarrow> el_content el | Some v \<Rightarrow> Some v)\<rparr>"
  \<comment> \<open>\<open>{...el, ...updates}\<close>: the keys present in \<open>updates\<close> win\<close>

definition store_update :: "real \<Rightarrow> el_patch \<Rightarrow> element_store \<Rightarrow> element_store" where
  "store_update elementId u els = map (\<lambda>el. if el_id el = elementId then merge_patch u el else el) els"

definition store_ids :: "element_store \<Rightarrow> real list" where
  "store_ids els = map el_id els"

subsection \<open>The spec's element store\<close>

datatype store_error = NotFound

definition spec_update ::
  "real \<Rightarrow> el_patch \<Rightarrow> element_store \<Rightarrow> store_error + element_store" where
  "spec_update elementId u els =
     (if elementId \<in> set (store_ids els)
      then Inr (map (\<lambda>el. if el_id el = elementId then merge_patch u el else el) els)
      else Inl NotFound)"

definition store_map :: "element_store \<Rightarrow> real \<rightharpoonup> element" where
  "store_map els = map_of (map (\<lambda>el. (el_id el, el)) els)"
  \<comment> \<open>the abstract store: what \<open>find\<close> by id sees\<close>

subsection \<open>Rendering\<close>

definition bullet_line :: "string \<Rightarrow> string" where
  "bullet_line s = nl @ bullet @ '' '' @ s"
  \<comment> \<open>\<open>\n\<bullet> s\<close>, the bullet in UTF-8\<close>

definition box_draft :: "element_type \<Rightarrow> real \<Rightarrow> real \<Rightarrow> real \<Rightarrow> real \<Rightarrow> content \<Rightarrow> el_draft" where
  "box_draft t x y w h c = (blank_draft t)\<lparr>el_x := Some x, el_y := Some y,
     el_width := Some w, el_height := Some h, el_content := Some c\<rparr>"

definition mockElements :: "element list" where
  "mockElements = [
     with_id 1 (box_draft CardEl 200 150 280 180 (no_content\<lparr>
       c_title := Some ''Research Methodology'',
       c_description := Some (''Key principles for conducting systematic research:'' @ nl @
         bullet_line ''Define clear research questions'' @
         bullet_line ''Choose appropriate methodology'' @
         bullet_line ''Ensure data validity and reliability'' @
         bullet_line ''Document all procedures''),
       c_tags := Some [''Research'', ''Methodology'']\<rparr>)),
     with_id 2 (box_draft CardEl 550 200 280 160 (no_content\<lparr>
       c_title := Some ''Data Collection Methods'',
       c_description := Some (''Primary data collection approaches:'' @ nl @
         bullet_line ''Surveys and questionnaires'' @
         bullet_line ''Interviews (structured/unstructured)'' @
         bullet_line ''Observations'' @ bullet_line ''Experiments''),
       c_tags := Some [''Data'', ''Collection'']\<rparr>)),
     with_id 3 (box_draft StickyEl 350 400 200 120 (no_content\<lparr>
       c_text := Some ''Remember to validate findings with multiple sources'',
       c_color := Some ''#FEF3C7''\<rparr>)),
     with_id 4 (box_draft TextEl 150 50 400 60 (no_content\<lparr>
       c_text := Some ''Research Framework Overview'', c_fontSize := Some 24,
       c_fontWeight := Some ''bold''\<rparr>)),
     with_id 5 ((blank_draft ArrowEl)\<lparr>el_line := Some ((480, 240), (550, 280)),
       el_strokeWidth := Some 2, el_color := Some ''#4A9B8E''\<rparr>)]"

datatype display_item =
    CardBox real "real option" "real option" real "string option" "string option" "string list"
      \<comment> \<open>key, left, top, scale, title, description, tags\<close>
  | StickyBox real "real option" "real option" real "string option" "real option" "real option"
      "string option"
      \<comment> \<open>key, left, top, scale, background colour, width, height, text\<close>
  | TextBox real "real option" "real option" real "real option" "string option" "string option"
      \<comment> \<open>key, left, top, scale, font size, font weight, text\<close>

datatype render_result = Rendered display_item | RenderNull | RenderTypeError
  \<comment> \<open>a \<open>div\<close>, \<open>null\<close> (the \<open>default\<close> branch), or a \<open>TypeError\<close> thrown by the render\<close>

definition renderElement :: "real \<Rightarrow> element \<Rightarrow> render_result" where
  "renderElement zoomLevel el =
     (let left = map_option (\<lambda>x. x * zoomLevel) (el_x el);
          top = map_option (\<lambda>y. y * zoomLevel) (el_y el) in
      case el_type el of
        CardEl \<Rightarrow>
          (case el_content el of
             None \<Rightarrow> RenderTypeError
           | Some c \<Rightarrow> (case c_tags c of
               None \<Rightarrow> RenderTypeError
             | Some tags \<Rightarrow>
                 Rendered (CardBox (el_id el) left top zoomLevel (c_title c) (c_description c) tags)))
      | StickyEl \<Rightarrow>
          (case el_content el of
             None \<Rightarrow> RenderTypeError
           | Some c \<Rightarrow> Rendered (StickyBox (el_id el) left top zoomLevel (c_color c)
                          (el_width el) (el_height el) (c_text c)))
      | TextEl \<Rightarrow>
          (case el_content el of
             None \<Rightarrow> RenderTypeError
           | Some c \<Rightarrow> Rendered (TextBox (el_id el) left top zoomLevel (c_fontSize c)
                          (c_fontWeight c) (c_text c)))
      | _ \<Rightarrow> RenderNull)"

definition canvas_render :: "real \<Rightarrow> element_store \<Rightarrow> render_result list" where
  "canvas_render zoomLevel elements = map (renderElement zoomLevel) mockElements"
  \<comment> \<open>\<open>{mockElements.map(renderElement)}\<close>: the \<open>elements\<close> prop is not read\<close>

definition minimap_box :: "element \<Rightarrow> real option \<times> real option \<times> real \<times> real" where
  "minimap_box el =
     (map_option (\<lambda>x. x / 10) (el_x el), map_option (\<lambda>y. y / 10) (el_y el),
      js_or_num (el_width el) 20 / 10, js_or_num (el_height el) 20 / 10)"

definition minimap_boxes :: "element_store \<Rightarrow> (real option \<times> real option \<times> real \<times> real) list" where
  "minimap_boxes elements = map minimap_box mockElements"

datatype props_view = NoSelection | Props real real real real "real option"
  \<comment> \<open>x, y, width, height and, for a text element, the font size\<close>

definition properties_view :: "element option \<Rightarrow> props_view" where
  "properties_view sel =
     (case sel of
        None \<Rightarrow> NoSelection
      | Some el \<Rightarrow> Props (js_or_num (el_x el) 0) (js_or_num (el_y el) 0)
          (js_or_num (el_width el) 0) (js_or_num (el_height el) 0)
          (if el_type el = TextEl
           then Some (case el_content el of None \<Rightarrow> 16 | Some c \<Rightarrow> js_or_num (c_fontSize c) 16)
           else None))"

subsection \<open>Store lemmas\<close>

lemmas store_defs [handler_simps] = store_create_def store_find_def store_update_def with_id_def

lemma with_id_fields [simp]:
  "el_id (with_id fresh d) = fresh" "el_type (with_id fresh d) = el_type d"
  "el_path (with_id fresh d) = el_path d" "el_x (with_id fresh d) = el_x d"
  "el_y (with_id fresh d) = el_y d" "el_content (with_id fresh d) = el_content d"
  by (simp_all add: with_id_def el_draft.defs element.defs)

lemma store_create_length [simp]: "length (store_create fresh d els) = Suc (length els)"
  by (simp add: store_create_def)

lemma store_ids_create [simp]: "store_ids (store_create fresh d els) = store_ids els @ [fresh]"
  by (simp add: store_create_def store_ids_def)

lemma store_update_length [simp]: "length (store_update i u els) = length els"
  by (simp add: store_update_def)

lemma store_ids_update [simp]: "store_ids (store_update i u els) = store_ids els"
  by (simp add: store_update_def store_ids_def comp_def merge_patch_def)

lemma store_update_absent:
  "i \<notin> set (store_ids els) \<Longrightarrow> store_update i u els = els"
  by (induction els) (auto simp: store_update_def store_ids_def)

lemma store_find_Some:
  "store_find i els = Some el \<Longrightarrow> el \<in> set els \<and> el_id el = i"
  by (auto simp: store_find_def find_Some_iff)

lemma store_find_None:
  "store_find i els = None \<longleftrightarrow> i \<notin> set (store_ids els)"
  by (auto simp: store_find_def store_ids_def find_None_iff)

subsection \<open>Rendering lemmas\<close>

lemma mockElements_ids: "map el_id mockElements = [1, 2, 3, 4, 5]"
  by (simp add: mockElements_def)

lemma canvas_render_ignores_store: "canvas_render z els = canvas_render z els'"
  by (simp add: canvas_render_def)

lemma el_id_merge_patch [simp]: "el_id (merge_patch u el) = el_id el"
  by (simp add: merge_patch_def)

lemma store_find_map: "store_find i els = store_map els i"
  by (induction els) (auto simp: store_find_def store_map_def)

lemma store_map_update_at:
  "store_map (store_update i u els) j =
     (if j = i then map_option (merge_patch u) (store_map els i) else store_map els j)"
  by (induction els) (auto simp: store_update_def store_map_def)

text \<open>
  C13. Update refines the abstract store: seen through lookup by id, updating
  \<open>i\<close> merges the patch into the element \<open>i\<close> denotes and leaves every other id
  unchanged, and an id that denotes nothing stays unmapped.
\<close>

theorem store_update_refines_map:
  "store_map (store_update i u els) = (store_map els)(i := map_option (merge_patch u) (store_map els i))"
  by (rule ext) (simp add: store_map_update_at)

text \<open>
  C17. Creation refines the abstract store only for a fresh id: with an id not
  yet in the store the new element becomes visible under it; with an id already
  present (\<open>Date.now() + Math.random()\<close> is not guaranteed unique) the new element
  is appended but lookup, selection and update still see the older one.
\<close>

theorem store_create_map:
  "store_map (store_create f d els) =
     (if f \<in> set (store_ids els) then store_map els else (store_map els)(f \<mapsto> with_id f d))"
  by (induction els) (auto simp: store_create_def store_map_def store_ids_def fun_eq_iff)

lemma store_ids_distinct_create:
  "distinct (store_ids (store_create f d els)) \<longleftrightarrow>
     distinct (store_ids els) \<and> f \<notin> set (store_ids els)"
  by simp

end
