(* ===== verification/Whiteboard.thy ===== *)
theory Whiteboard
  imports Viewport Elements
begin

text \<open>
  The whiteboard page as one state machine: the React state of
  \<open>WhiteboardInterface\<close> (\<open>src/src/pages/whiteboard-interface/index.jsx\<close>) and of
  \<open>WhiteboardCanvas\<close> (\<open>components/WhiteboardCanvas.jsx\<close>) in one record, one
  definition per handler, and a step function over the events the browser
  delivers. Each event runs its handler to completion on the state of the last
  render, as React does between two native events. The values the runtime
  supplies are parameters: the position of the canvas container on screen
  (\<open>canvasOrigin\<close>) and the value \<open>Date.now() + Math.random()\<close> takes during the
  event (\<open>fresh\<close>). \<open>handleSave\<close> schedules a \<open>setTimeout\<close>; the timers not yet
  run are counted in \<open>pendingSaves\<close> and fire as \<open>SaveTimeout\<close> events, in any
  interleaving with the others. A step returns \<open>None\<close> where the code would
  store \<open>undefined\<close> as the element array (an undo or redo past the history).
\<close>

subsection \<open>State\<close>

datatype tool =
  SelectTool | PenTool | TextTool | RectangleTool | CircleTool | ArrowTool | StickyTool | CardTool
  \<comment> \<open>the \<open>tools\<close> ids of \<open>WhiteboardToolbar.jsx\<close>\<close>

datatype save_status = Saved | Saving | SaveError | Unsaved

record canvas_state =
  isDrawing :: bool
  currentPath :: "point list"
  isDragging :: bool
  dragStart :: point

record wb_state =
  whiteboardTitle :: string
  saveStatus :: save_status
  activeTool :: tool
  elements :: element_store
  selectedElement :: "element option"
  zoomLevel :: real
  panOffset :: point
  canUndo :: bool
  canRedo :: bool
  isSidebarOpen :: bool
  activeTab :: string
  history :: "element_store list"
  historyIndex :: int
  canvas :: canvas_state
  canvasOrigin :: point
  pendingSaves :: nat

definition canvas_init :: canvas_state where
  "canvas_init = \<lparr>isDrawing = False, currentPath = [], isDragging = False, dragStart = (0, 0)\<rparr>"

definition wb_init :: "point \<Rightarrow> wb_state" where
  "wb_init origin = \<lparr>whiteboardTitle = ''Research Framework Overview'', saveStatus = Saved,
     activeTool = SelectTool, elements = [], selectedElement = None, zoomLevel = 1,
     panOffset = (0, 0), canUndo = False, canRedo = False, isSidebarOpen = False,
     activeTab = ''layers'', history = [], historyIndex = -1, canvas = canvas_init,
     canvasOrigin = origin, pendingSaves = 0\<rparr>"

subsection \<open>Page handlers\<close>

definition handleTitleChange :: "string \<Rightarrow> wb_state \<Rightarrow> wb_state" where
  "handleTitleChange newTitle s = s\<lparr>whiteboardTitle := newTitle, saveStatus := Unsaved\<rparr>"

definition handleSave :: "wb_state \<Rightarrow> wb_state" where
  "handleSave s = s\<lparr>saveStatus := Saving, pendingSaves := Suc (pendingSaves s)\<rparr>"

definition save_timeout :: "wb_state \<Rightarrow> wb_state" where
  "save_timeout s =
     (if pendingSaves s = 0 then s
      else s\<lparr>saveStatus := Saved, pendingSaves := pendingSaves s - 1\<rparr>)"
  \<comment> \<open>the callback \<open>() => setSaveStatus('saved')\<close> of the timer\<close>

definition handleToolChange :: "tool \<Rightarrow> wb_state \<Rightarrow> wb_state" where
  "handleToolChange t s = s\<lparr>activeTool := t\<rparr>"

definition handleElementCreate :: "real \<Rightarrow> el_draft \<Rightarrow> wb_state \<Rightarrow> wb_state" where
  "handleElementCreate fresh d s =
     s\<lparr>elements := store_create fresh d (elements s), saveStatus := Unsaved\<rparr>"

definition handleElementSelect :: "real \<Rightarrow> wb_state \<Rightarrow> wb_state" where
  "handleElementSelect elementId s = s\<lparr>selectedElement := store_find elementId (elements s)\<rparr>"

definition handleElementUpdate :: "real \<Rightarrow> el_patch \<Rightarrow> wb_state \<Rightarrow> wb_state" where
  "handleElementUpdate elementId u s =
     s\<lparr>elements := store_update elementId u (elements s), saveStatus := Unsaved\<rparr>"

definition history_at :: "element_store list \<Rightarrow> int \<Rightarrow> element_store option" where
  "history_at h i = (if 0 \<le> i \<and> nat i < length h then Some (h ! nat i) else None)"
  \<comment> \<open>\<open>history[i]\<close>; \<open>None\<close> is \<open>undefined\<close>\<close>

definition handleUndo :: "wb_state \<Rightarrow> wb_state option" where
  "handleUndo s =
     (if canUndo s \<and> historyIndex s > 0 then
        (case history_at (history s) (historyIndex s - 1) of
           None \<Rightarrow> None
         | Some els \<Rightarrow> Some (s\<lparr>historyIndex := historyIndex s - 1, elements := els,
              canRedo := True,
              canUndo := (if historyIndex s - 1 = 0 then False else canUndo s)\<rparr>))
      else Some s)"

definition handleRedo :: "wb_state \<Rightarrow> wb_state option" where
  "handleRedo s =
     (if canRedo s \<and> historyIndex s < int (length (history s)) - 1 then
        (case history_at (history s) (historyIndex s + 1) of
           None \<Rightarrow> None
         | Some els \<Rightarrow> Some (s\<lparr>historyIndex := historyIndex s + 1, elements := els,
              canUndo := True,
              canRedo := (if historyIndex s + 1 = int (length (history s)) - 1 then False
                          else canRedo s)\<rparr>))
      else Some s)"

definition handleZoomIn :: "wb_state \<Rightarrow> wb_state" where
  "handleZoomIn s = s\<lparr>zoomLevel := zoom_in_level (zoomLevel s)\<rparr>"

definition handleZoomOut :: "wb_state \<Rightarrow> wb_state" where
  "handleZoomOut s = s\<lparr>zoomLevel := zoom_out_level (zoomLevel s)\<rparr>"

definition handleResetZoom :: "wb_state \<Rightarrow> wb_state" where
  "handleResetZoom s = s\<lparr>zoomLevel := 1, panOffset := (0, 0)\<rparr>"

definition handleZoomChange :: "real \<Rightarrow> wb_state \<Rightarrow> wb_state" where
  "handleZoomChange newZoom s = s\<lparr>zoomLevel := newZoom\<rparr>"

definition handlePanChange :: "point \<Rightarrow> wb_state \<Rightarrow> wb_state" where
  "handlePanChange newOffset s = s\<lparr>panOffset := newOffset\<rparr>"

definition handleSidebarToggle :: "wb_state \<Rightarrow> wb_state" where
  "handleSidebarToggle s = s\<lparr>isSidebarOpen := \<not> isSidebarOpen s\<rparr>"

definition handleTabChange :: "string \<Rightarrow> wb_state \<Rightarrow> wb_state" where
  "handleTabChange tabId s = s\<lparr>activeTab := tabId\<rparr>"

subsection \<open>Canvas handlers\<close>

definition logical_of :: "wb_state \<Rightarrow> point \<Rightarrow> point" where
  "logical_of s client = pointer_logical (canvasOrigin s) (zoomLevel s) (panOffset s) client"
  \<comment> \<open>\<open>x = (e.clientX - rect.left - panOffset.x) / zoomLevel\<close>, likewise \<open>y\<close>\<close>

definition handleMouseDown :: "real \<Rightarrow> point \<Rightarrow> wb_state \<Rightarrow> wb_state" where
  "handleMouseDown fresh client s =
     (let p = logical_of s client in
      case activeTool s of
        SelectTool \<Rightarrow> s\<lparr>canvas := (canvas s)\<lparr>isDragging := True, dragStart := client\<rparr>\<rparr>
      | PenTool \<Rightarrow> s\<lparr>canvas := (canvas s)\<lparr>isDrawing := True, currentPath := [p]\<rparr>\<rparr>
      | TextTool \<Rightarrow> handleElementCreate fresh (text_draft p) s
      | StickyTool \<Rightarrow> handleElementCreate fresh (sticky_draft p) s
      | _ \<Rightarrow> s)"

definition handleMouseMove :: "point \<Rightarrow> wb_state \<Rightarrow> wb_state" where
  "handleMouseMove client s =
     (let c = canvas s in
      if isDragging c \<and> activeTool s = SelectTool then
        (handlePanChange (drag_pan (panOffset s) (dragStart c) client) s)\<lparr>canvas := c\<lparr>dragStart := client\<rparr>\<rparr>
      else if isDrawing c \<and> activeTool s = PenTool then
        s\<lparr>canvas := c\<lparr>currentPath := currentPath c @ [logical_of s client]\<rparr>\<rparr>
      else s)"

definition handleMouseUp :: "real \<Rightarrow> wb_state \<Rightarrow> wb_state" where
  "handleMouseUp fresh s =
     (let c = canvas s;
          s1 = (if isDrawing c \<and> length (currentPath c) > 1
                then handleElementCreate fresh (path_draft (currentPath c)) s else s)
      in s1\<lparr>canvas := c\<lparr>isDrawing := False, isDragging := False, currentPath := []\<rparr>\<rparr>)"

definition handleWheel :: "real \<Rightarrow> wb_state \<Rightarrow> wb_state" where
  "handleWheel deltaY s = handleZoomChange (wheel_zoom (zoomLevel s) deltaY) s"
  \<comment> \<open>\<open>onZoomChange(newZoom)\<close>, i.e. the page's \<open>handleZoomChange\<close>\<close>

subsection \<open>Events and runs\<close>

datatype wb_event =
    MouseDown point | MouseMove point | MouseUp | MouseLeave | Wheel real
  | ToolChange tool | TitleChange string | SaveClick | SaveTimeout
  | ElementSelect real | ElementUpdate real el_patch
  | UndoClick | RedoClick | ZoomInClick | ZoomOutClick | ResetZoomClick
  | SidebarToggle | TabChange string

fun wb_step :: "real \<Rightarrow> wb_state \<Rightarrow> wb_event \<Rightarrow> wb_state option" where
  "wb_step fresh s (MouseDown client) = Some (handleMouseDown fresh client s)"
| "wb_step fresh s (MouseMove client) = Some (handleMouseMove client s)"
| "wb_step fresh s MouseUp = Some (handleMouseUp fresh s)"
| "wb_step fresh s MouseLeave = Some (handleMouseUp fresh s)"
| "wb_step fresh s (Wheel deltaY) = Some (handleWheel deltaY s)"
| "wb_step fresh s (ToolChange t) = Some (handleToolChange t s)"
| "wb_step fresh s (TitleChange t) = Some (handleTitleChange t s)"
| "wb_step fresh s SaveClick = Some (handleSave s)"
| "wb_step fresh s SaveTimeout = Some (save_timeout s)"
| "wb_step fresh s (ElementSelect i) = Some (handleElementSelect i s)"
| "wb_step fresh s (ElementUpdate i u) = Some (handleElementUpdate i u s)"
| "wb_step fresh s UndoClick = handleUndo s"
| "wb_step fresh s RedoClick = handleRedo s"
| "wb_step fresh s ZoomInClick = Some (handleZoomIn s)"
| "wb_step fresh s ZoomOutClick = Some (handleZoomOut s)"
| "wb_step fresh s ResetZoomClick = Some (handleResetZoom s)"
| "wb_step fresh s SidebarToggle = Some (handleSidebarToggle s)"
| "wb_step fresh s (TabChange t) = Some (handleTabChange t s)"

fun wb_run :: "(real \<times> wb_event) list \<Rightarrow> wb_state \<Rightarrow> wb_state option" where
  "wb_run [] s = Some s"
| "wb_run ((fresh, e) # es) s =
     (case wb_step fresh s e of None \<Rightarrow> None | Some s' \<Rightarrow> wb_run es s')"

inductive wb_reachable :: "wb_state \<Rightarrow> bool" where
  init: "wb_reachable (wb_init origin)"
| step: "wb_reachable s \<Longrightarrow> wb_step fresh s e = Some s' \<Longrightarrow> wb_reachable s'"

lemmas wb_handler_defs [handler_simps] =
  handleTitleChange_def handleSave_def save_timeout_def handleToolChange_def
  handleElementCreate_def handleElementSelect_def handleElementUpdate_def
  handleZoomIn_def handleZoomOut_def handleResetZoom_def handleSidebarToggle_def
  handleTabChange_def handleMouseDown_def handleMouseMove_def handleMouseUp_def
  handleWheel_def logical_of_def

declare handleZoomChange_def [simp] handlePanChange_def [simp]

subsection \<open>The invariant of reachable states\<close>

text \<open>
  Three facts hold in every reachable state: the zoom stays in \<open>[0.1, 3]\<close>; the
  undo history is never written, so it stays empty with the cursor at \<open>-1\<close> and
  both buttons disabled; and the canvas is drawing exactly when its path buffer is
  non-empty.
\<close>

definition history_stub :: "wb_state \<Rightarrow> bool" where
  "history_stub s \<longleftrightarrow> history s = [] \<and> historyIndex s = -1 \<and> \<not> canUndo s \<and> \<not> canRedo s"

definition drawing_inv :: "canvas_state \<Rightarrow> bool" where
  "drawing_inv c \<longleftrightarrow> (isDrawing c \<longleftrightarrow> currentPath c \<noteq> [])"

definition wb_inv :: "wb_state \<Rightarrow> bool" where
  "wb_inv s \<longleftrightarrow> valid_zoom (zoomLevel s) \<and> history_stub s \<and> drawing_inv (canvas s)"

subsection \<open>Derived definitions and example states\<close>

definition moves :: "real \<Rightarrow> point list \<Rightarrow> (real \<times> wb_event) list" where
  "moves f ps = map (\<lambda>p. (f, MouseMove p)) ps"

definition wheel_state :: wb_state where
  "wheel_state = handleZoomIn (handleWheel (-1) (wb_init (0, 0)))"
  \<comment> \<open>the start state after one wheel tick up and one click on zoom-in\<close>

definition pen_state :: wb_state where
  "pen_state = handleMouseDown 0 (3, 4) (handleToolChange PenTool (wb_init (0, 0)))"
  \<comment> \<open>the start state after choosing the pen and pressing the pointer once\<close>

definition text_state :: wb_state where
  "text_state = handleMouseDown 1700000000000.25 (10, 10) (handleToolChange TextTool (wb_init (0, 0)))"
  \<comment> \<open>the start state after choosing the text tool and clicking once\<close>

lemma wb_inv_init: "wb_inv (wb_init origin)"
  by (simp add: wb_inv_def wb_init_def history_stub_def drawing_inv_def canvas_init_def
      valid_zoom_def)

lemma handleElementCreate_frame [simp]:
  "zoomLevel (handleElementCreate f d s) = zoomLevel s"
  "panOffset (handleElementCreate f d s) = panOffset s"
  "canvas (handleElementCreate f d s) = canvas s"
  "history (handleElementCreate f d s) = history s"
  "historyIndex (handleElementCreate f d s) = historyIndex s"
  "canUndo (handleElementCreate f d s) = canUndo s"
  "canRedo (handleElementCreate f d s) = canRedo s"
  "activeTool (handleElementCreate f d s) = activeTool s"
  "canvasOrigin (handleElementCreate f d s) = canvasOrigin s"
  by (simp_all add: handleElementCreate_def)

lemma handleMouseDown_inv: "wb_inv s \<Longrightarrow> wb_inv (handleMouseDown f p s)"
  by (cases "activeTool s")
     (simp_all add: handleMouseDown_def wb_inv_def history_stub_def drawing_inv_def Let_def)

lemma handleMouseMove_inv: "wb_inv s \<Longrightarrow> wb_inv (handleMouseMove p s)"
  by (simp add: handleMouseMove_def wb_inv_def history_stub_def drawing_inv_def Let_def)

lemma handleMouseUp_inv: "wb_inv s \<Longrightarrow> wb_inv (handleMouseUp f s)"
  by (simp add: handleMouseUp_def wb_inv_def history_stub_def drawing_inv_def Let_def)

lemma handleUndo_stub: "history_stub s \<Longrightarrow> handleUndo s = Some s"
  by (simp add: handleUndo_def history_stub_def)

lemma handleRedo_stub: "history_stub s \<Longrightarrow> handleRedo s = Some s"
  by (simp add: handleRedo_def history_stub_def)

lemma wb_step_inv:
  assumes "wb_inv s" and "wb_step f s e = Some s'"
  shows "wb_inv s'"
proof (cases e)
  case (MouseDown p)
  with assms show ?thesis by (auto intro: handleMouseDown_inv)
next
  case (MouseMove p)
  with assms show ?thesis by (auto intro: handleMouseMove_inv)
next
  case MouseUp
  with assms show ?thesis by (auto intro: handleMouseUp_inv)
next
  case MouseLeave
  with assms show ?thesis by (auto intro: handleMouseUp_inv)
next
  case UndoClick
  with assms show ?thesis by (simp add: wb_inv_def handleUndo_stub)
next
  case RedoClick
  with assms show ?thesis by (simp add: wb_inv_def handleRedo_stub)
next
  case ZoomInClick
  with assms show ?thesis
    by (auto simp: wb_inv_def history_stub_def handleZoomIn_def zoom_in_level_valid)
next
  case ZoomOutClick
  with assms show ?thesis
    by (auto simp: wb_inv_def history_stub_def handleZoomOut_def zoom_out_level_valid)
next
  case (Wheel d)
  with assms show ?thesis
    by (auto simp: wb_inv_def history_stub_def handleWheel_def wheel_zoom_valid)
next
  case SaveTimeout
  with assms show ?thesis
    by (auto simp: wb_inv_def history_stub_def save_timeout_def split: if_splits)
qed (use assms in \<open>auto simp: wb_inv_def history_stub_def valid_zoom_def handler_simps\<close>)

lemma wb_reachable_inv: "wb_reachable s \<Longrightarrow> wb_inv s"
proof (induction rule: wb_reachable.induct)
  case (init origin)
  show ?case by (rule wb_inv_init)
next
  case (step s fresh e s')
  then show ?case by (blast intro: wb_step_inv)
qed


subsection \<open>Runs of pointer events\<close>

lemma wb_run_append:
  "wb_run (xs @ ys) s = (case wb_run xs s of None \<Rightarrow> None | Some s' \<Rightarrow> wb_run ys s')"
  by (induction xs s rule: wb_run.induct) (auto split: option.split)

lemma logical_of_canvas [simp]: "logical_of (s\<lparr>canvas := c\<rparr>) = logical_of s"
  by (simp add: logical_of_def fun_eq_iff)

lemma pen_moves:
  assumes "activeTool s = PenTool" and "isDrawing (canvas s)"
  shows "wb_run (moves f ps) s =
    Some (s\<lparr>canvas := (canvas s)\<lparr>currentPath := currentPath (canvas s) @ map (logical_of s) ps\<rparr>\<rparr>)"
  using assms
proof (induction ps arbitrary: s)
  case Nil
  then show ?case by (simp add: moves_def)
next
  case (Cons p ps)
  let ?s1 = "s\<lparr>canvas := (canvas s)\<lparr>currentPath := currentPath (canvas s) @ [logical_of s p]\<rparr>\<rparr>"
  have step: "wb_step f s (MouseMove p) = Some ?s1"
    using Cons.prems by (simp add: handleMouseMove_def Let_def)
  have "wb_run (moves f ps) ?s1 =
    Some (?s1\<lparr>canvas := (canvas ?s1)\<lparr>currentPath := currentPath (canvas ?s1) @ map (logical_of ?s1) ps\<rparr>\<rparr>)"
    using Cons.prems by (intro Cons.IH) simp_all
  with step show ?case by (simp add: moves_def)
qed

lemma drag_moves:
  assumes "activeTool s = SelectTool" and "isDragging (canvas s)"
  shows "wb_run (moves f ps) s =
    Some (s\<lparr>panOffset := drag_pan (panOffset s) (dragStart (canvas s)) (last (dragStart (canvas s) # ps)),
            canvas := (canvas s)\<lparr>dragStart := last (dragStart (canvas s) # ps)\<rparr>\<rparr>)"
  using assms
proof (induction ps arbitrary: s)
  case Nil
  then show ?case by (simp add: moves_def drag_pan_def)
next
  case (Cons p ps)
  let ?s1 = "s\<lparr>panOffset := drag_pan (panOffset s) (dragStart (canvas s)) p,
               canvas := (canvas s)\<lparr>dragStart := p\<rparr>\<rparr>"
  have step: "wb_step f s (MouseMove p) = Some ?s1"
    using Cons.prems by (simp add: handleMouseMove_def Let_def)
  have "wb_run (moves f ps) ?s1 =
    Some (?s1\<lparr>panOffset := drag_pan (panOffset ?s1) p (last (p # ps)),
             canvas := (canvas ?s1)\<lparr>dragStart := last (p # ps)\<rparr>\<rparr>)"
    using Cons.prems Cons.IH [of ?s1] by simp
  with step show ?case by (simp add: moves_def drag_pan_trans)
qed

subsection \<open>Properties\<close>

lemma wheel_state_reachable: "wb_reachable wheel_state"
proof -
  have r1: "wb_reachable (handleWheel (-1) (wb_init (0, 0)))"
    by (rule wb_reachable.step [OF wb_reachable.init, where fresh = 0 and e = "Wheel (-1)"]) simp
  show ?thesis unfolding wheel_state_def
    by (rule wb_reachable.step [OF r1, where fresh = 0 and e = ZoomInClick]) simp
qed

text \<open>
  C1. In every reachable state of the whiteboard the zoom level lies in
  \<open>[0.1, 3]\<close>: the wheel, zoom-in and zoom-out handlers all clamp, and reset
  sets it to 1.
\<close>

theorem reachable_zoom_in_range:
  "wb_reachable s \<Longrightarrow> 0.1 \<le> zoomLevel s \<and> zoomLevel s \<le> 3"
  using wb_reachable_inv by (simp add: wb_inv_def valid_zoom_def)

lemma reachable_zoom_in_range_witness:
  "wb_reachable wheel_state \<and> 0.1 \<le> zoomLevel wheel_state \<and> zoomLevel wheel_state \<le> 3 \<and>
   zoomLevel wheel_state = 1.32"
  using wheel_state_reachable reachable_zoom_in_range [OF wheel_state_reachable]
  by (simp add: wheel_state_def handleZoomIn_def handleWheel_def wb_init_def zoom_in_level_def
      wheel_zoom_def wheel_factor_def)

text \<open>
  C2. A pen gesture (pointer down, any number of moves, pointer up) appends exactly
  one \<open>path\<close> element to the store when at least one move was recorded, whose
  points are the converted pointer positions in order; a click without a move
  appends nothing.
\<close>

theorem pen_gesture_commits_path:
  assumes "activeTool s = PenTool"
  shows "map_option elements (wb_run ((f, MouseDown p0) # moves f ps @ [(f, MouseUp)]) s) =
    Some (elements s @
      (if ps = [] then [] else [with_id f (path_draft (map (logical_of s) (p0 # ps)))]))"
proof -
  let ?s1 = "s\<lparr>canvas := (canvas s)\<lparr>isDrawing := True, currentPath := [logical_of s p0]\<rparr>\<rparr>"
  have down: "wb_step f s (MouseDown p0) = Some ?s1"
    using assms by (simp add: handleMouseDown_def)
  have mv: "wb_run (moves f ps) ?s1 =
    Some (?s1\<lparr>canvas := (canvas ?s1)\<lparr>currentPath := [logical_of s p0] @ map (logical_of s) ps\<rparr>\<rparr>)"
    using pen_moves [of ?s1 f ps] assms by simp
  show ?thesis
    using down mv assms
    by (simp add: wb_run_append handleMouseUp_def handleElementCreate_def store_create_def)
qed

lemma pen_gesture_commits_path_witness:
  "activeTool ((wb_init (0, 0))\<lparr>activeTool := PenTool\<rparr>) = PenTool \<and>
   map_option elements (wb_run ((7, MouseDown (200, 200)) # moves 7 [(220, 210), (240, 205)] @
       [(7, MouseUp)]) ((wb_init (0, 0))\<lparr>activeTool := PenTool\<rparr>)) =
     Some [with_id 7 (path_draft [(200, 200), (220, 210), (240, 205)])]"
  using pen_gesture_commits_path [of "(wb_init (0, 0))\<lparr>activeTool := PenTool\<rparr>" 7 "(200, 200)"
      "[(220, 210), (240, 205)]"]
  by (simp add: wb_init_def logical_of_def pointer_logical_def canvas_rect_def)

text \<open>
  C3. Panning with the select tool is additive: after pointer down at \<open>a\<close> and
  moves through \<open>ps\<close>, the pan offset has moved by the vector from \<open>a\<close> to the
  last pointer position, whatever the intermediate positions were.
\<close>

theorem select_drag_pans_by_total_delta:
  assumes "activeTool s = SelectTool"
  shows "map_option panOffset (wb_run ((f, MouseDown a) # moves f ps @ [(f, MouseUp)]) s) =
    Some (fst (panOffset s) + (fst (last (a # ps)) - fst a),
          snd (panOffset s) + (snd (last (a # ps)) - snd a))"
proof -
  let ?s1 = "s\<lparr>canvas := (canvas s)\<lparr>isDragging := True, dragStart := a\<rparr>\<rparr>"
  have down: "wb_step f s (MouseDown a) = Some ?s1"
    using assms by (simp add: handleMouseDown_def)
  have mv: "wb_run (moves f ps) ?s1 =
    Some (?s1\<lparr>panOffset := drag_pan (panOffset s) a (last (a # ps)),
             canvas := (canvas ?s1)\<lparr>dragStart := last (a # ps)\<rparr>\<rparr>)"
    using drag_moves [of ?s1 f ps] assms by simp
  show ?thesis
    using down mv
    by (simp add: wb_run_append handleMouseUp_def handleElementCreate_def drag_pan_def Let_def)
qed

lemma select_drag_pans_by_total_delta_witness:
  "activeTool (wb_init (0, 0)) = SelectTool \<and>
   map_option panOffset (wb_run ((0, MouseDown (100, 100)) # moves 0 [(150, 130)] @ [(0, MouseUp)])
     (wb_init (0, 0))) = Some (50, 30)"
  using select_drag_pans_by_total_delta [of "wb_init (0, 0)" 0 "(100, 100)" "[(150, 130)]"]
  by (simp add: wb_init_def)

text \<open>
  C7. The undo history is a stub: no handler writes \<open>history\<close>, so in every
  reachable state undo and redo are guarded off and leave the state unchanged.
\<close>

theorem reachable_undo_redo_noop:
  "wb_reachable s \<Longrightarrow> wb_step f s UndoClick = Some s \<and> wb_step f s RedoClick = Some s"
  using wb_reachable_inv by (simp add: wb_inv_def handleUndo_stub handleRedo_stub)

lemma reachable_undo_redo_noop_witness:
  "wb_reachable wheel_state \<and>
   wb_step 0 wheel_state UndoClick = Some wheel_state \<and>
   wb_step 0 wheel_state RedoClick = Some wheel_state"
  using wheel_state_reachable reachable_undo_redo_noop [OF wheel_state_reachable] by simp



text \<open>
  C9. Switching tools in the middle of a pen gesture does not abandon the path:
  the pointer-up that ends the gesture still commits it (the spec says the
  in-progress path is dropped).
\<close>

theorem tool_switch_commits_path:
  assumes "activeTool s = PenTool" and "ps \<noteq> []"
  shows "map_option elements
     (wb_run ((f, MouseDown p0) # moves f ps @ [(f, ToolChange t), (f, MouseUp)]) s) =
    Some (elements s @ [with_id f (path_draft (map (logical_of s) (p0 # ps)))])"
proof -
  let ?s1 = "s\<lparr>canvas := (canvas s)\<lparr>isDrawing := True, currentPath := [logical_of s p0]\<rparr>\<rparr>"
  have down: "wb_step f s (MouseDown p0) = Some ?s1"
    using assms by (simp add: handleMouseDown_def)
  have mv: "wb_run (moves f ps) ?s1 =
    Some (?s1\<lparr>canvas := (canvas ?s1)\<lparr>currentPath := [logical_of s p0] @ map (logical_of s) ps\<rparr>\<rparr>)"
    using pen_moves [of ?s1 f ps] assms by simp
  show ?thesis
    using down mv assms
    by (simp add: wb_run_append handleToolChange_def handleMouseUp_def handleElementCreate_def
        store_create_def)
qed

lemma tool_switch_commits_path_witness:
  "activeTool ((wb_init (0, 0))\<lparr>activeTool := PenTool\<rparr>) = PenTool \<and> [(5::real, 5::real)] \<noteq> [] \<and>
   map_option elements (wb_run ((1, MouseDown (0, 0)) # moves 1 [(5, 5)] @
       [(1, ToolChange SelectTool), (1, MouseUp)]) ((wb_init (0, 0))\<lparr>activeTool := PenTool\<rparr>)) =
     Some [with_id 1 (path_draft [(0, 0), (5, 5)])]"
  using tool_switch_commits_path [of "(wb_init (0, 0))\<lparr>activeTool := PenTool\<rparr>" "[(5, 5)]" 1 "(0, 0)"
      SelectTool]
  by (simp add: wb_init_def logical_of_def pointer_logical_def canvas_rect_def)

text \<open>
  C10. The save timer does not know what it saved: after a click on save, a
  title edit made before the timer fires is reported as saved.
\<close>

theorem save_timer_reports_later_edit_saved:
  "map_option (\<lambda>s'. (whiteboardTitle s', saveStatus s'))
     (wb_run [(f, SaveClick), (f, TitleChange t), (f, SaveTimeout)] s) = Some (t, Saved)"
  by (simp add: handleSave_def handleTitleChange_def save_timeout_def)

text \<open>
  Pointer down with the text or sticky-note tool creates one element at the
  converted pointer position, with the tool's default content, appended after
  the existing ones, and marks the whiteboard unsaved.
\<close>

theorem text_sticky_click_creates:
  assumes "activeTool s = TextTool \<or> activeTool s = StickyTool"
  shows "map_option (\<lambda>s'. (elements s', saveStatus s')) (wb_step f s (MouseDown c)) =
    Some (elements s @ [with_id f ((if activeTool s = TextTool then text_draft else sticky_draft)
                                     (logical_of s c))], Unsaved)"
  using assms by (auto simp: handleMouseDown_def handleElementCreate_def store_create_def)

lemma text_sticky_click_creates_witness:
  "(activeTool ((wb_init (0, 0))\<lparr>activeTool := StickyTool\<rparr>) = TextTool \<or>
    activeTool ((wb_init (0, 0))\<lparr>activeTool := StickyTool\<rparr>) = StickyTool) \<and>
   map_option (\<lambda>s'. (elements s', saveStatus s'))
     (wb_step 3 ((wb_init (0, 0))\<lparr>activeTool := StickyTool\<rparr>) (MouseDown (40, 60))) =
   Some ([with_id 3 (sticky_draft (40, 60))], Unsaved)"
  using text_sticky_click_creates [of "(wb_init (0, 0))\<lparr>activeTool := StickyTool\<rparr>" 3 "(40, 60)"]
  by (simp add: wb_init_def logical_of_def pointer_logical_def canvas_rect_def)

lemma text_state_reachable: "wb_reachable text_state"
proof -
  have r1: "wb_reachable (handleToolChange TextTool (wb_init (0, 0)))"
    by (rule wb_reachable.step [OF wb_reachable.init, where fresh = 0 and e = "ToolChange TextTool"])
       simp
  show ?thesis unfolding text_state_def
    by (rule wb_reachable.step [OF r1, where fresh = "1700000000000.25" and e = "MouseDown (10, 10)"])
       simp
qed

lemma text_state_elements:
  "elements text_state = [with_id 1700000000000.25 (text_draft (10, 10))]"
  by (simp add: text_state_def handleMouseDown_def handleToolChange_def handleElementCreate_def
      store_create_def wb_init_def logical_of_def pointer_logical_def canvas_rect_def)

text \<open>
  C12. Updating an id that is not in the store signals nothing: the store is
  left as it was, the board is still marked unsaved, while the spec's update
  returns \<open>NotFound\<close>.
\<close>

theorem update_unknown_id_silent:
  assumes "i \<notin> set (store_ids (elements s))"
  shows "handleElementUpdate i u s = s\<lparr>saveStatus := Unsaved\<rparr> \<and>
         spec_update i u (elements s) = Inl NotFound"
  using assms by (simp add: handleElementUpdate_def store_update_absent spec_update_def)

lemma update_unknown_id_silent_witness:
  "(7::real) \<notin> set (store_ids (elements text_state)) \<and>
   handleElementUpdate 7 \<lparr>up_x = Some 5, up_y = None, up_width = None, up_height = None,
     up_content = None\<rparr> text_state = text_state\<lparr>saveStatus := Unsaved\<rparr> \<and>
   spec_update 7 \<lparr>up_x = Some 5, up_y = None, up_width = None, up_height = None,
     up_content = None\<rparr> (elements text_state) = Inl NotFound"
proof -
  have h: "(7::real) \<notin> set (store_ids (elements text_state))"
    by (simp add: text_state_elements store_ids_def)
  show ?thesis using h update_unknown_id_silent [OF h] by blast
qed

text \<open>
  C14. What the canvas draws does not depend on the store: in every reachable
  state the rendered elements and the minimap boxes are those of an empty store
  (the mock elements), so no created element is ever drawn.
\<close>

theorem reachable_render_ignores_store:
  "wb_reachable s \<Longrightarrow>
   canvas_render (zoomLevel s) (elements s) = canvas_render (zoomLevel s) [] \<and>
   minimap_boxes (elements s) = minimap_boxes []"
  by (simp add: canvas_render_def minimap_boxes_def)

lemma reachable_render_ignores_store_witness:
  "wb_reachable text_state \<and> elements text_state \<noteq> [] \<and>
   canvas_render (zoomLevel text_state) (elements text_state) = canvas_render (zoomLevel text_state) [] \<and>
   minimap_boxes (elements text_state) = minimap_boxes []"
  using text_state_reachable reachable_render_ignores_store [OF text_state_reachable]
  by (simp add: text_state_elements)

text \<open>
  Clicking a drawn element selects nothing: the click handlers carry the
  ids of the mock elements (1 to 5), which no clock-based id of the store
  matches, so \<open>selectedElement\<close> becomes \<open>undefined\<close>.
\<close>

theorem select_rendered_element_none:
  assumes "\<forall>x \<in> set (store_ids (elements s)). x \<notin> set (map el_id mockElements)"
    and "el \<in> set mockElements"
  shows "selectedElement (handleElementSelect (el_id el) s) = None"
  using assms by (auto simp: handleElementSelect_def store_find_None)

lemma select_rendered_element_none_witness:
  "store_ids (elements text_state) = [1700000000000.25] \<and>
   hd mockElements \<in> set mockElements \<and>
   selectedElement (handleElementSelect (el_id (hd mockElements)) text_state) = None"
proof -
  have h1: "\<forall>x \<in> set (store_ids (elements text_state)). x \<notin> set (map el_id mockElements)"
    by (simp add: text_state_elements store_ids_def mockElements_ids)
  have h2: "hd mockElements \<in> set mockElements"
    by (simp add: mockElements_def)
  show ?thesis using h2 select_rendered_element_none [OF h1 h2]
    by (simp add: text_state_elements store_ids_def)
qed

text \<open>
  C15. In every reachable state the canvas is drawing exactly when its path
  buffer is non-empty: pen-down seeds the buffer, moves only extend it while
  drawing, and pointer-up clears both together.
\<close>

theorem reachable_drawing_iff_path:
  "wb_reachable s \<Longrightarrow> isDrawing (canvas s) \<longleftrightarrow> currentPath (canvas s) \<noteq> []"
  using wb_reachable_inv by (simp add: wb_inv_def drawing_inv_def)

lemma reachable_drawing_iff_path_witness:
  "wb_reachable pen_state \<and> isDrawing (canvas pen_state) \<and>
   (isDrawing (canvas pen_state) \<longleftrightarrow> currentPath (canvas pen_state) \<noteq> [])"
proof -
  have r1: "wb_reachable (handleToolChange PenTool (wb_init (0, 0)))"
    by (rule wb_reachable.step [OF wb_reachable.init, where fresh = 0 and e = "ToolChange PenTool"])
       simp
  have r: "wb_reachable pen_state" unfolding pen_state_def
    by (rule wb_reachable.step [OF r1, where fresh = 0 and e = "MouseDown (3, 4)"]) simp
  show ?thesis
    using r reachable_drawing_iff_path [OF r]
    by (simp add: pen_state_def handleMouseDown_def handleToolChange_def wb_init_def)
qed

text \<open>
  In every reachable state the zoom indicator shows a percentage between
  10 and 300.
\<close>

theorem reachable_zoom_percent_range:
  "wb_reachable s \<Longrightarrow> 10 \<le> zoom_percent (zoomLevel s) \<and> zoom_percent (zoomLevel s) \<le> 300"
  using wb_reachable_inv zoom_percent_bounds by (simp add: wb_inv_def)

lemma reachable_zoom_percent_range_witness:
  "wb_reachable wheel_state \<and> 10 \<le> zoom_percent (zoomLevel wheel_state) \<and>
   zoom_percent (zoomLevel wheel_state) \<le> 300 \<and> zoom_percent (zoomLevel wheel_state) = 132"
  using wheel_state_reachable reachable_zoom_percent_range [OF wheel_state_reachable]
  by (simp add: wheel_state_def handleZoomIn_def handleWheel_def wb_init_def zoom_in_level_def
      wheel_zoom_def wheel_factor_def zoom_percent_def js_round_def)

end
