(* ===== verification/ProjectDetail.thy ===== *)
theory ProjectDetail
  imports Prelude "HOL-Library.Char_ord" "HOL-Library.List_Lexorder"
begin

text \<open>
  The project detail view (\<open>src/src/pages/project-detail-view/index.jsx\<close> and its
  components): a list of content items, a filter by type and search text, a sort,
  a selection of item ids, and the bulk and per-item actions. Dates are the
  millisecond timestamps \<open>Date\<close> objects compare by; the page's load time is the
  parameter \<open>now\<close> of the initial items. \<open>window.confirm\<close> is the boolean
  parameter \<open>confirmed\<close> of the handlers that ask. \<open>Array.prototype.sort\<close> is
  stable (ECMAScript 2019), and any stable sort by a consistent comparator gives
  the same list, so it is modelled as insertion sort with the comparator.
  \<open>localeCompare\<close> is modelled as lexicographic order on character codes, which
  agrees with the locale's collation on the ASCII titles and types here.
\<close>

subsection \<open>Data\<close>

record project =
  proj_id :: int
  proj_name :: string
  proj_description :: string
  proj_cardCount :: int
  proj_whiteboardCount :: int
  proj_lastModified :: string
  proj_color :: string
  proj_status :: string

record content_item =
  item_id :: int
  item_type :: string
  item_title :: string
  item_preview :: string
  item_content :: "string option"
  item_thumbnail :: "string option"
  item_tags :: "string list option"
  item_lastModified :: int
  item_createdAt :: int

definition hours :: "int \<Rightarrow> int" where
  "hours n = n * 60 * 60 * 1000"

definition days :: "int \<Rightarrow> int" where
  "days n = n * 24 * 60 * 60 * 1000"

definition initial_project :: project where
  "initial_project = \<lparr>proj_id = 1, proj_name = ''Research Methodology'',
     proj_description = ''Comprehensive study of research methodologies and their applications in academic research. This project encompasses various approaches to data collection, analysis techniques, and theoretical frameworks.'',
     proj_cardCount = 24, proj_whiteboardCount = 3, proj_lastModified = ''2 hours ago'',
     proj_color = ''#4A9B8E'', proj_status = ''active''\<rparr>"

definition mk_item ::
  "int \<Rightarrow> string \<Rightarrow> string \<Rightarrow> string \<Rightarrow> string option \<Rightarrow> string option \<Rightarrow> string list \<Rightarrow>
   int \<Rightarrow> int \<Rightarrow> content_item" where
  "mk_item i t title preview c thumb tags lm ca =
     \<lparr>item_id = i, item_type = t, item_title = title, item_preview = preview, item_content = c,
      item_thumbnail = thumb, item_tags = Some tags, item_lastModified = lm, item_createdAt = ca\<rparr>"

definition initial_items :: "int \<Rightarrow> content_item list" where
  "initial_items now = [
     mk_item 1 ''card'' ''Literature Review Framework''
       ''A comprehensive framework for conducting systematic literature reviews in academic research...''
       (Some (join_lines [''A comprehensive framework for conducting systematic literature reviews in academic research. This framework includes:'',
          '''', ''1. Search Strategy Development'', ''2. Inclusion/Exclusion Criteria'',
          ''3. Data Extraction Methods'', ''4. Quality Assessment Tools'', ''5. Synthesis Techniques'']))
       None [''research'', ''framework'', ''literature''] (now - hours 2) (now - days 5),
     mk_item 2 ''whiteboard'' ''Research Process Flow''
       ''Visual representation of the complete research process from conception to publication''
       None (Some ''https://images.unsplash.com/photo-1611224923853-80b023f02d71?w=400&h=300&fit=crop'')
       [''process'', ''visual'', ''methodology''] (now - hours 4) (now - days 3),
     mk_item 3 ''card'' ''Data Collection Methods''
       ''Overview of quantitative and qualitative data collection techniques...''
       (Some (join_lines [''Overview of quantitative and qualitative data collection techniques:'', '''',
          ''Quantitative Methods:'', bullet @ '' Surveys and questionnaires'', bullet @ '' Experiments'',
          bullet @ '' Observational studies'', '''', ''Qualitative Methods:'', bullet @ '' Interviews'',
          bullet @ '' Focus groups'', bullet @ '' Ethnographic studies'']))
       None [''data'', ''methods'', ''quantitative'', ''qualitative''] (now - hours 6) (now - days 2),
     mk_item 4 ''card'' ''Statistical Analysis Techniques''
       ''Common statistical methods used in research analysis...''
       (Some (join_lines [''Common statistical methods used in research analysis:'', '''',
          ''Descriptive Statistics:'', bullet @ '' Mean, median, mode'', bullet @ '' Standard deviation'',
          bullet @ '' Frequency distributions'', '''', ''Inferential Statistics:'', bullet @ '' T-tests'',
          bullet @ '' ANOVA'', bullet @ '' Regression analysis'', bullet @ '' Chi-square tests'']))
       None [''statistics'', ''analysis'', ''quantitative''] (now - hours 8) (now - days 1),
     mk_item 5 ''whiteboard'' ''Theoretical Framework Map''
       ''Visual mapping of theoretical concepts and their relationships''
       None (Some ''https://images.pexels.com/photos/8386440/pexels-photo-8386440.jpeg?w=400&h=300&fit=crop'')
       [''theory'', ''framework'', ''concepts''] (now - hours 12) (now - days 4),
     mk_item 6 ''card'' ''Research Ethics Guidelines''
       ''Essential ethical considerations for research involving human subjects...''
       (Some (join_lines [''Essential ethical considerations for research involving human subjects:'', '''',
          ''1. Informed Consent'', bullet @ '' Voluntary participation'',
          bullet @ '' Clear explanation of procedures'', bullet @ '' Right to withdraw'', '''',
          ''2. Confidentiality and Privacy'', bullet @ '' Data protection'',
          bullet @ '' Anonymization techniques'', bullet @ '' Secure storage'', '''',
          ''3. Risk Assessment'', bullet @ '' Minimize harm'', bullet @ '' Risk-benefit analysis'']))
       None [''ethics'', ''guidelines'', ''human subjects''] (now - days 1) (now - days 6)]"

record pd_state =
  pd_project :: project
  contentItems :: "content_item list"
  activeFilter :: string
  searchQuery :: string
  sortBy :: string
  viewMode :: string
  selectedItems :: "int list"
  isProjectSidebarOpen :: bool

definition pd_init :: "int \<Rightarrow> pd_state" where
  "pd_init now = \<lparr>pd_project = initial_project, contentItems = initial_items now,
     activeFilter = ''all'', searchQuery = '''', sortBy = ''modified'', viewMode = ''grid'',
     selectedItems = [], isProjectSidebarOpen = False\<rparr>"

subsection \<open>Sorting\<close>

fun insort_by :: "('a \<Rightarrow> 'a \<Rightarrow> int) \<Rightarrow> 'a \<Rightarrow> 'a list \<Rightarrow> 'a list" where
  "insort_by cmp x [] = [x]"
| "insort_by cmp x (y # ys) = (if cmp x y < 0 then x # y # ys else y # insort_by cmp x ys)"

definition sort_by :: "('a \<Rightarrow> 'a \<Rightarrow> int) \<Rightarrow> 'a list \<Rightarrow> 'a list" where
  "sort_by cmp xs = foldl (\<lambda>acc x. insort_by cmp x acc) [] xs"
  \<comment> \<open>\<open>xs.sort(cmp)\<close>: a stable sort\<close>

definition localeCompare :: "string \<Rightarrow> string \<Rightarrow> int" where
  "localeCompare a b = (if a < b then -1 else if a = b then 0 else 1)"

definition compare_items :: "string \<Rightarrow> content_item \<Rightarrow> content_item \<Rightarrow> int" where
  "compare_items sortKey a b =
     (if sortKey = ''modified'' then item_lastModified b - item_lastModified a
      else if sortKey = ''created'' then item_createdAt b - item_createdAt a
      else if sortKey = ''name'' then localeCompare (item_title a) (item_title b)
      else if sortKey = ''type'' then localeCompare (item_type a) (item_type b)
      else 0)"

text \<open>For the proofs: a comparator that agrees in sign with a key into a linear order.\<close>

definition cmp_by_key :: "('a \<Rightarrow> 'a \<Rightarrow> int) \<Rightarrow> ('a \<Rightarrow> 'k::linorder) \<Rightarrow> bool" where
  "cmp_by_key cmp key \<longleftrightarrow> (\<forall>x y. cmp x y < 0 \<longleftrightarrow> key x < key y)"

subsection \<open>Filtering\<close>

definition matches_query :: "string \<Rightarrow> content_item \<Rightarrow> bool" where
  "matches_query q item =
     (let query = toLowerCase q in
      str_includes (toLowerCase (item_title item)) query \<or>
      str_includes (toLowerCase (item_preview item)) query \<or>
      (case item_tags item of
         None \<Rightarrow> False
       | Some tags \<Rightarrow> list_ex (\<lambda>tag. str_includes (toLowerCase tag) query) tags))"

definition item_visible :: "string \<Rightarrow> string \<Rightarrow> content_item \<Rightarrow> bool" where
  "item_visible fltr q item =
     (if fltr \<noteq> ''all'' \<and> fltr \<noteq> item_type item @ ''s'' then False
      else if q \<noteq> [] then matches_query q item
      else True)"

definition filteredContent :: "pd_state \<Rightarrow> content_item list" where
  "filteredContent s =
     sort_by (compare_items (sortBy s)) (filter (item_visible (activeFilter s) (searchQuery s)) (contentItems s))"

subsection \<open>Handlers\<close>

definition handleItemSelect :: "int \<Rightarrow> bool \<Rightarrow> pd_state \<Rightarrow> pd_state" where
  "handleItemSelect itemId isSelected s =
     s\<lparr>selectedItems := (if isSelected then selectedItems s @ [itemId]
                         else filter (\<lambda>i. i \<noteq> itemId) (selectedItems s))\<rparr>"

definition handleSelectAll :: "pd_state \<Rightarrow> pd_state" where
  "handleSelectAll s =
     (if length (selectedItems s) = length (filteredContent s) then s\<lparr>selectedItems := []\<rparr>
      else s\<lparr>selectedItems := map item_id (filteredContent s)\<rparr>)"

definition handleClearSelection :: "pd_state \<Rightarrow> pd_state" where
  "handleClearSelection s = s\<lparr>selectedItems := []\<rparr>"

definition handleBulkDelete :: "bool \<Rightarrow> pd_state \<Rightarrow> pd_state" where
  "handleBulkDelete confirmed s =
     (if confirmed then
        s\<lparr>contentItems := filter (\<lambda>item. item_id item \<notin> set (selectedItems s)) (contentItems s),
          selectedItems := []\<rparr>
      else s)"

definition tag_item :: "string list \<Rightarrow> content_item \<Rightarrow> content_item" where
  "tag_item tags item =
     item\<lparr>item_tags := Some (js_set_spread ((case item_tags item of None \<Rightarrow> [] | Some ts \<Rightarrow> ts) @ tags))\<rparr>"
  \<comment> \<open>\<open>{ ...item, tags: [...new Set([...(item.tags || []), ...tags])] }\<close>\<close>

definition handleBulkTag :: "string list \<Rightarrow> pd_state \<Rightarrow> pd_state" where
  "handleBulkTag tags s =
     s\<lparr>contentItems := map (\<lambda>item. if item_id item \<in> set (selectedItems s) then tag_item tags item
                                    else item) (contentItems s),
       selectedItems := []\<rparr>"

definition handleBulkMove :: "string \<Rightarrow> pd_state \<Rightarrow> pd_state" where
  "handleBulkMove projectId s = s\<lparr>selectedItems := []\<rparr>"
  \<comment> \<open>the move itself is only logged\<close>

definition handleBulkArchive :: "bool \<Rightarrow> pd_state \<Rightarrow> pd_state" where
  "handleBulkArchive confirmed s = (if confirmed then s\<lparr>selectedItems := []\<rparr> else s)"

definition handleProjectUpdate :: "project \<Rightarrow> pd_state \<Rightarrow> pd_state" where
  "handleProjectUpdate p s = s\<lparr>pd_project := p\<rparr>"

definition handleItemDelete :: "bool \<Rightarrow> content_item \<Rightarrow> pd_state \<Rightarrow> pd_state" where
  "handleItemDelete confirmed item s =
     (if confirmed then s\<lparr>contentItems := filter (\<lambda>i. item_id i \<noteq> item_id item) (contentItems s)\<rparr>
      else s)"

definition duplicate_of :: "int \<Rightarrow> content_item \<Rightarrow> content_item" where
  "duplicate_of now item =
     item\<lparr>item_id := now, item_title := item_title item @ '' (Copy)'',
          item_lastModified := now, item_createdAt := now\<rparr>"

definition handleItemDuplicate :: "int \<Rightarrow> content_item \<Rightarrow> pd_state \<Rightarrow> pd_state" where
  "handleItemDuplicate now item s = s\<lparr>contentItems := duplicate_of now item # contentItems s\<rparr>"

subsection \<open>Rendering\<close>

definition content_heading :: "pd_state \<Rightarrow> string \<times> nat" where
  "content_heading s =
     (if activeFilter s = ''all'' then ''All Content''
      else if activeFilter s = ''cards'' then ''Cards'' else ''Whiteboards'',
      length (filteredContent s))"

definition select_all_label :: "pd_state \<Rightarrow> string option" where
  "select_all_label s =
     (if length (filteredContent s) > 0 then
        Some (if length (selectedItems s) = length (filteredContent s) then ''Deselect All''
              else ''Select All'')
      else None)"

definition empty_state_message :: "pd_state \<Rightarrow> string option" where
  "empty_state_message s =
     (if length (filteredContent s) = 0 then
        Some (if searchQuery s \<noteq> [] then ''No items match your search for '' @ [CHR 0x22] @ searchQuery s @ [CHR 0x22]
              else if activeFilter s = ''cards''
              then ''No cards in this project yet. Create your first card to get started.''
              else if activeFilter s = ''whiteboards''
              then ''No whiteboards in this project yet. Create your first whiteboard to get started.''
              else ''This project is empty. Add some cards or whiteboards to get started.'')
      else None)"

definition bulk_toolbar_label :: "nat \<Rightarrow> string option" where
  "bulk_toolbar_label selectedCount =
     (if selectedCount = 0 then None
      else Some (js_string_of_int (int selectedCount) @ '' item'' @
                 (if selectedCount > 1 then ''s'' else []) @ '' selected''))"
  \<comment> \<open>\<open>BulkActionsToolbar\<close>: \<open>null\<close> without a selection\<close>

definition tag_chips :: "nat \<Rightarrow> string list option \<Rightarrow> string list \<times> nat option" where
  "tag_chips n tags =
     (case tags of
        None \<Rightarrow> ([], None)
      | Some ts \<Rightarrow> if ts = [] then ([], None)
                  else (take n ts, if length ts > n then Some (length ts - n) else None))"
  \<comment> \<open>\<open>item.tags.slice(0, n)\<close> and the \<open>+k\<close> badge; \<open>n\<close> is 3 in the grid, 2 in the list\<close>

definition item_url :: "content_item \<Rightarrow> string" where
  "item_url item =
     (if item_type item = ''card'' then ''/card-editor?id='' @ js_string_of_int (item_id item)
      else ''/whiteboard-interface?id='' @ js_string_of_int (item_id item))"
  \<comment> \<open>\<open>handleCardClick\<close> of \<open>ContentCard\<close> and \<open>handleItemEdit\<close> of the page\<close>

subsection \<open>The project header\<close>

record header_state =
  isEditing :: bool
  editedProject :: project
  showSettings :: bool

datatype header_event =
    EditClick | NameInput string | DescriptionInput string | HeaderSave | HeaderCancel
  | SettingsToggle | StatusSelect string

definition header_init :: "project \<Rightarrow> header_state" where
  "header_init p = \<lparr>isEditing = False, editedProject = p, showSettings = False\<rparr>"
  \<comment> \<open>\<open>useState(project)\<close>: the prop's value when the header mounts\<close>

fun header_step :: "pd_state \<times> header_state \<Rightarrow> header_event \<Rightarrow> pd_state \<times> header_state" where
  "header_step (s, h) EditClick = (s, h\<lparr>isEditing := True\<rparr>)"
| "header_step (s, h) (NameInput v) =
     (s, h\<lparr>editedProject := (editedProject h)\<lparr>proj_name := v\<rparr>\<rparr>)"
| "header_step (s, h) (DescriptionInput v) =
     (s, h\<lparr>editedProject := (editedProject h)\<lparr>proj_description := v\<rparr>\<rparr>)"
| "header_step (s, h) HeaderSave = (handleProjectUpdate (editedProject h) s, h\<lparr>isEditing := False\<rparr>)"
| "header_step (s, h) HeaderCancel = (s, h\<lparr>editedProject := pd_project s, isEditing := False\<rparr>)"
| "header_step (s, h) SettingsToggle = (s, h\<lparr>showSettings := \<not> showSettings h\<rparr>)"
| "header_step (s, h) (StatusSelect v) =
     (handleProjectUpdate ((pd_project s)\<lparr>proj_status := v\<rparr>) s, h)"

definition sel_state :: pd_state where
  "sel_state = (pd_init 0)\<lparr>contentItems := [mk_item 1 ''card'' ''A'' ''a'' None None [] 5 5,
     mk_item 2 ''whiteboard'' ''B'' ''b'' None None [] 4 4, mk_item 3 ''whiteboard'' ''C'' ''c'' None None [] 3 3],
     activeFilter := ''whiteboards'', selectedItems := [1, 7]\<rparr>"
  \<comment> \<open>an example view: two whiteboards shown, a hidden card and an unknown id selected\<close>

definition handleResize :: "int \<Rightarrow> pd_state \<Rightarrow> pd_state" where
  "handleResize innerWidth s = (if innerWidth < 1024 then s\<lparr>isProjectSidebarOpen := False\<rparr> else s)"

subsection \<open>Sorting lemmas\<close>

lemma mset_insort_by [simp]: "mset (insort_by cmp x xs) = add_mset x (mset xs)"
  by (induction xs) auto

lemma set_insort_by [simp]: "set (insort_by cmp x xs) = insert x (set xs)"
  by (induction xs) auto

lemma mset_foldl_insort:
  "mset (foldl (\<lambda>acc x. insort_by cmp x acc) acc xs) = mset acc + mset xs"
  by (induction xs arbitrary: acc) auto

lemma mset_sort_by [simp]: "mset (sort_by cmp xs) = mset xs"
  by (simp add: sort_by_def mset_foldl_insort)

lemma sorted_insort_by:
  assumes "cmp_by_key cmp key" and "sorted (map key ys)"
  shows "sorted (map key (insort_by cmp x ys))"
  using assms(2)
proof (induction ys)
  case Nil
  then show ?case by simp
next
  case (Cons y ys)
  show ?case
  proof (cases "cmp x y < 0")
    case True
    with assms(1) have "key x < key y" by (simp add: cmp_by_key_def)
    with Cons.prems show ?thesis using True by auto
  next
    case False
    with assms(1) have "key y \<le> key x" by (auto simp: cmp_by_key_def)
    with Cons show ?thesis using False by auto
  qed
qed

lemma sorted_foldl_insort:
  "cmp_by_key cmp key \<Longrightarrow> sorted (map key acc) \<Longrightarrow>
   sorted (map key (foldl (\<lambda>acc x. insort_by cmp x acc) acc xs))"
  by (induction xs arbitrary: acc) (simp_all add: sorted_insort_by)

lemma sorted_sort_by: "cmp_by_key cmp key \<Longrightarrow> sorted (map key (sort_by cmp xs))"
  by (simp add: sort_by_def sorted_foldl_insort)

lemma filter_insort_by:
  assumes "cmp_by_key cmp key" and "sorted (map key ys)"
  shows "filter (\<lambda>y. key y = v) (insort_by cmp x ys) =
         filter (\<lambda>y. key y = v) ys @ (if key x = v then [x] else [])"
  using assms(2)
proof (induction ys)
  case Nil
  then show ?case by simp
next
  case (Cons y ys)
  show ?case
  proof (cases "cmp x y < 0")
    case True
    with assms(1) have lt: "key x < key y" by (simp add: cmp_by_key_def)
    with Cons.prems have "\<forall>z \<in> set ys. key x < key z" by auto
    then have "key x = v \<Longrightarrow> filter (\<lambda>z. key z = v) ys = []"
      by (auto simp: filter_empty_conv)
    with True lt show ?thesis by auto
  next
    case False
    with Cons show ?thesis by auto
  qed
qed

lemma filter_foldl_insort:
  "cmp_by_key cmp key \<Longrightarrow> sorted (map key acc) \<Longrightarrow>
   filter (\<lambda>y. key y = v) (foldl (\<lambda>acc x. insort_by cmp x acc) acc xs) =
   filter (\<lambda>y. key y = v) acc @ filter (\<lambda>y. key y = v) xs"
proof (induction xs arbitrary: acc)
  case Nil
  then show ?case by simp
next
  case (Cons x xs)
  have "sorted (map key (insort_by cmp x acc))"
    using Cons.prems by (rule sorted_insort_by)
  with Cons show ?case by (simp add: filter_insort_by)
qed

lemma sort_by_stable:
  "cmp_by_key cmp key \<Longrightarrow> filter (\<lambda>y. key y = v) (sort_by cmp xs) = filter (\<lambda>y. key y = v) xs"
  by (simp add: sort_by_def filter_foldl_insort)

lemma sort_by_zero: "sort_by (\<lambda>a b. 0) xs = xs"
proof -
  have "foldl (\<lambda>acc x. insort_by (\<lambda>a b. 0) x acc) acc xs = acc @ xs" for acc :: "'a list"
  proof (induction xs arbitrary: acc)
    case Nil
    then show ?case by simp
  next
    case (Cons x xs)
    have "insort_by (\<lambda>a b. 0) x acc = acc @ [x]" by (induction acc) auto
    with Cons.IH show ?case by simp
  qed
  then show ?thesis by (simp add: sort_by_def)
qed

lemma localeCompare_neg: "localeCompare a b < 0 \<longleftrightarrow> a < b"
  by (simp add: localeCompare_def)

lemma compare_items_keys:
  "cmp_by_key (compare_items ''modified'') (\<lambda>i. - item_lastModified i)"
  "cmp_by_key (compare_items ''created'') (\<lambda>i. - item_createdAt i)"
  "cmp_by_key (compare_items ''name'') item_title"
  "cmp_by_key (compare_items ''type'') item_type"
  by (auto simp: cmp_by_key_def compare_items_def localeCompare_neg)

lemma sort_by_sort_key:
  assumes "cmp_by_key cmp key"
  shows "sort_by cmp xs = sort_key key xs"
proof (rule properties_for_sort_key [symmetric])
  show "mset (sort_by cmp xs) = mset xs" by simp
  show "sorted (map key (sort_by cmp xs))" using assms by (rule sorted_sort_by)
  fix k
  have "filter (\<lambda>y. key y = key k) (sort_by cmp xs) = filter (\<lambda>y. key y = key k) xs"
    using assms by (rule sort_by_stable)
  then show "filter (\<lambda>x. key k = key x) (sort_by cmp xs) = filter (\<lambda>x. key k = key x) xs"
    by (simp add: eq_commute [of "key k"])
qed

lemmas sel_state_simps = sel_state_def filteredContent_def pd_init_def mk_item_def item_visible_def
  sort_by_def compare_items_def

subsection \<open>Properties\<close>

text \<open>
  The shown content is a permutation of the items that pass the type filter
  and the search: nothing is lost, duplicated or invented by the sort.
\<close>

theorem filtered_content_perm:
  "mset (filteredContent s) =
   mset (filter (item_visible (activeFilter s) (searchQuery s)) (contentItems s))"
  by (simp add: filteredContent_def)

text \<open>
  C19. The shown content is the library's stable sort (\<^const>\<open>sort_key\<close>) of the
  items that pass the type filter and the search, by the key the sort option
  names: newest first by modification or creation time, by title or by type,
  and the list order for any other option. So nothing is lost or duplicated, the
  order is the option's, and items with equal keys keep their list order.
\<close>

theorem filtered_content_sort_key:
  "filteredContent s =
     (let vis = filter (item_visible (activeFilter s) (searchQuery s)) (contentItems s) in
      if sortBy s = ''modified'' then sort_key (\<lambda>i. - item_lastModified i) vis
      else if sortBy s = ''created'' then sort_key (\<lambda>i. - item_createdAt i) vis
      else if sortBy s = ''name'' then sort_key item_title vis
      else if sortBy s = ''type'' then sort_key item_type vis
      else vis)"
proof -
  have other: "compare_items k = (\<lambda>a b. 0)"
    if "k \<noteq> ''modified''" "k \<noteq> ''created''" "k \<noteq> ''name''" "k \<noteq> ''type''" for k
    using that by (simp add: fun_eq_iff compare_items_def)
  show ?thesis
    using compare_items_keys [THEN sort_by_sort_key]
    by (simp add: filteredContent_def Let_def other sort_by_zero)
qed

text \<open>
  The shown content is in the order the sort option names: newest first by
  modification or creation time, and ascending by title or by type.
\<close>

theorem filtered_content_sorted:
  "(sortBy s = ''modified'' \<longrightarrow> sorted (map (\<lambda>i. - item_lastModified i) (filteredContent s))) \<and>
   (sortBy s = ''created'' \<longrightarrow> sorted (map (\<lambda>i. - item_createdAt i) (filteredContent s))) \<and>
   (sortBy s = ''name'' \<longrightarrow> sorted (map item_title (filteredContent s))) \<and>
   (sortBy s = ''type'' \<longrightarrow> sorted (map item_type (filteredContent s)))"
  by (simp add: filteredContent_def sorted_sort_by compare_items_keys)

lemma filtered_content_sorted_witness:
  "sortBy (sel_state\<lparr>sortBy := ''name''\<rparr>) = ''name'' \<and>
   sorted (map item_title (filteredContent (sel_state\<lparr>sortBy := ''name''\<rparr>))) \<and>
   map item_id (filteredContent (sel_state\<lparr>sortBy := ''name''\<rparr>)) = [2, 3]"
  using filtered_content_sorted [of "sel_state\<lparr>sortBy := ''name''\<rparr>"]
  by (simp add: sel_state_simps localeCompare_def)

text \<open>
  The sort is stable: sorting by type keeps the items of one type in the
  order they have in the list, and an unknown sort option keeps the list order.
\<close>

theorem filtered_content_stable:
  "(sortBy s = ''type'' \<longrightarrow>
      filter (\<lambda>i. item_type i = t) (filteredContent s) =
      filter (\<lambda>i. item_type i = t) (filter (item_visible (activeFilter s) (searchQuery s)) (contentItems s))) \<and>
   (sortBy s \<notin> {''modified'', ''created'', ''name'', ''type''} \<longrightarrow>
      filteredContent s = filter (item_visible (activeFilter s) (searchQuery s)) (contentItems s))"
proof -
  have "sortBy s \<notin> {''modified'', ''created'', ''name'', ''type''} \<Longrightarrow>
        compare_items (sortBy s) = (\<lambda>a b. 0)"
    by (auto simp: compare_items_def fun_eq_iff)
  then show ?thesis
    using compare_items_keys(4)
    by (auto simp: filteredContent_def sort_by_stable sort_by_zero)
qed

lemma filtered_content_stable_witness:
  "sortBy (sel_state\<lparr>sortBy := ''type'', activeFilter := ''all''\<rparr>) = ''type'' \<and>
   map item_id (filter (\<lambda>i. item_type i = ''whiteboard'')
     (filteredContent (sel_state\<lparr>sortBy := ''type'', activeFilter := ''all''\<rparr>))) = [2, 3]"
  using filtered_content_stable [of "sel_state\<lparr>sortBy := ''type'', activeFilter := ''all''\<rparr>" "''whiteboard''"]
  by (simp add: sel_state_simps)

text \<open>
  C22. A confirmed bulk delete keeps exactly the items whose id is not selected,
  whether or not they are shown under the current filter, and clears the
  selection; a cancelled one changes nothing.
\<close>

theorem bulk_delete_removes_selected:
  "(item \<in> set (contentItems (handleBulkDelete True s)) \<longleftrightarrow>
      item \<in> set (contentItems s) \<and> item_id item \<notin> set (selectedItems s)) \<and>
   selectedItems (handleBulkDelete True s) = [] \<and>
   handleBulkDelete False s = s"
  by (auto simp: handleBulkDelete_def)

text \<open>
  C23. Bulk tagging an item with distinct tags keeps its tags in order and
  appends the new ones it did not have, each once, in the order given; no other
  field of the item changes.
\<close>

theorem tag_item_appends_new_tags:
  assumes "item_tags item = Some old" and "distinct old"
  shows "\<exists>r. tag_item tags item = item\<lparr>item_tags := Some (old @ r)\<rparr> \<and>
             distinct (old @ r) \<and> set r = set tags - set old"
proof -
  have old: "set_insert_all [] old = old"
    using assms(2) by (simp add: set_insert_all_distinct_id)
  obtain r where r: "set_insert_all old tags = old @ r"
    using set_insert_all_prefix [of old tags] by auto
  have d: "distinct (old @ r)"
    using set_insert_all_distinct [OF assms(2), of tags] r by simp
  have st: "set (old @ r) = set old \<union> set tags"
    using set_insert_all_set [of old tags] r by simp
  from d st have "set r = set tags - set old" by auto
  moreover have "tag_item tags item = item\<lparr>item_tags := Some (old @ r)\<rparr>"
    using assms(1) old r by (simp add: tag_item_def js_set_spread_def set_insert_all_append)
  ultimately show ?thesis using d by blast
qed

lemma tag_item_appends_new_tags_witness:
  "item_tags (mk_item 1 ''card'' ''A'' ''a'' None None [''x'', ''y''] 0 0) = Some [''x'', ''y''] \<and>
   distinct [''x'', ''y''] \<and>
   tag_item [''y'', ''z'', ''z''] (mk_item 1 ''card'' ''A'' ''a'' None None [''x'', ''y''] 0 0) =
     mk_item 1 ''card'' ''A'' ''a'' None None [''x'', ''y'', ''z''] 0 0"
proof -
  have h1: "item_tags (mk_item 1 ''card'' ''A'' ''a'' None None [''x'', ''y''] 0 0) = Some [''x'', ''y'']"
    by (simp add: mk_item_def)
  have h2: "distinct [''x'', ''y'']" by simp
  from tag_item_appends_new_tags [OF h1 h2, of "[''y'', ''z'', ''z'']"] have
    "\<exists>r. tag_item [''y'', ''z'', ''z''] (mk_item 1 ''card'' ''A'' ''a'' None None [''x'', ''y''] 0 0) =
      (mk_item 1 ''card'' ''A'' ''a'' None None [''x'', ''y''] 0 0)\<lparr>item_tags := Some ([''x'', ''y''] @ r)\<rparr>" by blast
  then show ?thesis
    by (simp add: tag_item_def js_set_spread_def mk_item_def)
qed

text \<open>
  C24. Select-all decides by counting: when as many ids are selected as items are
  shown, the button clears the selection even if none of the shown items is
  selected (after a filter change, say), instead of selecting them.
\<close>

theorem select_all_by_count:
  assumes "set (selectedItems s) \<inter> set (map item_id (filteredContent s)) = {}"
    and "length (selectedItems s) = length (filteredContent s)"
  shows "selectedItems (handleSelectAll s) = []"
  using assms(2) by (simp add: handleSelectAll_def)

lemma select_all_by_count_witness:
  "set (selectedItems sel_state) \<inter> set (map item_id (filteredContent sel_state)) = {} \<and>
   length (selectedItems sel_state) = length (filteredContent sel_state) \<and>
   map item_id (filteredContent sel_state) = [2, 3] \<and>
   selectedItems (handleSelectAll sel_state) = []"
proof -
  have v: "map item_id (filteredContent sel_state) = [2, 3]"
    by (simp add: sel_state_simps)
  have h1: "set (selectedItems sel_state) \<inter> set (map item_id (filteredContent sel_state)) = {}"
    using v by (simp add: sel_state_def)
  have h2: "length (selectedItems sel_state) = length (filteredContent sel_state)"
  proof -
    have "length (filteredContent sel_state) = 2"
      using arg_cong [OF v, of length] by simp
    then show ?thesis by (simp add: sel_state_def)
  qed
  show ?thesis using h1 h2 v select_all_by_count [OF h1 h2] by blast
qed

text \<open>
  C25. Duplicate ids: the copy's id is \<open>Date.now()\<close>, so two duplicates made in
  the same millisecond share an id, and deleting either copy removes both.
\<close>

theorem duplicate_same_ms_delete_removes_both:
  "contentItems (handleItemDelete True (duplicate_of now item)
      (handleItemDuplicate now item (handleItemDuplicate now item s))) =
   filter (\<lambda>i. item_id i \<noteq> now) (contentItems s) \<and>
   length (contentItems (handleItemDuplicate now item (handleItemDuplicate now item s))) =
   length (contentItems s) + 2"
  by (simp add: handleItemDelete_def handleItemDuplicate_def duplicate_of_def)

text \<open>
  The search is a case-insensitive substring test: an item matches a query
  exactly when the lower-cased query occurs as a contiguous part of the
  lower-cased title, preview or one of the tags.
\<close>

theorem matches_query_substring:
  "matches_query q item \<longleftrightarrow>
     (\<exists>ps ss. toLowerCase (item_title item) = ps @ toLowerCase q @ ss) \<or>
     (\<exists>ps ss. toLowerCase (item_preview item) = ps @ toLowerCase q @ ss) \<or>
     (\<exists>tags. item_tags item = Some tags \<and>
        (\<exists>tag \<in> set tags. \<exists>ps ss. toLowerCase tag = ps @ toLowerCase q @ ss))"
  by (cases "item_tags item") (auto simp: matches_query_def str_includes_iff list_ex_iff Let_def)


text \<open>
  C27. The header edits a copy of the project taken when it mounted. A status
  chosen in the settings panel updates the page's project but not that copy, so
  opening the editor and saving writes the old status back: the page ends where
  it started.
\<close>

theorem header_save_reverts_status:
  "fst (foldl header_step (s, header_init (pd_project s)) [StatusSelect v, EditClick, HeaderSave]) = s"
  by (simp add: header_init_def handleProjectUpdate_def)

text \<open>
  The tag chips of a content card account for every tag: the chips shown
  and the number on the \<open>+k\<close> badge add up to the number of tags, and at most
  \<open>n\<close> chips are shown.
\<close>

theorem tag_chips_account_for_all:
  assumes "tag_chips n (Some ts) = (shown, extra)"
  shows "length shown + (case extra of None \<Rightarrow> 0 | Some k \<Rightarrow> k) = length ts \<and> length shown \<le> n"
  using assms by (auto simp: tag_chips_def split: if_splits)

lemma tag_chips_account_for_all_witness:
  "tag_chips 3 (Some [''a'', ''b'', ''c'', ''d'', ''e'']) = ([''a'', ''b'', ''c''], Some 2) \<and>
   length [''a'', ''b'', ''c''] + 2 = length [''a'', ''b'', ''c'', ''d'', ''e''] \<and>
   length [''a'', ''b'', ''c''] \<le> (3::nat)"
proof -
  have h: "tag_chips 3 (Some [''a'', ''b'', ''c'', ''d'', ''e'']) = ([''a'', ''b'', ''c''], Some 2)"
    by (simp add: tag_chips_def)
  show ?thesis using h tag_chips_account_for_all [OF h] by simp
qed

lemma bulk_toolbar_label_hidden: "bulk_toolbar_label n = None \<longleftrightarrow> n = 0"
  by (simp add: bulk_toolbar_label_def)

lemma bulk_toolbar_label_two: "bulk_toolbar_label 2 = Some ''2 items selected''"
  by code_simp

end
