(* ===== verification/CardEditor.thy ===== *)
theory CardEditor
  imports Prelude
begin

text \<open>
  The card editor page (\<open>pages/card-editor/\<close>): the card being edited, the
  dirty flag computed by an effect, the autosave timer started by a second
  effect, the metadata panel's tag editing (\<open>CardMetadata.jsx\<close>), the quick
  actions with their move and share dialogs (\<open>QuickActions.jsx\<close>), the
  breadcrumb's guarded back navigation (\<open>BreadcrumbNavigation.jsx\<close>), the
  toolbar's status label (\<open>EditorToolbar.jsx\<close>) and the editor's file drop and
  paste handling (\<open>RichTextEditor.jsx\<close>). React's effect semantics is explicit:
  a commit runs an effect when one of its dependencies changed since the previous
  render (objects compare by identity, kept as revision counters), effects see
  the state of the render that triggered them, and their updates cause a further
  render. Browser effects (navigation, alerts, clipboard, \<open>execCommand\<close>) are
  appended to a log.
\<close>

subsection \<open>Cards\<close>

record card =
  card_id :: string
  card_title :: string
  card_content :: string
  card_project :: string
  card_tags :: "string list"
  card_createdAt :: string
  card_modifiedAt :: string

definition new_card :: "string \<Rightarrow> string \<Rightarrow> card" where
  "new_card cid now = \<lparr>card_id = cid, card_title = [], card_content = [], card_project = [],
     card_tags = [], card_createdAt = now, card_modifiedAt = now\<rparr>"
  \<comment> \<open>the object literal of \<open>useState\<close> and of the mount effect; \<open>now\<close> is
      \<open>new Date().toLocaleDateString(...)\<close>\<close>

definition mock_card_1 :: card where
  "mock_card_1 = \<lparr>card_id = ''1'', card_title = ''Research Methodology Overview'',
     card_content = join_lines
       [''<h2>Introduction to Research Methodology</h2>'',
        ''<p>Research methodology is the systematic approach to conducting research and gathering data for analysis.</p>'',
        [], ''<h3>Key Components</h3>'', ''<ul>'',
        ''<li><b>Research Design</b> - The overall strategy for conducting research</li>'',
        ''<li><b>Data Collection</b> - Methods for gathering information</li>'',
        ''<li><b>Analysis Framework</b> - Approach to interpreting results</li>'',
        ''</ul>'', [],
        ''<p>Understanding these components is crucial for conducting <i>effective research</i> that produces reliable and valid results.</p>''],
     card_project = ''research-methodology'',
     card_tags = [''Research'', ''Methodology'', ''Important''],
     card_createdAt = ''Jan 15, 2025, 09:30 AM'', card_modifiedAt = ''Jan 27, 2025, 06:15 AM''\<rparr>"

definition mock_card_2 :: card where
  "mock_card_2 = \<lparr>card_id = ''2'', card_title = ''Literature Review Process'',
     card_content = join_lines
       [''<h2>Systematic Literature Review</h2>'',
        ''<p>A comprehensive approach to reviewing existing research in your field.</p>'',
        [], ''<h3>Steps in Literature Review</h3>'', ''<ol>'',
        ''<li>Define research questions</li>'', ''<li>Search for relevant sources</li>'',
        ''<li>Evaluate source quality</li>'', ''<li>Synthesize findings</li>'', ''</ol>'', [],
        ''<p>Remember to maintain <b>critical analysis</b> throughout the process.</p>''],
     card_project = ''literature-review'',
     card_tags = [''Literature'', ''Review'', ''Process''],
     card_createdAt = ''Jan 20, 2025, 02:15 PM'', card_modifiedAt = ''Jan 26, 2025, 11:45 AM''\<rparr>"

definition mockCards :: "string \<Rightarrow> card option" where
  "mockCards k = (if k = ''1'' then Some mock_card_1 else if k = ''2'' then Some mock_card_2 else None)"

definition card_changed :: "card \<Rightarrow> card \<Rightarrow> bool" where
  "card_changed c o' =
     (card_title c \<noteq> card_title o' \<or> card_content c \<noteq> card_content o' \<or>
      card_project c \<noteq> card_project o' \<or> card_tags c \<noteq> card_tags o')"
  \<comment> \<open>\<open>JSON.stringify\<close> of two string arrays is equal exactly when the arrays are\<close>

definition getProjectName :: "string \<Rightarrow> string" where
  "getProjectName projectId =
     (if projectId = ''research-methodology'' then ''Research Methodology''
      else if projectId = ''literature-review'' then ''Literature Review''
      else if projectId = ''data-analysis'' then ''Data Analysis''
      else if projectId = ''getting-started'' then ''Getting Started''
      else if projectId = ''para-system'' then ''PARA System''
      else if projectId = ''my-library'' then ''My Library''
      else ''Unassigned'')"

definition projectOptions :: "(string \<times> string) list" where
  "projectOptions =
     [(''research-methodology'', ''Research Methodology''), (''literature-review'', ''Literature Review''),
      (''data-analysis'', ''Data Analysis''), (''getting-started'', ''Getting Started''),
      (''para-system'', ''PARA System''), (''my-library'', ''My Library'')]"
  \<comment> \<open>the same list in \<open>CardMetadata\<close> and in \<open>QuickActions\<close>\<close>

definition predefinedTags :: "string list" where
  "predefinedTags = [''Important'', ''Research'', ''Todo'', ''Reference'', ''Idea'', ''Question'',
     ''Summary'', ''Quote'', ''Definition'', ''Example'', ''Analysis'', ''Insight'']"

subsection \<open>Page state\<close>

record upload_file =
  file_name :: string
  file_type :: string

datatype ce_effect =
    Navigate string | Alert string | Clipboard string | OpenWindow string
  | ExecCommand string "string option" | OpenFilePicker | ReadAsDataURL upload_file

record ce_state =
  cardData :: card
  cardRev :: nat
  originalData :: "card option"
  origRev :: nat
  isPreviewMode :: bool
  ce_saveStatus :: string
  isMetadataCollapsed :: bool
  hasUnsavedChanges :: bool
  saveTimer :: "card option"
  newTag :: string
  showMoveDialog :: bool
  moveProject :: string
  showShareDialog :: bool
  ce_log :: "ce_effect list"
  \<comment> \<open>\<open>cardRev\<close>/\<open>origRev\<close> count the objects passed to \<open>setCardData\<close> and
      \<open>setOriginalData\<close> (effect dependencies compare by identity); \<open>saveTimer\<close> is
      the pending autosave timeout with the card its closure captured; \<open>newTag\<close>
      is \<open>CardMetadata\<close>'s state, the next three \<open>QuickActions\<close>' state\<close>

record ce_env =
  env_now :: string
  env_confirm :: bool
  env_prompt :: "string option"
  env_origin :: string
  env_href :: string
  \<comment> \<open>what the browser answers during an event: the formatted date,
      \<open>window.confirm\<close>, \<open>prompt\<close> (\<open>None\<close> for \<open>null\<close>), \<open>window.location\<close>\<close>

definition js_or_str :: "string option \<Rightarrow> string \<Rightarrow> string" where
  "js_or_str v d = (case v of None \<Rightarrow> d | Some x \<Rightarrow> if x = [] then d else x)"
  \<comment> \<open>\<open>v || d\<close> on a possibly \<open>null\<close> string\<close>

definition ce_initial :: "string option \<Rightarrow> string \<Rightarrow> ce_state" where
  "ce_initial cardId now =
     \<lparr>cardData = new_card (js_or_str cardId ''new'') now, cardRev = 0, originalData = None,
      origRev = 0, isPreviewMode = False, ce_saveStatus = ''saved'', isMetadataCollapsed = False,
      hasUnsavedChanges = False, saveTimer = None, newTag = [], showMoveDialog = False,
      moveProject = [], showShareDialog = False, ce_log = []\<rparr>"
  \<comment> \<open>the first render, before any effect ran; \<open>cardId\<close> is \<open>searchParams.get('id')\<close>\<close>

subsection \<open>Effects and renders\<close>

definition set_card :: "(card \<Rightarrow> card) \<Rightarrow> ce_state \<Rightarrow> ce_state" where
  "set_card f s = s\<lparr>cardData := f (cardData s), cardRev := Suc (cardRev s)\<rparr>"
  \<comment> \<open>\<open>setCardData(prev => ({ ...prev, ... }))\<close>: a new object\<close>

definition load_card :: "string option \<Rightarrow> string \<Rightarrow> card" where
  "load_card cardId now =
     (case cardId of
        Some k \<Rightarrow> (case if k = [] then None else mockCards k of
                    Some c \<Rightarrow> c
                  | None \<Rightarrow> new_card ''new'' now)
      | None \<Rightarrow> new_card ''new'' now)"
  \<comment> \<open>\<open>if (cardId && mockCards[cardId])\<close>: the empty string is falsy\<close>

type_synonym ce_deps = "nat \<times> nat \<times> bool"

definition deps_of :: "ce_state \<Rightarrow> ce_deps" where
  "deps_of s = (cardRev s, origRev s, hasUnsavedChanges s)"

definition unsaved_effect :: "ce_state \<Rightarrow> bool option" where
  "unsaved_effect s = map_option (card_changed (cardData s)) (originalData s)"
  \<comment> \<open>the value the change-detection effect passes to \<open>setHasUnsavedChanges\<close>\<close>

definition autosave_effect :: "ce_state \<Rightarrow> ce_state" where
  "autosave_effect s =
     (if hasUnsavedChanges s then s\<lparr>ce_saveStatus := ''saving'', saveTimer := Some (cardData s)\<rparr>
      else s\<lparr>saveTimer := None\<rparr>)"
  \<comment> \<open>cleanup of the previous run (\<open>clearTimeout\<close>), then the body\<close>

definition ce_commit :: "ce_deps \<Rightarrow> ce_state \<Rightarrow> ce_state" where
  "ce_commit d s =
     (let (cr, orr, hu) = d;
          u = (if cr \<noteq> cardRev s \<or> orr \<noteq> origRev s then unsaved_effect s else None);
          s1 = (if hu \<noteq> hasUnsavedChanges s \<or> cr \<noteq> cardRev s then autosave_effect s else s)
      in case u of None \<Rightarrow> s1 | Some h \<Rightarrow> s1\<lparr>hasUnsavedChanges := h\<rparr>)"
  \<comment> \<open>the effects of one render, in source order, against the dependencies \<open>d\<close>
      of the render before\<close>

definition ce_settle :: "ce_deps \<Rightarrow> ce_state \<Rightarrow> ce_state" where
  "ce_settle d s = (let s1 = ce_commit d s in ce_commit (deps_of s) s1)"
  \<comment> \<open>the render after an event and the one its effects cause\<close>

definition ce_mount :: "string option \<Rightarrow> string \<Rightarrow> ce_state" where
  "ce_mount cardId now =
     (let s0 = ce_initial cardId now; c = load_card cardId now
      in ce_settle (deps_of s0)
           (s0\<lparr>cardData := c, cardRev := Suc (cardRev s0), originalData := Some c,
               origRev := Suc (origRev s0)\<rparr>))"
  \<comment> \<open>on mount the load effect sets both objects; the other two effects see
      \<open>originalData = null\<close> and a clean flag and do nothing\<close>

subsection \<open>Handlers\<close>

definition ce_emit :: "ce_effect list \<Rightarrow> ce_state \<Rightarrow> ce_state" where
  "ce_emit es s = s\<lparr>ce_log := ce_log s @ es\<rparr>"

definition handleAddTag :: "string \<Rightarrow> ce_state \<Rightarrow> ce_state" where
  "handleAddTag tagValue s =
     (if tagValue \<noteq> [] \<and> tagValue \<notin> set (card_tags (cardData s))
      then (set_card (\<lambda>c. c\<lparr>card_tags := card_tags (cardData s) @ [tagValue]\<rparr>) s)\<lparr>newTag := []\<rparr>
      else s)"
  \<comment> \<open>\<open>CardMetadata.handleAddTag\<close> through \<open>onTagsChange\<close>\<close>

definition handleRemoveTag :: "string \<Rightarrow> ce_state \<Rightarrow> ce_state" where
  "handleRemoveTag tagToRemove s =
     set_card (\<lambda>c. c\<lparr>card_tags := filter (\<lambda>tag. tag \<noteq> tagToRemove) (card_tags (cardData s))\<rparr>) s"

definition handleKeyPress :: "string \<Rightarrow> ce_state \<Rightarrow> ce_state" where
  "handleKeyPress key s = (if key = ''Enter'' then handleAddTag (newTag s) s else s)"

definition handleDuplicate :: "ce_env \<Rightarrow> ce_state \<Rightarrow> ce_state" where
  "handleDuplicate env s =
     (let d = (cardData s)\<lparr>card_id := ''new'', card_title := card_title (cardData s) @ '' (Copy)'',
                           card_createdAt := env_now env\<rparr>
      in ce_emit [Alert ''Card duplicated successfully!'']
           (s\<lparr>cardData := d, cardRev := Suc (cardRev s), originalData := Some d,
              origRev := Suc (origRev s)\<rparr>))"

definition handleMove :: "string \<Rightarrow> ce_state \<Rightarrow> ce_state" where
  "handleMove projectId s =
     ce_emit [Alert ''Card moved to project successfully!'']
       (set_card (\<lambda>c. c\<lparr>card_project := projectId\<rparr>) s)"

definition handleArchive :: "ce_env \<Rightarrow> ce_state \<Rightarrow> ce_state" where
  "handleArchive env s =
     (if env_confirm env
      then ce_emit [Alert ''Card archived successfully!'', Navigate ''/dashboard-main-workspace''] s
      else s)"

definition handleShare :: "ce_env \<Rightarrow> string \<Rightarrow> ce_state \<Rightarrow> ce_state" where
  "handleShare env shareType s =
     (if shareType = ''link'' then
        ce_emit [Clipboard (env_origin env @ ''/card-editor?id='' @ card_id (cardData s)),
                 Alert ''Link copied to clipboard!''] s
      else if shareType = ''email'' then
        ce_emit [OpenWindow (''mailto:?subject='' @ encodeURIComponent (card_title (cardData s)) @
                   ''&body='' @ encodeURIComponent (''Check out this card: '' @ env_href env))] s
      else if shareType = ''export'' then
        ce_emit [Alert ''PDF export functionality would be implemented here.''] s
      else s)"

definition handleDelete :: "ce_env \<Rightarrow> ce_state \<Rightarrow> ce_state" where
  "handleDelete env s =
     (if env_confirm env
      then ce_emit [Alert ''Card deleted successfully!'', Navigate ''/dashboard-main-workspace''] s
      else s)"

definition handleBack :: "ce_state \<Rightarrow> ce_state" where
  "handleBack s = ce_emit [Navigate ''/dashboard-main-workspace''] s"

definition handleProjectClick :: "ce_state \<Rightarrow> ce_state" where
  "handleProjectClick s =
     (if card_project (cardData s) \<noteq> []
      then ce_emit [Navigate (''/project-detail-view?project='' @ card_project (cardData s))] s
      else s)"

definition breadcrumb_back :: "ce_env \<Rightarrow> ce_state \<Rightarrow> ce_state" where
  "breadcrumb_back env s =
     (if hasUnsavedChanges s then (if env_confirm env then handleBack s else s) else handleBack s)"
  \<comment> \<open>\<open>BreadcrumbNavigation.handleBack\<close>: asks before leaving unsaved changes\<close>

definition qa_handleMove :: "ce_state \<Rightarrow> ce_state" where
  "qa_handleMove s =
     (if moveProject s \<noteq> []
      then (handleMove (moveProject s) s)\<lparr>showMoveDialog := False, moveProject := []\<rparr> else s)"
  \<comment> \<open>\<open>QuickActions.handleMove\<close>\<close>

definition qa_handleShare :: "ce_env \<Rightarrow> string \<Rightarrow> ce_state \<Rightarrow> ce_state" where
  "qa_handleShare env shareType s = (handleShare env shareType s)\<lparr>showShareDialog := False\<rparr>"

definition handleBold :: "ce_state \<Rightarrow> ce_state" where
  "handleBold s = ce_emit [ExecCommand ''bold'' None] s"

definition handleItalic :: "ce_state \<Rightarrow> ce_state" where
  "handleItalic s = ce_emit [ExecCommand ''italic'' None] s"

definition handleHeader :: "ce_state \<Rightarrow> ce_state" where
  "handleHeader s = ce_emit [ExecCommand ''formatBlock'' (Some ''h2'')] s"

definition handleList :: "ce_state \<Rightarrow> ce_state" where
  "handleList s = ce_emit [ExecCommand ''insertUnorderedList'' None] s"
  \<comment> \<open>\<open>document.execCommand\<close> on the editable div, recorded as an effect\<close>

definition handleLink :: "ce_env \<Rightarrow> ce_state \<Rightarrow> ce_state" where
  "handleLink env s =
     (case env_prompt env of
        None \<Rightarrow> s
      | Some url \<Rightarrow> if url \<noteq> [] then ce_emit [ExecCommand ''createLink'' (Some url)] s else s)"

definition handleImage :: "upload_file list \<Rightarrow> ce_state \<Rightarrow> ce_state" where
  "handleImage files s = (if files \<noteq> [] then ce_emit [ReadAsDataURL (hd files)] s else s)"
  \<comment> \<open>only \<open>files[0]\<close> is read\<close>

definition dq :: string where
  "dq = [CHR 0x22]"

definition image_loaded :: "string \<Rightarrow> ce_state \<Rightarrow> ce_state" where
  "image_loaded result s =
     ce_emit [ExecCommand ''insertHTML'' (Some (''<img src='' @ dq @ result @ dq @ '' alt='' @ dq @
        ''Uploaded image'' @ dq @ '' style='' @ dq @ ''max-width: 100%; height: auto; margin: 10px 0;'' @
        dq @ '' />''))] s"
  \<comment> \<open>\<open>reader.onload\<close>\<close>

definition is_image :: "string \<Rightarrow> bool" where
  "is_image t = starts_with t ''image/''"

definition handleDrop :: "upload_file list \<Rightarrow> ce_state \<Rightarrow> ce_state" where
  "handleDrop files s =
     (let imageFiles = filter (\<lambda>f. is_image (file_type f)) files
      in if imageFiles \<noteq> [] then handleImage imageFiles s else s)"

definition handlePaste :: "(string \<times> upload_file option) list \<Rightarrow> ce_state \<Rightarrow> ce_state" where
  "handlePaste items s =
     (let imageItems = filter (\<lambda>it. is_image (fst it)) items
      in if imageItems \<noteq> []
         then handleImage (concat (map (\<lambda>it. case snd it of None \<Rightarrow> [] | Some f \<Rightarrow> [f]) imageItems)) s
         else s)"
  \<comment> \<open>clipboard items as their type and \<open>getAsFile()\<close>, \<open>null\<close> dropped\<close>

definition handleFilesChosen :: "upload_file list \<Rightarrow> ce_state \<Rightarrow> ce_state" where
  "handleFilesChosen files s = (if files \<noteq> [] then handleImage files s else s)"

definition autosave_fire :: "ce_env \<Rightarrow> ce_state \<Rightarrow> ce_state" where
  "autosave_fire env s =
     (case saveTimer s of
        None \<Rightarrow> s
      | Some c \<Rightarrow>
          set_card (\<lambda>p. p\<lparr>card_modifiedAt := env_now env\<rparr>)
            (s\<lparr>ce_saveStatus := ''saved'', hasUnsavedChanges := False, originalData := Some c,
               origRev := Suc (origRev s), saveTimer := None\<rparr>))"
  \<comment> \<open>the timeout callback of the autosave effect, with the \<open>cardData\<close> it captured\<close>

subsection \<open>Events and runs\<close>

datatype ce_event =
    TitleInput string | ProjectSelect string | NewTagInput string | NewTagKey string
  | PredefinedTagClick string | RemoveTagClick string | ToggleCollapse
  | BoldClick | ItalicClick | HeaderClick | ListClick | LinkClick | ImageClick | TogglePreview
  | ContentInput string | FilesDropped "upload_file list"
  | Pasted "(string \<times> upload_file option) list" | FilesChosen "upload_file list"
  | ImageLoaded string
  | DuplicateClick | MoveDialogToggle | MoveProjectSelect string | MoveCancel | MoveConfirm
  | ArchiveClick | ShareDialogToggle | ShareClick string | DeleteClick
  | BackClick | ProjectCrumbClick | DashboardLinkClick | ProjectsLinkClick
  | AutoSaveTimeout

fun ce_handle :: "ce_env \<Rightarrow> ce_state \<Rightarrow> ce_event \<Rightarrow> ce_state" where
  "ce_handle env s (TitleInput v) = set_card (\<lambda>c. c\<lparr>card_title := v\<rparr>) s"
| "ce_handle env s (ProjectSelect v) = set_card (\<lambda>c. c\<lparr>card_project := v\<rparr>) s"
| "ce_handle env s (NewTagInput v) = s\<lparr>newTag := v\<rparr>"
| "ce_handle env s (NewTagKey k) = handleKeyPress k s"
| "ce_handle env s (PredefinedTagClick t) =
     (if t \<in> set predefinedTags then handleAddTag t s else s)"
| "ce_handle env s (RemoveTagClick t) = handleRemoveTag t s"
| "ce_handle env s ToggleCollapse = s\<lparr>isMetadataCollapsed := \<not> isMetadataCollapsed s\<rparr>"
| "ce_handle env s BoldClick = handleBold s"
| "ce_handle env s ItalicClick = handleItalic s"
| "ce_handle env s HeaderClick = handleHeader s"
| "ce_handle env s ListClick = handleList s"
| "ce_handle env s LinkClick = handleLink env s"
| "ce_handle env s ImageClick = ce_emit [OpenFilePicker] s"
| "ce_handle env s TogglePreview = s\<lparr>isPreviewMode := \<not> isPreviewMode s\<rparr>"
| "ce_handle env s (ContentInput v) = set_card (\<lambda>c. c\<lparr>card_content := v\<rparr>) s"
| "ce_handle env s (FilesDropped fs) = handleDrop fs s"
| "ce_handle env s (Pasted items) = handlePaste items s"
| "ce_handle env s (FilesChosen fs) = handleFilesChosen fs s"
| "ce_handle env s (ImageLoaded r) = image_loaded r s"
| "ce_handle env s DuplicateClick = handleDuplicate env s"
| "ce_handle env s MoveDialogToggle = s\<lparr>showMoveDialog := \<not> showMoveDialog s\<rparr>"
| "ce_handle env s (MoveProjectSelect v) = s\<lparr>moveProject := v\<rparr>"
| "ce_handle env s MoveCancel = s\<lparr>showMoveDialog := False\<rparr>"
| "ce_handle env s MoveConfirm = qa_handleMove s"
| "ce_handle env s ArchiveClick = handleArchive env s"
| "ce_handle env s ShareDialogToggle = s\<lparr>showShareDialog := \<not> showShareDialog s\<rparr>"
| "ce_handle env s (ShareClick t) = qa_handleShare env t s"
| "ce_handle env s DeleteClick = handleDelete env s"
| "ce_handle env s BackClick = breadcrumb_back env s"
| "ce_handle env s ProjectCrumbClick = handleProjectClick s"
| "ce_handle env s DashboardLinkClick = ce_emit [Navigate ''/dashboard-main-workspace''] s"
| "ce_handle env s ProjectsLinkClick = ce_emit [Navigate ''/project-detail-view''] s"
| "ce_handle env s AutoSaveTimeout = autosave_fire env s"
  \<comment> \<open>the handlers wired in the page's JSX and in its child components\<close>

definition ce_step :: "ce_env \<Rightarrow> ce_state \<Rightarrow> ce_event \<Rightarrow> ce_state" where
  "ce_step env s e = ce_settle (deps_of s) (ce_handle env s e)"
  \<comment> \<open>an event, then the renders and effects it causes\<close>

fun ce_run :: "(ce_env \<times> ce_event) list \<Rightarrow> ce_state \<Rightarrow> ce_state" where
  "ce_run [] s = s"
| "ce_run ((env, e) # es) s = ce_run es (ce_step env s e)"

inductive ce_reachable :: "ce_state \<Rightarrow> bool" where
  mount: "ce_reachable (ce_mount cardId now)"
| step: "ce_reachable s \<Longrightarrow> ce_reachable (ce_step env s e)"

subsection \<open>Views\<close>

definition save_status_label :: "string \<Rightarrow> string option" where
  "save_status_label st =
     (if st = ''saving'' then Some ''Saving...'' else if st = ''saved'' then Some ''Saved''
      else if st = ''error'' then Some ''Error saving'' else None)"
  \<comment> \<open>the status area of \<open>EditorToolbar\<close>\<close>

definition breadcrumb_view :: "ce_state \<Rightarrow> string \<times> string \<times> bool" where
  "breadcrumb_view s =
     (let pn = getProjectName (card_project (cardData s)); t = card_title (cardData s)
      in (if pn = [] then ''Unassigned'' else pn, if t = [] then ''Untitled Card'' else t,
          hasUnsavedChanges s))"
  \<comment> \<open>project crumb, title crumb and the \<open>Unsaved\<close> marker\<close>

datatype editor_view = Editable | PreviewHtml string | NoContentToPreview

definition editor_view :: "ce_state \<Rightarrow> editor_view" where
  "editor_view s =
     (if isPreviewMode s then
        (if card_content (cardData s) \<noteq> [] then PreviewHtml (card_content (cardData s))
         else NoContentToPreview)
      else Editable)"
  \<comment> \<open>\<open>renderPreview\<close> builds a markdown string and discards it: the preview
      shows the stored HTML\<close>

definition predefined_tag_disabled :: "ce_state \<Rightarrow> string \<Rightarrow> bool" where
  "predefined_tag_disabled s t = (t \<in> set (card_tags (cardData s)))"

record metadata_view =
  mv_toggleIcon :: string
  mv_bodyHidden :: bool
  mv_title :: string
  mv_project :: string
  mv_tagChips :: "string list"
  mv_newTag :: string
  mv_predefined :: "(string \<times> bool) list"
  mv_created :: string
  mv_modified :: string

definition metadata_view :: "ce_state \<Rightarrow> metadata_view" where
  "metadata_view s =
     \<lparr>mv_toggleIcon = (if isMetadataCollapsed s then ''ChevronDown'' else ''ChevronUp''),
      mv_bodyHidden = isMetadataCollapsed s,
      mv_title = card_title (cardData s), mv_project = card_project (cardData s),
      mv_tagChips = (if card_tags (cardData s) \<noteq> [] then card_tags (cardData s) else []),
      mv_newTag = newTag s,
      mv_predefined = map (\<lambda>t. (t, predefined_tag_disabled s t)) predefinedTags,
      mv_created = card_createdAt (cardData s), mv_modified = card_modifiedAt (cardData s)\<rparr>"
  \<comment> \<open>the \<open>CardMetadata\<close> panel: chips with a remove button each, predefined tags
      disabled when present; \<open>mv_bodyHidden\<close> is the \<open>hidden lg:block\<close> class\<close>

record quick_actions_view =
  qv_moveDialog :: "(string \<times> bool) option"
  qv_shareDialog :: bool
  qv_unsavedIndicator :: bool

definition quick_actions_view :: "ce_state \<Rightarrow> quick_actions_view" where
  "quick_actions_view s =
     \<lparr>qv_moveDialog = (if showMoveDialog s then Some (moveProject s, moveProject s = []) else None),
      qv_shareDialog = showShareDialog s, qv_unsavedIndicator = hasUnsavedChanges s\<rparr>"
  \<comment> \<open>the move dialog's selected project and its disabled \<open>Move\<close> button, the share
      menu, the \<open>Unsaved changes\<close> marker\<close>

definition formatButtons :: "(string \<times> ce_event \<times> string) list" where
  "formatButtons =
     [(''Bold'', BoldClick, ''Bold (Ctrl+B)''), (''Italic'', ItalicClick, ''Italic (Ctrl+I)''),
      (''Heading'', HeaderClick, ''Header''), (''List'', ListClick, ''List''),
      (''Link'', LinkClick, ''Link''), (''Image'', ImageClick, ''Image'')]"
  \<comment> \<open>\<open>EditorToolbar\<close>'s buttons: icon, the event its click raises, tooltip\<close>

definition preview_toggle_label :: "bool \<Rightarrow> string" where
  "preview_toggle_label p = (if p then ''Edit'' else ''Preview'')"

lemmas ce_handler_defs [handler_simps] =
  handleAddTag_def handleRemoveTag_def handleKeyPress_def handleDuplicate_def handleMove_def
  handleArchive_def handleShare_def handleDelete_def handleBack_def handleProjectClick_def
  breadcrumb_back_def qa_handleMove_def qa_handleShare_def handleLink_def handleImage_def
  image_loaded_def handleDrop_def handlePaste_def handleFilesChosen_def autosave_fire_def
  handleBold_def handleItalic_def handleHeader_def handleList_def

subsection \<open>Invariant\<close>

definition ce_inv :: "ce_state \<Rightarrow> bool" where
  "ce_inv s =
     (case originalData s of
        None \<Rightarrow> False
      | Some o' \<Rightarrow>
          hasUnsavedChanges s = card_changed (cardData s) o' \<and>
          saveTimer s = (if hasUnsavedChanges s then Some (cardData s) else None) \<and>
          (hasUnsavedChanges s \<longrightarrow> ce_saveStatus s = ''saving'') \<and>
          distinct (card_tags (cardData s)))"

definition ce_quiet :: "ce_state \<Rightarrow> ce_state \<Rightarrow> bool" where
  "ce_quiet s s' =
     (cardData s' = cardData s \<and> cardRev s' = cardRev s \<and> originalData s' = originalData s \<and>
      origRev s' = origRev s \<and> hasUnsavedChanges s' = hasUnsavedChanges s \<and>
      saveTimer s' = saveTimer s \<and> ce_saveStatus s' = ce_saveStatus s)"

definition ce_env0 :: ce_env where
  "ce_env0 = \<lparr>env_now = ''Feb 1, 2025, 10:00 AM'', env_confirm = False, env_prompt = None,
     env_origin = ''http://localhost:4028'', env_href = ''http://localhost:4028/card-editor?id=1''\<rparr>"

subsection \<open>Properties\<close>


lemma ce_settle_same [simp]: "ce_settle (deps_of s) s = s"
  by (simp add: ce_settle_def ce_commit_def deps_of_def)

lemma ce_settle_same_eq:
  "cr = cardRev s \<Longrightarrow> orr = origRev s \<Longrightarrow> hu = hasUnsavedChanges s \<Longrightarrow> ce_settle (cr, orr, hu) s = s"
  by (simp add: ce_settle_def ce_commit_def deps_of_def)

lemma ce_settle_changed:
  assumes "cr \<noteq> cardRev s" and "originalData s = Some o'"
  shows "ce_settle (cr, orr, hu) s =
    s\<lparr>ce_saveStatus := (if hasUnsavedChanges s \<or> card_changed (cardData s) o' then ''saving''
                         else ce_saveStatus s),
      hasUnsavedChanges := card_changed (cardData s) o',
      saveTimer := (if card_changed (cardData s) o' then Some (cardData s) else None)\<rparr>"
  using assms
  by (simp add: ce_settle_def ce_commit_def deps_of_def unsaved_effect_def autosave_effect_def)

lemma ce_settle_changed_the:
  assumes "cr \<noteq> cardRev s" and "originalData s \<noteq> None"
  shows "ce_settle (cr, orr, hu) s =
    (let h = card_changed (cardData s) (the (originalData s)) in
     s\<lparr>ce_saveStatus := (if hasUnsavedChanges s \<or> h then ''saving'' else ce_saveStatus s),
       hasUnsavedChanges := h, saveTimer := (if h then Some (cardData s) else None)\<rparr>)"
  using assms ce_settle_changed [of cr s] by (auto simp: Let_def)

lemma ce_inv_quiet:
  assumes "ce_inv s" and "ce_quiet s s'"
  shows "ce_inv (ce_settle (deps_of s) s') \<and> ce_settle (deps_of s) s' = s'"
proof -
  have "deps_of s = deps_of s'" using assms(2) by (simp add: ce_quiet_def deps_of_def)
  then show ?thesis using assms by (auto simp: ce_quiet_def ce_inv_def split: option.splits)
qed

lemma ce_inv_changed:
  assumes "cardRev s' \<noteq> cardRev s" and "originalData s' = Some o'"
    and "distinct (card_tags (cardData s'))"
  shows "ce_inv (ce_settle (deps_of s) s')"
  using assms by (simp add: deps_of_def ce_settle_changed ce_inv_def)

lemma card_changed_refl [simp]: "\<not> card_changed c c"
  by (simp add: card_changed_def)

lemma ce_inv_mount: "ce_inv (ce_mount cardId now)"
proof -
  have "distinct (card_tags (load_card cardId now))"
    by (simp add: load_card_def mockCards_def mock_card_1_def mock_card_2_def new_card_def
        split: option.splits)
  then show ?thesis
    by (simp add: ce_mount_def ce_initial_def Let_def ce_inv_changed)
qed

lemma ce_handle_cases:
  assumes "ce_inv s"
  shows "ce_quiet s (ce_handle env s e) \<or>
    (cardRev (ce_handle env s e) \<noteq> cardRev s \<and> originalData (ce_handle env s e) \<noteq> None \<and>
     distinct (card_tags (cardData (ce_handle env s e))))"
  using assms
  by (cases e) (auto simp: ce_handler_defs set_card_def ce_emit_def ce_quiet_def ce_inv_def
      Let_def split: option.splits if_splits)

lemma ce_step_inv: "ce_inv s \<Longrightarrow> ce_inv (ce_step env s e)"
  using ce_handle_cases [of s env e] ce_inv_quiet ce_inv_changed
  by (auto simp: ce_step_def)

lemma ce_reachable_inv: "ce_reachable s \<Longrightarrow> ce_inv s"
  by (induction rule: ce_reachable.induct) (simp_all add: ce_inv_mount ce_step_inv)

lemma ce_inv_timer: "ce_inv s \<Longrightarrow> hasUnsavedChanges s \<Longrightarrow> saveTimer s = Some (cardData s)"
  by (simp add: ce_inv_def split: option.splits)

lemma ce_mount_1:
  "ce_mount (Some ''1'') now =
     (ce_initial (Some ''1'') now)\<lparr>cardData := mock_card_1, cardRev := 1,
        originalData := Some mock_card_1, origRev := 1\<rparr>"
  by (simp add: ce_mount_def load_card_def mockCards_def ce_initial_def deps_of_def
      ce_settle_changed_the Let_def)

lemma ce_mount_1_title:
  "ce_step env (ce_mount (Some ''1'') now) (TitleInput ''Draft'') =
     (ce_initial (Some ''1'') now)\<lparr>cardData := mock_card_1\<lparr>card_title := ''Draft''\<rparr>, cardRev := 2,
        originalData := Some mock_card_1, origRev := 1, ce_saveStatus := ''saving'',
        hasUnsavedChanges := True, saveTimer := Some (mock_card_1\<lparr>card_title := ''Draft''\<rparr>)\<rparr>"
  by (simp add: ce_mount_1 ce_step_def set_card_def deps_of_def ce_initial_def card_changed_def
      mock_card_1_def ce_settle_changed_the Let_def)

text \<open>
  C29. In every reachable state of the card editor the dirty flag is exactly
  whether the card differs from the last saved copy in title, content, project or
  tags (tag order counts), and an autosave is pending, holding the current card,
  exactly when the flag is set.
\<close>

theorem reachable_dirty_iff_changed:
  assumes "ce_reachable s"
  shows "\<exists>o'. originalData s = Some o' \<and> hasUnsavedChanges s = card_changed (cardData s) o' \<and>
     saveTimer s = (if hasUnsavedChanges s then Some (cardData s) else None)"
  using ce_reachable_inv [OF assms] by (auto simp: ce_inv_def split: option.splits)

lemma reachable_dirty_iff_changed_witness:
  "ce_reachable (ce_step ce_env0 (ce_mount (Some ''1'') ''now'') (TitleInput ''Draft'')) \<and>
   originalData (ce_step ce_env0 (ce_mount (Some ''1'') ''now'') (TitleInput ''Draft'')) = Some mock_card_1 \<and>
   hasUnsavedChanges (ce_step ce_env0 (ce_mount (Some ''1'') ''now'') (TitleInput ''Draft''))"
proof -
  have r: "ce_reachable (ce_step ce_env0 (ce_mount (Some ''1'') ''now'') (TitleInput ''Draft''))"
    by (rule ce_reachable.step [OF ce_reachable.mount])
  show ?thesis using r reachable_dirty_iff_changed [OF r]
    by (simp add: ce_mount_1_title ce_initial_def)
qed

text \<open>
  C30. Autosave completes: in a reachable state with unsaved changes the pending
  timeout, when it fires, clears the flag, shows \<open>saved\<close>, records the card as
  the saved copy and stamps its modification time; nothing stays pending.
\<close>

theorem reachable_autosave_completes:
  assumes "ce_reachable s" and "hasUnsavedChanges s"
  shows "\<not> hasUnsavedChanges (ce_step env s AutoSaveTimeout) \<and>
    ce_saveStatus (ce_step env s AutoSaveTimeout) = ''saved'' \<and>
    saveTimer (ce_step env s AutoSaveTimeout) = None \<and>
    originalData (ce_step env s AutoSaveTimeout) = Some (cardData s) \<and>
    cardData (ce_step env s AutoSaveTimeout) = (cardData s)\<lparr>card_modifiedAt := env_now env\<rparr>"
proof -
  have t: "saveTimer s = Some (cardData s)"
    using ce_inv_timer [OF ce_reachable_inv [OF assms(1)] assms(2)] .
  show ?thesis
    using t by (simp add: ce_step_def autosave_fire_def set_card_def deps_of_def
        ce_settle_changed_the Let_def card_changed_def)
qed

lemma reachable_autosave_completes_witness:
  "ce_reachable (ce_step ce_env0 (ce_mount (Some ''1'') ''now'') (TitleInput ''Draft'')) \<and>
   hasUnsavedChanges (ce_step ce_env0 (ce_mount (Some ''1'') ''now'') (TitleInput ''Draft'')) \<and>
   ce_saveStatus (ce_step ce_env0 (ce_step ce_env0 (ce_mount (Some ''1'') ''now'') (TitleInput ''Draft''))
     AutoSaveTimeout) = ''saved''"
proof -
  have r: "ce_reachable (ce_step ce_env0 (ce_mount (Some ''1'') ''now'') (TitleInput ''Draft''))"
    by (rule ce_reachable.step [OF ce_reachable.mount])
  have h: "hasUnsavedChanges (ce_step ce_env0 (ce_mount (Some ''1'') ''now'') (TitleInput ''Draft''))"
    by (simp add: ce_mount_1_title)
  show ?thesis using r h reachable_autosave_completes [OF r h] by simp
qed

text \<open>
  C31. Reverting an edit before the autosave fires leaves the toolbar on
  \<open>Saving...\<close> for good: the flag is clear and no timeout is pending, so no later
  event but a further edit changes the status (the effect that sets
  \<open>saving\<close> runs once more with the stale flag and nothing resets it).
\<close>

theorem revert_edit_leaves_saving:
  assumes "ce_reachable s" and "\<not> hasUnsavedChanges s" and "v \<noteq> card_title (cardData s)"
  shows "ce_saveStatus (ce_run [(env, TitleInput v), (env', TitleInput (card_title (cardData s)))] s) = ''saving'' \<and>
    \<not> hasUnsavedChanges (ce_run [(env, TitleInput v), (env', TitleInput (card_title (cardData s)))] s) \<and>
    saveTimer (ce_run [(env, TitleInput v), (env', TitleInput (card_title (cardData s)))] s) = None \<and>
    ce_step env'' (ce_run [(env, TitleInput v), (env', TitleInput (card_title (cardData s)))] s) AutoSaveTimeout =
      ce_run [(env, TitleInput v), (env', TitleInput (card_title (cardData s)))] s"
proof -
  obtain o' where o: "originalData s = Some o'" and c: "\<not> card_changed (cardData s) o'"
    using ce_reachable_inv [OF assms(1)] assms(2) by (auto simp: ce_inv_def split: option.splits)
  have c1: "card_changed ((cardData s)\<lparr>card_title := v\<rparr>) o'"
    using c assms(3) by (simp add: card_changed_def)
  have c2: "\<not> card_changed ((cardData s)\<lparr>card_title := card_title (cardData s)\<rparr>) o'"
    using c by (simp add: card_changed_def)
  show ?thesis
    using o c1 c2 assms(2)
    by (simp add: ce_step_def set_card_def deps_of_def ce_settle_changed_the Let_def
        autosave_fire_def ce_settle_same_eq)
qed

lemma revert_edit_leaves_saving_witness:
  "ce_reachable (ce_mount (Some ''1'') ''now'') \<and> \<not> hasUnsavedChanges (ce_mount (Some ''1'') ''now'') \<and>
   ''Draft'' \<noteq> card_title (cardData (ce_mount (Some ''1'') ''now'')) \<and>
   save_status_label (ce_saveStatus (ce_run [(ce_env0, TitleInput ''Draft''),
      (ce_env0, TitleInput ''Research Methodology Overview'')] (ce_mount (Some ''1'') ''now''))) =
     Some ''Saving...''"
proof -
  have r: "ce_reachable (ce_mount (Some ''1'') ''now'')" by (rule ce_reachable.mount)
  have h: "\<not> hasUnsavedChanges (ce_mount (Some ''1'') ''now'')" "''Draft'' \<noteq> card_title (cardData (ce_mount (Some ''1'') ''now''))"
    by (simp_all add: ce_mount_1 ce_initial_def mock_card_1_def)
  have t: "card_title (cardData (ce_mount (Some ''1'') ''now'')) = ''Research Methodology Overview''"
    by (simp add: ce_mount_1 mock_card_1_def)
  show ?thesis
    using r h revert_edit_leaves_saving [OF r h, of ce_env0 ce_env0 ce_env0]
    by (simp only: t) (simp add: save_status_label_def)
qed

text \<open>
  C32. In every reachable state the card's tags are distinct: tags are added
  only when absent and non-empty, and removal filters.
\<close>

theorem reachable_tags_distinct:
  "ce_reachable s \<Longrightarrow> distinct (card_tags (cardData s))"
  by (drule ce_reachable_inv) (auto simp: ce_inv_def split: option.splits)

lemma reachable_tags_distinct_witness:
  "ce_reachable (ce_step ce_env0 (ce_mount (Some ''1'') ''now'') (PredefinedTagClick ''Research'')) \<and>
   distinct (card_tags (cardData (ce_step ce_env0 (ce_mount (Some ''1'') ''now'') (PredefinedTagClick ''Research'')))) \<and>
   card_tags (cardData (ce_step ce_env0 (ce_mount (Some ''1'') ''now'') (PredefinedTagClick ''Research''))) =
     [''Research'', ''Methodology'', ''Important'']"
proof -
  have r: "ce_reachable (ce_step ce_env0 (ce_mount (Some ''1'') ''now'') (PredefinedTagClick ''Research''))"
    by (rule ce_reachable.step [OF ce_reachable.mount])
  have q: "ce_handle ce_env0 (ce_mount (Some ''1'') ''now'') (PredefinedTagClick ''Research'') =
           ce_mount (Some ''1'') ''now''"
    by (simp add: ce_mount_1 handleAddTag_def mock_card_1_def predefinedTags_def)
  have "ce_step ce_env0 (ce_mount (Some ''1'') ''now'') (PredefinedTagClick ''Research'') =
        ce_mount (Some ''1'') ''now''"
    by (simp only: ce_step_def q ce_settle_same)
  then show ?thesis using r reachable_tags_distinct [OF r]
    by (simp add: ce_mount_1 mock_card_1_def)
qed

text \<open>
  The back button leaves the page (navigates to the dashboard) unless there
  are unsaved changes and the user declines the confirmation, in which case
  nothing changes.
\<close>

theorem back_asks_only_when_unsaved:
  "ce_step env s BackClick =
     (if hasUnsavedChanges s \<and> \<not> env_confirm env then s
      else s\<lparr>ce_log := ce_log s @ [Navigate ''/dashboard-main-workspace'']\<rparr>)"
  by (simp add: ce_step_def breadcrumb_back_def handleBack_def ce_emit_def ce_settle_same_eq deps_of_def)

text \<open>
  C34. Sharing by e-mail opens a \<open>mailto:\<close> URL whose subject parameter decodes to
  the card title exactly, whatever characters the title holds: the encoded subject
  contains no \<open>&\<close> that could end the parameter early.
\<close>

theorem share_email_subject_roundtrip:
  "\<exists>subj body. ce_step env s (ShareClick ''email'') =
      s\<lparr>showShareDialog := False,
        ce_log := ce_log s @ [OpenWindow (''mailto:?subject='' @ subj @ ''&body='' @ body)]\<rparr> \<and>
      uri_decode subj = card_title (cardData s) \<and> CHR ''&'' \<notin> set subj"
  by (rule exI [where x = "encodeURIComponent (card_title (cardData s))"],
      rule exI [where x = "encodeURIComponent (''Check out this card: '' @ env_href env)"])
     (simp add: ce_step_def qa_handleShare_def handleShare_def ce_emit_def ce_settle_same_eq
      deps_of_def uri_decode_encode encode_no_amp)

text \<open>
  Duplicating makes the copy the saved baseline: the card becomes the copy
  (id \<open>new\<close>, title with \<open> (Copy)\<close>), the dirty flag is clear and a pending
  autosave of unsaved edits is cancelled, so those edits are never saved.
\<close>

theorem duplicate_discards_pending_save:
  assumes "ce_reachable s"
  shows "cardData (ce_step env s DuplicateClick) =
      (cardData s)\<lparr>card_id := ''new'', card_title := card_title (cardData s) @ '' (Copy)'',
                   card_createdAt := env_now env\<rparr> \<and>
    originalData (ce_step env s DuplicateClick) = Some (cardData (ce_step env s DuplicateClick)) \<and>
    \<not> hasUnsavedChanges (ce_step env s DuplicateClick) \<and>
    saveTimer (ce_step env s DuplicateClick) = None"
  using assms
  by (simp add: ce_step_def handleDuplicate_def ce_emit_def deps_of_def ce_settle_changed_the Let_def)

lemma duplicate_discards_pending_save_witness:
  "ce_reachable (ce_step ce_env0 (ce_mount (Some ''1'') ''now'') (TitleInput ''Draft'')) \<and>
   saveTimer (ce_step ce_env0 (ce_mount (Some ''1'') ''now'') (TitleInput ''Draft'')) \<noteq> None \<and>
   saveTimer (ce_step ce_env0 (ce_step ce_env0 (ce_mount (Some ''1'') ''now'') (TitleInput ''Draft''))
     DuplicateClick) = None \<and>
   card_title (cardData (ce_step ce_env0 (ce_step ce_env0 (ce_mount (Some ''1'') ''now'') (TitleInput ''Draft''))
     DuplicateClick)) = ''Draft (Copy)''"
proof -
  have r: "ce_reachable (ce_step ce_env0 (ce_mount (Some ''1'') ''now'') (TitleInput ''Draft''))"
    by (rule ce_reachable.step [OF ce_reachable.mount])
  show ?thesis using r duplicate_discards_pending_save [OF r, of ce_env0]
    by (simp add: ce_mount_1_title)
qed

end
