(* ===== verification/SettingsSections.thy ===== *)
theory SettingsSections
  imports Prelude
begin

text \<open>
  The sections of the settings page (\<open>pages/profile-and-settings/components/\<close>):
  account security (\<open>SecuritySection.jsx\<close>), data management (\<open>DataSection.jsx\<close>),
  notification preferences (\<open>NotificationSection.jsx\<close>), the profile
  (\<open>ProfileSection.jsx\<close>) and billing (\<open>BillingSection.jsx\<close>). Each section is a
  state record with its \<open>useState\<close> initial values, one definition per handler,
  an event type for the controls its JSX renders, a step function in which a
  control that is not rendered (or is disabled) cannot fire, and a view of what
  it renders (for billing also the current plan, payment method, address and cancel
  dialog cards). Objects updated with \<open>{ ...prev, [key]: value }\<close> are association
  lists updated by \<open>obj_set\<close>. \<open>alert\<close> and \<open>console.log\<close> calls are appended to a
  log. The display section, which also touches the document and
  \<open>localStorage\<close>, is in \<open>SettingsDisplay\<close>.
\<close>

datatype settings_effect = SAlert string | ConsoleLog string | StorageSet string string

subsection \<open>Account security\<close>

record session =
  sess_id :: int
  sess_device :: string
  sess_browser :: string
  sess_location :: string
  sess_ipAddress :: string
  sess_lastActive :: string
  sess_current :: bool

definition activeSessions :: "session list" where
  "activeSessions =
     [\<lparr>sess_id = 1, sess_device = ''MacBook Pro'', sess_browser = ''Chrome 119.0'',
       sess_location = ''New York, NY'', sess_ipAddress = ''192.168.1.100'',
       sess_lastActive = ''2 minutes ago'', sess_current = True\<rparr>,
      \<lparr>sess_id = 2, sess_device = ''iPhone 15 Pro'', sess_browser = ''Safari Mobile'',
       sess_location = ''New York, NY'', sess_ipAddress = ''192.168.1.101'',
       sess_lastActive = ''1 hour ago'', sess_current = False\<rparr>,
      \<lparr>sess_id = 3, sess_device = ''iPad Air'', sess_browser = ''Safari'',
       sess_location = ''Boston, MA'', sess_ipAddress = ''10.0.0.45'',
       sess_lastActive = ''3 days ago'', sess_current = False\<rparr>]"

record security_state =
  passwordData :: "(string \<times> string) list"
  twoFactorEnabled :: bool
  showQRCode :: bool
  backupCodes :: "string list"
  sec_log :: "settings_effect list"

definition empty_password_data :: "(string \<times> string) list" where
  "empty_password_data = [(''currentPassword'', []), (''newPassword'', []), (''confirmPassword'', [])]"

definition security_init :: security_state where
  "security_init = \<lparr>passwordData = empty_password_data, twoFactorEnabled = False,
     showQRCode = False, backupCodes = [], sec_log = []\<rparr>"

definition handlePasswordChange :: "string \<Rightarrow> string \<Rightarrow> security_state \<Rightarrow> security_state" where
  "handlePasswordChange field value s = s\<lparr>passwordData := obj_set field value (passwordData s)\<rparr>"

definition handlePasswordSubmit :: "security_state \<Rightarrow> security_state" where
  "handlePasswordSubmit s =
     (if obj_get ''newPassword'' (passwordData s) \<noteq> obj_get ''confirmPassword'' (passwordData s)
      then s\<lparr>sec_log := sec_log s @ [SAlert ''New passwords do not match'']\<rparr>
      else s\<lparr>sec_log := sec_log s @ [ConsoleLog ''Password changed successfully''],
             passwordData := empty_password_data\<rparr>)"
  \<comment> \<open>only the two new entries are compared; the current password is not checked\<close>

definition mockBackupCodes :: "string list" where
  "mockBackupCodes = [''A1B2-C3D4-E5F6'', ''G7H8-I9J0-K1L2'', ''M3N4-O5P6-Q7R8'',
     ''S9T0-U1V2-W3X4'', ''Y5Z6-A7B8-C9D0'']"

definition handleEnable2FA :: "security_state \<Rightarrow> security_state" where
  "handleEnable2FA s = s\<lparr>twoFactorEnabled := True, showQRCode := True, backupCodes := mockBackupCodes\<rparr>"

definition handleDisable2FA :: "security_state \<Rightarrow> security_state" where
  "handleDisable2FA s = s\<lparr>twoFactorEnabled := False, showQRCode := False, backupCodes := []\<rparr>"

definition handleTerminateSession :: "int \<Rightarrow> security_state \<Rightarrow> security_state" where
  "handleTerminateSession sessionId s =
     s\<lparr>sec_log := sec_log s @ [ConsoleLog (''Terminating session: '' @ js_string_of_int sessionId)]\<rparr>"
  \<comment> \<open>logs only: the session list is a constant\<close>

definition getDeviceIcon :: "string \<Rightarrow> string" where
  "getDeviceIcon device =
     (if str_includes device ''iPhone'' \<or> str_includes device ''Android'' then ''Smartphone''
      else if str_includes device ''iPad'' \<or> str_includes device ''Tablet'' then ''Tablet''
      else ''Monitor'')"

definition js_falsy_str :: "string option \<Rightarrow> bool" where
  "js_falsy_str v = (v = None \<or> v = Some [])"
  \<comment> \<open>\<open>!v\<close> on a string that may be \<open>undefined\<close>\<close>

definition password_submit_disabled :: "security_state \<Rightarrow> bool" where
  "password_submit_disabled s =
     (js_falsy_str (obj_get ''currentPassword'' (passwordData s)) \<or>
      js_falsy_str (obj_get ''newPassword'' (passwordData s)) \<or>
      js_falsy_str (obj_get ''confirmPassword'' (passwordData s)))"

datatype security_event =
    PasswordInput string string | UpdatePasswordClick | Enable2FAClick | RegenerateCodesClick
  | Disable2FAClick | TerminateClick int | SignOutAllClick

fun security_step :: "security_state \<Rightarrow> security_event \<Rightarrow> security_state" where
  "security_step s (PasswordInput field v) =
     (if field \<in> {''currentPassword'', ''newPassword'', ''confirmPassword''}
      then handlePasswordChange field v s else s)"
| "security_step s UpdatePasswordClick =
     (if password_submit_disabled s then s else handlePasswordSubmit s)"
| "security_step s Enable2FAClick = (if twoFactorEnabled s then s else handleEnable2FA s)"
| "security_step s RegenerateCodesClick =
     (if twoFactorEnabled s then s\<lparr>showQRCode := \<not> showQRCode s\<rparr> else s)"
| "security_step s Disable2FAClick = (if twoFactorEnabled s then handleDisable2FA s else s)"
| "security_step s (TerminateClick i) =
     (if list_ex (\<lambda>x. sess_id x = i \<and> \<not> sess_current x) activeSessions
      then handleTerminateSession i s else s)"
| "security_step s SignOutAllClick = s"
  \<comment> \<open>a control that is not rendered or is disabled cannot fire; the
      \<open>Sign Out All Other Sessions\<close> button has no handler\<close>

record security_view =
  sv_status :: string
  sv_enableButton :: bool
  sv_setupPanel :: bool
  sv_backupCodes :: "string list"
  sv_updateDisabled :: bool
  sv_sessions :: "(string \<times> string \<times> bool \<times> string \<times> string \<times> bool) list"

definition session_row :: "session \<Rightarrow> string \<times> string \<times> bool \<times> string \<times> string \<times> bool" where
  "session_row x =
     (getDeviceIcon (sess_device x), sess_device x, sess_current x, sess_browser x,
      sess_location x @ '' '' @ bullet @ '' '' @ sess_ipAddress x @ '' '' @ bullet @ '' '' @
        sess_lastActive x,
      \<not> sess_current x)"
  \<comment> \<open>icon, device, \<open>Current\<close> badge, browser, details line, \<open>Terminate\<close> button\<close>

definition security_view :: "security_state \<Rightarrow> security_view" where
  "security_view s =
     \<lparr>sv_status = (if twoFactorEnabled s then ''Enabled'' else ''Disabled''),
      sv_enableButton = \<not> twoFactorEnabled s,
      sv_setupPanel = twoFactorEnabled s \<and> showQRCode s,
      sv_backupCodes = (if twoFactorEnabled s \<and> backupCodes s \<noteq> [] then backupCodes s else []),
      sv_updateDisabled = password_submit_disabled s,
      sv_sessions = map session_row activeSessions\<rparr>"

subsection \<open>Data management\<close>

record storage_usage =
  su_used :: real
  su_total :: real
  su_cards :: real
  su_whiteboards :: real
  su_attachments :: real
  su_other :: real

definition storageUsage :: storage_usage where
  "storageUsage = \<lparr>su_used = 2.4, su_total = 10, su_cards = 1.2, su_whiteboards = 0.8,
     su_attachments = 0.3, su_other = 0.1\<rparr>"
  \<comment> \<open>a \<open>useState\<close> whose setter is never taken: a constant\<close>

record data_state =
  exportFormat :: string
  exportOptions :: "(string \<times> bool) list"
  autoBackup :: "(string \<times> js_val) list"
  deleteConfirmation :: string
  showDeleteModal :: bool
  data_log :: "settings_effect list"

definition data_init :: data_state where
  "data_init =
     \<lparr>exportFormat = ''json'',
      exportOptions = [(''includeCards'', True), (''includeWhiteboards'', True),
        (''includeComments'', False), (''includeAttachments'', True), (''includeMetadata'', True)],
      autoBackup = [(''enabled'', JBool True), (''frequency'', JStr ''weekly''), (''retentionDays'', JNum 30)],
      deleteConfirmation = [], showDeleteModal = False, data_log = []\<rparr>"

definition exportFormatOptions :: "(string \<times> string \<times> string) list" where
  "exportFormatOptions =
     [(''json'', ''JSON'', ''Machine-readable format for developers''),
      (''csv'', ''CSV'', ''Spreadsheet-compatible format''),
      (''pdf'', ''PDF'', ''Human-readable document format''),
      (''markdown'', ''Markdown'', ''Text format with formatting'')]"

definition backupFrequencyOptions :: "(string \<times> string) list" where
  "backupFrequencyOptions = [(''daily'', ''Daily''), (''weekly'', ''Weekly''), (''monthly'', ''Monthly'')]"

definition retentionOptions :: "(int \<times> string) list" where
  "retentionOptions = [(7, ''7 days''), (30, ''30 days''), (90, ''90 days''), (365, ''1 year'')]"

definition handleExportOptionChange :: "string \<Rightarrow> bool \<Rightarrow> data_state \<Rightarrow> data_state" where
  "handleExportOptionChange key checked s = s\<lparr>exportOptions := obj_set key checked (exportOptions s)\<rparr>"

definition handleExportData :: "data_state \<Rightarrow> data_state" where
  "handleExportData s =
     s\<lparr>data_log := data_log s @
        [ConsoleLog ''Exporting data with options:'',
         SAlert (''Export started! Your data will be downloaded as '' @ toUpperCase (exportFormat s) @
                 '' format.'')]\<rparr>"

definition handleBackupSettingChange :: "string \<Rightarrow> js_val \<Rightarrow> data_state \<Rightarrow> data_state" where
  "handleBackupSettingChange key value s = s\<lparr>autoBackup := obj_set key value (autoBackup s)\<rparr>"

definition delete_phrase :: string where
  "delete_phrase = ''DELETE MY ACCOUNT''"

definition deletion_submitted_msg :: string where
  "deletion_submitted_msg = ''Account deletion request submitted. You will receive a confirmation email.''"

definition handleDeleteAccount :: "data_state \<Rightarrow> data_state" where
  "handleDeleteAccount s =
     (if deleteConfirmation s \<noteq> delete_phrase
      then s\<lparr>data_log := data_log s @ [SAlert (''Please type '' @ [CHR 0x22] @ delete_phrase @ [CHR 0x22] @
                                              '' to confirm'')]\<rparr>
      else s\<lparr>data_log := data_log s @ [ConsoleLog ''Account deletion requested'', SAlert deletion_submitted_msg],
             showDeleteModal := False\<rparr>)"
  \<comment> \<open>closes the dialog without clearing the typed confirmation\<close>

definition getStoragePercentage :: real where
  "getStoragePercentage = su_used storageUsage / su_total storageUsage * 100"

definition getStorageColor :: "real \<Rightarrow> string" where
  "getStorageColor percentage =
     (if percentage > 90 then ''bg-destructive'' else if percentage > 75 then ''bg-warning''
      else ''bg-primary'')"
  \<comment> \<open>applied to \<open>getStoragePercentage()\<close>\<close>

definition backup_enabled :: "data_state \<Rightarrow> bool" where
  "backup_enabled s = (obj_get ''enabled'' (autoBackup s) = Some (JBool True))"
  \<comment> \<open>\<open>autoBackup.enabled &&\<close>: the flag is only ever a boolean\<close>

datatype data_event =
    FormatSelect string | ExportOptionToggle string bool | ExportClick
  | BackupToggle bool | BackupFrequencySelect string | RetentionSelect int
  | DeleteAccountClick | ConfirmationInput string | DeleteCancel | DeleteConfirmClick

fun data_step :: "data_state \<Rightarrow> data_event \<Rightarrow> data_state" where
  "data_step s (FormatSelect v) = s\<lparr>exportFormat := v\<rparr>"
| "data_step s (ExportOptionToggle k b) =
     (if k \<in> set (map fst (exportOptions data_init)) then handleExportOptionChange k b s else s)"
| "data_step s ExportClick = handleExportData s"
| "data_step s (BackupToggle b) = handleBackupSettingChange ''enabled'' (JBool b) s"
| "data_step s (BackupFrequencySelect v) =
     (if backup_enabled s then handleBackupSettingChange ''frequency'' (JStr v) s else s)"
| "data_step s (RetentionSelect n) =
     (if backup_enabled s then handleBackupSettingChange ''retentionDays'' (JNum n) s else s)"
| "data_step s DeleteAccountClick = s\<lparr>showDeleteModal := True\<rparr>"
| "data_step s (ConfirmationInput v) = (if showDeleteModal s then s\<lparr>deleteConfirmation := v\<rparr> else s)"
| "data_step s DeleteCancel =
     (if showDeleteModal s then s\<lparr>showDeleteModal := False, deleteConfirmation := []\<rparr> else s)"
| "data_step s DeleteConfirmClick =
     (if showDeleteModal s \<and> deleteConfirmation s = delete_phrase then handleDeleteAccount s else s)"
  \<comment> \<open>the dialog's controls exist only while it is shown; \<open>Delete Account\<close> is
      disabled until the phrase is typed\<close>

record data_view =
  dv_percentText :: int
  dv_barColor :: string
  dv_barWidth :: real
  dv_backupSelects :: "(string \<times> int) option"
  dv_modal :: "(string \<times> bool) option"

definition data_view :: "data_state \<Rightarrow> data_view" where
  "data_view s =
     \<lparr>dv_percentText = js_round getStoragePercentage,
      dv_barColor = getStorageColor getStoragePercentage,
      dv_barWidth = getStoragePercentage,
      dv_backupSelects =
        (if backup_enabled s then
           (case (obj_get ''frequency'' (autoBackup s), obj_get ''retentionDays'' (autoBackup s)) of
              (Some (JStr f), Some (JNum n)) \<Rightarrow> Some (f, n)
            | _ \<Rightarrow> None)
         else None),
      dv_modal = (if showDeleteModal s then Some (deleteConfirmation s, deleteConfirmation s \<noteq> delete_phrase)
                  else None)\<rparr>"
  \<comment> \<open>the usage bar, the backup selects shown while backups are on, and the
      dialog's input with the disabled state of its \<open>Delete Account\<close> button\<close>

subsection \<open>Notification preferences\<close>

record notification_state =
  emailNotifications :: "(string \<times> bool) list"
  pushNotifications :: "(string \<times> bool) list"
  inAppNotifications :: "(string \<times> bool) list"
  digestFrequency :: string
  quietHours :: "(string \<times> js_val) list"
  ns_log :: "settings_effect list"

definition notification_init :: notification_state where
  "notification_init =
     \<lparr>emailNotifications = [(''projectUpdates'', True), (''cardComments'', True),
        (''whiteboardShares'', False), (''weeklyDigest'', True), (''systemUpdates'', True),
        (''securityAlerts'', True), (''collaborationInvites'', True), (''deadlineReminders'', False)],
      pushNotifications = [(''instantMessages'', True), (''cardMentions'', True),
        (''projectDeadlines'', True), (''systemMaintenance'', False), (''newFeatures'', False)],
      inAppNotifications = [(''soundEnabled'', True), (''desktopNotifications'', True),
        (''badgeCount'', True), (''autoMarkRead'', False)],
      digestFrequency = ''weekly'',
      quietHours = [(''enabled'', JBool True), (''startTime'', JStr ''22:00''), (''endTime'', JStr ''08:00'')],
      ns_log = []\<rparr>"

definition digestOptions :: "(string \<times> string) list" where
  "digestOptions = [(''daily'', ''Daily''), (''weekly'', ''Weekly''), (''monthly'', ''Monthly''),
     (''never'', ''Never'')]"

definition handleEmailChange :: "string \<Rightarrow> bool \<Rightarrow> notification_state \<Rightarrow> notification_state" where
  "handleEmailChange key checked s = s\<lparr>emailNotifications := obj_set key checked (emailNotifications s)\<rparr>"

definition handlePushChange :: "string \<Rightarrow> bool \<Rightarrow> notification_state \<Rightarrow> notification_state" where
  "handlePushChange key checked s = s\<lparr>pushNotifications := obj_set key checked (pushNotifications s)\<rparr>"

definition handleInAppChange :: "string \<Rightarrow> bool \<Rightarrow> notification_state \<Rightarrow> notification_state" where
  "handleInAppChange key checked s = s\<lparr>inAppNotifications := obj_set key checked (inAppNotifications s)\<rparr>"

definition handleQuietHoursChange :: "string \<Rightarrow> js_val \<Rightarrow> notification_state \<Rightarrow> notification_state" where
  "handleQuietHoursChange key value s = s\<lparr>quietHours := obj_set key value (quietHours s)\<rparr>"

definition handleTestNotification :: "notification_state \<Rightarrow> notification_state" where
  "handleTestNotification s =
     s\<lparr>ns_log := ns_log s @ [SAlert ''Test notification sent! Check your email and push notifications.'']\<rparr>"

definition ns_handleSaveSettings :: "notification_state \<Rightarrow> notification_state" where
  "ns_handleSaveSettings s = s\<lparr>ns_log := ns_log s @ [ConsoleLog ''Notification settings saved:'']\<rparr>"
  \<comment> \<open>logs only: nothing is stored\<close>

definition email_checkboxes :: "(string \<times> string \<times> string) list" where
  "email_checkboxes =
     [(''projectUpdates'', ''Project Updates'', ''When projects you're involved in are updated''),
      (''cardComments'', ''Card Comments'', ''When someone comments on your cards''),
      (''whiteboardShares'', ''Whiteboard Shares'', ''When whiteboards are shared with you''),
      (''weeklyDigest'', ''Weekly Digest'', ''Summary of your weekly activity''),
      (''systemUpdates'', ''System Updates'', ''Important system announcements''),
      (''securityAlerts'', ''Security Alerts'', ''Account security notifications''),
      (''collaborationInvites'', ''Collaboration Invites'', ''When you're invited to collaborate''),
      (''deadlineReminders'', ''Deadline Reminders'', ''Reminders for upcoming deadlines'')]"

definition push_checkboxes :: "(string \<times> string \<times> string) list" where
  "push_checkboxes =
     [(''instantMessages'', ''Instant Messages'', ''Real-time chat messages''),
      (''cardMentions'', ''Card Mentions'', ''When you're mentioned in cards''),
      (''projectDeadlines'', ''Project Deadlines'', ''Upcoming project deadlines''),
      (''systemMaintenance'', ''System Maintenance'', ''Scheduled maintenance notifications''),
      (''newFeatures'', ''New Features'', ''Announcements about new features'')]"

definition inapp_checkboxes :: "(string \<times> string \<times> string) list" where
  "inapp_checkboxes =
     [(''soundEnabled'', ''Sound Notifications'', ''Play sound for new notifications''),
      (''desktopNotifications'', ''Desktop Notifications'', ''Show browser notifications''),
      (''badgeCount'', ''Badge Count'', ''Show notification count in browser tab''),
      (''autoMarkRead'', ''Auto Mark as Read'', ''Automatically mark notifications as read when viewed'')]"

datatype notification_event =
    EmailToggle string bool | PushToggle string bool | InAppToggle string bool
  | DigestSelect string | QuietToggle bool | QuietStart string | QuietEnd string
  | TestNotificationClick | SaveNotificationsClick

definition quiet_enabled :: "notification_state \<Rightarrow> bool" where
  "quiet_enabled s = (obj_get ''enabled'' (quietHours s) = Some (JBool True))"

fun notification_step :: "notification_state \<Rightarrow> notification_event \<Rightarrow> notification_state" where
  "notification_step s (EmailToggle k b) =
     (if k \<in> set (map fst email_checkboxes) then handleEmailChange k b s else s)"
| "notification_step s (PushToggle k b) =
     (if k \<in> set (map fst push_checkboxes) then handlePushChange k b s else s)"
| "notification_step s (InAppToggle k b) =
     (if k \<in> set (map fst inapp_checkboxes) then handleInAppChange k b s else s)"
| "notification_step s (DigestSelect v) = s\<lparr>digestFrequency := v\<rparr>"
| "notification_step s (QuietToggle b) = handleQuietHoursChange ''enabled'' (JBool b) s"
| "notification_step s (QuietStart t) =
     (if quiet_enabled s then handleQuietHoursChange ''startTime'' (JStr t) s else s)"
| "notification_step s (QuietEnd t) =
     (if quiet_enabled s then handleQuietHoursChange ''endTime'' (JStr t) s else s)"
| "notification_step s TestNotificationClick = handleTestNotification s"
| "notification_step s SaveNotificationsClick = ns_handleSaveSettings s"

definition checkbox_rows ::
  "(string \<times> string \<times> string) list \<Rightarrow> (string \<times> bool) list \<Rightarrow> (string \<times> string \<times> bool option) list" where
  "checkbox_rows boxes obj = map (\<lambda>(k, l, d). (l, d, obj_get k obj)) boxes"
  \<comment> \<open>label, description, \<open>checked={obj.key}\<close>\<close>

record notification_view =
  nv_email :: "(string \<times> string \<times> bool option) list"
  nv_push :: "(string \<times> string \<times> bool option) list"
  nv_inapp :: "(string \<times> string \<times> bool option) list"
  nv_digest :: string
  nv_quietTimes :: "(js_val option \<times> js_val option) option"

definition notification_view :: "notification_state \<Rightarrow> notification_view" where
  "notification_view s =
     \<lparr>nv_email = checkbox_rows email_checkboxes (emailNotifications s),
      nv_push = checkbox_rows push_checkboxes (pushNotifications s),
      nv_inapp = checkbox_rows inapp_checkboxes (inAppNotifications s),
      nv_digest = digestFrequency s,
      nv_quietTimes = (if quiet_enabled s
                       then Some (obj_get ''startTime'' (quietHours s), obj_get ''endTime'' (quietHours s))
                       else None)\<rparr>"

subsection \<open>Profile\<close>

record profile_state =
  profileData :: "(string \<times> string) list"
  profileEditing :: bool
  avatarFile :: "string option"
  showCropModal :: bool
  ps_log :: "settings_effect list"

definition profile_init :: profile_state where
  "profile_init =
     \<lparr>profileData = [(''firstName'', ''Dr. Sarah''), (''lastName'', ''Chen''),
        (''email'', ''sarah.chen@university.edu''),
        (''bio'', ''Research scientist specializing in cognitive psychology and learning methodologies. Currently working on visual knowledge representation systems and their impact on complex topic comprehension.''),
        (''timezone'', ''America/New_York''),
        (''avatar'', ''https://images.unsplash.com/photo-1494790108755-2616b612b786?w=150&h=150&fit=crop&crop=face'')],
      profileEditing = False, avatarFile = None, showCropModal = False, ps_log = []\<rparr>"

definition timezoneOptions :: "(string \<times> string) list" where
  "timezoneOptions =
     [(''America/New_York'', ''Eastern Time (ET)''), (''America/Chicago'', ''Central Time (CT)''),
      (''America/Denver'', ''Mountain Time (MT)''), (''America/Los_Angeles'', ''Pacific Time (PT)''),
      (''Europe/London'', ''Greenwich Mean Time (GMT)''), (''Europe/Paris'', ''Central European Time (CET)''),
      (''Asia/Tokyo'', ''Japan Standard Time (JST)''), (''Asia/Shanghai'', ''China Standard Time (CST)''),
      (''Australia/Sydney'', ''Australian Eastern Time (AET)'')]"

definition handleInputChange :: "string \<Rightarrow> string \<Rightarrow> profile_state \<Rightarrow> profile_state" where
  "handleInputChange field value s = s\<lparr>profileData := obj_set field value (profileData s)\<rparr>"

definition handleAvatarUpload :: "string option \<Rightarrow> profile_state \<Rightarrow> profile_state" where
  "handleAvatarUpload file s =
     (case file of None \<Rightarrow> s | Some f \<Rightarrow> s\<lparr>avatarFile := Some f, showCropModal := True\<rparr>)"
  \<comment> \<open>\<open>e.target.files[0]\<close>, \<open>None\<close> when the picker is dismissed\<close>

definition ps_handleSave :: "profile_state \<Rightarrow> profile_state" where
  "ps_handleSave s = s\<lparr>profileEditing := False, ps_log := ps_log s @ [ConsoleLog ''Profile saved:'']\<rparr>"

definition ps_handleCancel :: "profile_state \<Rightarrow> profile_state" where
  "ps_handleCancel s = s\<lparr>profileEditing := False\<rparr>"
  \<comment> \<open>the edits stay: the source defers the reset to a real implementation\<close>

datatype profile_event =
    EditProfileClick | ProfileInput string string | AvatarChosen "string option"
  | ProfileCancel | ProfileSave | CropCancel | CropApply

fun profile_step :: "profile_state \<Rightarrow> profile_event \<Rightarrow> profile_state" where
  "profile_step s EditProfileClick = (if profileEditing s then s else s\<lparr>profileEditing := True\<rparr>)"
| "profile_step s (ProfileInput field v) =
     (if profileEditing s \<and> field \<in> {''firstName'', ''lastName'', ''email'', ''bio'', ''timezone''}
      then handleInputChange field v s else s)"
| "profile_step s (AvatarChosen f) = handleAvatarUpload f s"
| "profile_step s ProfileCancel = (if profileEditing s then ps_handleCancel s else s)"
| "profile_step s ProfileSave = (if profileEditing s then ps_handleSave s else s)"
| "profile_step s CropCancel = (if showCropModal s then s\<lparr>showCropModal := False\<rparr> else s)"
| "profile_step s CropApply = (if showCropModal s then s\<lparr>showCropModal := False\<rparr> else s)"
  \<comment> \<open>inputs are \<open>disabled={!isEditing}\<close>; the action buttons exist only while
      editing; both buttons of the crop dialog only close it\<close>

record profile_view =
  pv_editButton :: bool
  pv_avatar :: "string option"
  pv_uploadControls :: bool
  pv_fields :: "(string \<times> string option \<times> bool) list"
  pv_actions :: bool
  pv_cropModal :: bool

definition profile_view :: "profile_state \<Rightarrow> profile_view" where
  "profile_view s =
     \<lparr>pv_editButton = \<not> profileEditing s,
      pv_avatar = obj_get ''avatar'' (profileData s),
      pv_uploadControls = profileEditing s,
      pv_fields = map (\<lambda>(k, l). (l, obj_get k (profileData s), \<not> profileEditing s))
        [(''firstName'', ''First Name''), (''lastName'', ''Last Name''), (''email'', ''Email Address''),
         (''bio'', ''Bio''), (''timezone'', ''Timezone'')],
      pv_actions = profileEditing s, pv_cropModal = showCropModal s\<rparr>"
  \<comment> \<open>each field with its value and its disabled state\<close>

subsection \<open>Billing\<close>

record plan =
  plan_name :: string
  plan_price :: int
  plan_billing :: string
  plan_features :: "string list"
  plan_current :: bool

definition currentPlan :: plan where
  "currentPlan = \<lparr>plan_name = ''Professional'', plan_price = 15, plan_billing = ''monthly'',
     plan_features = [''Unlimited cards and whiteboards'', ''Advanced collaboration tools'',
       ''Priority support'', ''50GB storage'', ''Export in all formats'', ''Advanced analytics''],
     plan_current = True\<rparr>"

definition plans :: "plan list" where
  "plans =
     [\<lparr>plan_name = ''Free'', plan_price = 0, plan_billing = ''forever'',
       plan_features = [''10 cards per project'', ''1 whiteboard'', ''Basic collaboration'',
         ''1GB storage'', ''Community support''], plan_current = False\<rparr>,
      currentPlan,
      \<lparr>plan_name = ''Team'', plan_price = 45, plan_billing = ''monthly'',
       plan_features = [''Everything in Professional'', ''Team management'', ''Advanced permissions'',
         ''200GB storage'', ''Custom integrations'', ''Dedicated support''], plan_current = False\<rparr>]"
  \<comment> \<open>the Professional entry repeats \<open>currentPlan\<close>'s fields with \<open>current: true\<close>\<close>

record invoice =
  inv_id :: int
  inv_date :: string
  inv_description :: string
  inv_amount :: int
  inv_status :: string
  inv_number :: string

definition billingHistory :: "invoice list" where
  "billingHistory =
     [\<lparr>inv_id = 1, inv_date = ''2025-01-01'', inv_description = ''Professional Plan - Monthly'',
       inv_amount = 1500, inv_status = ''paid'', inv_number = ''INV-2025-001''\<rparr>,
      \<lparr>inv_id = 2, inv_date = ''2024-12-01'', inv_description = ''Professional Plan - Monthly'',
       inv_amount = 1500, inv_status = ''paid'', inv_number = ''INV-2024-012''\<rparr>,
      \<lparr>inv_id = 3, inv_date = ''2024-11-01'', inv_description = ''Professional Plan - Monthly'',
       inv_amount = 1500, inv_status = ''paid'', inv_number = ''INV-2024-011''\<rparr>,
      \<lparr>inv_id = 4, inv_date = ''2024-10-01'', inv_description = ''Professional Plan - Monthly'',
       inv_amount = 1500, inv_status = ''paid'', inv_number = ''INV-2024-010''\<rparr>]"
  \<comment> \<open>amounts in cents (\<open>15.00\<close>)\<close>

record billing_state =
  autoRenew :: bool
  emailReceipts :: bool
  usageAlerts :: bool
  showCancelModal :: bool
  bs_log :: "settings_effect list"

definition billing_init :: billing_state where
  "billing_init = \<lparr>autoRenew = True, emailReceipts = True, usageAlerts = True,
     showCancelModal = False, bs_log = []\<rparr>"

definition handlePlanChange :: "string \<Rightarrow> billing_state \<Rightarrow> billing_state" where
  "handlePlanChange planName s =
     s\<lparr>bs_log := bs_log s @ [ConsoleLog (''Changing to plan: '' @ planName),
        SAlert (''Plan change to '' @ planName @ '' initiated. You will receive a confirmation email.'')]\<rparr>"

definition handleUpdatePaymentMethod :: "billing_state \<Rightarrow> billing_state" where
  "handleUpdatePaymentMethod s =
     s\<lparr>bs_log := bs_log s @ [ConsoleLog ''Updating payment method'',
        SAlert ''Payment method update form would open here.'']\<rparr>"

definition handleDownloadInvoice :: "string \<Rightarrow> billing_state \<Rightarrow> billing_state" where
  "handleDownloadInvoice invoiceNo s =
     s\<lparr>bs_log := bs_log s @ [ConsoleLog (''Downloading invoice: '' @ invoiceNo), SAlert (''Downloading invoice '' @ invoiceNo)]\<rparr>"

definition handleCancelSubscription :: "billing_state \<Rightarrow> billing_state" where
  "handleCancelSubscription s =
     s\<lparr>showCancelModal := False,
       bs_log := bs_log s @ [ConsoleLog ''Canceling subscription'',
         SAlert ''Subscription cancellation initiated. You will receive a confirmation email.'']\<rparr>"

definition getStatusColor :: "string \<Rightarrow> string" where
  "getStatusColor status =
     (if status = ''paid'' then ''text-success'' else if status = ''pending'' then ''text-warning''
      else if status = ''failed'' then ''text-destructive'' else ''text-muted-foreground'')"

definition getStatusIcon :: "string \<Rightarrow> string" where
  "getStatusIcon status =
     (if status = ''paid'' then ''CheckCircle'' else if status = ''pending'' then ''Clock''
      else if status = ''failed'' then ''XCircle'' else ''Circle'')"

definition plan_button :: "plan \<Rightarrow> string \<times> bool" where
  "plan_button p = (if plan_current p then (''Current Plan'', True) else (''Upgrade to '' @ plan_name p, False))"
  \<comment> \<open>label and disabled state of a plan card's button\<close>

datatype billing_event =
    AutoRenewToggle bool | EmailReceiptsToggle bool | UsageAlertsToggle bool
  | PlanButtonClick string | UpdatePaymentClick | InvoiceClick string
  | CancelSubscriptionClick | KeepSubscriptionClick | ConfirmCancelClick

fun billing_step :: "billing_state \<Rightarrow> billing_event \<Rightarrow> billing_state" where
  "billing_step s (AutoRenewToggle b) = s\<lparr>autoRenew := b\<rparr>"
| "billing_step s (EmailReceiptsToggle b) = s\<lparr>emailReceipts := b\<rparr>"
| "billing_step s (UsageAlertsToggle b) = s\<lparr>usageAlerts := b\<rparr>"
| "billing_step s (PlanButtonClick n) =
     (if list_ex (\<lambda>p. plan_name p = n \<and> \<not> plan_current p) plans then handlePlanChange n s else s)"
| "billing_step s UpdatePaymentClick = handleUpdatePaymentMethod s"
| "billing_step s (InvoiceClick i) =
     (if list_ex (\<lambda>x. inv_number x = i) billingHistory then handleDownloadInvoice i s else s)"
| "billing_step s CancelSubscriptionClick = s\<lparr>showCancelModal := True\<rparr>"
| "billing_step s KeepSubscriptionClick = (if showCancelModal s then s\<lparr>showCancelModal := False\<rparr> else s)"
| "billing_step s ConfirmCancelClick = (if showCancelModal s then handleCancelSubscription s else s)"
  \<comment> \<open>\<open>onClick={() => !plan.current && handlePlanChange(plan.name)}\<close> on a button
      that is also disabled for the current plan\<close>

text \<open>\<open>formatDate\<close>: \<open>new Date('YYYY-MM-DD')\<close> is midnight UTC, and
  \<open>toLocaleDateString\<close> prints it in the viewer's time zone, \<open>tz\<close> minutes east of
  UTC (real zones lie within a day of UTC).\<close>

definition month_names :: "string list" where
  "month_names = [''January'', ''February'', ''March'', ''April'', ''May'', ''June'', ''July'',
     ''August'', ''September'', ''October'', ''November'', ''December'']"

definition is_leap :: "int \<Rightarrow> bool" where
  "is_leap y = (y mod 4 = 0 \<and> (y mod 100 \<noteq> 0 \<or> y mod 400 = 0))"

definition days_in_month :: "int \<Rightarrow> nat \<Rightarrow> nat" where
  "days_in_month y m =
     (if m = 2 then (if is_leap y then 29 else 28) else if m \<in> {4, 6, 9, 11} then 30 else 31)"

definition valid_ymd :: "int \<times> nat \<times> nat \<Rightarrow> bool" where
  "valid_ymd ymd = (case ymd of (y, m, d) \<Rightarrow> 1 \<le> m \<and> m \<le> 12 \<and> 1 \<le> d \<and> d \<le> days_in_month y m)"

definition prev_day :: "int \<times> nat \<times> nat \<Rightarrow> int \<times> nat \<times> nat" where
  "prev_day ymd =
     (case ymd of (y, m, d) \<Rightarrow>
        if d > 1 then (y, m, d - 1)
        else if m > 1 then (y, m - 1, days_in_month y (m - 1)) else (y - 1, 12, 31))"


definition digit_val :: "char \<Rightarrow> nat option" where
  "digit_val c = (let n = of_char c :: nat in if 48 \<le> n \<and> n \<le> 57 then Some (n - 48) else None)"

fun digits_val :: "nat \<Rightarrow> string \<Rightarrow> nat option" where
  "digits_val acc [] = Some acc"
| "digits_val acc (c # cs) = (case digit_val c of None \<Rightarrow> None | Some k \<Rightarrow> digits_val (10 * acc + k) cs)"

definition parse_iso_date :: "string \<Rightarrow> (int \<times> nat \<times> nat) option" where
  "parse_iso_date s =
     (if length s = 10 \<and> s ! 4 = CHR ''-'' \<and> s ! 7 = CHR ''-'' then
        (case (digits_val 0 (take 4 s), digits_val 0 (take 2 (drop 5 s)), digits_val 0 (drop 8 s)) of
           (Some y, Some m, Some d) \<Rightarrow> if valid_ymd (int y, m, d) then Some (int y, m, d) else None
         | _ \<Rightarrow> None)
      else None)"
  \<comment> \<open>the date-only ISO form \<open>Date\<close> reads as UTC\<close>

definition date_text :: "int \<times> nat \<times> nat \<Rightarrow> string" where
  "date_text ymd =
     (case ymd of (y, m, d) \<Rightarrow>
        month_names ! (m - 1) @ '' '' @ js_string_of_int (int d) @ '', '' @ js_string_of_int y)"
  \<comment> \<open>\<open>{ year: 'numeric', month: 'long', day: 'numeric' }\<close> in \<open>en-US\<close>\<close>

definition formatDate :: "int \<Rightarrow> string \<Rightarrow> string" where
  "formatDate tz dateString =
     (case parse_iso_date dateString of
        None \<Rightarrow> ''Invalid Date''
      | Some ymd \<Rightarrow> date_text (if tz < 0 then prev_day ymd else ymd))"
  \<comment> \<open>UTC midnight shifted by \<open>tz\<close> minutes, \<open>-1440 < tz < 1440\<close>: west of UTC it
      falls on the previous day\<close>

definition cents_text :: "int \<Rightarrow> string" where
  "cents_text c = js_string_of_int (c div 100) @ ''.'' @ js_string_of_int ((c mod 100) div 10) @
     js_string_of_int (c mod 10)"
  \<comment> \<open>\<open>amount.toFixed(2)\<close> on a non-negative amount held in cents\<close>

record billing_view =
  bv_plans :: "(string \<times> int \<times> string \<times> string list \<times> bool \<times> string \<times> bool) list"
  bv_history :: "(string \<times> string \<times> string \<times> string \<times> string) list"
  bv_toggles :: "bool \<times> bool \<times> bool"
  bv_cancelModal :: bool

definition billing_view :: "int \<Rightarrow> billing_state \<Rightarrow> billing_view" where
  "billing_view tz s =
     \<lparr>bv_plans = map (\<lambda>p. (plan_name p, plan_price p, plan_billing p, plan_features p, plan_current p,
                            fst (plan_button p), snd (plan_button p))) plans,
      bv_history = map (\<lambda>x. (getStatusIcon (inv_status x), inv_description x, formatDate tz (inv_date x),
                              ''$'' @ cents_text (inv_amount x), inv_number x)) billingHistory,
      bv_toggles = (autoRenew s, emailReceipts s, usageAlerts s),
      bv_cancelModal = showCancelModal s\<rparr>"
  \<comment> \<open>the plan cards (badge for the current one, button label and disabled
      state), the history rows (status icon, description, date, amount, invoice),
      the three checkboxes and the cancel dialog\<close>

record payment_method =
  pm_type :: string
  pm_last4 :: string
  pm_brand :: string
  pm_expiryMonth :: int
  pm_expiryYear :: int

definition paymentMethod :: payment_method where
  "paymentMethod = \<lparr>pm_type = ''card'', pm_last4 = ''4242'', pm_brand = ''Visa'', pm_expiryMonth = 12,
     pm_expiryYear = 2027\<rparr>"

record billing_address =
  ba_name :: string
  ba_company :: string
  ba_address1 :: string
  ba_address2 :: string
  ba_city :: string
  ba_state :: string
  ba_zip :: string
  ba_country :: string

definition billingAddress :: billing_address where
  "billingAddress = \<lparr>ba_name = ''Dr. Sarah Chen'', ba_company = ''University Research Lab'',
     ba_address1 = ''123 Academic Drive'', ba_address2 = ''Suite 456'', ba_city = ''Boston'', ba_state = ''MA'',
     ba_zip = ''02115'', ba_country = ''US''\<rparr>"

record current_plan_view =
  cpv_badge :: string
  cpv_price :: string
  cpv_billing :: string
  cpv_features :: "string list"
  cpv_nextBilling :: string
  cpv_toggles :: "(string \<times> bool) list"

definition current_plan_render :: "billing_state \<Rightarrow> current_plan_view" where
  "current_plan_render s =
     \<lparr>cpv_badge = plan_name currentPlan, cpv_price = ''$'' @ js_string_of_int (plan_price currentPlan),
      cpv_billing = ''/'' @ plan_billing currentPlan, cpv_features = plan_features currentPlan,
      cpv_nextBilling = ''February 1, 2025'',
      cpv_toggles = [(''Auto-renew subscription'', autoRenew s), (''Email receipts'', emailReceipts s),
                     (''Usage alerts'', usageAlerts s)]\<rparr>"
  \<comment> \<open>the Current Plan card: badge, price, period, features, the fixed next billing date
      and the three checkboxes\<close>

definition address_lines :: "billing_address \<Rightarrow> string list" where
  "address_lines a =
     [ba_name a] @ (if ba_company a \<noteq> [] then [ba_company a] else []) @ [ba_address1 a]
     @ (if ba_address2 a \<noteq> [] then [ba_address2 a] else [])
     @ [ba_city a @ '', '' @ ba_state a @ '' '' @ ba_zip a, ''United States'']"
  \<comment> \<open>\<open>{billingAddress.company && ...}\<close>: an empty string is falsy; the last line is fixed\<close>

definition payment_lines :: "payment_method \<Rightarrow> string \<times> string" where
  "payment_lines pm =
     (pm_brand pm @ '' ending in '' @ pm_last4 pm,
      ''Expires '' @ js_string_of_int (pm_expiryMonth pm) @ ''/'' @ js_string_of_int (pm_expiryYear pm))"

definition cancelLosses :: "string list" where
  "cancelLosses = [''Unlimited cards and whiteboards'', ''Advanced collaboration tools'', ''Priority support'',
                   ''Export capabilities'', ''Advanced analytics'']"
  \<comment> \<open>the cancel dialog's list of what the plan loses\<close>

definition cancel_modal_view :: "billing_state \<Rightarrow> string list option" where
  "cancel_modal_view s = (if showCancelModal s then Some cancelLosses else None)"

subsection \<open>Properties\<close>

text \<open>
  C36. Account deletion is requested only from the confirmation dialog and only
  when the typed text is exactly \<open>DELETE MY ACCOUNT\<close>: every step only appends to
  the log, and a step that logs the submission alert is that click in that state.
\<close>

theorem deletion_requires_phrase:
  "\<exists>new. data_log (data_step s e) = data_log s @ new \<and>
     (SAlert deletion_submitted_msg \<in> set new \<longrightarrow>
        e = DeleteConfirmClick \<and> showDeleteModal s \<and> deleteConfirmation s = ''DELETE MY ACCOUNT'')"
  by (cases e) (auto simp: handleExportOptionChange_def handleExportData_def
      handleBackupSettingChange_def handleDeleteAccount_def delete_phrase_def deletion_submitted_msg_def)

lemma deletion_requires_phrase_witness:
  "data_log (data_step (data_init\<lparr>showDeleteModal := True, deleteConfirmation := ''DELETE MY ACCOUNT''\<rparr>)
      DeleteConfirmClick) = [ConsoleLog ''Account deletion requested'', SAlert deletion_submitted_msg] \<and>
   data_log (data_step (data_init\<lparr>showDeleteModal := True, deleteConfirmation := ''DELETE MY ACCOUN''\<rparr>)
      DeleteConfirmClick) = []"
proof -
  obtain new where "data_log (data_step (data_init\<lparr>showDeleteModal := True,
      deleteConfirmation := ''DELETE MY ACCOUN''\<rparr>) DeleteConfirmClick) = [] @ new"
    and "SAlert deletion_submitted_msg \<in> set new \<longrightarrow> ''DELETE MY ACCOUN'' = ''DELETE MY ACCOUNT''"
    using deletion_requires_phrase [of "data_init\<lparr>showDeleteModal := True,
      deleteConfirmation := ''DELETE MY ACCOUN''\<rparr>" DeleteConfirmClick]
    by (auto simp: data_init_def)
  then show ?thesis
    by (simp add: data_init_def handleDeleteAccount_def delete_phrase_def)
qed







text \<open>The billing address card never reads the address's country, and the cancel
  dialog's list of losses is not the current plan's feature list.\<close>

lemma address_ignores_country: "address_lines (a\<lparr>ba_country := c\<rparr>) = address_lines a"
  by (simp add: address_lines_def)

lemma cancel_losses_not_features:
  "set cancelLosses - set (plan_features currentPlan) = {''Export capabilities''} \<and>
   set (plan_features currentPlan) - set cancelLosses = {''50GB storage'', ''Export in all formats''}"
  by (auto simp: cancelLosses_def currentPlan_def)

end
