(* ===== verification/SettingsDisplay.thy ===== *)
theory SettingsDisplay
  imports Prelude
begin

text \<open>
  The display section of the settings page
  (\<open>pages/profile-and-settings/components/DisplaySection.jsx\<close>): ten settings in
  component state, an effect that mirrors five of them onto the document root
  (attributes and classes), a save button that writes the settings as JSON to
  \<open>localStorage\<close>, and a reset to the defaults. The parts of the browser the
  section touches (the root element's attributes and classes and
  \<open>localStorage\<close>) are a record \<open>browser\<close> passed along with the section state,
  since they outlive the component. \<open>JSON.stringify\<close> of the settings object is
  modelled for string and boolean values, with a reader for the saved text.
\<close>

subsection \<open>JSON objects\<close>

definition json_value :: "js_val \<Rightarrow> string" where
  "json_value v =
     (case v of JStr s \<Rightarrow> json_string s | JBool b \<Rightarrow> if b then ''true'' else ''false''
      | JNum n \<Rightarrow> js_string_of_int n)"

fun json_members :: "(string \<times> js_val) list \<Rightarrow> string" where
  "json_members [] = []"
| "json_members [(k, v)] = json_string k @ '':'' @ json_value v"
| "json_members ((k, v) # kvs) = json_string k @ '':'' @ json_value v @ '','' @ json_members kvs"

definition json_object :: "(string \<times> js_val) list \<Rightarrow> string" where
  "json_object kvs = ''{'' @ json_members kvs @ ''}''"
  \<comment> \<open>\<open>JSON.stringify\<close> of an object: members in insertion order, no spaces\<close>

definition json_expect :: "string \<Rightarrow> string \<Rightarrow> string option" where
  "json_expect lit s = (if starts_with s lit then Some (drop (length lit) s) else None)"

definition json_read_value :: "string \<Rightarrow> (js_val \<times> string) option" where
  "json_read_value s =
     (case s of
        [] \<Rightarrow> None
      | c # r \<Rightarrow>
          if c = CHR 0x22 then map_option (\<lambda>(v, rest). (JStr v, rest)) (json_read_chars r)
          else if starts_with s ''true'' then Some (JBool True, drop 4 s)
          else if starts_with s ''false'' then Some (JBool False, drop 5 s) else None)"

fun json_read_members :: "string list \<Rightarrow> string \<Rightarrow> ((string \<times> js_val) list \<times> string) option" where
  "json_read_members [] s = Some ([], s)"
| "json_read_members (k # ks) s =
     (case json_expect [CHR 0x22] s of
        None \<Rightarrow> None
      | Some s1 \<Rightarrow>
          (case json_read_chars s1 of
             None \<Rightarrow> None
           | Some (k', s2) \<Rightarrow>
               if k' \<noteq> k then None
               else (case json_expect '':'' s2 of
                       None \<Rightarrow> None
                     | Some s3 \<Rightarrow>
                         (case json_read_value s3 of
                            None \<Rightarrow> None
                          | Some (v, s4) \<Rightarrow>
                              if ks = [] then Some ([(k, v)], s4)
                              else (case json_expect '','' s4 of
                                      None \<Rightarrow> None
                                    | Some s5 \<Rightarrow>
                                        map_option (\<lambda>(kvs, rest). ((k, v) # kvs, rest))
                                          (json_read_members ks s5))))))"
  \<comment> \<open>\<open>JSON.parse\<close> of the members of an object with the expected keys\<close>

definition json_read_object :: "string list \<Rightarrow> string \<Rightarrow> (string \<times> js_val) list option" where
  "json_read_object ks s =
     (case json_expect ''{'' s of
        None \<Rightarrow> None
      | Some s1 \<Rightarrow>
          (case json_read_members ks s1 of
             Some (kvs, rest) \<Rightarrow> if rest = ''}'' then Some kvs else None
           | None \<Rightarrow> None))"

subsection \<open>Section state\<close>

record display_state =
  theme :: string
  cardDensity :: string
  defaultProjectView :: string
  fontSize :: string
  sidebarCollapsed :: bool
  showCardPreviews :: bool
  animationsEnabled :: bool
  highContrast :: bool
  reducedMotion :: bool
  compactMode :: bool

definition display_init :: display_state where
  "display_init = \<lparr>theme = ''light'', cardDensity = ''comfortable'', defaultProjectView = ''grid'',
     fontSize = ''medium'', sidebarCollapsed = False, showCardPreviews = True,
     animationsEnabled = True, highContrast = False, reducedMotion = False, compactMode = False\<rparr>"

record browser =
  doc_attrs :: "(string \<times> string) list"
  doc_classes :: "string list"
  local_storage :: "(string \<times> string) list"
  \<comment> \<open>\<open>document.documentElement\<close>'s attributes and \<open>classList\<close>, and \<open>localStorage\<close>\<close>

definition themeOptions :: "(string \<times> string \<times> string) list" where
  "themeOptions =
     [(''light'', ''Light Theme'', ''Clean and bright interface''),
      (''dark'', ''Dark Theme'', ''Easy on the eyes in low light''),
      (''auto'', ''Auto'', ''Matches your system preference'')]"

definition densityOptions :: "(string \<times> string \<times> string) list" where
  "densityOptions =
     [(''compact'', ''Compact'', ''More cards visible at once''),
      (''comfortable'', ''Comfortable'', ''Balanced spacing and readability''),
      (''spacious'', ''Spacious'', ''Maximum readability with generous spacing'')]"

definition viewOptions :: "(string \<times> string \<times> string) list" where
  "viewOptions =
     [(''grid'', ''Grid View'', ''Cards arranged in a grid layout''),
      (''list'', ''List View'', ''Cards displayed in a vertical list''),
      (''board'', ''Board View'', ''Kanban-style board layout'')]"

definition fontSizeOptions :: "(string \<times> string \<times> string) list" where
  "fontSizeOptions =
     [(''small'', ''Small'', ''14px base font size''), (''medium'', ''Medium'', ''16px base font size''),
      (''large'', ''Large'', ''18px base font size''),
      (''extra-large'', ''Extra Large'', ''20px base font size'')]"

subsection \<open>The document effect and the handlers\<close>

definition class_add :: "string \<Rightarrow> string list \<Rightarrow> string list" where
  "class_add c cs = (if c \<in> set cs then cs else cs @ [c])"

definition class_remove :: "string \<Rightarrow> string list \<Rightarrow> string list" where
  "class_remove c cs = filter (\<lambda>x. x \<noteq> c) cs"

definition display_effect :: "display_state \<Rightarrow> browser \<Rightarrow> browser" where
  "display_effect s b =
     b\<lparr>doc_attrs := obj_set ''data-density'' (cardDensity s)
                     (obj_set ''data-font-size'' (fontSize s) (obj_set ''data-theme'' (theme s) (doc_attrs b))),
       doc_classes := (if reducedMotion s then class_add ''reduced-motion'' else class_remove ''reduced-motion'')
                        ((if highContrast s then class_add ''high-contrast'' else class_remove ''high-contrast'')
                           (doc_classes b))\<rparr>"

definition display_deps :: "display_state \<Rightarrow> string \<times> string \<times> string \<times> bool \<times> bool" where
  "display_deps s = (theme s, fontSize s, cardDensity s, highContrast s, reducedMotion s)"
  \<comment> \<open>the dependency array; primitives compare by value\<close>

definition display_commit :: "display_state \<Rightarrow> display_state \<Rightarrow> browser \<Rightarrow> browser" where
  "display_commit prev s b = (if display_deps prev \<noteq> display_deps s then display_effect s b else b)"

definition display_mount :: "browser \<Rightarrow> display_state \<times> browser" where
  "display_mount b = (display_init, display_effect display_init b)"
  \<comment> \<open>on mount the effect runs whatever the document held\<close>

definition display_settings_obj :: "display_state \<Rightarrow> (string \<times> js_val) list" where
  "display_settings_obj s =
     [(''theme'', JStr (theme s)), (''cardDensity'', JStr (cardDensity s)),
      (''defaultProjectView'', JStr (defaultProjectView s)), (''fontSize'', JStr (fontSize s)),
      (''sidebarCollapsed'', JBool (sidebarCollapsed s)), (''showCardPreviews'', JBool (showCardPreviews s)),
      (''animationsEnabled'', JBool (animationsEnabled s)), (''highContrast'', JBool (highContrast s)),
      (''reducedMotion'', JBool (reducedMotion s)), (''compactMode'', JBool (compactMode s))]"
  \<comment> \<open>the \<open>settings\<close> object literal of \<open>handleSaveSettings\<close>\<close>

definition ds_handleSaveSettings :: "display_state \<Rightarrow> browser \<Rightarrow> browser" where
  "ds_handleSaveSettings s b =
     b\<lparr>local_storage := obj_set ''displaySettings'' (json_object (display_settings_obj s)) (local_storage b)\<rparr>"

definition handleResetToDefaults :: "display_state \<Rightarrow> display_state" where
  "handleResetToDefaults s = display_init"
  \<comment> \<open>ten setters with the \<open>useState\<close> defaults\<close>

datatype display_event =
    ThemeSelect string | ThemeCardClick string | FontSizeSelect string | DensitySelect string
  | ViewSelect string | SidebarCollapsedToggle bool | CardPreviewsToggle bool | CompactModeToggle bool
  | AnimationsToggle bool | ReducedMotionToggle bool | HighContrastToggle bool
  | ResetDefaultsClick | SaveDisplayClick

fun display_handle :: "display_state \<Rightarrow> display_event \<Rightarrow> display_state" where
  "display_handle s (ThemeSelect v) = s\<lparr>theme := v\<rparr>"
| "display_handle s (ThemeCardClick v) =
     (if v \<in> set (map fst themeOptions) then s\<lparr>theme := v\<rparr> else s)"
| "display_handle s (FontSizeSelect v) = s\<lparr>fontSize := v\<rparr>"
| "display_handle s (DensitySelect v) = s\<lparr>cardDensity := v\<rparr>"
| "display_handle s (ViewSelect v) = s\<lparr>defaultProjectView := v\<rparr>"
| "display_handle s (SidebarCollapsedToggle b) = s\<lparr>sidebarCollapsed := b\<rparr>"
| "display_handle s (CardPreviewsToggle b) = s\<lparr>showCardPreviews := b\<rparr>"
| "display_handle s (CompactModeToggle b) = s\<lparr>compactMode := b\<rparr>"
| "display_handle s (AnimationsToggle b) = s\<lparr>animationsEnabled := b\<rparr>"
| "display_handle s (ReducedMotionToggle b) = s\<lparr>reducedMotion := b\<rparr>"
| "display_handle s (HighContrastToggle b) = s\<lparr>highContrast := b\<rparr>"
| "display_handle s ResetDefaultsClick = handleResetToDefaults s"
| "display_handle s SaveDisplayClick = s"
  \<comment> \<open>the setters the JSX wires to each control\<close>

fun display_step :: "display_state \<times> browser \<Rightarrow> display_event \<Rightarrow> display_state \<times> browser" where
  "display_step (s, b) e =
     (let b1 = (if e = SaveDisplayClick then ds_handleSaveSettings s b else b);
          s' = display_handle s e
      in (s', display_commit s s' b1))"
  \<comment> \<open>the handler, then the effect if a dependency changed\<close>

inductive display_reachable :: "display_state \<times> browser \<Rightarrow> bool" where
  mount: "display_reachable (display_mount b)"
| step: "display_reachable sb \<Longrightarrow> display_reachable (display_step sb e)"

record display_view =
  dsv_themeCards :: "(string \<times> string \<times> bool) list"
  dsv_selects :: "string \<times> string \<times> string \<times> string"
  dsv_checkboxes :: "(string \<times> bool) list"

definition display_view :: "display_state \<Rightarrow> display_view" where
  "display_view s =
     \<lparr>dsv_themeCards = map (\<lambda>(v, l, d). (l, d, theme s = v)) themeOptions,
      dsv_selects = (theme s, fontSize s, cardDensity s, defaultProjectView s),
      dsv_checkboxes = [(''Collapsed Sidebar by Default'', sidebarCollapsed s),
        (''Show Card Previews'', showCardPreviews s), (''Compact Mode'', compactMode s),
        (''Enable Animations'', animationsEnabled s), (''Reduced Motion'', reducedMotion s),
        (''High Contrast Mode'', highContrast s)]\<rparr>"
  \<comment> \<open>the theme preview cards with their check mark, the four selects and the six
      checkboxes\<close>

definition display_synced :: "display_state \<Rightarrow> browser \<Rightarrow> bool" where
  "display_synced s b =
     (obj_get ''data-theme'' (doc_attrs b) = Some (theme s) \<and>
      obj_get ''data-font-size'' (doc_attrs b) = Some (fontSize s) \<and>
      obj_get ''data-density'' (doc_attrs b) = Some (cardDensity s) \<and>
      (''high-contrast'' \<in> set (doc_classes b) \<longleftrightarrow> highContrast s) \<and>
      (''reduced-motion'' \<in> set (doc_classes b) \<longleftrightarrow> reducedMotion s))"
  \<comment> \<open>the document shows the section's current choices\<close>

definition read_display_settings :: "string \<Rightarrow> display_state option" where
  "read_display_settings txt =
     (case json_read_object (map fst (display_settings_obj display_init)) txt of
        Some [(_, JStr t), (_, JStr cd), (_, JStr v), (_, JStr fs), (_, JBool sc), (_, JBool cp),
              (_, JBool an), (_, JBool hc), (_, JBool rm), (_, JBool cm)] \<Rightarrow>
          Some \<lparr>theme = t, cardDensity = cd, defaultProjectView = v, fontSize = fs,
                sidebarCollapsed = sc, showCardPreviews = cp, animationsEnabled = an,
                highContrast = hc, reducedMotion = rm, compactMode = cm\<rparr>
      | _ \<Rightarrow> None)"
  \<comment> \<open>what a loader of \<open>localStorage.displaySettings\<close> would compute; the
      application never reads the key\<close>

definition json_plain :: "js_val \<Rightarrow> bool" where
  "json_plain v = (case v of JNum _ \<Rightarrow> False | _ \<Rightarrow> True)"

subsection \<open>Properties\<close>

lemma json_string_Cons: "json_string s = CHR 0x22 # tl (json_string s)"
  by (simp add: json_string_def)

lemma json_expect_append [simp]: "json_expect lit (lit @ rest) = Some rest"
  by (simp add: json_expect_def starts_with_iff)

lemma json_expect_Cons [simp]: "json_expect [c] (c # rest) = Some rest"
  by (simp add: json_expect_def)

lemma json_read_value_plain:
  "json_plain v \<Longrightarrow> json_read_value (json_value v @ rest) = Some (v, rest)"
proof (cases v)
  case (JStr s)
  have "json_value v @ rest = CHR 0x22 # (tl (json_string s) @ rest)"
    using JStr json_string_Cons [of s] by (simp add: json_value_def)
  then show ?thesis using JStr by (simp add: json_read_value_def json_read_string)
qed (auto simp: json_plain_def json_value_def json_read_value_def starts_with_iff)

lemma json_read_key:
  "json_expect [CHR 0x22] (json_string k @ rest) = Some (tl (json_string k) @ rest)"
  by (simp add: json_string_def json_expect_def)

lemma json_read_members_roundtrip:
  "list_all (\<lambda>kv. json_plain (snd kv)) kvs \<Longrightarrow>
   json_read_members (map fst kvs) (json_members kvs @ rest) = Some (kvs, rest)"
proof (induction kvs rule: json_members.induct)
  case 1
  then show ?case by simp
next
  case (2 k v)
  then show ?case
    by (simp add: json_read_key json_read_string json_read_value_plain)
next
  case (3 k v kv kvs)
  then show ?case
    by (simp add: json_read_key json_read_string json_read_value_plain)
qed

lemma display_effect_synced: "display_synced s (display_effect s b)"
  by (simp add: display_synced_def display_effect_def class_add_def class_remove_def)

lemma display_synced_deps:
  "display_deps s' = display_deps s \<Longrightarrow> doc_attrs b' = doc_attrs b \<Longrightarrow> doc_classes b' = doc_classes b \<Longrightarrow>
   display_synced s b \<Longrightarrow> display_synced s' b'"
  by (simp add: display_synced_def display_deps_def)

lemma display_step_synced:
  assumes "display_synced s b"
  shows "display_synced (fst (display_step (s, b) e)) (snd (display_step (s, b) e))"
  using assms display_effect_synced display_synced_deps [of "display_handle s e" s]
  by (auto simp: display_commit_def Let_def ds_handleSaveSettings_def)

text \<open>
  C37. In every reachable state of the display section the document root shows
  the section's theme, font size and density attributes and its high-contrast and
  reduced-motion classes: the effect runs on mount and whenever one of these
  dependencies changes, and nothing else writes them.
\<close>

theorem reachable_display_synced:
  "display_reachable sb \<Longrightarrow> display_synced (fst sb) (snd sb)"
proof (induction rule: display_reachable.induct)
  case (mount b)
  then show ?case by (simp add: display_mount_def display_effect_synced)
next
  case (step sb e)
  obtain s b where sb: "sb = (s, b)" by (cases sb)
  show ?case using step.IH display_step_synced [of s b e] by (simp add: sb)
qed

lemma reachable_display_synced_witness:
  "display_reachable (display_step (display_mount \<lparr>doc_attrs = [], doc_classes = [], local_storage = []\<rparr>)
     (ThemeSelect ''dark'')) \<and>
   obj_get ''data-theme'' (doc_attrs (snd (display_step (display_mount \<lparr>doc_attrs = [], doc_classes = [],
     local_storage = []\<rparr>) (ThemeSelect ''dark'')))) = Some ''dark''"
proof -
  have r: "display_reachable (display_step (display_mount \<lparr>doc_attrs = [], doc_classes = [], local_storage = []\<rparr>)
     (ThemeSelect ''dark''))"
    by (rule display_reachable.step [OF display_reachable.mount])
  have t: "theme (fst (display_step (display_mount \<lparr>doc_attrs = [], doc_classes = [], local_storage = []\<rparr>)
     (ThemeSelect ''dark''))) = ''dark''"
    by (simp add: display_mount_def Let_def)
  show ?thesis using r reachable_display_synced [OF r] t by (simp add: display_synced_def)
qed

text \<open>
  C38. The text the save button writes to \<open>localStorage\<close> determines every
  display setting: reading it back yields exactly the saved settings.
\<close>

theorem display_settings_roundtrip:
  "read_display_settings (json_object (display_settings_obj s)) = Some s"
proof -
  have "json_read_members (map fst (display_settings_obj s)) (json_members (display_settings_obj s) @ ''}'') =
        Some (display_settings_obj s, ''}'')"
    by (rule json_read_members_roundtrip) (simp add: display_settings_obj_def json_plain_def)
  then show ?thesis
    by (simp add: read_display_settings_def json_read_object_def json_object_def display_settings_obj_def)
qed

end
