(* ===== verification/SettingsPage.thy ===== *)
theory SettingsPage
  imports SettingsSections SettingsDisplay
begin

text \<open>
  The settings page (\<open>pages/profile-and-settings/index.jsx\<close>): the category
  navigation, the mobile menu with its outside-click listener, and the active
  section. \<open>renderActiveSection\<close> returns a different component for each category,
  so React unmounts the old section (its state is lost; the display section's
  effect has no cleanup, so the document keeps its attributes) and mounts the new
  one with its \<open>useState\<close> defaults. Choosing the category already shown keeps
  the section's state. The browser (document root and \<open>localStorage\<close>) is shared
  by all sections and outlives them.
\<close>

record settings_category =
  cat_id :: string
  cat_label :: string
  cat_icon :: string
  cat_description :: string

definition settingsCategories :: "settings_category list" where
  "settingsCategories =
     [\<lparr>cat_id = ''profile'', cat_label = ''Profile Information'', cat_icon = ''User'',
       cat_description = ''Personal details and avatar''\<rparr>,
      \<lparr>cat_id = ''security'', cat_label = ''Account Security'', cat_icon = ''Shield'',
       cat_description = ''Password and authentication''\<rparr>,
      \<lparr>cat_id = ''notifications'', cat_label = ''Notification Preferences'', cat_icon = ''Bell'',
       cat_description = ''Email and push notifications''\<rparr>,
      \<lparr>cat_id = ''display'', cat_label = ''Display Settings'', cat_icon = ''Monitor'',
       cat_description = ''Theme and appearance''\<rparr>,
      \<lparr>cat_id = ''data'', cat_label = ''Data Management'', cat_icon = ''Database'',
       cat_description = ''Export and backup options''\<rparr>,
      \<lparr>cat_id = ''billing'', cat_label = ''Billing & Subscription'', cat_icon = ''CreditCard'',
       cat_description = ''Plans and payment methods''\<rparr>]"

datatype section_kind = ProfileK | SecurityK | NotificationsK | DisplayK | DataK | BillingK

definition renderActiveSection :: "string \<Rightarrow> section_kind" where
  "renderActiveSection activeSection =
     (if activeSection = ''profile'' then ProfileK else if activeSection = ''security'' then SecurityK
      else if activeSection = ''notifications'' then NotificationsK
      else if activeSection = ''display'' then DisplayK else if activeSection = ''data'' then DataK
      else if activeSection = ''billing'' then BillingK else ProfileK)"
  \<comment> \<open>the component type the \<open>switch\<close> returns\<close>

datatype section_state =
    ProfileS profile_state | SecurityS security_state | NotificationS notification_state
  | DisplayS display_state | DataS data_state | BillingS billing_state

fun kind_of :: "section_state \<Rightarrow> section_kind" where
  "kind_of (ProfileS _) = ProfileK"
| "kind_of (SecurityS _) = SecurityK"
| "kind_of (NotificationS _) = NotificationsK"
| "kind_of (DisplayS _) = DisplayK"
| "kind_of (DataS _) = DataK"
| "kind_of (BillingS _) = BillingK"

fun section_mount :: "section_kind \<Rightarrow> browser \<Rightarrow> section_state \<times> browser" where
  "section_mount ProfileK b = (ProfileS profile_init, b)"
| "section_mount SecurityK b = (SecurityS security_init, b)"
| "section_mount NotificationsK b = (NotificationS notification_init, b)"
| "section_mount DisplayK b = (let (d, b') = display_mount b in (DisplayS d, b'))"
| "section_mount DataK b = (DataS data_init, b)"
| "section_mount BillingK b = (BillingS billing_init, b)"
  \<comment> \<open>a fresh section with its defaults; only the display section has a mount effect\<close>

record settings_state =
  activeSection :: string
  isMobileMenuOpen :: bool
  sectionState :: section_state
  page_browser :: browser

definition settings_mount :: "browser \<Rightarrow> settings_state" where
  "settings_mount b =
     (let (sec, b') = section_mount ProfileK b
      in \<lparr>activeSection = ''profile'', isMobileMenuOpen = False, sectionState = sec, page_browser = b'\<rparr>)"

definition reconcile_section :: "settings_state \<Rightarrow> settings_state" where
  "reconcile_section s =
     (if kind_of (sectionState s) = renderActiveSection (activeSection s) then s
      else (let (sec, b') = section_mount (renderActiveSection (activeSection s)) (page_browser s)
            in s\<lparr>sectionState := sec, page_browser := b'\<rparr>))"
  \<comment> \<open>the render after \<open>activeSection\<close> changed: same component type, same state\<close>

definition handleSectionChange :: "string \<Rightarrow> settings_state \<Rightarrow> settings_state" where
  "handleSectionChange sectionId s =
     reconcile_section (s\<lparr>activeSection := sectionId, isMobileMenuOpen := False\<rparr>)"

definition handleClickOutside :: "bool \<Rightarrow> settings_state \<Rightarrow> settings_state" where
  "handleClickOutside insideSidebar s =
     (if isMobileMenuOpen s \<and> \<not> insideSidebar then s\<lparr>isMobileMenuOpen := False\<rparr> else s)"
  \<comment> \<open>the \<open>mousedown\<close> listener; it is re-registered whenever the flag changes,
      so it always reads the current value\<close>

datatype settings_event =
    CategoryClick string | MenuOpenClick | MenuCloseClick | BackdropClick | DocMouseDown bool
  | SecurityEv security_event | DataEv data_event | NotificationEv notification_event
  | ProfileEv profile_event | BillingEv billing_event | DisplayEv display_event

fun settings_step :: "settings_state \<Rightarrow> settings_event \<Rightarrow> settings_state" where
  "settings_step s (CategoryClick i) =
     (if i \<in> set (map cat_id settingsCategories) then handleSectionChange i s else s)"
| "settings_step s MenuOpenClick = s\<lparr>isMobileMenuOpen := True\<rparr>"
| "settings_step s MenuCloseClick = s\<lparr>isMobileMenuOpen := False\<rparr>"
| "settings_step s BackdropClick = (if isMobileMenuOpen s then s\<lparr>isMobileMenuOpen := False\<rparr> else s)"
| "settings_step s (DocMouseDown inside) = handleClickOutside inside s"
| "settings_step s (SecurityEv e) =
     (case sectionState s of SecurityS x \<Rightarrow> s\<lparr>sectionState := SecurityS (security_step x e)\<rparr> | _ \<Rightarrow> s)"
| "settings_step s (DataEv e) =
     (case sectionState s of DataS x \<Rightarrow> s\<lparr>sectionState := DataS (data_step x e)\<rparr> | _ \<Rightarrow> s)"
| "settings_step s (NotificationEv e) =
     (case sectionState s of NotificationS x \<Rightarrow> s\<lparr>sectionState := NotificationS (notification_step x e)\<rparr> | _ \<Rightarrow> s)"
| "settings_step s (ProfileEv e) =
     (case sectionState s of ProfileS x \<Rightarrow> s\<lparr>sectionState := ProfileS (profile_step x e)\<rparr> | _ \<Rightarrow> s)"
| "settings_step s (BillingEv e) =
     (case sectionState s of BillingS x \<Rightarrow> s\<lparr>sectionState := BillingS (billing_step x e)\<rparr> | _ \<Rightarrow> s)"
| "settings_step s (DisplayEv e) =
     (case sectionState s of
        DisplayS x \<Rightarrow> (let (x', b') = display_step (x, page_browser s) e
                      in s\<lparr>sectionState := DisplayS x', page_browser := b'\<rparr>)
      | _ \<Rightarrow> s)"
  \<comment> \<open>a section's controls exist only while that section is shown\<close>

fun settings_run :: "settings_event list \<Rightarrow> settings_state \<Rightarrow> settings_state" where
  "settings_run [] s = s"
| "settings_run (e # es) s = settings_run es (settings_step s e)"

definition settings_nav_view :: "settings_state \<Rightarrow> (string \<times> string \<times> string \<times> bool) list" where
  "settings_nav_view s =
     map (\<lambda>c. (cat_label c, cat_description c, cat_icon c, activeSection s = cat_id c)) settingsCategories"
  \<comment> \<open>each category button: label, description, icon, and the \<open>default\<close> variant
      for the active one\<close>

definition mobile_header_title :: "settings_state \<Rightarrow> string option" where
  "mobile_header_title s = map_option cat_label (find (\<lambda>c. cat_id c = activeSection s) settingsCategories)"

definition sidebar_translated :: "settings_state \<Rightarrow> bool" where
  "sidebar_translated s = isMobileMenuOpen s"
  \<comment> \<open>\<open>translate-x-0\<close> (shown on small screens) exactly when the menu is open;
      the backdrop is rendered under the same condition\<close>

definition settings_dark :: settings_state where
  "settings_dark = (settings_mount \<lparr>doc_attrs = [], doc_classes = [], local_storage = []\<rparr>)
     \<lparr>activeSection := ''display'', sectionState := DisplayS (display_init\<lparr>theme := ''dark''\<rparr>)\<rparr>"

definition backup_schema :: "(string \<times> js_type) list" where
  "backup_schema = [(''enabled'', TBool), (''frequency'', TStr), (''retentionDays'', TNum)]"

definition quiet_schema :: "(string \<times> js_type) list" where
  "quiet_schema = [(''enabled'', TBool), (''startTime'', TStr), (''endTime'', TStr)]"

fun section_typed :: "section_state \<Rightarrow> bool" where
  "section_typed (DataS d) = obj_typed backup_schema (autoBackup d)"
| "section_typed (NotificationS n) = obj_typed quiet_schema (quietHours n)"
| "section_typed _ = True"

definition settings_typed :: "settings_state \<Rightarrow> bool" where
  "settings_typed s =
     (kind_of (sectionState s) = renderActiveSection (activeSection s) \<and> section_typed (sectionState s))"
  \<comment> \<open>the mounted section is the one the active category selects, and the objects
      with fields of mixed types keep the types their initial values give them\<close>

subsection \<open>Properties\<close>

lemma data_step_typed:
  "obj_typed backup_schema (autoBackup d) \<Longrightarrow> obj_typed backup_schema (autoBackup (data_step d e))"
  by (cases e)
     (simp_all add: handleBackupSettingChange_def handleExportOptionChange_def handleExportData_def
        handleDeleteAccount_def obj_typed_set backup_schema_def)

lemma notification_step_typed:
  "obj_typed quiet_schema (quietHours n) \<Longrightarrow> obj_typed quiet_schema (quietHours (notification_step n e))"
  by (cases e)
     (simp_all add: handleQuietHoursChange_def handleEmailChange_def handlePushChange_def
        handleInAppChange_def handleTestNotification_def ns_handleSaveSettings_def obj_typed_set quiet_schema_def)

lemma section_mount_typed:
  "kind_of (fst (section_mount k b)) = k \<and> section_typed (fst (section_mount k b))"
  by (cases k)
     (simp_all add: data_init_def notification_init_def backup_schema_def quiet_schema_def obj_typed_def
        split: prod.split)

lemma reconcile_section_typed:
  "section_typed (sectionState s) \<Longrightarrow> settings_typed (reconcile_section s)"
  using section_mount_typed [of "renderActiveSection (activeSection s)" "page_browser s"]
  by (auto simp: reconcile_section_def settings_typed_def split: prod.split)

lemma settings_step_typed: "settings_typed s \<Longrightarrow> settings_typed (settings_step s e)"
  by (cases e)
     (auto simp: settings_typed_def handleSectionChange_def handleClickOutside_def
        data_step_typed notification_step_typed reconcile_section_typed [unfolded settings_typed_def]
        split: section_state.splits prod.splits)

lemma settings_mount_typed: "settings_typed (settings_mount b)"
  using section_mount_typed [of ProfileK b]
  by (simp add: settings_mount_def settings_typed_def renderActiveSection_def split: prod.split)

text \<open>
  C28. The settings page stays well typed through every run of browser events:
  the mounted section is always the one the active category selects, and the
  data section's \<open>autoBackup\<close> and the notification section's \<open>quietHours\<close>
  objects keep exactly their keys, with a boolean \<open>enabled\<close>, string
  frequency and times, and a numeric retention period.
\<close>

theorem settings_run_typed: "settings_typed (settings_run es (settings_mount b))"
proof -
  have "settings_typed (settings_run es s)" if "settings_typed s" for s
    using that by (induction es arbitrary: s) (simp_all add: settings_step_typed)
  with settings_mount_typed show ?thesis by blast
qed

text \<open>
  C39. Saved display settings are never restored: after saving, leaving the
  display section and coming back, the section shows the defaults and its mount
  effect sets the document theme back to light, although \<open>localStorage\<close> still
  holds the saved settings.
\<close>

theorem saved_display_settings_not_restored:
  assumes "sectionState s = DisplayS d"
  shows "sectionState (settings_run [DisplayEv SaveDisplayClick, CategoryClick ''profile'',
             CategoryClick ''display''] s) = DisplayS display_init \<and>
    obj_get ''displaySettings'' (local_storage (page_browser (settings_run [DisplayEv SaveDisplayClick,
             CategoryClick ''profile'', CategoryClick ''display''] s))) =
      Some (json_object (display_settings_obj d)) \<and>
    obj_get ''data-theme'' (doc_attrs (page_browser (settings_run [DisplayEv SaveDisplayClick,
             CategoryClick ''profile'', CategoryClick ''display''] s))) = Some ''light''"
  using assms
  by (simp add: handleSectionChange_def reconcile_section_def settingsCategories_def
      renderActiveSection_def display_mount_def display_effect_def ds_handleSaveSettings_def
      display_commit_def display_init_def Let_def)

lemma saved_display_settings_not_restored_witness:
  "sectionState settings_dark = DisplayS (display_init\<lparr>theme := ''dark''\<rparr>) \<and>
   sectionState (settings_run [DisplayEv SaveDisplayClick, CategoryClick ''profile'',
     CategoryClick ''display''] settings_dark) = DisplayS display_init \<and>
   obj_get ''displaySettings'' (local_storage (page_browser (settings_run [DisplayEv SaveDisplayClick,
     CategoryClick ''profile'', CategoryClick ''display''] settings_dark))) =
     Some (json_object (display_settings_obj (display_init\<lparr>theme := ''dark''\<rparr>)))"
proof -
  have d: "sectionState settings_dark = DisplayS (display_init\<lparr>theme := ''dark''\<rparr>)"
    by (simp add: settings_dark_def)
  show ?thesis using d saved_display_settings_not_restored [OF d] by simp
qed

end
