(* ===== verification/Navigation.thy ===== *)
theory Navigation
  imports Prelude
begin

text \<open>The routes of \<open>Routes.jsx\<close>, the URL of a location with React Router's
  \<open>useSearchParams\<close> reading its query (the \<open>URLSearchParams\<close> parser, a loop
  over \<open>&\<close>-separated segments with its termination proof), and the navigation
  chrome of \<open>components/ui/Header.jsx\<close> and \<open>components/ui/Sidebar.jsx\<close>: their
  state, handlers, resize effect and the links they render.\<close>

section \<open>Locations and query strings\<close>

record location =
  pathname :: string
  search :: string

definition parse_href :: "string \<Rightarrow> location" where
  "parse_href href =
     (let p = takeWhile (\<lambda>c. c \<noteq> CHR ''?'') href in \<lparr>pathname = p, search = drop (length p) href\<rparr>)"
  \<comment> \<open>\<open>window.location.href = path\<close> and \<open>navigate(path)\<close> on the app's own paths: the
      part before \<open>?\<close> is the pathname, the rest (with its \<open>?\<close>) the search string; no
      link of the application carries a \<open>#\<close> fragment\<close>

definition form_decode :: "string \<Rightarrow> string" where
  "form_decode s = uri_decode (map (\<lambda>c. if c = CHR ''+'' then CHR '' '' else c) s)"
  \<comment> \<open>\<open>application/x-www-form-urlencoded\<close> decoding: \<open>+\<close> is a space, then
      percent-decoding that keeps malformed escapes as they are\<close>

definition query_param :: "string \<Rightarrow> string \<times> string" where
  "query_param seg =
     (let k = takeWhile (\<lambda>c. c \<noteq> CHR ''='') seg
      in (form_decode k, form_decode (drop (Suc (length k)) seg)))"
  \<comment> \<open>a segment \<open>name=value\<close> split at its first \<open>=\<close>; without one the value is empty\<close>

function parse_query :: "string \<Rightarrow> (string \<times> string) list" where
  "parse_query q =
     (if q = [] then []
      else let seg = takeWhile (\<lambda>c. c \<noteq> CHR ''&'') q; rest = drop (Suc (length seg)) q
           in if seg = [] then parse_query rest else query_param seg # parse_query rest)"
  by pat_completeness auto
termination by (relation "measure length") auto
  \<comment> \<open>the \<open>URLSearchParams\<close> constructor: segments between \<open>&\<close>, empty ones skipped\<close>

definition url_search_params :: "string \<Rightarrow> (string \<times> string) list" where
  "url_search_params s = parse_query (if s \<noteq> [] \<and> hd s = CHR ''?'' then tl s else s)"
  \<comment> \<open>\<open>new URLSearchParams(location.search)\<close>: one leading \<open>?\<close> is dropped\<close>

definition params_get :: "string \<Rightarrow> location \<Rightarrow> string option" where
  "params_get k loc = map_of (url_search_params (search loc)) k"
  \<comment> \<open>\<open>searchParams.get(k)\<close>: the first value of the name, \<open>null\<close> (\<open>None\<close>) if absent\<close>

section \<open>Routes\<close>

datatype page =
  DashboardMainWorkspace | AuthenticationLoginRegister | CardEditorPage | WhiteboardInterface
  | ProjectDetailView | ProfileAndSettings | NotFoundPage

definition routes :: "(string \<times> page) list" where
  "routes =
     [(''/'', DashboardMainWorkspace),
      (''/authentication-login-register'', AuthenticationLoginRegister),
      (''/card-editor'', CardEditorPage),
      (''/dashboard-main-workspace'', DashboardMainWorkspace),
      (''/whiteboard-interface'', WhiteboardInterface),
      (''/project-detail-view'', ProjectDetailView),
      (''/profile-and-settings'', ProfileAndSettings)]"

definition strip_slashes :: "string \<Rightarrow> string" where
  "strip_slashes s = rev (dropWhile (\<lambda>c. c = CHR ''/'') (rev s))"

definition route_matches :: "string \<Rightarrow> string \<Rightarrow> bool" where
  "route_matches pat path = (toLowerCase (strip_slashes path) = toLowerCase (strip_slashes pat))"
  \<comment> \<open>React Router's \<open>matchPath\<close> for a static pattern: case-insensitive, trailing
      slashes ignored\<close>

definition route :: "string \<Rightarrow> page" where
  "route path = (case find (\<lambda>(pat, _). route_matches pat path) routes of
                   Some (_, p) \<Rightarrow> p
                 | None \<Rightarrow> NotFoundPage)"
  \<comment> \<open>the \<open><Route>\<close> elements, with \<open>path="*"\<close> taking what no other matches\<close>

definition page_of :: "string \<Rightarrow> page" where
  "page_of href = route (pathname (parse_href href))"

section \<open>Navigation chrome\<close>

record nav_item =
  nav_label :: string
  nav_path :: string
  nav_icon :: string
  nav_badge :: "int option"

datatype nav_effect = AssignHref string | RouterNavigate string
  \<comment> \<open>\<open>window.location.href = path\<close> (a full page load) and React Router's
      \<open>navigate(path)\<close>\<close>

definition nav_isActive :: "location \<Rightarrow> string \<Rightarrow> bool" where
  "nav_isActive loc path = (pathname loc = path)"
  \<comment> \<open>\<open>isActive\<close> of both components: the exact pathname, not the route\<close>

definition variant_of :: "bool \<Rightarrow> string" where
  "variant_of active = (if active then ''default'' else ''ghost'')"

subsection \<open>Header (\<open>components/ui/Header.jsx\<close>)\<close>

definition hdr_navigationItems :: "nav_item list" where
  "hdr_navigationItems =
     [\<lparr>nav_label = ''Dashboard'', nav_path = ''/dashboard-main-workspace'', nav_icon = ''LayoutDashboard'', nav_badge = None\<rparr>,
      \<lparr>nav_label = ''Projects'', nav_path = ''/project-detail-view'', nav_icon = ''FolderOpen'', nav_badge = None\<rparr>,
      \<lparr>nav_label = ''Card Editor'', nav_path = ''/card-editor'', nav_icon = ''FileText'', nav_badge = None\<rparr>,
      \<lparr>nav_label = ''Whiteboard'', nav_path = ''/whiteboard-interface'', nav_icon = ''PenTool'', nav_badge = None\<rparr>]"

definition hdr_secondaryItems :: "nav_item list" where
  "hdr_secondaryItems =
     [\<lparr>nav_label = ''Profile'', nav_path = ''/profile-and-settings'', nav_icon = ''User'', nav_badge = None\<rparr>]"

record hdr_state =
  isMenuOpen :: bool

definition hdr_init :: hdr_state where
  "hdr_init = \<lparr>isMenuOpen = False\<rparr>"

definition hdr_handleNavigation :: "string \<Rightarrow> hdr_state \<Rightarrow> hdr_state \<times> nav_effect list" where
  "hdr_handleNavigation path s = (s\<lparr>isMenuOpen := False\<rparr>, [AssignHref path])"

datatype hdr_event = HdrDesktopNav nat | HdrProfileButton | HdrMenuToggle | HdrMobileNav nat | HdrMobileSecondary nat

fun hdr_step :: "hdr_state \<Rightarrow> hdr_event \<Rightarrow> hdr_state \<times> nav_effect list" where
  "hdr_step s (HdrDesktopNav i) =
     (if i < length hdr_navigationItems then hdr_handleNavigation (nav_path (hdr_navigationItems ! i)) s
      else (s, []))"
| "hdr_step s HdrProfileButton = hdr_handleNavigation ''/profile-and-settings'' s"
| "hdr_step s HdrMenuToggle = (s\<lparr>isMenuOpen := \<not> isMenuOpen s\<rparr>, [])"
| "hdr_step s (HdrMobileNav i) =
     (if isMenuOpen s \<and> i < length hdr_navigationItems
      then hdr_handleNavigation (nav_path (hdr_navigationItems ! i)) s else (s, []))"
| "hdr_step s (HdrMobileSecondary i) =
     (if isMenuOpen s \<and> i < length hdr_secondaryItems
      then hdr_handleNavigation (nav_path (hdr_secondaryItems ! i)) s else (s, []))"
  \<comment> \<open>the i-th button of the desktop bar, the profile button, the menu toggle, and
      the buttons of the mobile menu, which exist only while it is open\<close>

record hdr_view =
  hv_desktop :: "(string \<times> string) list"
  hv_profileMuted :: bool
  hv_menuIcon :: string
  hv_mobile :: "(string \<times> string) list option"

definition hdr_render :: "location \<Rightarrow> hdr_state \<Rightarrow> hdr_view" where
  "hdr_render loc s =
     (let btn = (\<lambda>it. (nav_label it, variant_of (nav_isActive loc (nav_path it)))) in
      \<lparr>hv_desktop = map btn hdr_navigationItems,
       hv_profileMuted = nav_isActive loc ''/profile-and-settings'',
       hv_menuIcon = (if isMenuOpen s then ''X'' else ''Menu''),
       hv_mobile = (if isMenuOpen s then Some (map btn (hdr_navigationItems @ hdr_secondaryItems)) else None)\<rparr>)"

subsection \<open>Sidebar (\<open>components/ui/Sidebar.jsx\<close>)\<close>

definition sb_navigationItems :: "nav_item list" where
  "sb_navigationItems =
     [\<lparr>nav_label = ''Dashboard'', nav_path = ''/dashboard-main-workspace'', nav_icon = ''LayoutDashboard'', nav_badge = None\<rparr>,
      \<lparr>nav_label = ''Inbox'', nav_path = ''/inbox'', nav_icon = ''Inbox'', nav_badge = Some 38\<rparr>,
      \<lparr>nav_label = ''Journal'', nav_path = ''/journal'', nav_icon = ''BookOpen'', nav_badge = None\<rparr>,
      \<lparr>nav_label = ''Card Library'', nav_path = ''/card-library'', nav_icon = ''Library'', nav_badge = None\<rparr>]"

record sb_project =
  sbp_id :: int
  sbp_name :: string
  sbp_cardCount :: int
  sbp_whiteboardCount :: int
  sbp_lastModified :: string
  sbp_color :: string

definition sb_projects :: "sb_project list" where
  "sb_projects =
     [\<lparr>sbp_id = 1, sbp_name = ''Research Methodology'', sbp_cardCount = 24, sbp_whiteboardCount = 3,
       sbp_lastModified = ''2 hours ago'', sbp_color = ''#4A9B8E''\<rparr>,
      \<lparr>sbp_id = 2, sbp_name = ''Literature Review'', sbp_cardCount = 18, sbp_whiteboardCount = 2,
       sbp_lastModified = ''1 day ago'', sbp_color = ''#059669''\<rparr>,
      \<lparr>sbp_id = 3, sbp_name = ''Data Analysis'', sbp_cardCount = 31, sbp_whiteboardCount = 5,
       sbp_lastModified = ''3 days ago'', sbp_color = ''#10B981''\<rparr>]"

definition sb_currentUser :: "string \<times> string \<times> string" where
  "sb_currentUser = (''Dr. Sarah Chen'', ''sarah.chen@university.edu'', ''/assets/images/avatar.jpg'')"

record sb_state =
  isExpanded :: bool
  sb_searchQuery :: string
  isProfileDropdownOpen :: bool

definition sb_init :: sb_state where
  "sb_init = \<lparr>isExpanded = True, sb_searchQuery = [], isProfileDropdownOpen = False\<rparr>"

definition sb_handleResize :: "int \<Rightarrow> sb_state \<Rightarrow> sb_state" where
  "sb_handleResize innerWidth s = s\<lparr>isExpanded := \<not> innerWidth < 1024\<rparr>"

definition sb_mount :: "int \<Rightarrow> sb_state" where
  "sb_mount innerWidth = sb_handleResize innerWidth sb_init"
  \<comment> \<open>the \<open>[]\<close> effect calls \<open>handleResize()\<close> once after the first render\<close>

definition sb_handleNavigation :: "string \<Rightarrow> nav_effect list" where
  "sb_handleNavigation path = [AssignHref path]"

definition handleProjectNavigation :: "int \<Rightarrow> nav_effect list" where
  "handleProjectNavigation projectId = [AssignHref (''/project-detail-view?id='' @ js_string_of_int projectId)]"

definition sb_handleSearch :: "string \<Rightarrow> sb_state \<Rightarrow> sb_state" where
  "sb_handleSearch v s = s\<lparr>sb_searchQuery := v\<rparr>"

definition handleLogout :: "nav_effect list" where
  "handleLogout = [AssignHref ''/authentication-login-register'']"

datatype sb_event =
    SbResize int | SbBackdropClick | SbSearchInput string | SbNavClick nat | SbNewProjectClick
  | SbProjectClick nat | SbProfileToggle | SbSettingsClick | SbHelpClick | SbSignOutClick
  | SbMobileToggle

fun sb_step :: "sb_state \<times> int \<Rightarrow> sb_event \<Rightarrow> (sb_state \<times> int) \<times> nav_effect list" where
  "sb_step (s, w) (SbResize w') = ((sb_handleResize w' s, w'), [])"
| "sb_step (s, w) SbBackdropClick =
     (if isExpanded s \<and> w < 1024 then ((s\<lparr>isExpanded := False\<rparr>, w), []) else ((s, w), []))"
| "sb_step (s, w) (SbSearchInput v) = ((sb_handleSearch v s, w), [])"
| "sb_step (s, w) (SbNavClick i) =
     ((s, w), if i < length sb_navigationItems then sb_handleNavigation (nav_path (sb_navigationItems ! i)) else [])"
| "sb_step (s, w) SbNewProjectClick = ((s, w), sb_handleNavigation ''/project-detail-view'')"
| "sb_step (s, w) (SbProjectClick i) =
     ((s, w), if i < length sb_projects then handleProjectNavigation (sbp_id (sb_projects ! i)) else [])"
| "sb_step (s, w) SbProfileToggle = ((s\<lparr>isProfileDropdownOpen := \<not> isProfileDropdownOpen s\<rparr>, w), [])"
| "sb_step (s, w) SbSettingsClick =
     ((s, w), if isProfileDropdownOpen s then sb_handleNavigation ''/profile-and-settings'' else [])"
| "sb_step (s, w) SbHelpClick =
     ((s, w), if isProfileDropdownOpen s then sb_handleNavigation ''/help'' else [])"
| "sb_step (s, w) SbSignOutClick = ((s, w), if isProfileDropdownOpen s then handleLogout else [])"
| "sb_step (s, w) SbMobileToggle = (if isExpanded s then ((s, w), []) else ((s\<lparr>isExpanded := True\<rparr>, w), []))"
  \<comment> \<open>the second component is \<open>window.innerWidth\<close>; the backdrop exists only while
      expanded on a narrow window, the dropdown's buttons only while it is open, and
      the mobile toggle is \<open>hidden\<close> while expanded\<close>

record sb_profile_view =
  spv_user :: "string \<times> string"
  spv_chevron :: string
  spv_dropdown :: "(string \<times> string \<times> bool) list option"

definition sb_profile_render :: "sb_state \<Rightarrow> sb_profile_view" where
  "sb_profile_render s =
     \<lparr>spv_user = (fst sb_currentUser, fst (snd sb_currentUser)),
      spv_chevron = (if isProfileDropdownOpen s then ''ChevronUp'' else ''ChevronDown''),
      spv_dropdown = (if isProfileDropdownOpen s
                      then Some [(''Settings'', ''Settings'', False), (''Help'', ''HelpCircle'', False),
                                 (''Sign Out'', ''LogOut'', True)]
                      else None)\<rparr>"
  \<comment> \<open>the user button (name, e-mail, chevron) and the dropdown's buttons: label, icon
      and whether it has the destructive style\<close>

record sb_view =
  sv_backdrop :: bool
  sv_translated :: bool
  sv_search :: string
  sv_nav :: "(string \<times> string \<times> int option) list"
  sv_projects :: "(string \<times> string \<times> string \<times> string) list"
  sv_profile :: sb_profile_view
  sv_toggleShown :: bool

definition sb_render :: "location \<Rightarrow> sb_state \<times> int \<Rightarrow> sb_view" where
  "sb_render loc sw =
     (let (s, w) = sw in
      \<lparr>sv_backdrop = (isExpanded s \<and> w < 1024),
       sv_translated = isExpanded s,
       sv_search = sb_searchQuery s,
       sv_nav = map (\<lambda>it. (nav_label it, variant_of (nav_isActive loc (nav_path it)), nav_badge it))
                  sb_navigationItems,
       sv_projects = map (\<lambda>p. (sbp_name p, js_string_of_int (sbp_cardCount p) @ '' cards'',
                                js_string_of_int (sbp_whiteboardCount p) @ '' boards'', sbp_lastModified p))
                       sb_projects,
       sv_profile = sb_profile_render s,
       sv_toggleShown = (\<not> isExpanded s)\<rparr>)"
  \<comment> \<open>the search box shows the query and nothing else reads it\<close>

section \<open>Query-string lemmas\<close>

declare parse_query.simps [simp del]

lemma takeWhile_upto [simp]: "c \<notin> set xs \<Longrightarrow> takeWhile (\<lambda>x. x \<noteq> c) (xs @ c # ys) = xs"
  by (induction xs) auto

lemma takeWhile_none [simp]: "c \<notin> set xs \<Longrightarrow> takeWhile (\<lambda>x. x \<noteq> c) xs = xs"
  by (induction xs) auto

lemma parse_query_Nil [simp]: "parse_query [] = []"
  by (simp add: parse_query.simps)

lemma parse_query_seg:
  assumes "CHR ''&'' \<notin> set seg" "seg \<noteq> []"
  shows "parse_query (seg @ CHR ''&'' # rest) = query_param seg # parse_query rest"
proof -
  from assms show ?thesis by (subst parse_query.simps) (simp add: Let_def)
qed

lemma parse_query_last:
  assumes "CHR ''&'' \<notin> set seg" "seg \<noteq> []"
  shows "parse_query seg = [query_param seg]"
proof -
  from assms show ?thesis by (subst parse_query.simps) (simp add: Let_def)
qed

lemma query_param_eq:
  "CHR ''='' \<notin> set k \<Longrightarrow> query_param (k @ CHR ''='' # v) = (form_decode k, form_decode v)"
  by (simp add: query_param_def)

lemma form_decode_plain:
  "CHR ''%'' \<notin> set s \<Longrightarrow> CHR ''+'' \<notin> set s \<Longrightarrow> form_decode s = s"
proof -
  assume "CHR ''%'' \<notin> set s" "CHR ''+'' \<notin> set s"
  moreover have "map (\<lambda>c. if c = CHR ''+'' then CHR '' '' else c) s = s"
    if "CHR ''+'' \<notin> set s" using that by (induction s) auto
  ultimately show ?thesis by (simp add: form_decode_def uri_decode_no_pct)
qed




lemma parse_href_query:
  "CHR ''?'' \<notin> set path \<Longrightarrow> parse_href (path @ CHR ''?'' # q) = \<lparr>pathname = path, search = CHR ''?'' # q\<rparr>"
  by (simp add: parse_href_def)

lemma page_of_query: "CHR ''?'' \<notin> set path \<Longrightarrow> page_of (path @ CHR ''?'' # q) = route path"
  by (simp add: page_of_def parse_href_query)

lemma params_get_query:
  "CHR ''?'' \<notin> set path \<Longrightarrow> params_get k (parse_href (path @ CHR ''?'' # q)) = map_of (parse_query q) k"
  by (simp add: params_get_def parse_href_query url_search_params_def)

lemma int_segment:
  assumes "CHR ''&'' \<notin> set k" "CHR ''='' \<notin> set k" "CHR ''%'' \<notin> set k" "CHR ''+'' \<notin> set k"
  shows "CHR ''&'' \<notin> set (k @ CHR ''='' # js_string_of_int i)"
    and "query_param (k @ CHR ''='' # js_string_of_int i) = (k, js_string_of_int i)"
  using assms by (simp_all add: query_param_eq form_decode_plain js_string_of_int_no_char)

lemma params_one_int:
  assumes "CHR ''?'' \<notin> set path"
    and "CHR ''&'' \<notin> set k1" "CHR ''='' \<notin> set k1" "CHR ''%'' \<notin> set k1" "CHR ''+'' \<notin> set k1"
  shows "params_get k (parse_href (path @ CHR ''?'' # k1 @ CHR ''='' # js_string_of_int i)) =
         map_of [(k1, js_string_of_int i)] k"
proof -
  have "parse_query (k1 @ CHR ''='' # js_string_of_int i) = [(k1, js_string_of_int i)]"
    using assms(2-5) int_segment [of k1 i] parse_query_last [of "k1 @ CHR ''='' # js_string_of_int i"]
    by simp
  with assms(1) show ?thesis by (simp add: params_get_query)
qed

lemma params_two_ints:
  assumes "CHR ''?'' \<notin> set path"
    and "CHR ''&'' \<notin> set k1" "CHR ''='' \<notin> set k1" "CHR ''%'' \<notin> set k1" "CHR ''+'' \<notin> set k1"
    and "CHR ''&'' \<notin> set k2" "CHR ''='' \<notin> set k2" "CHR ''%'' \<notin> set k2" "CHR ''+'' \<notin> set k2"
  shows "params_get k (parse_href (path @ CHR ''?'' # k1 @ CHR ''='' # js_string_of_int i @
                                   CHR ''&'' # k2 @ CHR ''='' # js_string_of_int j)) =
         map_of [(k1, js_string_of_int i), (k2, js_string_of_int j)] k"
proof -
  let ?s1 = "k1 @ CHR ''='' # js_string_of_int i" and ?s2 = "k2 @ CHR ''='' # js_string_of_int j"
  have "parse_query (?s1 @ CHR ''&'' # ?s2) = [(k1, js_string_of_int i), (k2, js_string_of_int j)]"
    using assms(2-9) int_segment [of k1 i] int_segment [of k2 j] parse_query_seg [of ?s1 ?s2]
      parse_query_last [of ?s2]
    by simp
  with assms(1) params_get_query [of path k "?s1 @ CHR ''&'' # ?s2"] show ?thesis by simp
qed


subsection \<open>Links of the chrome\<close>

lemma map_nth_mem: "i < length xs \<Longrightarrow> f (xs ! i) \<in> set (map f xs)"
  by simp

lemma sb_step_targets:
  "AssignHref h \<in> set (snd (sb_step sw e)) \<Longrightarrow>
   h \<in> set (map nav_path sb_navigationItems @
            [''/project-detail-view'', ''/profile-and-settings'', ''/help'', ''/authentication-login-register''] @
            map (\<lambda>p. ''/project-detail-view?id='' @ js_string_of_int (sbp_id p)) sb_projects)"
  by (cases sw; cases e)
     (auto simp: sb_handleNavigation_def handleProjectNavigation_def handleLogout_def
           split: if_splits intro: map_nth_mem)

lemma hdr_step_targets:
  "AssignHref h \<in> set (snd (hdr_step s e)) \<Longrightarrow>
   h \<in> set (map nav_path (hdr_navigationItems @ hdr_secondaryItems))"
  by (cases e) (auto simp: hdr_handleNavigation_def hdr_secondaryItems_def split: if_splits intro: map_nth_mem)

lemma route_table:
  "route ''/'' = DashboardMainWorkspace \<and>
   route ''/authentication-login-register'' = AuthenticationLoginRegister \<and>
   route ''/card-editor'' = CardEditorPage \<and> route ''/dashboard-main-workspace'' = DashboardMainWorkspace \<and>
   route ''/whiteboard-interface'' = WhiteboardInterface \<and> route ''/project-detail-view'' = ProjectDetailView \<and>
   route ''/profile-and-settings'' = ProfileAndSettings"
  by code_simp

lemma sidebar_target_pages:
  "map page_of (map nav_path sb_navigationItems @
            [''/project-detail-view'', ''/profile-and-settings'', ''/help'', ''/authentication-login-register''] @
            map (\<lambda>p. ''/project-detail-view?id='' @ js_string_of_int (sbp_id p)) sb_projects) =
   [DashboardMainWorkspace, NotFoundPage, NotFoundPage, NotFoundPage, ProjectDetailView, ProfileAndSettings,
    NotFoundPage, AuthenticationLoginRegister, ProjectDetailView, ProjectDetailView, ProjectDetailView]"
  by code_simp

lemma header_target_pages:
  "map page_of (map nav_path (hdr_navigationItems @ hdr_secondaryItems)) =
   [DashboardMainWorkspace, ProjectDetailView, CardEditorPage, WhiteboardInterface, ProfileAndSettings]"
  by code_simp

text \<open>C11. The sidebar's Inbox, Journal and Card Library buttons and its Help entry
  lead to paths no route matches, so they show the not-found page; every other
  link of the sidebar opens a page of the application.\<close>

theorem sidebar_dead_links:
  assumes "AssignHref h \<in> set (snd (sb_step sw e))"
  shows "page_of h = NotFoundPage \<longleftrightarrow> h \<in> {''/inbox'', ''/journal'', ''/card-library'', ''/help''}"
proof -
  note t = sb_step_targets [OF assms]
  have "\<forall>h \<in> set (map nav_path sb_navigationItems @
            [''/project-detail-view'', ''/profile-and-settings'', ''/help'', ''/authentication-login-register''] @
            map (\<lambda>p. ''/project-detail-view?id='' @ js_string_of_int (sbp_id p)) sb_projects).
          (page_of h = NotFoundPage \<longleftrightarrow> h \<in> {''/inbox'', ''/journal'', ''/card-library'', ''/help''})"
    by code_simp
  with t show ?thesis by blast
qed

theorem sidebar_dead_links_witness:
  "AssignHref ''/help'' \<in> set (snd (sb_step (sb_init\<lparr>isProfileDropdownOpen := True\<rparr>, 1280) SbHelpClick)) \<and>
   page_of ''/help'' = NotFoundPage"
  using sidebar_dead_links [of "''/help''" "(sb_init\<lparr>isProfileDropdownOpen := True\<rparr>, 1280)" SbHelpClick]
  by (simp add: sb_handleNavigation_def)


end
