(* ===== verification/Dashboard.thy ===== *)
theory Dashboard
  imports Navigation
begin

text \<open>The dashboard (\<open>pages/dashboard-main-workspace/\<close>): the mock projects and
  statistics of \<open>index.jsx\<close>, the page's navigation handlers and its responsive
  right panel, the search box and view switch of \<open>WorkspaceHeader\<close>, the drag
  highlight of each \<open>ProjectSection\<close>, the tabs of \<open>RightPanel\<close> with its
  \<open>QuickActions\<close> and \<open>RecentActivity\<close>, and the page's \<open>Sidebar\<close>, composed in
  one step function over browser events.\<close>

section \<open>Data\<close>

record dash_card =
  dc_id :: int
  dc_title :: string
  dc_type :: string
  dc_preview :: string
  dc_lastModified :: string
  dc_hasAttachments :: bool

record dash_project =
  dp_id :: int
  dp_name :: string
  dp_cardCount :: int
  dp_whiteboardCount :: int
  dp_cards :: "dash_card list"

definition mk_dcard :: "int \<Rightarrow> string \<Rightarrow> string \<Rightarrow> string \<Rightarrow> string \<Rightarrow> bool \<Rightarrow> dash_card" where
  "mk_dcard i t ty p lm a = \<lparr>dc_id = i, dc_title = t, dc_type = ty, dc_preview = p,
     dc_lastModified = lm, dc_hasAttachments = a\<rparr>"

definition dash_projects :: "dash_project list" where
  "dash_projects =
     [\<lparr>dp_id = 1, dp_name = ''Getting Started'', dp_cardCount = 14, dp_whiteboardCount = 0,
       dp_cards =
        [mk_dcard 1 ''Welcome to VisualNotes'' ''Card''
           ''Learn the basics of organizing your knowledge with visual note-taking techniques and card-based systems.''
           ''2 hours ago'' False,
         mk_dcard 2 ''Project Setup Guide'' ''Card''
           ''Step-by-step instructions for creating your first project and organizing your research materials effectively.''
           ''1 day ago'' True,
         mk_dcard 3 ''Keyboard Shortcuts'' ''Global Tool''
           ''Master the essential keyboard shortcuts to speed up your workflow and navigate efficiently.''
           ''2 days ago'' False,
         mk_dcard 4 ''Collaboration Features'' ''Card''
           ''Discover how to share projects, collaborate with team members, and manage permissions.''
           ''3 days ago'' True]\<rparr>,
      \<lparr>dp_id = 2, dp_name = ''PARA System'', dp_cardCount = 4, dp_whiteboardCount = 0,
       dp_cards =
        [mk_dcard 5 ''Projects Overview'' ''Card''
           ''Active projects with specific outcomes and deadlines. Track progress and maintain focus on deliverables.''
           ''1 hour ago'' False,
         mk_dcard 6 ''Areas of Responsibility'' ''Tag''
           ''Ongoing areas that require maintenance and attention. Health, finances, professional development.''
           ''4 hours ago'' False,
         mk_dcard 7 ''Resource Collection'' ''Card''
           ''Valuable resources for future reference. Articles, templates, tools, and reference materials.''
           ''1 day ago'' True,
         mk_dcard 8 ''Archive System'' ''Archival System''
           ''Completed projects and inactive materials. Organized for easy retrieval when needed.''
           ''2 days ago'' False]\<rparr>,
      \<lparr>dp_id = 3, dp_name = ''My Library'', dp_cardCount = 5, dp_whiteboardCount = 1,
       dp_cards =
        [mk_dcard 9 ''Research Methodology'' ''Topic Learning''
           ''Comprehensive notes on qualitative and quantitative research methods, data collection techniques.''
           ''30 minutes ago'' True,
         mk_dcard 10 ''Literature Review Process'' ''Project Research''
           ''Systematic approach to conducting literature reviews, source evaluation, and synthesis techniques.''
           ''2 hours ago'' True,
         mk_dcard 11 ''Data Analysis Techniques'' ''Card''
           ''Statistical methods, visualization tools, and interpretation strategies for research data.''
           ''5 hours ago'' False,
         mk_dcard 12 ''Academic Writing'' ''Card''
           ''Guidelines for scholarly writing, citation styles, and publication strategies.''
           ''1 day ago'' True,
         mk_dcard 13 ''Knowledge Mapping'' ''Whiteboard''
           ''Visual representation of concept relationships and knowledge structures.''
           ''2 days ago'' False]\<rparr>]"

record dash_stats =
  totalCards :: int
  totalWhiteboards :: int
  activeProjects :: int
  connections :: int

definition stats :: dash_stats where
  "stats = \<lparr>totalCards = 23, totalWhiteboards = 1, activeProjects = 3, connections = 47\<rparr>"

record stat_item =
  si_id :: string
  si_label :: string
  si_value :: int
  si_icon :: string
  si_color :: string
  si_bgColor :: string
  si_change :: string
  si_changeType :: string

definition statItems :: "dash_stats \<Rightarrow> stat_item list" where
  "statItems st =
     [\<lparr>si_id = ''total-cards'', si_label = ''Total Cards'', si_value = totalCards st, si_icon = ''FileText'',
       si_color = ''text-primary'', si_bgColor = ''bg-primary/10'', si_change = ''+12'', si_changeType = ''increase''\<rparr>,
      \<lparr>si_id = ''whiteboards'', si_label = ''Whiteboards'', si_value = totalWhiteboards st, si_icon = ''PenTool'',
       si_color = ''text-accent'', si_bgColor = ''bg-accent/10'', si_change = ''+3'', si_changeType = ''increase''\<rparr>,
      \<lparr>si_id = ''projects'', si_label = ''Active Projects'', si_value = activeProjects st, si_icon = ''FolderOpen'',
       si_color = ''text-success'', si_bgColor = ''bg-success/10'', si_change = ''+1'', si_changeType = ''increase''\<rparr>,
      \<lparr>si_id = ''connections'', si_label = ''Connections'', si_value = connections st, si_icon = ''GitBranch'',
       si_color = ''text-warning'', si_bgColor = ''bg-warning/10'', si_change = ''+8'', si_changeType = ''increase''\<rparr>]"
  \<comment> \<open>\<open>StatsOverview\<close>'s tiles over the page's \<open>stats\<close>\<close>

definition quoted :: "string \<Rightarrow> string" where
  "quoted s = CHR 0x22 # s @ [CHR 0x22]"

record activity =
  act_id :: int
  act_type :: string
  act_title :: string
  act_project :: string
  act_timestamp :: string
  act_icon :: string
  act_color :: string

definition recentActivities :: "activity list" where
  "recentActivities =
     [\<lparr>act_id = 1, act_type = ''card_created'', act_title = ''Created '' @ quoted ''Research Methodology Overview'',
       act_project = ''Research Methodology'', act_timestamp = ''2 minutes ago'', act_icon = ''FileText'',
       act_color = ''text-primary''\<rparr>,
      \<lparr>act_id = 2, act_type = ''whiteboard_updated'', act_title = ''Updated whiteboard '' @ quoted ''Literature Map'',
       act_project = ''Literature Review'', act_timestamp = ''15 minutes ago'', act_icon = ''PenTool'',
       act_color = ''text-accent''\<rparr>,
      \<lparr>act_id = 3, act_type = ''card_moved'', act_title = ''Moved 3 cards to '' @ quoted ''Data Analysis'',
       act_project = ''Data Analysis'', act_timestamp = ''1 hour ago'', act_icon = ''Move'',
       act_color = ''text-success''\<rparr>,
      \<lparr>act_id = 4, act_type = ''project_created'', act_title = ''Created new project '' @ quoted ''Thesis Writing'',
       act_project = ''Thesis Writing'', act_timestamp = ''2 hours ago'', act_icon = ''FolderPlus'',
       act_color = ''text-warning''\<rparr>,
      \<lparr>act_id = 5, act_type = ''card_tagged'', act_title = ''Added tags to '' @ quoted ''Statistical Methods'',
       act_project = ''Research Methodology'', act_timestamp = ''3 hours ago'', act_icon = ''Tag'',
       act_color = ''text-secondary''\<rparr>]"
  \<comment> \<open>\<open>RecentActivity\<close>'s list; the render takes the icon from \<open>getActivityIcon(type)\<close>,
      not from the \<open>icon\<close> field\<close>

definition getActivityIcon :: "string \<Rightarrow> string" where
  "getActivityIcon ty =
     (if ty = ''card_created'' then ''FileText'' else if ty = ''whiteboard_updated'' then ''PenTool''
      else if ty = ''card_moved'' then ''Move'' else if ty = ''project_created'' then ''FolderPlus''
      else if ty = ''card_tagged'' then ''Tag'' else ''Activity'')"

section \<open>Handlers\<close>

definition dash_card_url :: "int \<Rightarrow> int option \<Rightarrow> string" where
  "dash_card_url projectId cardId =
     (case cardId of
        Some c \<Rightarrow> if c \<noteq> 0 then ''/card-editor?project='' @ js_string_of_int projectId @ ''&card='' @ js_string_of_int c
                  else ''/card-editor?project='' @ js_string_of_int projectId
      | None \<Rightarrow> ''/card-editor?project='' @ js_string_of_int projectId)"
  \<comment> \<open>\<open>if (cardId)\<close>: an absent card id (the section's Add Card button) and \<open>0\<close> are falsy\<close>

definition handleCardClick :: "int \<Rightarrow> int option \<Rightarrow> nav_effect list" where
  "handleCardClick projectId cardId = [RouterNavigate (dash_card_url projectId cardId)]"

definition handleWhiteboardClick :: "int \<Rightarrow> nav_effect list" where
  "handleWhiteboardClick projectId = [RouterNavigate (''/whiteboard-interface?project='' @ js_string_of_int projectId)]"

definition handleNewWhiteboard :: "nav_effect list" where
  "handleNewWhiteboard = [RouterNavigate ''/whiteboard-interface'']"

definition handleNewCard :: "nav_effect list" where
  "handleNewCard = [RouterNavigate ''/card-editor'']"

definition handleNewProject :: "nav_effect list" where
  "handleNewProject = [RouterNavigate ''/project-detail-view'']"

record dash_state =
  currentView :: string
  isRightPanelOpen :: bool
  panelTab :: string
  wh_searchQuery :: string
  isSearchFocused :: bool
  dragOverSections :: "int list"
  dash_sidebar :: sb_state

definition dash_init :: dash_state where
  "dash_init = \<lparr>currentView = ''grid'', isRightPanelOpen = False, panelTab = ''actions'',
     wh_searchQuery = [], isSearchFocused = False, dragOverSections = [], dash_sidebar = sb_init\<rparr>"
  \<comment> \<open>the page's, \<open>WorkspaceHeader\<close>'s and \<open>RightPanel\<close>'s \<open>useState\<close> defaults; the
      drag flag of each \<open>ProjectSection\<close> (keyed by project id) is the list of ids set\<close>

definition dash_handleResize :: "int \<Rightarrow> dash_state \<Rightarrow> dash_state" where
  "dash_handleResize innerWidth s = s\<lparr>isRightPanelOpen := innerWidth \<ge> 1024\<rparr>"

definition dash_mount :: "int \<Rightarrow> dash_state" where
  "dash_mount innerWidth = (dash_handleResize innerWidth dash_init)\<lparr>dash_sidebar := sb_mount innerWidth\<rparr>"
  \<comment> \<open>the page's and the sidebar's \<open>[]\<close> effects each call their \<open>handleResize()\<close> once\<close>

definition handleViewChange :: "string \<Rightarrow> dash_state \<Rightarrow> dash_state" where
  "handleViewChange view s = s\<lparr>currentView := view\<rparr>"

definition toggleRightPanel :: "dash_state \<Rightarrow> dash_state" where
  "toggleRightPanel s = s\<lparr>isRightPanelOpen := \<not> isRightPanelOpen s\<rparr>"

definition dash_viewOptions :: "(string \<times> string \<times> string) list" where
  "dash_viewOptions = [(''grid'', ''Grid'', ''Grid3X3''), (''list'', ''List'', ''List''), (''board'', ''Board'', ''Kanban'')]"

definition wh_handleSearch :: "string \<Rightarrow> dash_state \<Rightarrow> dash_state" where
  "wh_handleSearch v s = s\<lparr>wh_searchQuery := v\<rparr>"

definition handleDragOver :: "int \<Rightarrow> dash_state \<Rightarrow> dash_state" where
  "handleDragOver pid s = s\<lparr>dragOverSections := List.insert pid (dragOverSections s)\<rparr>"

definition handleDragLeave :: "int \<Rightarrow> dash_state \<Rightarrow> dash_state" where
  "handleDragLeave pid s = s\<lparr>dragOverSections := removeAll pid (dragOverSections s)\<rparr>"

definition ps_handleDrop :: "int \<Rightarrow> dash_state \<Rightarrow> dash_state" where
  "ps_handleDrop pid s = s\<lparr>dragOverSections := removeAll pid (dragOverSections s)\<rparr>"
  \<comment> \<open>only clears the highlight: the drop itself is a placeholder comment\<close>

definition panel_tabs :: "(string \<times> string \<times> string) list" where
  "panel_tabs = [(''actions'', ''Actions'', ''Zap''), (''activity'', ''Activity'', ''Clock''),
                 (''insights'', ''Insights'', ''BarChart3'')]"

record quick_action =
  qa_id :: string
  qa_label :: string
  qa_icon :: string
  qa_description :: string
  qa_action :: "nav_effect list"
  qa_color :: string

definition quickActionItems :: "quick_action list" where
  "quickActionItems =
     [\<lparr>qa_id = ''new-card'', qa_label = ''New Card'', qa_icon = ''FileText'',
       qa_description = ''Create a new note card'', qa_action = handleNewCard,
       qa_color = ''bg-primary/10 text-primary border-primary/20''\<rparr>,
      \<lparr>qa_id = ''new-whiteboard'', qa_label = ''New Whiteboard'', qa_icon = ''PenTool'',
       qa_description = ''Start a visual workspace'', qa_action = handleNewWhiteboard,
       qa_color = ''bg-accent/10 text-accent border-accent/20''\<rparr>,
      \<lparr>qa_id = ''new-project'', qa_label = ''New Project'', qa_icon = ''FolderPlus'',
       qa_description = ''Organize your work'', qa_action = handleNewProject,
       qa_color = ''bg-success/10 text-success border-success/20''\<rparr>]"
  \<comment> \<open>\<open>QuickActions\<close>' buttons, each \<open>action\<close> the page handler passed down\<close>

datatype dash_event =
    DashResize int | ViewOptionClick nat | SearchInput string | SearchFocus | SearchBlur | SearchClearClick
  | HeaderNewCardClick | HeaderNewWhiteboardClick
  | AddCardClick nat | SectionWhiteboardClick nat | CardClick nat nat
  | SectionDragOver nat | SectionDragLeave nat | SectionDrop nat
  | PanelTabClick nat | PanelBackdropClick | PanelCloseClick | PanelOpenClick | QuickActionClick nat
  | DashSidebarEv sb_event

fun dash_step :: "dash_state \<times> int \<Rightarrow> dash_event \<Rightarrow> (dash_state \<times> int) \<times> nav_effect list" where
  "dash_step (s, w) (DashResize w') =
     ((dash_handleResize w' (s\<lparr>dash_sidebar := sb_handleResize w' (dash_sidebar s)\<rparr>), w'), [])"
| "dash_step (s, w) (ViewOptionClick i) =
     ((if i < length dash_viewOptions then handleViewChange (fst (dash_viewOptions ! i)) s else s, w), [])"
| "dash_step (s, w) (SearchInput v) = ((wh_handleSearch v s, w), [])"
| "dash_step (s, w) SearchFocus = ((s\<lparr>isSearchFocused := True\<rparr>, w), [])"
| "dash_step (s, w) SearchBlur = ((s\<lparr>isSearchFocused := False\<rparr>, w), [])"
| "dash_step (s, w) SearchClearClick =
     ((if wh_searchQuery s \<noteq> [] then s\<lparr>wh_searchQuery := []\<rparr> else s, w), [])"
| "dash_step (s, w) HeaderNewCardClick = ((s, w), [])"
| "dash_step (s, w) HeaderNewWhiteboardClick = ((s, w), handleNewWhiteboard)"
| "dash_step (s, w) (AddCardClick i) =
     ((s, w), if i < length dash_projects then handleCardClick (dp_id (dash_projects ! i)) None else [])"
| "dash_step (s, w) (SectionWhiteboardClick i) =
     ((s, w), if i < length dash_projects then handleWhiteboardClick (dp_id (dash_projects ! i)) else [])"
| "dash_step (s, w) (CardClick i j) =
     ((s, w), if i < length dash_projects \<and> j < length (dp_cards (dash_projects ! i))
              then handleCardClick (dp_id (dash_projects ! i)) (Some (dc_id (dp_cards (dash_projects ! i) ! j)))
              else [])"
| "dash_step (s, w) (SectionDragOver i) =
     ((if i < length dash_projects then handleDragOver (dp_id (dash_projects ! i)) s else s, w), [])"
| "dash_step (s, w) (SectionDragLeave i) =
     ((if i < length dash_projects then handleDragLeave (dp_id (dash_projects ! i)) s else s, w), [])"
| "dash_step (s, w) (SectionDrop i) =
     ((if i < length dash_projects then ps_handleDrop (dp_id (dash_projects ! i)) s else s, w), [])"
| "dash_step (s, w) (PanelTabClick i) =
     ((if i < length panel_tabs then s\<lparr>panelTab := fst (panel_tabs ! i)\<rparr> else s, w), [])"
| "dash_step (s, w) PanelBackdropClick =
     ((if isRightPanelOpen s then toggleRightPanel s else s, w), [])"
| "dash_step (s, w) PanelCloseClick = ((toggleRightPanel s, w), [])"
| "dash_step (s, w) PanelOpenClick = ((if isRightPanelOpen s then s else toggleRightPanel s, w), [])"
| "dash_step (s, w) (QuickActionClick i) =
     ((s, w), if panelTab s = ''actions'' \<and> i < length quickActionItems
              then qa_action (quickActionItems ! i) else [])"
| "dash_step (s, w) (DashSidebarEv e) =
     (let ((sb, w'), eff) = sb_step (dash_sidebar s, w) e in ((s\<lparr>dash_sidebar := sb\<rparr>, w'), eff))"
  \<comment> \<open>a resize reaches the page's and the sidebar's listeners; the header's New Card
      button has no \<open>onClick\<close>; the backdrop exists only while the panel is open and the
      open button only while it is closed; the quick actions only on their tab\<close>

end
