(* ===== verification/Auth.thy ===== *)
theory Auth
  imports Navigation SettingsDisplay
begin

text \<open>The authentication page (\<open>pages/authentication-login-register/\<close>): the tab
  state of \<open>index.jsx\<close> with its redirect effect on \<open>localStorage\<close>, the titles of
  \<open>AuthHeader\<close>, the buttons of \<open>AuthTabs\<close> and the links of \<open>AuthFooter\<close>. The
  login, registration and social sign-in forms are imported from files that are
  not in the repository.\<close>

record auth_state =
  auth_activeTab :: string

datatype auth_effect = AuthNav nav_effect | AuthAlert string

definition auth_mount :: "browser \<Rightarrow> auth_state \<times> auth_effect list" where
  "auth_mount b =
     (\<lparr>auth_activeTab = ''login''\<rparr>,
      if obj_get ''isAuthenticated'' (local_storage b) = Some ''true''
      then [AuthNav (RouterNavigate ''/dashboard-main-workspace'')] else [])"
  \<comment> \<open>\<open>useState('login')\<close> and the \<open>[navigate]\<close> effect after the first render:
      \<open>localStorage.getItem\<close> is \<open>null\<close> (\<open>None\<close>) for a missing key\<close>

definition auth_handleTabChange :: "string \<Rightarrow> auth_state \<Rightarrow> auth_state" where
  "auth_handleTabChange tab s = s\<lparr>auth_activeTab := tab\<rparr>"

definition getTitle :: "string \<Rightarrow> string" where
  "getTitle activeTab = (if activeTab = ''login'' then ''Welcome back'' else ''Create your account'')"

definition getSubtitle :: "string \<Rightarrow> string" where
  "getSubtitle activeTab =
     (if activeTab = ''login'' then ''Sign in to your VisualNotes workspace''
      else ''Start organizing your knowledge today'')"

definition handleLinkClick :: "string \<Rightarrow> auth_effect list" where
  "handleLinkClick ty =
     (if ty = ''privacy'' then [AuthAlert ''Privacy Policy would open in a new window.'']
      else if ty = ''terms'' then [AuthAlert ''Terms of Service would open in a new window.'']
      else if ty = ''help'' then [AuthAlert ''Help Center would open with support resources.''] else [])"

datatype auth_event = SignInTabClick | CreateAccountTabClick | FooterLinkClick string

fun auth_step :: "auth_state \<Rightarrow> auth_event \<Rightarrow> auth_state \<times> auth_effect list" where
  "auth_step s SignInTabClick = (auth_handleTabChange ''login'' s, [])"
| "auth_step s CreateAccountTabClick = (auth_handleTabChange ''register'' s, [])"
| "auth_step s (FooterLinkClick ty) =
     (s, if ty \<in> {''privacy'', ''terms'', ''help''} then handleLinkClick ty else [])"
  \<comment> \<open>the footer has the three links only\<close>

record auth_view =
  av_title :: string
  av_subtitle :: string
  av_tabs :: "(string \<times> string) list"
  av_form :: string

definition auth_render :: "auth_state \<Rightarrow> auth_view" where
  "auth_render s =
     \<lparr>av_title = getTitle (auth_activeTab s), av_subtitle = getSubtitle (auth_activeTab s),
      av_tabs = [(''Sign In'', variant_of (auth_activeTab s = ''login'')),
                 (''Create Account'', variant_of (auth_activeTab s = ''register''))],
      av_form = (if auth_activeTab s = ''login'' then ''LoginForm'' else ''RegisterForm'')\<rparr>"

end
