(* ===== verification/DashViews.thy ===== *)
theory DashViews
  imports Dashboard
begin

text \<open>The dashboard's render (\<open>pages/dashboard-main-workspace/\<close>), one view per
  component in the order the page composes them: \<open>WorkspaceHeader\<close> with its search
  dropdown, \<open>StatsOverview\<close>'s tiles (\<open>toLocaleString\<close> of each value), each
  \<open>ProjectSection\<close> with its drop zone and cards, and \<open>RightPanel\<close> with the
  \<open>QuickActions\<close>, \<open>RecentActivity\<close> and insights tabs. The reachable states of the
  page's step function keep the view and the panel tab among their options, so exactly
  one view button is highlighted and the panel always shows a tab's content.\<close>

section \<open>WorkspaceHeader\<close>

definition wsSearchResults :: "(string \<times> string \<times> string \<times> string) list" where
  "wsSearchResults =
     [(''FileText'', ''text-primary'', ''Research Methodology Overview'', ''in Research Methodology''),
      (''PenTool'', ''text-accent'', ''Literature Map'', ''in Literature Review'')]"
  \<comment> \<open>the two fixed rows of the search dropdown: icon, its colour, title and project\<close>

record ws_header_view =
  whd_title :: string
  whd_breadcrumb :: "string list"
  whd_search :: string
  whd_clear :: bool
  whd_viewButtons :: "(string \<times> string \<times> string) list"
  whd_actions :: "(string \<times> string \<times> string \<times> bool) list"
  whd_results :: "(string \<times> (string \<times> string \<times> string \<times> string) list) option"

definition ws_header_render :: "dash_state \<Rightarrow> ws_header_view" where
  "ws_header_render s =
     \<lparr>whd_title = ''Dashboard'', whd_breadcrumb = [''Workspace'', ''Main''],
      whd_search = wh_searchQuery s,
      whd_clear = (wh_searchQuery s \<noteq> []),
      whd_viewButtons = map (\<lambda>(i, l, ic). (l, ic, variant_of (currentView s = i))) dash_viewOptions,
      whd_actions = [(''New Card'', ''Plus'', ''outline'', False), (''New Whiteboard'', ''PenTool'', ''default'', True),
                     ([], ''MoreVertical'', ''ghost'', False)],
      whd_results = (if isSearchFocused s \<and> wh_searchQuery s \<noteq> []
                     then Some (''Search results for '' @ quoted (wh_searchQuery s), wsSearchResults) else None)\<rparr>"
  \<comment> \<open>title and breadcrumb, the search box with its clear button, the view buttons
      (label, icon, variant), the action buttons (label, icon, variant, whether it has an
      \<open>onClick\<close>) and the dropdown shown while focused with a query\<close>

section \<open>StatsOverview\<close>

record stat_tile =
  st_iconBox :: string
  st_icon :: string
  st_iconColor :: string
  st_trendClass :: string
  st_trendIcon :: string
  st_change :: string
  st_value :: string
  st_label :: string
  st_footer :: string

definition stat_tile_of :: "stat_item \<Rightarrow> stat_tile" where
  "stat_tile_of item =
     (let up = (si_changeType item = ''increase'') in
      \<lparr>st_iconBox = si_bgColor item, st_icon = si_icon item, st_iconColor = si_color item,
       st_trendClass = (if up then ''text-success'' else ''text-destructive''),
       st_trendIcon = (if up then ''TrendingUp'' else ''TrendingDown''),
       st_change = si_change item, st_value = js_toLocaleString (si_value item),
       st_label = si_label item, st_footer = si_change item @ '' from last week''\<rparr>)"

definition stats_view :: "dash_stats \<Rightarrow> stat_tile list" where
  "stats_view st = map stat_tile_of (statItems st)"

section \<open>ProjectSection\<close>

definition card_badge_class :: "string \<Rightarrow> string" where
  "card_badge_class ty =
     (if ty = ''Whiteboard'' then ''bg-accent/10 text-accent''
      else if ty = ''Card'' then ''bg-primary/10 text-primary''
      else if ty = ''Tag'' then ''bg-warning/10 text-warning'' else ''bg-secondary/10 text-secondary'')"

record section_view =
  sec_name :: string
  sec_cardCount :: string
  sec_whiteboardCount :: string
  sec_dropClass :: string
  sec_cards :: "(string \<times> string \<times> string \<times> string \<times> string \<times> bool) list"
  sec_empty :: bool

definition project_section_view :: "dash_state \<Rightarrow> dash_project \<Rightarrow> section_view" where
  "project_section_view s p =
     \<lparr>sec_name = dp_name p,
      sec_cardCount = js_string_of_int (dp_cardCount p) @ '' Cards'',
      sec_whiteboardCount = js_string_of_int (dp_whiteboardCount p) @ '' Whiteboards'',
      sec_dropClass = (if dp_id p \<in> set (dragOverSections s) then ''border-primary bg-primary/5''
                       else ''border-border bg-muted/30''),
      sec_cards = map (\<lambda>c. (dc_type c, card_badge_class (dc_type c), dc_title c, dc_preview c,
                            dc_lastModified c, dc_hasAttachments c)) (dp_cards p),
      sec_empty = (dp_cards p = [])\<rparr>"
  \<comment> \<open>the heading with the project's own counts, the drop zone's highlight, each card
      (type badge, title, preview, date, paperclip) and the empty state\<close>

section \<open>RightPanel\<close>

record qa_view =
  qav_buttons :: "(string \<times> string \<times> string \<times> string) list"
  qav_shortcut :: "string list"

definition quick_actions_view :: qa_view where
  "quick_actions_view =
     \<lparr>qav_buttons = map (\<lambda>a. (qa_color a, qa_icon a, qa_label a, qa_description a)) quickActionItems,
      qav_shortcut = [''Ctrl'', ''N'']\<rparr>"
  \<comment> \<open>each button's colour, icon, label and description, and the advertised shortcut\<close>

record activity_view =
  av_rows :: "(string \<times> string \<times> string \<times> string \<times> string) list"
  av_viewAllHandler :: bool

definition recent_activity_view :: activity_view where
  "recent_activity_view =
     \<lparr>av_rows = map (\<lambda>a. (act_color a, getActivityIcon (act_type a), act_title a, act_project a, act_timestamp a))
                 recentActivities,
      av_viewAllHandler = False\<rparr>"
  \<comment> \<open>each row's colour, icon, title, project and time; View all activity has no \<open>onClick\<close>\<close>

definition insights :: "(string \<times> string \<times> string \<times> string \<times> string) list" where
  "insights =
     [(''Most Active Project'', ''TrendingUp'', ''text-success'', ''Research Methodology'', ''24 cards, 3 whiteboards''),
      (''Weekly Progress'', ''Calendar'', ''text-primary'', ''12 new cards'', ''+20% from last week''),
      (''Knowledge Connections'', ''GitBranch'', ''text-accent'', ''47 connections'', ''Across 3 projects'')]"
  \<comment> \<open>the insights tab's three fixed tiles: heading, icon, its colour, value and caption\<close>

datatype panel_content =
    QuickActionsP qa_view | ActivityP activity_view
  | InsightsP "(string \<times> string \<times> string \<times> string \<times> string) list" | NoPanelContent

record panel_view =
  pv_backdrop :: bool
  pv_open :: bool
  pv_title :: string
  pv_tabs :: "(string \<times> string \<times> bool) list"
  pv_content :: panel_content
  pv_toggleButton :: bool

definition panel_render :: "dash_state \<Rightarrow> panel_view" where
  "panel_render s =
     \<lparr>pv_backdrop = isRightPanelOpen s, pv_open = isRightPanelOpen s, pv_title = ''Workspace Panel'',
      pv_tabs = map (\<lambda>(i, l, ic). (l, ic, panelTab s = i)) panel_tabs,
      pv_content = (if panelTab s = ''actions'' then QuickActionsP quick_actions_view
                    else if panelTab s = ''activity'' then ActivityP recent_activity_view
                    else if panelTab s = ''insights'' then InsightsP insights else NoPanelContent),
      pv_toggleButton = (\<not> isRightPanelOpen s)\<rparr>"
  \<comment> \<open>the backdrop while open, the slide (\<open>translate-x-0\<close> when open), the tabs and the
      active tab's content, the open button while closed\<close>

section \<open>The page\<close>

record dash_view =
  dv_header :: ws_header_view
  dv_stats :: "stat_tile list"
  dv_sections :: "section_view list"
  dv_empty :: bool
  dv_mainMargin :: string
  dv_panel :: panel_view

definition dash_render :: "dash_state \<Rightarrow> dash_view" where
  "dash_render s =
     \<lparr>dv_header = ws_header_render s,
      dv_stats = stats_view stats,
      dv_sections = map (project_section_view s) dash_projects,
      dv_empty = (dash_projects = []),
      dv_mainMargin = (if isRightPanelOpen s then ''lg:mr-80'' else ''mr-0''),
      dv_panel = panel_render s\<rparr>"
  \<comment> \<open>\<open>DashboardMainWorkspace\<close>'s render; the empty state needs an empty project list,
      which the constant \<open>projects\<close> never is\<close>

inductive dash_reachable :: "dash_state \<times> int \<Rightarrow> bool" where
  mount: "dash_reachable (dash_mount w, w)"
| step: "dash_reachable sw \<Longrightarrow> dash_reachable (fst (dash_step sw e))"

definition dash_inv :: "dash_state \<Rightarrow> bool" where
  "dash_inv s = (currentView s \<in> set (map fst dash_viewOptions) \<and> panelTab s \<in> set (map fst panel_tabs))"

section \<open>Properties\<close>

text \<open>Every step keeps the current view and the panel tab among the options the buttons
  set, so in every reachable state one view button is highlighted and the panel shows
  a tab's content.\<close>

lemma dash_step_inv:
  assumes "dash_inv s"
  shows "dash_inv (fst (fst (dash_step (s, w) e)))"
proof (cases e)
  case (DashSidebarEv x)
  with assms show ?thesis by (simp add: split_def Let_def dash_inv_def)
qed (use assms in \<open>auto simp: dash_inv_def handleViewChange_def toggleRightPanel_def wh_handleSearch_def
     dash_handleResize_def handleDragOver_def handleDragLeave_def ps_handleDrop_def\<close>)

lemma dash_reachable_inv: "dash_reachable sw \<Longrightarrow> dash_inv (fst sw)"
proof (induction rule: dash_reachable.induct)
  case (mount w)
  then show ?case
    by (simp add: dash_inv_def dash_mount_def dash_handleResize_def dash_init_def dash_viewOptions_def panel_tabs_def)
next
  case (step sw e)
  then show ?case
    by (metis dash_step_inv prod.collapse)
qed

lemma one_view_button_default:
  "dash_inv s \<Longrightarrow> length (filter (\<lambda>(_, _, v). v = ''default'') (whd_viewButtons (ws_header_render s))) = 1"
  by (auto simp: dash_inv_def ws_header_render_def dash_viewOptions_def variant_of_def)

lemma panel_content_shown: "dash_inv s \<Longrightarrow> pv_content (panel_render s) \<noteq> NoPanelContent"
  by (auto simp: dash_inv_def panel_render_def panel_tabs_def)

lemma stats_view_digits:
  "map (\<lambda>t. filter (\<lambda>c. c \<noteq> CHR '','') (st_value t)) (stats_view st) = map (js_string_of_int \<circ> si_value) (statItems st)"
  by (simp add: stats_view_def stat_tile_of_def Let_def toLocaleString_digits)

lemma stats_view_values: "map st_value (stats_view stats) = [''23'', ''1'', ''3'', ''47'']"
  by code_simp

lemma search_input_results:
  "isSearchFocused s \<Longrightarrow> v \<noteq> [] \<Longrightarrow>
   whd_results (ws_header_render (fst (fst (dash_step (s, w) (SearchInput v))))) =
     Some (''Search results for '' @ quoted v, wsSearchResults)"
  by (simp add: ws_header_render_def wh_handleSearch_def)

lemma search_results_ignore_query:
  "isSearchFocused s \<Longrightarrow> wh_searchQuery s \<noteq> [] \<Longrightarrow> isSearchFocused s' \<Longrightarrow> wh_searchQuery s' \<noteq> [] \<Longrightarrow>
   map_option snd (whd_results (ws_header_render s)) = map_option snd (whd_results (ws_header_render s'))"
  by (simp add: ws_header_render_def)

lemma activity_icon_field_agrees: "map act_icon recentActivities = map (getActivityIcon \<circ> act_type) recentActivities"
  by (simp add: recentActivities_def getActivityIcon_def)

lemma insights_most_active_unlisted:
  "fst (snd (snd (snd (insights ! 0)))) \<notin> set (map dp_name dash_projects) \<and>
   snd (snd (snd (snd (insights ! 0)))) = ''24 cards, 3 whiteboards'' \<and>
   totalCards stats < 24 \<and> totalWhiteboards stats < 3"
  by (simp add: insights_def dash_projects_def stats_def)

end
