(* ===== verification/WbHeader.thy ===== *)
theory WbHeader
  imports Whiteboard Navigation
begin

text \<open>The whiteboard header (\<open>whiteboard-interface/components/WhiteboardHeader.jsx\<close>)
  over the page of \<open>Whiteboard\<close>: its own state (\<open>isEditing\<close>, \<open>tempTitle\<close>, the
  latter initialised once from the page's title), the title editor's handlers, which
  call the page's \<open>handleTitleChange\<close> through \<open>onTitleChange\<close>, the back, share and
  settings buttons, and the save-status display. The page's title changes only
  through the header, so a run of the two is a sequence of header events and the
  page's own events.\<close>

record wbh_state =
  isEditing :: bool
  tempTitle :: string

definition wbh_init :: "wb_state \<Rightarrow> wbh_state" where
  "wbh_init s = \<lparr>isEditing = False, tempTitle = whiteboardTitle s\<rparr>"
  \<comment> \<open>\<open>useState(whiteboardTitle)\<close> reads the prop once, at mount\<close>

datatype wbh_effect = WbNav nav_effect | WbLog string

definition handleTitleSubmit :: "wbh_state \<times> wb_state \<Rightarrow> wbh_state \<times> wb_state" where
  "handleTitleSubmit hs =
     (let (h, s) = hs in (h\<lparr>isEditing := False\<rparr>, handleTitleChange (tempTitle h) s))"
  \<comment> \<open>\<open>onTitleChange(tempTitle)\<close>, whether or not the title changed\<close>

definition handleTitleCancel :: "wbh_state \<times> wb_state \<Rightarrow> wbh_state \<times> wb_state" where
  "handleTitleCancel hs =
     (let (h, s) = hs in (h\<lparr>tempTitle := whiteboardTitle s, isEditing := False\<rparr>, s))"

definition wb_handleShare :: "wbh_effect list" where
  "wb_handleShare = [WbLog ''Share whiteboard'']"
  \<comment> \<open>the page's \<open>handleShare\<close>: a console message only\<close>

definition wb_handleSettings :: "wbh_effect list" where
  "wb_handleSettings = [WbLog ''Open settings'']"

datatype wbh_event =
    TitleClick | TitleInput string | TitleKeyDown string | TitleCheckClick | TitleCancelClick
  | BackClick | ShareClick | SettingsClick

fun wbh_step :: "wbh_state \<times> wb_state \<Rightarrow> wbh_event \<Rightarrow> (wbh_state \<times> wb_state) \<times> wbh_effect list" where
  "wbh_step (h, s) TitleClick = (if isEditing h then (h, s) else (h\<lparr>isEditing := True\<rparr>, s), [])"
| "wbh_step (h, s) (TitleInput v) = (if isEditing h then (h\<lparr>tempTitle := v\<rparr>, s) else (h, s), [])"
| "wbh_step (h, s) (TitleKeyDown k) =
     (if isEditing h \<and> k = ''Enter'' then handleTitleSubmit (h, s)
      else if isEditing h \<and> k = ''Escape'' then handleTitleCancel (h, s) else (h, s), [])"
| "wbh_step (h, s) TitleCheckClick = (if isEditing h then handleTitleSubmit (h, s) else (h, s), [])"
| "wbh_step (h, s) TitleCancelClick = (if isEditing h then handleTitleCancel (h, s) else (h, s), [])"
| "wbh_step (h, s) BackClick = ((h, s), [WbNav (RouterNavigate ''/dashboard-main-workspace'')])"
| "wbh_step (h, s) ShareClick = ((h, s), wb_handleShare)"
| "wbh_step (h, s) SettingsClick = ((h, s), wb_handleSettings)"
  \<comment> \<open>the input and its two buttons exist while editing, the title button otherwise\<close>

definition getSaveStatusColor :: "save_status \<Rightarrow> string" where
  "getSaveStatusColor st =
     (case st of Saved \<Rightarrow> ''text-success'' | Saving \<Rightarrow> ''text-warning''
      | SaveError \<Rightarrow> ''text-destructive'' | Unsaved \<Rightarrow> ''text-muted-foreground'')"

definition getSaveStatusText :: "save_status \<Rightarrow> string" where
  "getSaveStatusText st =
     (case st of Saved \<Rightarrow> ''All changes saved'' | Saving \<Rightarrow> ''Saving...''
      | SaveError \<Rightarrow> ''Save failed'' | Unsaved \<Rightarrow> ''Unsaved changes'')"

definition status_dot_class :: "save_status \<Rightarrow> string" where
  "status_dot_class st =
     (case st of Saved \<Rightarrow> ''bg-success'' | Saving \<Rightarrow> ''bg-warning animate-pulse''
      | SaveError \<Rightarrow> ''bg-destructive'' | Unsaved \<Rightarrow> ''bg-muted-foreground'')"

record wbh_view =
  whv_title :: "string + string"
  whv_status :: "string \<times> string \<times> string"

definition wbh_render :: "wbh_state \<times> wb_state \<Rightarrow> wbh_view" where
  "wbh_render hs =
     (let (h, s) = hs in
      \<lparr>whv_title = (if isEditing h then Inr (tempTitle h) else Inl (whiteboardTitle s)),
       whv_status = (status_dot_class (saveStatus s), getSaveStatusColor (saveStatus s),
                     getSaveStatusText (saveStatus s))\<rparr>)"
  \<comment> \<open>the title button (\<open>Inl\<close>) or the input with its value (\<open>Inr\<close>), and the save status\<close>

datatype wbp_event = HeaderEv wbh_event | PageEv wb_event

fun wbp_step :: "real \<Rightarrow> wbh_state \<times> wb_state \<Rightarrow> wbp_event \<Rightarrow> (wbh_state \<times> wb_state) option" where
  "wbp_step fresh hs (HeaderEv e) = Some (fst (wbh_step hs e))"
| "wbp_step fresh (h, s) (PageEv e) =
     (case e of TitleChange _ \<Rightarrow> None | _ \<Rightarrow> map_option (Pair h) (wb_step fresh s e))"
  \<comment> \<open>\<open>TitleChange\<close> is the header's callback, not an event of its own\<close>

inductive wbp_reachable :: "wbh_state \<times> wb_state \<Rightarrow> bool" where
  init: "wbp_reachable (wbh_init (wb_init origin), wb_init origin)"
| step: "wbp_reachable hs \<Longrightarrow> wbp_step fresh hs e = Some hs' \<Longrightarrow> wbp_reachable hs'"

definition title_synced :: "wbh_state \<times> wb_state \<Rightarrow> bool" where
  "title_synced hs = (isEditing (fst hs) \<or> tempTitle (fst hs) = whiteboardTitle (snd hs))"
  \<comment> \<open>outside editing, the edit buffer holds the page's title\<close>

lemma wb_title_frame [simp]:
  "whiteboardTitle (handleMouseDown f p s) = whiteboardTitle s"
  "whiteboardTitle (handleMouseMove p s) = whiteboardTitle s"
  "whiteboardTitle (handleMouseUp f s) = whiteboardTitle s"
  by (simp_all add: handleMouseDown_def handleMouseMove_def handleMouseUp_def handleElementCreate_def
      Let_def split: tool.split)

lemma wb_step_keeps_title:
  assumes "wb_step f s e = Some s'" and "case e of TitleChange _ \<Rightarrow> False | _ \<Rightarrow> True"
  shows "whiteboardTitle s' = whiteboardTitle s"
proof (cases e)
  case UndoClick
  with assms show ?thesis by (auto simp: handleUndo_def split: if_splits option.splits)
next
  case RedoClick
  with assms show ?thesis by (auto simp: handleRedo_def split: if_splits option.splits)
qed (insert assms, auto simp: handleWheel_def handleToolChange_def handleSave_def save_timeout_def
       handleElementSelect_def handleElementUpdate_def handleZoomIn_def handleZoomOut_def
       handleResetZoom_def handleSidebarToggle_def handleTabChange_def)

lemma wbp_step_PageEv:
  "wbp_step f (h, s) (PageEv x) =
     (if (case x of TitleChange _ \<Rightarrow> True | _ \<Rightarrow> False) then None else map_option (Pair h) (wb_step f s x))"
  by (cases x) simp_all

lemma wbp_step_synced:
  assumes "title_synced hs" and "wbp_step f hs e = Some hs'"
  shows "title_synced hs'"
proof -
  obtain h s where hs: "hs = (h, s)" by fastforce
  show ?thesis
  proof (cases e)
    case (HeaderEv x)
    with assms hs show ?thesis
      by (cases x)
         (auto simp: title_synced_def handleTitleSubmit_def handleTitleCancel_def handleTitleChange_def
               split: if_splits)
  next
    case (PageEv x)
    have "wbp_step f (h, s) (PageEv x) = Some hs'" using assms(2) hs PageEv by simp
    then have "\<not> (case x of TitleChange _ \<Rightarrow> True | _ \<Rightarrow> False) \<and> map_option (Pair h) (wb_step f s x) = Some hs'"
      unfolding wbp_step_PageEv by (simp split: if_splits)
    then obtain s' where x: "\<not> (case x of TitleChange _ \<Rightarrow> True | _ \<Rightarrow> False)"
      and s': "wb_step f s x = Some s'" and hs': "hs' = (h, s')"
      by auto
    from x have "case x of TitleChange _ \<Rightarrow> False | _ \<Rightarrow> True" by (cases x) simp_all
    with s' have "whiteboardTitle s' = whiteboardTitle s" by (rule wb_step_keeps_title)
    with assms(1) hs hs' show ?thesis by (simp add: title_synced_def)
  qed
qed

lemma wbp_reachable_synced: "wbp_reachable hs \<Longrightarrow> title_synced hs"
proof (induction rule: wbp_reachable.induct)
  case (init origin)
  then show ?case by (simp add: title_synced_def wbh_init_def)
next
  case (step hs fresh e hs')
  then show ?case using wbp_step_synced by blast
qed

definition wbh_session :: "wbh_event list \<Rightarrow> wbh_state \<times> wb_state \<Rightarrow> wbh_state \<times> wb_state" where
  "wbh_session es hs = foldl (\<lambda>x e. fst (wbh_step x e)) hs es"

lemma title_submit_unchanged_unsaved:
  "isEditing h \<Longrightarrow> tempTitle h = whiteboardTitle s \<Longrightarrow>
   snd (fst (wbh_step (h, s) TitleCheckClick)) = s\<lparr>saveStatus := Unsaved\<rparr>"
  by (simp add: handleTitleSubmit_def handleTitleChange_def)

text \<open>C20. The title editor always opens on the current title: in every state the
  header and the page reach with the editor closed, clicking the title shows an
  input holding the page's title, because submitting writes the buffer to the
  page, cancelling writes the page's title back to the buffer, and no other event
  changes either.\<close>

theorem reachable_title_editor_synced:
  assumes "wbp_reachable (h, s)" and "\<not> isEditing h"
  shows "whv_title (wbh_render (fst (wbh_step (h, s) TitleClick))) = Inr (whiteboardTitle s)"
  using wbp_reachable_synced [OF assms(1)] assms(2)
  by (simp add: title_synced_def wbh_render_def)

theorem reachable_title_editor_synced_witness:
  "wbp_reachable (wbh_session [TitleClick, TitleInput ''Draft'', TitleKeyDown ''Enter'']
                    (wbh_init (wb_init (0, 0)), wb_init (0, 0))) \<and>
   \<not> isEditing (fst (wbh_session [TitleClick, TitleInput ''Draft'', TitleKeyDown ''Enter'']
                    (wbh_init (wb_init (0, 0)), wb_init (0, 0)))) \<and>
   whv_title (wbh_render (fst (wbh_step (wbh_session [TitleClick, TitleInput ''Draft'', TitleKeyDown ''Enter'']
                    (wbh_init (wb_init (0, 0)), wb_init (0, 0))) TitleClick))) = Inr ''Draft''"
proof -
  let ?e = "[TitleClick, TitleInput ''Draft'', TitleKeyDown ''Enter'']"
  let ?s0 = "(wbh_init (wb_init (0, 0)), wb_init (0, 0))"
  have r: "wbp_reachable (wbh_session es hs)" if "wbp_reachable hs" for es hs
    using that
  proof (induction es arbitrary: hs)
    case (Cons e es)
    have "wbp_reachable (fst (wbh_step hs e))"
      using wbp_reachable.step [OF Cons.prems, of 0 "HeaderEv e"] by simp
    with Cons.IH show ?case by (simp add: wbh_session_def)
  qed (simp add: wbh_session_def)
  have r0: "wbp_reachable ?s0" by (rule wbp_reachable.init)
  obtain h s where hs: "wbh_session ?e ?s0 = (h, s)" by fastforce
  have v: "\<not> isEditing h \<and> whiteboardTitle s = ''Draft''"
    using hs by (auto simp: wbh_session_def wbh_init_def handleTitleSubmit_def handleTitleChange_def)
  show ?thesis
    using r [OF r0, of ?e] v reachable_title_editor_synced [of h s] hs by simp
qed

end
