(* ===== verification/WbToolbar.thy ===== *)
theory WbToolbar
  imports Whiteboard
begin

text \<open>The whiteboard's tool bar (\<open>whiteboard-interface/components/WhiteboardToolbar.jsx\<close>)
  over the page of \<open>Whiteboard\<close>: its own state (\<open>isExpanded\<close>), the eight tool
  buttons, the pen's brush-size and colour buttons (which have no handler), the undo
  and redo buttons (disabled while the page says so) and the zoom controls. A click
  either changes the bar's state or becomes the page event its handler stands for.\<close>

definition tools :: "(tool \<times> string \<times> string) list" where
  "tools =
     [(SelectTool, ''MousePointer'', ''Select''), (PenTool, ''Pen'', ''Draw''), (TextTool, ''Type'', ''Text''),
      (RectangleTool, ''Square'', ''Rectangle''), (CircleTool, ''Circle'', ''Circle''),
      (ArrowTool, ''ArrowRight'', ''Arrow''), (StickyTool, ''StickyNote'', ''Sticky Note''),
      (CardTool, ''FileText'', ''Insert Card'')]"
  \<comment> \<open>the tool (for its id), icon and label of each button\<close>

definition brushSizes :: "int list" where
  "brushSizes = [2, 4, 8, 16]"

definition colors :: "string list" where
  "colors = [''#000000'', ''#4A9B8E'', ''#059669'', ''#10B981'', ''#EF4444'', ''#F59E0B'', ''#3B82F6'', ''#8B5CF6'']"

record wbt_state =
  tb_isExpanded :: bool

definition wbt_init :: wbt_state where
  "wbt_init = \<lparr>tb_isExpanded = True\<rparr>"

datatype wbt_event =
    ExpandToggleClick | ToolButtonClick nat | BrushSizeClick nat | ColorClick nat
  | UndoButtonClick | RedoButtonClick | ZoomInButtonClick | ZoomOutButtonClick | ResetZoomButtonClick

fun wbt_event_of :: "wb_state \<Rightarrow> wbt_event \<Rightarrow> wb_event option" where
  "wbt_event_of s (ToolButtonClick i) = (if i < length tools then Some (ToolChange (fst (tools ! i))) else None)"
| "wbt_event_of s UndoButtonClick = (if canUndo s then Some UndoClick else None)"
| "wbt_event_of s RedoButtonClick = (if canRedo s then Some RedoClick else None)"
| "wbt_event_of s ZoomInButtonClick = Some ZoomInClick"
| "wbt_event_of s ZoomOutButtonClick = Some ZoomOutClick"
| "wbt_event_of s ResetZoomButtonClick = Some ResetZoomClick"
| "wbt_event_of s _ = None"
  \<comment> \<open>the page handler a click calls: \<open>onToolChange(tool.id)\<close>, \<open>onUndo\<close> and \<open>onRedo\<close>
      (a \<open>disabled\<close> button delivers no click), the zoom handlers; the brush and colour
      buttons have no \<open>onClick\<close>\<close>

fun wbt_step :: "real \<Rightarrow> wbt_state \<times> wb_state \<Rightarrow> wbt_event \<Rightarrow> (wbt_state \<times> wb_state) option" where
  "wbt_step fresh (t, s) ExpandToggleClick = Some (t\<lparr>tb_isExpanded := \<not> tb_isExpanded t\<rparr>, s)"
| "wbt_step fresh (t, s) (BrushSizeClick i) = Some (t, s)"
| "wbt_step fresh (t, s) (ColorClick i) = Some (t, s)"
| "wbt_step fresh (t, s) e =
     (case wbt_event_of s e of None \<Rightarrow> Some (t, s) | Some e' \<Rightarrow> map_option (Pair t) (wb_step fresh s e'))"

record wbt_view =
  tbv_width :: string
  tbv_chevron :: string
  tbv_tools :: "(string \<times> string) list"
  tbv_penOptions :: "(int list \<times> string list) option"
  tbv_undoDisabled :: bool
  tbv_redoDisabled :: bool
  tbv_zoom :: string

definition wbt_render :: "wbt_state \<times> wb_state \<Rightarrow> wbt_view" where
  "wbt_render ts =
     (let (t, s) = ts in
      \<lparr>tbv_width = (if tb_isExpanded t then ''w-16'' else ''w-12''),
       tbv_chevron = (if tb_isExpanded t then ''ChevronLeft'' else ''ChevronRight''),
       tbv_tools = map (\<lambda>(tl, ic, l). (l, if activeTool s = tl then ''default'' else ''ghost'')) tools,
       tbv_penOptions = (if activeTool s = PenTool then Some (brushSizes, colors) else None),
       tbv_undoDisabled = (\<not> canUndo s), tbv_redoDisabled = (\<not> canRedo s),
       tbv_zoom = js_string_of_int (zoom_percent (zoomLevel s)) @ ''%''\<rparr>)"
  \<comment> \<open>the bar's width and chevron, each tool button's label and variant, the pen's
      options, the disabled flags and the zoom indicator\<close>

lemma wbt_step_reachable:
  assumes "wb_reachable s" and "wbt_step f (t, s) e = Some (t', s')"
  shows "wb_reachable s'"
proof (cases "wbt_event_of s e")
  case None
  with assms show ?thesis by (cases e) auto
next
  case (Some e')
  with assms(2) have "wb_step f s e' = Some s' \<or> s' = s"
    by (cases e) (auto split: option.splits)
  with assms(1) show ?thesis by (auto intro: wb_reachable.step)
qed

lemma reachable_undo_redo_disabled:
  "wb_reachable s \<Longrightarrow> tbv_undoDisabled (wbt_render (t, s)) \<and> tbv_redoDisabled (wbt_render (t, s))"
  using wb_reachable_inv [of s] by (simp add: wbt_render_def wb_inv_def history_stub_def)

end
