(* ===== verification/WbSidebar.thy ===== *)
theory WbSidebar
  imports Whiteboard
begin

text \<open>The whiteboard's right sidebar (\<open>whiteboard-interface/components/WhiteboardSidebar.jsx\<close>)
  over the page of \<open>Whiteboard\<close>: its own state (the library search), its four
  tabs with their mock layers, library items and comments, the properties tab of
  \<open>Elements\<close>, the tab and toggle buttons wired to the page's handlers, and the
  layer toggle, which only logs.\<close>

record wb_layer =
  layer_id :: int
  layer_name :: string
  layer_visible :: bool
  layer_locked :: bool
  layer_type :: string
  layer_count :: "int option"

definition mockLayers :: "wb_layer list" where
  "mockLayers =
     [\<lparr>layer_id = 1, layer_name = ''Background'', layer_visible = True, layer_locked = False,
       layer_type = ''background'', layer_count = None\<rparr>,
      \<lparr>layer_id = 2, layer_name = ''Cards'', layer_visible = True, layer_locked = False,
       layer_type = ''cards'', layer_count = Some 3\<rparr>,
      \<lparr>layer_id = 3, layer_name = ''Annotations'', layer_visible = True, layer_locked = False,
       layer_type = ''annotations'', layer_count = Some 5\<rparr>,
      \<lparr>layer_id = 4, layer_name = ''Connections'', layer_visible = True, layer_locked = False,
       layer_type = ''connections'', layer_count = Some 2\<rparr>]"

definition mockLibraryItems :: "(int \<times> string \<times> string \<times> string list) list" where
  "mockLibraryItems =
     [(1, ''Research Methods'', ''card'', [''Research'', ''Methodology'']),
      (2, ''Data Analysis'', ''card'', [''Data'', ''Analysis'']),
      (3, ''Literature Review'', ''card'', [''Literature'', ''Review'']),
      (4, ''Hypothesis Formation'', ''card'', [''Hypothesis'', ''Theory'']),
      (5, ''Statistical Methods'', ''card'', [''Statistics'', ''Methods''])]"
  \<comment> \<open>id, title, type and tags\<close>

record wb_comment =
  cm_id :: int
  cm_author :: string
  cm_avatar :: string
  cm_content :: string
  cm_timestamp :: string
  cm_x :: int
  cm_y :: int
  cm_resolved :: bool

definition mockComments :: "wb_comment list" where
  "mockComments =
     [\<lparr>cm_id = 1, cm_author = ''Sarah Chen'', cm_avatar = ''SC'',
       cm_content = ''Should we add more detail about the data collection process?'',
       cm_timestamp = ''2 hours ago'', cm_x = 300, cm_y = 200, cm_resolved = False\<rparr>,
      \<lparr>cm_id = 2, cm_author = ''Michael Rodriguez'', cm_avatar = ''MR'',
       cm_content = ''The connection between these concepts could be clearer.'',
       cm_timestamp = ''4 hours ago'', cm_x = 500, cm_y = 350, cm_resolved = True\<rparr>,
      \<lparr>cm_id = 3, cm_author = ''You'', cm_avatar = ''YU'',
       cm_content = ''Added reference to Smith et al. (2023) for validation.'',
       cm_timestamp = ''1 day ago'', cm_x = 400, cm_y = 150, cm_resolved = False\<rparr>]"

definition wb_tabs :: "(string \<times> string \<times> string) list" where
  "wb_tabs = [(''layers'', ''Layers'', ''Layers''), (''library'', ''Library'', ''Library''),
              (''properties'', ''Properties'', ''Settings''), (''comments'', ''Comments'', ''MessageCircle'')]"

record wbs_state =
  lib_searchQuery :: string

definition wbs_init :: wbs_state where
  "wbs_init = \<lparr>lib_searchQuery = []\<rparr>"

definition handleLayerToggle :: "int \<Rightarrow> string list" where
  "handleLayerToggle layerId = [''Toggle layer: '' @ js_string_of_int layerId]"
  \<comment> \<open>the page's handler: \<open>console.log\<close> only\<close>

definition library_visible :: "string \<Rightarrow> (int \<times> string \<times> string \<times> string list) list" where
  "library_visible q = filter (\<lambda>(_, t, _, _). str_includes (toLowerCase t) (toLowerCase q)) mockLibraryItems"
  \<comment> \<open>\<open>item.title.toLowerCase().includes(searchQuery.toLowerCase())\<close>\<close>

datatype wbs_event =
    WbTabClick nat | LibrarySearchInput string | LayerEyeClick nat | LayerLockClick nat
  | CommentReplyClick nat | CommentResolveClick nat | WbBackdropClick | WbToggleClick

fun wbs_step :: "wbs_state \<times> wb_state \<Rightarrow> wbs_event \<Rightarrow> (wbs_state \<times> wb_state) \<times> string list" where
  "wbs_step (q, s) (WbTabClick i) =
     (if i < length wb_tabs then (q, handleTabChange (fst (wb_tabs ! i)) s) else (q, s), [])"
| "wbs_step (q, s) (LibrarySearchInput v) =
     (if activeTab s = ''library'' then (q\<lparr>lib_searchQuery := v\<rparr>, s) else (q, s), [])"
| "wbs_step (q, s) (LayerEyeClick i) =
     ((q, s), if activeTab s = ''layers'' \<and> i < length mockLayers
              then handleLayerToggle (layer_id (mockLayers ! i)) else [])"
| "wbs_step (q, s) (LayerLockClick i) = ((q, s), [])"
| "wbs_step (q, s) (CommentReplyClick i) = ((q, s), [])"
| "wbs_step (q, s) (CommentResolveClick i) = ((q, s), [])"
| "wbs_step (q, s) WbBackdropClick = (if isSidebarOpen s then (q, handleSidebarToggle s) else (q, s), [])"
| "wbs_step (q, s) WbToggleClick = ((q, handleSidebarToggle s), [])"
  \<comment> \<open>a tab's content exists while the tab is active (the panel stays mounted when it
      slides out); the lock, reply and resolve buttons have no handler\<close>

datatype wbs_content =
    LayersC "(string \<times> int option \<times> string \<times> string \<times> string) list"
  | LibraryC string "(string \<times> string list) list"
  | PropertiesC props_view
  | CommentsC "(string \<times> string \<times> string \<times> string \<times> bool) list"
  | NoContent

definition renderTabContent :: "wbs_state \<Rightarrow> wb_state \<Rightarrow> wbs_content" where
  "renderTabContent q s =
     (if activeTab s = ''layers'' then
        LayersC (map (\<lambda>l. (layer_name l, layer_count l, layer_type l,
                            if layer_visible l then ''Eye'' else ''EyeOff'',
                            if layer_locked l then ''Lock'' else ''Unlock'')) mockLayers)
      else if activeTab s = ''library'' then
        LibraryC (lib_searchQuery q) (map (\<lambda>(_, t, _, tags). (t, tags)) (library_visible (lib_searchQuery q)))
      else if activeTab s = ''properties'' then PropertiesC (properties_view (selectedElement s))
      else if activeTab s = ''comments'' then
        CommentsC (map (\<lambda>c. (cm_avatar c, cm_author c, cm_timestamp c, cm_content c, cm_resolved c))
                    mockComments)
      else NoContent)"
  \<comment> \<open>the \<open>switch\<close> of \<open>renderTabContent\<close>; a comment shows Resolve when unresolved and
      the resolved mark otherwise\<close>

record wbs_view =
  wsv_backdrop :: bool
  wsv_open :: bool
  wsv_tabs :: "(string \<times> bool) list"
  wsv_content :: wbs_content
  wsv_toggleIcon :: string

definition wbs_render :: "wbs_state \<times> wb_state \<Rightarrow> wbs_view" where
  "wbs_render qs =
     (let (q, s) = qs in
      \<lparr>wsv_backdrop = isSidebarOpen s, wsv_open = isSidebarOpen s,
       wsv_tabs = map (\<lambda>(i, l, _). (l, activeTab s = i)) wb_tabs,
       wsv_content = renderTabContent q s,
       wsv_toggleIcon = (if isSidebarOpen s then ''X'' else ''PanelRight'')\<rparr>)"

lemma library_visible_iff:
  "(i, t, ty, tags) \<in> set (library_visible q) \<longleftrightarrow>
   (i, t, ty, tags) \<in> set mockLibraryItems \<and> (\<exists>ps ss. toLowerCase t = ps @ toLowerCase q @ ss)"
  by (auto simp: library_visible_def str_includes_iff)

lemma library_visible_empty: "library_visible [] = mockLibraryItems"
  by (simp add: library_visible_def mockLibraryItems_def toLowerCase_def)

end
