(* ===== verification/WbRender.thy ===== *)
theory WbRender
  imports Whiteboard
begin

text \<open>The render pass of \<open>WhiteboardCanvas.jsx\<close> as one view of the page state: the
  container's cursor, the translated canvas, the grid background scaled with the
  zoom, the drawn elements, the stroke in progress as an SVG path (its \<open>d\<close>
  attribute as a list of commands; the printing of the numbers is not modelled),
  the minimap and the zoom indicator.\<close>

datatype svg_cmd = MoveTo point | LineTo point

definition path_d :: "real \<Rightarrow> point list \<Rightarrow> svg_cmd list" where
  "path_d zoom ps =
     (case map (\<lambda>(x, y). (x * zoom, y * zoom)) ps of
        [] \<Rightarrow> []
      | p # rest \<Rightarrow> MoveTo p # map LineTo rest)"
  \<comment> \<open>\<open>M ${currentPath.map(p => `${p.x * zoomLevel},${p.y * zoomLevel}`).join(' L ')}\<close>\<close>

definition grid_size :: "real \<Rightarrow> real" where
  "grid_size zoom = 20 * zoom"
  \<comment> \<open>\<open>backgroundSize: `${20 * zoomLevel}px ${20 * zoomLevel}px`\<close>\<close>

record canvas_view =
  cnv_cursor :: string
  cnv_translate :: point
  cnv_grid :: real
  cnv_elements :: "render_result list"
  cnv_stroke :: "svg_cmd list option"
  cnv_minimapViewport :: "real \<times> real \<times> real \<times> real"
  cnv_minimapBoxes :: "(real option \<times> real option \<times> real \<times> real) list"
  cnv_zoom :: int

definition wb_canvas_view :: "wb_state \<Rightarrow> canvas_view" where
  "wb_canvas_view s =
     \<lparr>cnv_cursor = (if activeTool s = SelectTool then ''grab'' else ''crosshair''),
      cnv_translate = panOffset s,
      cnv_grid = grid_size (zoomLevel s),
      cnv_elements = canvas_render (zoomLevel s) (elements s),
      cnv_stroke = (if isDrawing (canvas s) \<and> length (currentPath (canvas s)) > 1
                    then Some (path_d (zoomLevel s) (currentPath (canvas s))) else None),
      cnv_minimapViewport = minimap_viewport (panOffset s) (zoomLevel s),
      cnv_minimapBoxes = minimap_boxes (elements s),
      cnv_zoom = zoom_percent (zoomLevel s)\<rparr>"

definition stroke_screen :: "wb_state \<Rightarrow> point \<Rightarrow> point" where
  "stroke_screen s p = (fst (canvasOrigin s) + fst (panOffset s) + fst p,
                        snd (canvasOrigin s) + snd (panOffset s) + snd p)"
  \<comment> \<open>where a point of the SVG path appears: inside the translated canvas\<close>

lemma path_d_length: "length (path_d z ps) = length ps"
  by (cases ps) (auto simp: path_d_def split: prod.split)

lemma stroke_follows_pointer_minus_pan:
  assumes "zoomLevel s \<noteq> 0"
  shows "stroke_screen s (fst (logical_of s c) * zoomLevel s, snd (logical_of s c) * zoomLevel s) =
         (fst c - fst (panOffset s), snd c - snd (panOffset s))"
  using assms by (simp add: stroke_screen_def logical_of_def pointer_logical_def canvas_rect_def)

end
