(* ===== verification/ProjectPage.thy ===== *)
theory ProjectPage
  imports ProjectDetail Navigation
begin

text \<open>The project view (\<open>project-detail-view/index.jsx\<close>) composed with its children:
  the filter bar of \<open>ContentFilters\<close>, each \<open>ContentCard\<close> with its hover state, the
  \<open>BulkActionsToolbar\<close> with its two dialogs, the \<open>ProjectSidebar\<close> (project tools)
  with its tabs and tag input, the \<open>ProjectHeader\<close> of \<open>ProjectDetail\<close>, and the
  global \<open>Sidebar\<close>. The toolbar and the tools panel return \<open>null\<close> when hidden but
  stay mounted, so their state survives. The browser's answers during an event
  (\<open>window.confirm\<close>, \<open>Date.now()\<close>) are the environment \<open>pp_env\<close>.\<close>

section \<open>Children's data\<close>

definition filterOptions :: "(string \<times> string \<times> string) list" where
  "filterOptions = [(''all'', ''All Content'', ''Grid3X3''), (''cards'', ''Cards Only'', ''FileText''),
                    (''whiteboards'', ''Whiteboards Only'', ''PenTool'')]"

definition sortOptions :: "(string \<times> string) list" where
  "sortOptions = [(''modified'', ''Last Modified''), (''created'', ''Date Created''),
                  (''name'', ''Name A-Z''), (''type'', ''Content Type'')]"

definition viewModeOptions :: "(string \<times> string) list" where
  "viewModeOptions = [(''grid'', ''Grid3X3''), (''list'', ''List'')]"

definition availableTags :: "(string \<times> string) list" where
  "availableTags = [(''research'', ''Research''), (''important'', ''Important''), (''draft'', ''Draft''),
                    (''review'', ''Review''), (''completed'', ''Completed'')]"

definition availableProjects :: "(string \<times> string) list" where
  "availableProjects = [(''literature-review'', ''Literature Review''), (''data-analysis'', ''Data Analysis''),
                        (''methodology'', ''Research Methodology'')]"

definition projectTags :: "(string \<times> int \<times> string) list" where
  "projectTags = [(''Research'', 12, ''#4A9B8E''), (''Important'', 8, ''#EF4444''), (''Draft'', 15, ''#F59E0B''),
                  (''Review'', 6, ''#8B5CF6''), (''Completed'', 9, ''#10B981'')]"

definition pst_recentActivity :: "(int \<times> string \<times> string \<times> string \<times> string) list" where
  "pst_recentActivity =
     [(1, ''card_created'', ''New card: '' @ [CHR 0x22] @ ''Literature Review Framework'' @ [CHR 0x22],
       ''2 hours ago'', ''You''),
      (2, ''whiteboard_updated'', ''Updated whiteboard: '' @ [CHR 0x22] @ ''Research Methodology'' @ [CHR 0x22],
       ''4 hours ago'', ''You''),
      (3, ''card_tagged'', ''Tagged 3 cards with '' @ [CHR 0x22] @ ''Important'' @ [CHR 0x22], ''1 day ago'', ''You''),
      (4, ''project_shared'', ''Shared project with Dr. Johnson'', ''2 days ago'', ''You'')]"
  \<comment> \<open>id, type, title, timestamp, user\<close>

definition collaborators :: "(string \<times> string \<times> string \<times> string) list" where
  "collaborators =
     [(''Dr. Michael Johnson'', ''mjohnson@university.edu'', ''Editor'', ''2 hours ago''),
      (''Sarah Williams'', ''swilliams@university.edu'', ''Viewer'', ''1 day ago'')]"
  \<comment> \<open>name, e-mail, role, last active (the avatar URLs are not shown)\<close>

definition pst_tabs :: "(string \<times> string \<times> string) list" where
  "pst_tabs = [(''tags'', ''Tags'', ''Tag''), (''activity'', ''Activity'', ''Clock''), (''sharing'', ''Sharing'', ''Users'')]"

definition pst_getActivityIcon :: "string \<Rightarrow> string" where
  "pst_getActivityIcon ty =
     (if ty = ''card_created'' then ''FileText'' else if ty = ''whiteboard_updated'' then ''PenTool''
      else if ty = ''card_tagged'' then ''Tag'' else if ty = ''project_shared'' then ''Share'' else ''Circle'')"

section \<open>State and handlers\<close>

record pp_state =
  pp_page :: pd_state
  pp_header :: header_state
  hoveredCards :: "int list"
  showTagModal :: bool
  showMoveModal :: bool
  pst_activeTab :: string
  pst_newTag :: string
  pp_sidebar :: sb_state

record pp_env =
  pe_confirm :: bool
  pe_now :: int

definition pp_mount :: "int \<Rightarrow> int \<Rightarrow> pp_state" where
  "pp_mount now innerWidth =
     \<lparr>pp_page = pd_init now, pp_header = header_init (pd_project (pd_init now)), hoveredCards = [],
      showTagModal = False, showMoveModal = False, pst_activeTab = ''tags'', pst_newTag = [],
      pp_sidebar = sb_mount innerWidth\<rparr>"
  \<comment> \<open>the page's resize listener is only registered, not called, on mount\<close>

definition pst_handleAddTag :: "pp_state \<Rightarrow> pp_state" where
  "pst_handleAddTag s = (if js_trim (pst_newTag s) \<noteq> [] then s\<lparr>pst_newTag := []\<rparr> else s)"
  \<comment> \<open>\<open>if (newTag.trim()) setNewTag('')\<close>: the tag itself is never added\<close>

definition handleAddCard :: "nav_effect list" where
  "handleAddCard = [AssignHref ''/card-editor'']"

definition handleCreateWhiteboard :: "nav_effect list" where
  "handleCreateWhiteboard = [AssignHref ''/whiteboard-interface'']"

definition handleItemEdit :: "content_item \<Rightarrow> nav_effect list" where
  "handleItemEdit item = [AssignHref (item_url item)]"

definition shown_item :: "pp_state \<Rightarrow> nat \<Rightarrow> content_item option" where
  "shown_item s i = (if i < length (filteredContent (pp_page s)) then Some (filteredContent (pp_page s) ! i) else None)"
  \<comment> \<open>the i-th rendered \<open>ContentCard\<close>\<close>

definition set_page :: "(pd_state \<Rightarrow> pd_state) \<Rightarrow> pp_state \<Rightarrow> pp_state" where
  "set_page f s = s\<lparr>pp_page := f (pp_page s)\<rparr>"

definition card_actions_shown :: "pp_state \<Rightarrow> content_item \<Rightarrow> bool" where
  "card_actions_shown s item = (viewMode (pp_page s) = ''list'' \<or> item_id item \<in> set (hoveredCards s))"
  \<comment> \<open>the list row always shows its buttons; the grid card only while hovered\<close>

definition toolbar_shown :: "pp_state \<Rightarrow> bool" where
  "toolbar_shown s = (selectedItems (pp_page s) \<noteq> [])"
  \<comment> \<open>\<open>if (selectedCount === 0) return null\<close>\<close>

datatype pp_event =
    PhEv header_event | PhAddCardClick | PhCreateWhiteboardClick
  | FilterClick nat | SearchInput string | SortSelect nat | ViewModeClick nat
  | SelectAllClick | ProjectToolsClick
  | CardCheck nat | CardOpen nat | CardHover nat bool | CardEdit nat | CardDuplicate nat | CardDelete nat
  | EmptyAddCard | EmptyCreateWhiteboard
  | ToolbarAddTags | ToolbarMove | ToolbarArchive | ToolbarDelete | ToolbarClear
  | TagModalClose | TagsChosen "nat list" | MoveModalClose | MoveChosen nat
  | ToolsClose | ToolsTabClick nat | ToolsTagInput string | ToolsAddTagClick
  | PpResize int | PpSidebarEv sb_event

fun pp_step :: "pp_env \<Rightarrow> pp_state \<times> int \<Rightarrow> pp_event \<Rightarrow> (pp_state \<times> int) \<times> nav_effect list" where
  "pp_step env (s, w) (PhEv e) =
     (let (pd, h) = header_step (pp_page s, pp_header s) e in ((s\<lparr>pp_page := pd, pp_header := h\<rparr>, w), []))"
| "pp_step env (s, w) PhAddCardClick = ((s, w), handleAddCard)"
| "pp_step env (s, w) PhCreateWhiteboardClick = ((s, w), handleCreateWhiteboard)"
| "pp_step env (s, w) (FilterClick i) =
     ((if i < length filterOptions then set_page (\<lambda>p. p\<lparr>activeFilter := fst (filterOptions ! i)\<rparr>) s else s, w), [])"
| "pp_step env (s, w) (SearchInput v) = ((set_page (\<lambda>p. p\<lparr>searchQuery := v\<rparr>) s, w), [])"
| "pp_step env (s, w) (SortSelect i) =
     ((if i < length sortOptions then set_page (\<lambda>p. p\<lparr>sortBy := fst (sortOptions ! i)\<rparr>) s else s, w), [])"
| "pp_step env (s, w) (ViewModeClick i) =
     ((if i < length viewModeOptions then set_page (\<lambda>p. p\<lparr>viewMode := fst (viewModeOptions ! i)\<rparr>) s else s, w), [])"
| "pp_step env (s, w) SelectAllClick =
     ((if filteredContent (pp_page s) \<noteq> [] then set_page handleSelectAll s else s, w), [])"
| "pp_step env (s, w) ProjectToolsClick = ((set_page (\<lambda>p. p\<lparr>isProjectSidebarOpen := True\<rparr>) s, w), [])"
| "pp_step env (s, w) (CardCheck i) =
     ((case shown_item s i of
         Some it \<Rightarrow> set_page (handleItemSelect (item_id it) (item_id it \<notin> set (selectedItems (pp_page s)))) s
       | None \<Rightarrow> s, w), [])"
| "pp_step env (s, w) (CardOpen i) =
     ((s, w), case shown_item s i of Some it \<Rightarrow> [AssignHref (item_url it)] | None \<Rightarrow> [])"
| "pp_step env (s, w) (CardHover i b) =
     ((case shown_item s i of
         Some it \<Rightarrow> if viewMode (pp_page s) = ''list'' then s
                   else s\<lparr>hoveredCards := (if b then List.insert (item_id it) (hoveredCards s)
                                           else removeAll (item_id it) (hoveredCards s))\<rparr>
       | None \<Rightarrow> s, w), [])"
| "pp_step env (s, w) (CardEdit i) =
     ((s, w), case shown_item s i of
                Some it \<Rightarrow> if card_actions_shown s it then handleItemEdit it else []
              | None \<Rightarrow> [])"
| "pp_step env (s, w) (CardDuplicate i) =
     ((case shown_item s i of
         Some it \<Rightarrow> if card_actions_shown s it then set_page (handleItemDuplicate (pe_now env) it) s else s
       | None \<Rightarrow> s, w), [])"
| "pp_step env (s, w) (CardDelete i) =
     ((case shown_item s i of
         Some it \<Rightarrow> if card_actions_shown s it then set_page (handleItemDelete (pe_confirm env) it) s else s
       | None \<Rightarrow> s, w), [])"
| "pp_step env (s, w) EmptyAddCard = ((s, w), if filteredContent (pp_page s) = [] then handleAddCard else [])"
| "pp_step env (s, w) EmptyCreateWhiteboard =
     ((s, w), if filteredContent (pp_page s) = [] then handleCreateWhiteboard else [])"
| "pp_step env (s, w) ToolbarAddTags = ((if toolbar_shown s then s\<lparr>showTagModal := True\<rparr> else s, w), [])"
| "pp_step env (s, w) ToolbarMove = ((if toolbar_shown s then s\<lparr>showMoveModal := True\<rparr> else s, w), [])"
| "pp_step env (s, w) ToolbarArchive =
     ((if toolbar_shown s then set_page (handleBulkArchive (pe_confirm env)) s else s, w), [])"
| "pp_step env (s, w) ToolbarDelete =
     ((if toolbar_shown s then set_page (handleBulkDelete (pe_confirm env)) s else s, w), [])"
| "pp_step env (s, w) ToolbarClear = ((if toolbar_shown s then set_page handleClearSelection s else s, w), [])"
| "pp_step env (s, w) TagModalClose =
     ((if toolbar_shown s \<and> showTagModal s then s\<lparr>showTagModal := False\<rparr> else s, w), [])"
| "pp_step env (s, w) (TagsChosen is) =
     ((if toolbar_shown s \<and> showTagModal s \<and> list_all (\<lambda>i. i < length availableTags) is
       then (set_page (handleBulkTag (map (\<lambda>i. fst (availableTags ! i)) is)) s)\<lparr>showTagModal := False\<rparr>
       else s, w), [])"
| "pp_step env (s, w) MoveModalClose =
     ((if toolbar_shown s \<and> showMoveModal s then s\<lparr>showMoveModal := False\<rparr> else s, w), [])"
| "pp_step env (s, w) (MoveChosen i) =
     ((if toolbar_shown s \<and> showMoveModal s \<and> i < length availableProjects
       then (set_page (handleBulkMove (fst (availableProjects ! i))) s)\<lparr>showMoveModal := False\<rparr>
       else s, w), [])"
| "pp_step env (s, w) ToolsClose =
     ((if isProjectSidebarOpen (pp_page s) then set_page (\<lambda>p. p\<lparr>isProjectSidebarOpen := False\<rparr>) s else s, w), [])"
| "pp_step env (s, w) (ToolsTabClick i) =
     ((if isProjectSidebarOpen (pp_page s) \<and> i < length pst_tabs then s\<lparr>pst_activeTab := fst (pst_tabs ! i)\<rparr>
       else s, w), [])"
| "pp_step env (s, w) (ToolsTagInput v) =
     ((if isProjectSidebarOpen (pp_page s) \<and> pst_activeTab s = ''tags'' then s\<lparr>pst_newTag := v\<rparr> else s, w), [])"
| "pp_step env (s, w) ToolsAddTagClick =
     ((if isProjectSidebarOpen (pp_page s) \<and> pst_activeTab s = ''tags'' then pst_handleAddTag s else s, w), [])"
| "pp_step env (s, w) (PpResize w') =
     ((set_page (handleResize w') (s\<lparr>pp_sidebar := sb_handleResize w' (pp_sidebar s)\<rparr>), w'), [])"
| "pp_step env (s, w) (PpSidebarEv e) =
     (let ((sb, w'), eff) = sb_step (pp_sidebar s, w) e in ((s\<lparr>pp_sidebar := sb\<rparr>, w'), eff))"
  \<comment> \<open>each control exists only while rendered: the empty state's buttons without content,
      the toolbar and its dialogs with a selection, the tools panel's controls while it
      is open and on their tab; the bulk-tag \<open>Select\<close> reports the options chosen\<close>

section \<open>Render\<close>

record card_view =
  cv_selected :: bool
  cv_icon :: string
  cv_body :: "string + string"
  cv_title :: string
  cv_tags :: "string list \<times> nat option"
  cv_actions :: bool

definition content_card_view :: "pp_state \<Rightarrow> content_item \<Rightarrow> card_view" where
  "content_card_view s item =
     (let grid = (viewMode (pp_page s) \<noteq> ''list'') in
      \<lparr>cv_selected = item_id item \<in> set (selectedItems (pp_page s)),
       cv_icon = (if item_type item = ''card'' then ''FileText'' else ''PenTool''),
       cv_body = (if grid \<and> item_type item = ''whiteboard'' \<and> item_thumbnail item \<noteq> None
                  then Inl (the (item_thumbnail item))
                  else Inr (if grid then (case item_content item of Some c \<Rightarrow> if c = [] then item_preview item else c
                                                                | None \<Rightarrow> item_preview item)
                            else item_preview item)),
       cv_title = item_title item,
       cv_tags = tag_chips (if grid then 3 else 2) (item_tags item),
       cv_actions = card_actions_shown s item\<rparr>)"
  \<comment> \<open>\<open>ContentCard\<close>: the ring when selected, the type icon, the grid card's thumbnail
      (\<open>Inl\<close>) or text, \<open>item.content || item.preview\<close> (\<open>Inr\<close>; the list row shows the
      preview), the title, the tag chips (3 in the grid, 2 in the list) and the action
      buttons; the dates are not modelled\<close>

record tools_view =
  tv_tabs :: "(string \<times> bool) list"
  tv_tags :: "(string \<times> int) list option"
  tv_newTag :: "string option"
  tv_activity :: "(string \<times> string \<times> string \<times> string) list option"
  tv_sharing :: "(string \<times> string \<times> string \<times> string) list option"

definition tools_render :: "pp_state \<Rightarrow> tools_view option" where
  "tools_render s =
     (if \<not> isProjectSidebarOpen (pp_page s) then None
      else Some
       \<lparr>tv_tabs = map (\<lambda>(i, l, _). (l, pst_activeTab s = i)) pst_tabs,
        tv_tags = (if pst_activeTab s = ''tags'' then Some (map (\<lambda>(n, c, _). (n, c)) projectTags) else None),
        tv_newTag = (if pst_activeTab s = ''tags'' then Some (pst_newTag s) else None),
        tv_activity = (if pst_activeTab s = ''activity''
                       then Some (map (\<lambda>(_, ty, t, ts, u). (pst_getActivityIcon ty, t, u, ts)) pst_recentActivity)
                       else None),
        tv_sharing = (if pst_activeTab s = ''sharing'' then Some collaborators else None)\<rparr>)"
  \<comment> \<open>\<open>if (!isOpen) return null\<close>, then the tabs and the active tab's content\<close>

record pp_view =
  ppv_heading :: "string \<times> nat"
  ppv_selectAll :: "string option"
  ppv_cards :: "card_view list"
  ppv_empty :: "string option"
  ppv_toolbar :: "string option"
  ppv_tagModal :: bool
  ppv_moveModal :: bool
  ppv_tools :: "tools_view option"

definition pp_render :: "pp_state \<Rightarrow> pp_view" where
  "pp_render s =
     \<lparr>ppv_heading = content_heading (pp_page s),
      ppv_selectAll = select_all_label (pp_page s),
      ppv_cards = map (content_card_view s) (filteredContent (pp_page s)),
      ppv_empty = empty_state_message (pp_page s),
      ppv_toolbar = bulk_toolbar_label (length (selectedItems (pp_page s))),
      ppv_tagModal = (toolbar_shown s \<and> showTagModal s),
      ppv_moveModal = (toolbar_shown s \<and> showMoveModal s),
      ppv_tools = tools_render s\<rparr>"

definition pp_sel_state :: pp_state where
  "pp_sel_state = (pp_mount 0 1280)\<lparr>pp_page := (pd_init 0)\<lparr>viewMode := ''list'', selectedItems := [1]\<rparr>\<rparr>"
  \<comment> \<open>an example view: the list, with the first item (id 1) selected\<close>

section \<open>Properties\<close>

lemma pp_step_CardDelete:
  "shown_item s i = Some it \<Longrightarrow> card_actions_shown s it \<Longrightarrow>
   pp_step env (s, w) (CardDelete i) = ((set_page (handleItemDelete (pe_confirm env) it) s, w), [])"
  by simp

lemma pp_render_toolbar:
  "ppv_toolbar (pp_render s) = bulk_toolbar_label (length (selectedItems (pp_page s)))"
  by (simp add: pp_render_def)

text \<open>C26. Deleting a selected item with its own delete button removes the item but
  not its id from the selection: the bulk toolbar keeps counting it, and a later
  bulk action still targets it.\<close>

theorem item_delete_keeps_selection:
  assumes "shown_item s i = Some it" and "card_actions_shown s it"
    and "item_id it \<in> set (selectedItems (pp_page s))" and "pe_confirm env"
  shows "item_id it \<in> set (selectedItems (pp_page (fst (fst (pp_step env (s, w) (CardDelete i)))))) \<and>
         item_id it \<notin> set (map item_id (contentItems (pp_page (fst (fst (pp_step env (s, w) (CardDelete i))))))) \<and>
         ppv_toolbar (pp_render (fst (fst (pp_step env (s, w) (CardDelete i))))) = ppv_toolbar (pp_render s)"
  using assms
  by (auto simp: pp_step_CardDelete set_page_def handleItemDelete_def pp_render_toolbar)

theorem item_delete_keeps_selection_witness:
  "shown_item pp_sel_state 0 = Some (hd (filteredContent (pd_init 0))) \<and>
   card_actions_shown pp_sel_state (hd (filteredContent (pd_init 0))) \<and>
   item_id (hd (filteredContent (pd_init 0))) \<in> set (selectedItems (pp_page pp_sel_state)) \<and>
   pe_confirm \<lparr>pe_confirm = True, pe_now = 0\<rparr> \<and>
   ppv_toolbar (pp_render (fst (fst (pp_step \<lparr>pe_confirm = True, pe_now = 0\<rparr> (pp_sel_state, 1280) (CardDelete 0))))) =
     Some ''1 item selected''"
proof -
  have h: "shown_item pp_sel_state 0 = Some (hd (filteredContent (pd_init 0))) \<and>
     card_actions_shown pp_sel_state (hd (filteredContent (pd_init 0))) \<and>
     item_id (hd (filteredContent (pd_init 0))) \<in> set (selectedItems (pp_page pp_sel_state)) \<and>
     ppv_toolbar (pp_render pp_sel_state) = Some ''1 item selected''"
    by code_simp
  then show ?thesis
    using item_delete_keeps_selection [of pp_sel_state 0 "hd (filteredContent (pd_init 0))"
        "\<lparr>pe_confirm = True, pe_now = 0\<rparr>" 1280]
    by simp
qed

end
