(* ===== verification/ProjectViews.thy ===== *)
theory ProjectViews
  imports ProjectPage
begin

text \<open>The project view's header and filter bar as rendered
  (\<open>project-detail-view/components/ProjectHeader.jsx\<close>, \<open>ContentFilters.jsx\<close>), the
  page's whole render composed of them and \<open>ProjectPage\<close>'s view, and the reachable
  states of \<open>pp_step\<close>: every step keeps the filter, sort, view mode and tools tab among
  the options their buttons set, so exactly one filter button and one view-mode
  button are highlighted.\<close>

section \<open>ProjectHeader\<close>

definition statusOptions :: "(string \<times> string) list" where
  "statusOptions = [(''active'', ''Active''), (''archived'', ''Archived''), (''completed'', ''Completed'')]"

definition status_dot :: "string \<Rightarrow> string" where
  "status_dot st =
     (if st = ''active'' then ''text-success'' else if st = ''completed'' then ''text-primary''
      else ''text-muted-foreground'')"

datatype ph_main =
    PhEditing string string
  | PhShowing string string string string string string string string

record ph_view =
  phv_main :: ph_main
  phv_actions :: "(string \<times> string) list"
  phv_settings :: "(string \<times> (string \<times> string) list \<times> string list) option"

definition project_header_view :: "pd_state \<Rightarrow> header_state \<Rightarrow> ph_view" where
  "project_header_view s h =
     (let p = pd_project s in
      \<lparr>phv_main = (if isEditing h then PhEditing (proj_name (editedProject h)) (proj_description (editedProject h))
                   else PhShowing (proj_color p) (proj_name p) (proj_description p)
                          (js_string_of_int (proj_cardCount p) @ '' Cards'')
                          (js_string_of_int (proj_whiteboardCount p) @ '' Whiteboards'')
                          (''Last modified '' @ proj_lastModified p) (status_dot (proj_status p)) (proj_status p)),
       phv_actions = [(''Add Card'', ''Plus''), (''Create Whiteboard'', ''PenTool'')],
       phv_settings = (if showSettings h
                       then Some (proj_status p, statusOptions, [''Share Project'', ''Export Project'', ''Archive Project''])
                       else None)\<rparr>)"
  \<comment> \<open>the edit form shows the buffer \<open>editedProject\<close>; the read-only heading shows the
      \<open>project\<close> prop: its colour dot, name, description, counts, date and status; the
      settings menu's \<open>Select\<close> reads the prop's status, its three buttons have no handler\<close>

section \<open>ContentFilters\<close>

record cf_view =
  cfv_filters :: "(string \<times> string \<times> string) list"
  cfv_search :: string
  cfv_sort :: "(string \<times> string) list \<times> string"
  cfv_viewModes :: "(string \<times> string) list"

definition content_filters_view :: "pd_state \<Rightarrow> cf_view" where
  "content_filters_view s =
     \<lparr>cfv_filters = map (\<lambda>(v, l, ic). (l, ic, variant_of (activeFilter s = v))) filterOptions,
      cfv_search = searchQuery s,
      cfv_sort = (sortOptions, sortBy s),
      cfv_viewModes = map (\<lambda>(v, ic). (ic, variant_of (viewMode s = v))) viewModeOptions\<rparr>"
  \<comment> \<open>each filter button's label, icon and variant, the search box, the sort \<open>Select\<close>'s
      options and value, and the view-mode buttons' icon and variant\<close>

section \<open>The page\<close>

record project_page_view =
  ppg_header :: ph_view
  ppg_filters :: cf_view
  ppg_content :: pp_view

definition project_page_render :: "pp_state \<Rightarrow> project_page_view" where
  "project_page_render s =
     \<lparr>ppg_header = project_header_view (pp_page s) (pp_header s),
      ppg_filters = content_filters_view (pp_page s),
      ppg_content = pp_render s\<rparr>"

inductive pp_reachable :: "pp_state \<times> int \<Rightarrow> bool" where
  mount: "pp_reachable (pp_mount now w, w)"
| step: "pp_reachable sw \<Longrightarrow> pp_reachable (fst (pp_step env sw e))"

definition pd_opts :: "pd_state \<Rightarrow> string \<times> string \<times> string" where
  "pd_opts s = (activeFilter s, sortBy s, viewMode s)"

definition pp_inv :: "pp_state \<Rightarrow> bool" where
  "pp_inv s =
     (activeFilter (pp_page s) \<in> set (map fst filterOptions) \<and> sortBy (pp_page s) \<in> set (map fst sortOptions) \<and>
      viewMode (pp_page s) \<in> set (map fst viewModeOptions) \<and> pst_activeTab s \<in> set (map fst pst_tabs))"

section \<open>Properties\<close>

text \<open>The handlers of the page and of the header change the items, the selection and the
  project, never the filter, the sort or the view mode; the buttons that do set them
  only to one of their options.\<close>

lemma pd_opts_handlers [simp]:
  "pd_opts (handleItemSelect i b s) = pd_opts s"
  "pd_opts (handleSelectAll s) = pd_opts s"
  "pd_opts (handleClearSelection s) = pd_opts s"
  "pd_opts (handleBulkDelete c s) = pd_opts s"
  "pd_opts (handleBulkTag ts s) = pd_opts s"
  "pd_opts (handleBulkMove m s) = pd_opts s"
  "pd_opts (handleBulkArchive c s) = pd_opts s"
  "pd_opts (handleProjectUpdate p s) = pd_opts s"
  "pd_opts (handleItemDelete c it s) = pd_opts s"
  "pd_opts (handleItemDuplicate n it s) = pd_opts s"
  "pd_opts (handleResize w s) = pd_opts s"
  by (simp_all add: pd_opts_def handleItemSelect_def handleSelectAll_def handleClearSelection_def
      handleBulkDelete_def handleBulkTag_def handleBulkMove_def handleBulkArchive_def handleProjectUpdate_def
      handleItemDelete_def handleItemDuplicate_def handleResize_def)

lemma opts_fields:
  "pd_opts a = pd_opts b \<Longrightarrow> activeFilter a = activeFilter b \<and> sortBy a = sortBy b \<and> viewMode a = viewMode b"
  by (simp add: pd_opts_def)

lemmas handler_opts [simp] = pd_opts_handlers [THEN opts_fields]

lemma header_step_opts [simp]: "pd_opts (fst (header_step (s, h) e)) = pd_opts s"
  by (cases e) simp_all

lemma pp_inv_page:
  "pd_opts p = pd_opts (pp_page s) \<Longrightarrow> pp_inv (s\<lparr>pp_page := p\<rparr>) = pp_inv s"
  by (simp add: pp_inv_def pd_opts_def)

lemma pp_inv_set_page:
  "pd_opts (f (pp_page s)) = pd_opts (pp_page s) \<Longrightarrow> pp_inv (set_page f s) = pp_inv s"
  by (simp add: set_page_def pp_inv_page)

lemma pp_step_inv:
  assumes "pp_inv s"
  shows "pp_inv (fst (fst (pp_step env (s, w) e)))"
proof (cases e)
  case (PhEv x)
  have "pd_opts (fst (header_step (pp_page s, pp_header s) x)) = pd_opts (pp_page s)"
    by (rule header_step_opts)
  with assms PhEv show ?thesis
    by (simp add: pp_inv_def pd_opts_def split_def Let_def del: header_step.simps)
next
  case (PpSidebarEv x)
  with assms show ?thesis by (simp add: pp_inv_def split_def Let_def)
next
  case (PpResize x)
  with assms show ?thesis by (simp add: pp_inv_set_page, simp add: pp_inv_def)
qed (use assms in \<open>auto simp: pp_inv_set_page set_page_def pp_inv_def shown_item_def pst_handleAddTag_def
      intro: rev_image_eqI split: option.splits\<close>)

lemma pp_reachable_inv: "pp_reachable sw \<Longrightarrow> pp_inv (fst sw)"
proof (induction rule: pp_reachable.induct)
  case (mount now w)
  then show ?case
    by (simp add: pp_inv_def pp_mount_def pd_init_def filterOptions_def sortOptions_def viewModeOptions_def
                  pst_tabs_def)
next
  case (step sw env e)
  then show ?case
    by (metis pp_step_inv prod.collapse)
qed

lemma one_filter_highlighted:
  "pp_inv s \<Longrightarrow> length (filter (\<lambda>(_, _, v). v = ''default'') (cfv_filters (content_filters_view (pp_page s)))) = 1"
  by (auto simp: pp_inv_def content_filters_view_def filterOptions_def variant_of_def)

lemma one_view_mode_highlighted:
  "pp_inv s \<Longrightarrow> length (filter (\<lambda>(_, v). v = ''default'') (cfv_viewModes (content_filters_view (pp_page s)))) = 1"
  by (auto simp: pp_inv_def content_filters_view_def viewModeOptions_def variant_of_def)

lemma header_shows_buffer_while_editing:
  "isEditing h \<Longrightarrow> phv_main (project_header_view s h) =
     PhEditing (proj_name (editedProject h)) (proj_description (editedProject h))"
  by (simp add: project_header_view_def)

end
