(* ===== verification/App.thy ===== *)
theory App
  imports Dashboard Auth CardEditor WbHeader WbToolbar WbSidebar ProjectPage SettingsPage
begin

text \<open>The application as the pages of \<open>Routes.jsx\<close> linked by URLs: opening a URL
  mounts the page its route selects, with the navigation chrome the page renders
  (\<open>Sidebar\<close> on the dashboard, the project view and the settings page, \<open>Header\<close>
  on the settings page, the whiteboard's own header, tool bar and sidebar), and the card editor reads its \<open>id\<close> parameter. Both
  \<open>window.location.href\<close> assignments and \<open>navigate\<close> calls mount the target page
  afresh: every link of the application leads to a page of another component
  type, so React keeps no state across them.\<close>

datatype app_page =
    DashP dash_state | AuthP auth_state | EditorP ce_state | WhiteboardP wbh_state wbt_state wbs_state wb_state
  | ProjectP pp_state | SettingsP settings_state hdr_state sb_state | NotFoundP

record app_env =
  app_now :: int
  app_now_text :: string
  app_origin :: point
  app_width :: int
  app_browser :: browser
  \<comment> \<open>what the browser supplies when a page mounts: the clock (in milliseconds and
      as the card editor formats it), the canvas position, \<open>window.innerWidth\<close>, and
      the document and \<open>localStorage\<close>\<close>

definition app_open :: "app_env \<Rightarrow> string \<Rightarrow> app_page" where
  "app_open env href =
     (let loc = parse_href href in
      case route (pathname loc) of
        DashboardMainWorkspace \<Rightarrow> DashP (dash_mount (app_width env))
      | AuthenticationLoginRegister \<Rightarrow>
          (if snd (auth_mount (app_browser env)) = [] then AuthP (fst (auth_mount (app_browser env)))
           else DashP (dash_mount (app_width env)))
      | CardEditorPage \<Rightarrow> EditorP (ce_mount (params_get ''id'' loc) (app_now_text env))
      | WhiteboardInterface \<Rightarrow> WhiteboardP (wbh_init (wb_init (app_origin env))) wbt_init wbs_init (wb_init (app_origin env))
      | ProjectDetailView \<Rightarrow> ProjectP (pp_mount (app_now env) (app_width env))
      | ProfileAndSettings \<Rightarrow>
          SettingsP (settings_mount (app_browser env)) hdr_init (sb_mount (app_width env))
      | NotFoundPage \<Rightarrow> NotFoundP)"
  \<comment> \<open>the authentication page's redirect replaces it by the dashboard; the
      project view's resize listener is not called on mount, unlike the
      dashboard's and the sidebar's\<close>

lemma dash_card_url_no_id:
  "page_of (dash_card_url p c) = CardEditorPage \<and> params_get ''id'' (parse_href (dash_card_url p c)) = None"
proof -
  have q: "CHR ''?'' \<notin> set ''/card-editor''" by simp
  have one: "''/card-editor?project='' @ js_string_of_int p =
             ''/card-editor'' @ CHR ''?'' # ''project'' @ CHR ''='' # js_string_of_int p" by simp
  have two: "''/card-editor?project='' @ js_string_of_int p @ ''&card='' @ js_string_of_int i =
             ''/card-editor'' @ CHR ''?'' # ''project'' @ CHR ''='' # js_string_of_int p @
               CHR ''&'' # ''card'' @ CHR ''='' # js_string_of_int i" for i by simp
  have r: "route ''/card-editor'' = CardEditorPage" using route_table by blast
  show ?thesis
    using params_one_int [of "''/card-editor''" "''project''" "''id''" p]
      params_two_ints [of "''/card-editor''" "''project''" "''card''" "''id''" p]
      page_of_query [OF q] r
    unfolding dash_card_url_def one two
    by (simp split: option.split)
qed

lemma app_open_editor:
  "page_of h = CardEditorPage \<Longrightarrow>
   app_open env h = EditorP (ce_mount (params_get ''id'' (parse_href h)) (app_now_text env))"
  by (simp add: app_open_def page_of_def Let_def)

lemma app_open_project:
  "page_of h = ProjectDetailView \<Longrightarrow> app_open env h = ProjectP (pp_mount (app_now env) (app_width env))"
  by (simp add: app_open_def page_of_def Let_def)

lemma page_of_plain: "CHR ''?'' \<notin> set p \<Longrightarrow> page_of p = route p"
  by (simp add: page_of_def parse_href_def)

lemma params_get_plain: "CHR ''?'' \<notin> set p \<Longrightarrow> params_get k (parse_href p) = None"
  by (simp add: params_get_def parse_href_def url_search_params_def)

lemma project_card_opens_editor:
  assumes "item_type item = ''card''"
  shows "app_open env (item_url item) =
           EditorP (ce_mount (Some (js_string_of_int (item_id item))) (app_now_text env))"
proof -
  have q: "CHR ''?'' \<notin> set ''/card-editor''" by simp
  have u: "item_url item = ''/card-editor'' @ CHR ''?'' # ''id'' @ CHR ''='' # js_string_of_int (item_id item)"
    using assms by (simp add: item_url_def)
  have r: "route ''/card-editor'' = CardEditorPage" using route_table by blast
  show ?thesis
    using app_open_editor [of "item_url item" env] page_of_query [OF q] r
      params_one_int [of "''/card-editor''" "''id''" "''id''" "item_id item"]
    unfolding u by simp
qed

text \<open>C33. A card clicked on the dashboard opens the card editor on a new, blank
  card, exactly as the New Card button does: the dashboard passes the card as
  \<open>?project=..&card=..\<close> and the editor reads only \<open>id\<close>.\<close>

theorem dashboard_card_opens_blank_editor:
  assumes "RouterNavigate h \<in> set (snd (dash_step sw (CardClick i j)))"
  shows "app_open env h = app_open env ''/card-editor''"
proof -
  obtain s w where sw: "sw = (s, w)" by fastforce
  from assms obtain p c where h: "h = dash_card_url p c"
    by (auto simp: sw handleCardClick_def split: if_splits)
  have "route ''/card-editor'' = CardEditorPage" using route_table by blast
  then have "app_open env ''/card-editor'' = EditorP (ce_mount None (app_now_text env))"
    using app_open_editor [of "''/card-editor''" env] page_of_plain [of "''/card-editor''"]
      params_get_plain [of "''/card-editor''" "''id''"]
    by simp
  with h dash_card_url_no_id [of p c] app_open_editor [of h env] show ?thesis by simp
qed

theorem dashboard_card_opens_blank_editor_witness:
  "RouterNavigate ''/card-editor?project=1&card=1'' \<in> set (snd (dash_step (dash_mount 1280, 1280) (CardClick 0 0))) \<and>
   app_open \<lparr>app_now = 0, app_now_text = ''today'', app_origin = (0, 0), app_width = 1280,
     app_browser = \<lparr>doc_attrs = [], doc_classes = [], local_storage = []\<rparr>\<rparr> ''/card-editor?project=1&card=1'' =
   app_open \<lparr>app_now = 0, app_now_text = ''today'', app_origin = (0, 0), app_width = 1280,
     app_browser = \<lparr>doc_attrs = [], doc_classes = [], local_storage = []\<rparr>\<rparr> ''/card-editor''"
proof -
  have m: "RouterNavigate ''/card-editor?project=1&card=1'' \<in> set (snd (dash_step (dash_mount 1280, 1280) (CardClick 0 0)))"
    by code_simp
  show ?thesis using m dashboard_card_opens_blank_editor [OF m] by blast
qed

text \<open>C21. Every project of the sidebar opens the same project view, the one the
  New Project button opens: the link carries \<open>?id=\<close> and the project view
  reads no parameter.\<close>

theorem sidebar_projects_open_same_view:
  assumes "AssignHref h \<in> set (snd (sb_step sw (SbProjectClick i)))"
  shows "app_open env h = app_open env ''/project-detail-view''"
proof -
  obtain s w where sw: "sw = (s, w)" by fastforce
  from assms obtain pid where h: "h = ''/project-detail-view?id='' @ js_string_of_int pid"
    by (auto simp: sw handleProjectNavigation_def split: if_splits)
  have q: "CHR ''?'' \<notin> set ''/project-detail-view''" by simp
  have e: "h = ''/project-detail-view'' @ CHR ''?'' # ''id='' @ js_string_of_int pid" using h by simp
  have r: "route ''/project-detail-view'' = ProjectDetailView" using route_table by blast
  with page_of_query [OF q] e have "page_of h = ProjectDetailView" by simp
  moreover from r page_of_plain [OF q] have "page_of ''/project-detail-view'' = ProjectDetailView" by simp
  ultimately show ?thesis using app_open_project by simp
qed

theorem sidebar_projects_open_same_view_witness:
  "AssignHref ''/project-detail-view?id=2'' \<in> set (snd (sb_step (sb_init, 1280) (SbProjectClick 1))) \<and>
   app_open \<lparr>app_now = 0, app_now_text = ''today'', app_origin = (0, 0), app_width = 1280,
     app_browser = \<lparr>doc_attrs = [], doc_classes = [], local_storage = []\<rparr>\<rparr> ''/project-detail-view?id=2'' =
   app_open \<lparr>app_now = 0, app_now_text = ''today'', app_origin = (0, 0), app_width = 1280,
     app_browser = \<lparr>doc_attrs = [], doc_classes = [], local_storage = []\<rparr>\<rparr> ''/project-detail-view''"
proof -
  have m: "AssignHref ''/project-detail-view?id=2'' \<in> set (snd (sb_step (sb_init, 1280) (SbProjectClick 1)))"
    by code_simp
  show ?thesis using m sidebar_projects_open_same_view [OF m] by blast
qed

end
