(* ===== verification/AppRun.thy ===== *)
theory AppRun
  imports App DashViews ProjectViews
begin

text \<open>The whole application as one state machine: the page on screen, the window
  width and the browser's document and \<open>localStorage\<close>. An event goes to the shown
  page's step function (the page itself or one of the components it renders); the
  navigation effect it returns, if any, leaves the page: \<open>window.location.href\<close>
  reloads the document (its attributes and classes are reset, \<open>localStorage\<close>
  survives) and \<open>navigate\<close> keeps it; either way the target page mounts afresh
  through \<open>App.app_open\<close>. Typing a URL is a reload. The first navigation of a handler
  wins: the page that issued it is gone.\<close>

record app_ctx =
  ax_now :: int
  ax_now_text :: string
  ax_origin :: point
  ax_fresh :: real
  ax_pp :: pp_env
  ax_ce :: ce_env
  \<comment> \<open>what the browser answers during an event: the clock, the canvas position, the
      whiteboard's \<open>Date.now() + Math.random()\<close>, the project view's and the card
      editor's \<open>confirm\<close>, \<open>prompt\<close> and date text\<close>

record app_state =
  ap_page :: app_page
  ap_width :: int
  ap_browser :: browser

datatype app_event =
    OpenUrl string
  | DashE dash_event | ProjE pp_event | EditorE ce_event | AuthE auth_event
  | WbHeaderE wbh_event | WbCanvasE wb_event | WbToolbarE wbt_event | WbSidebarE wbs_event
  | SettingsE settings_event | SettingsHeaderE hdr_event | SettingsSidebarE sb_event

definition current_browser :: "app_state \<Rightarrow> browser" where
  "current_browser st = (case ap_page st of SettingsP s _ _ \<Rightarrow> page_browser s | _ \<Rightarrow> ap_browser st)"
  \<comment> \<open>the settings page carries the browser its display section writes to\<close>

definition reload :: "browser \<Rightarrow> browser" where
  "reload b = b\<lparr>doc_attrs := [], doc_classes := []\<rparr>"
  \<comment> \<open>a new document; \<open>localStorage\<close> persists\<close>

definition mk_env :: "app_ctx \<Rightarrow> int \<Rightarrow> browser \<Rightarrow> app_env" where
  "mk_env ctx w b = \<lparr>app_now = ax_now ctx, app_now_text = ax_now_text ctx, app_origin = ax_origin ctx,
                     app_width = w, app_browser = b\<rparr>"

fun navigate :: "app_ctx \<Rightarrow> app_state \<Rightarrow> nav_effect \<Rightarrow> app_state" where
  "navigate ctx st (AssignHref h) =
     (let b = reload (current_browser st) in
      st\<lparr>ap_page := app_open (mk_env ctx (ap_width st) b) h, ap_browser := b\<rparr>)"
| "navigate ctx st (RouterNavigate h) =
     (let b = current_browser st in
      st\<lparr>ap_page := app_open (mk_env ctx (ap_width st) b) h, ap_browser := b\<rparr>)"

fun follow :: "app_ctx \<Rightarrow> app_state \<Rightarrow> nav_effect list \<Rightarrow> app_state" where
  "follow ctx st [] = st"
| "follow ctx st (n # _) = navigate ctx st n"

definition ce_navs :: "ce_state \<Rightarrow> ce_state \<Rightarrow> nav_effect list" where
  "ce_navs c c' = [AssignHref u. Navigate u \<leftarrow> drop (length (ce_log c)) (ce_log c')]"
  \<comment> \<open>the editor's \<open>window.location.href\<close> assignments this step added to its log\<close>

fun page_step ::
  "app_ctx \<Rightarrow> int \<Rightarrow> app_page \<Rightarrow> app_event \<Rightarrow> (app_page \<times> int \<times> nav_effect list) option" where
  "page_step ctx w (DashP d) (DashE e) =
     (let ((d', w'), eff) = dash_step (d, w) e in Some (DashP d', w', eff))"
| "page_step ctx w (ProjectP p) (ProjE e) =
     (let ((p', w'), eff) = pp_step (ax_pp ctx) (p, w) e in Some (ProjectP p', w', eff))"
| "page_step ctx w (EditorP c) (EditorE e) =
     (let c' = ce_step (ax_ce ctx) c e in Some (EditorP c', w, ce_navs c c'))"
| "page_step ctx w (AuthP a) (AuthE e) =
     (let (a', eff) = auth_step a e in Some (AuthP a', w, [n. AuthNav n \<leftarrow> eff]))"
| "page_step ctx w (WhiteboardP h t q s) (WbHeaderE e) =
     (let ((h', s'), eff) = wbh_step (h, s) e in Some (WhiteboardP h' t q s', w, [n. WbNav n \<leftarrow> eff]))"
| "page_step ctx w (WhiteboardP h t q s) (WbCanvasE e) =
     map_option (\<lambda>(h', s'). (WhiteboardP h' t q s', w, [])) (wbp_step (ax_fresh ctx) (h, s) (PageEv e))"
| "page_step ctx w (WhiteboardP h t q s) (WbToolbarE e) =
     map_option (\<lambda>(t', s'). (WhiteboardP h t' q s', w, [])) (wbt_step (ax_fresh ctx) (t, s) e)"
| "page_step ctx w (WhiteboardP h t q s) (WbSidebarE e) =
     (let ((q', s'), _) = wbs_step (q, s) e in Some (WhiteboardP h t q' s', w, []))"
| "page_step ctx w (SettingsP s h sb) (SettingsE e) = Some (SettingsP (settings_step s e) h sb, w, [])"
| "page_step ctx w (SettingsP s h sb) (SettingsHeaderE e) =
     (let (h', eff) = hdr_step h e in Some (SettingsP s h' sb, w, eff))"
| "page_step ctx w (SettingsP s h sb) (SettingsSidebarE e) =
     (let ((sb', w'), eff) = sb_step (sb, w) e in Some (SettingsP s h sb', w', eff))"
| "page_step ctx w pg e = Some (pg, w, [])"
  \<comment> \<open>an event of a component that is not on screen changes nothing; \<open>None\<close> is a
      whiteboard step that fails (an out-of-range history read) or the header's
      title callback offered as a canvas event\<close>

definition app_step :: "app_ctx \<Rightarrow> app_state \<Rightarrow> app_event \<Rightarrow> app_state option" where
  "app_step ctx st e =
     (case e of
        OpenUrl h \<Rightarrow> Some (navigate ctx st (AssignHref h))
      | _ \<Rightarrow> map_option (\<lambda>(pg, w, eff). follow ctx (st\<lparr>ap_page := pg, ap_width := w\<rparr>) eff)
               (page_step ctx (ap_width st) (ap_page st) e))"

inductive app_reachable :: "app_state \<Rightarrow> bool" where
  load: "doc_attrs b = [] \<Longrightarrow> doc_classes b = [] \<Longrightarrow>
         app_reachable \<lparr>ap_page = app_open (mk_env ctx w b) h, ap_width = w, ap_browser = b\<rparr>"
| step: "app_reachable st \<Longrightarrow> app_step ctx st e = Some st' \<Longrightarrow> app_reachable st'"

fun app_run :: "app_ctx \<Rightarrow> app_event list \<Rightarrow> app_state \<Rightarrow> app_state option" where
  "app_run ctx [] st = Some st"
| "app_run ctx (e # es) st = (case app_step ctx st e of None \<Rightarrow> None | Some st' \<Rightarrow> app_run ctx es st')"

fun is_settings :: "app_page \<Rightarrow> bool" where
  "is_settings (SettingsP _ _ _) = True"
| "is_settings _ = False"


definition ctx0 :: app_ctx where
  "ctx0 = \<lparr>ax_now = 0, ax_now_text = ''today'', ax_origin = (0, 0), ax_fresh = 0,
     ax_pp = \<lparr>pe_confirm = True, pe_now = 0\<rparr>,
     ax_ce = \<lparr>env_now = ''today'', env_confirm = True, env_prompt = None, env_origin = [], env_href = []\<rparr>\<rparr>"
  \<comment> \<open>an example context: every dialog confirmed, the clock at zero\<close>

definition blank_browser :: browser where
  "blank_browser = \<lparr>doc_attrs = [], doc_classes = [], local_storage = []\<rparr>"

definition dark_settings_state :: app_state where
  "dark_settings_state =
     \<lparr>ap_page = SettingsP (settings_dark\<lparr>page_browser :=
         \<lparr>doc_attrs = [(''data-theme'', ''dark'')], doc_classes = [''dark''],
          local_storage = [(''displaySettings'', ''{}'')]\<rparr>\<rparr>) hdr_init sb_init,
      ap_width = 1280, ap_browser = blank_browser\<rparr>"
  \<comment> \<open>the settings page with the dark theme applied to the document and saved\<close>

definition settings_load :: app_state where
  "settings_load =
     \<lparr>ap_page = app_open (mk_env ctx0 1280 blank_browser) ''/profile-and-settings'', ap_width = 1280,
      ap_browser = blank_browser\<rparr>"

definition dark_run :: "app_event list" where
  "dark_run = [SettingsE (CategoryClick ''display''), SettingsE (DisplayEv (ThemeCardClick ''dark''))]"
  \<comment> \<open>open the display section and pick the dark theme card\<close>

fun page_kind :: "app_page \<Rightarrow> page" where
  "page_kind (DashP _) = DashboardMainWorkspace"
| "page_kind (AuthP _) = AuthenticationLoginRegister"
| "page_kind (EditorP _) = CardEditorPage"
| "page_kind (WhiteboardP _ _ _ _) = WhiteboardInterface"
| "page_kind (ProjectP _) = ProjectDetailView"
| "page_kind (SettingsP _ _ _) = ProfileAndSettings"
| "page_kind NotFoundP = NotFoundPage"

definition dash_load :: app_state where
  "dash_load = \<lparr>ap_page = app_open (mk_env ctx0 1280 blank_browser) ''/'', ap_width = 1280,
      ap_browser = blank_browser\<rparr>"

definition doc_clean :: "app_state \<Rightarrow> bool" where
  "doc_clean st = (is_settings (ap_page st) \<or> doc_attrs (ap_browser st) = [] \<and> doc_classes (ap_browser st) = [])"

section \<open>Properties\<close>











lemma sb_step_reloads: "n \<in> set (snd (sb_step sw e)) \<Longrightarrow> \<exists>u. n = AssignHref u"
  by (cases sw; cases e)
     (auto simp: sb_handleNavigation_def handleProjectNavigation_def handleLogout_def split: if_splits)

lemma hdr_step_reloads: "n \<in> set (snd (hdr_step h e)) \<Longrightarrow> \<exists>u. n = AssignHref u"
  by (cases e) (auto simp: hdr_handleNavigation_def split: if_splits)




text \<open>Every link of the settings page's header and sidebar assigns
  \<open>window.location.href\<close>, so leaving the page reloads the document without the
  theme attributes and classes, while \<open>localStorage\<close> keeps the saved settings.\<close>

theorem leaving_settings_resets_document:
  assumes "ap_page st = SettingsP s h sb"
    and "page_step ctx (ap_width st) (ap_page st) e = Some (pg, w, n # ns)"
  shows "\<exists>st'. app_step ctx st e = Some st' \<and> doc_attrs (ap_browser st') = [] \<and> doc_classes (ap_browser st') = [] \<and>
           local_storage (ap_browser st') = local_storage (page_browser s)"
proof -
  have "\<exists>s' h' sb' u. pg = SettingsP s' h' sb' \<and> page_browser s' = page_browser s \<and> n = AssignHref u"
  proof (cases e)
    case (SettingsHeaderE x)
    obtain h' eff where hx: "hdr_step h x = (h', eff)" by fastforce
    with assms SettingsHeaderE have "pg = SettingsP s h' sb" "eff = n # ns" by auto
    with hx hdr_step_reloads [of n h x] show ?thesis by auto
  next
    case (SettingsSidebarE x)
    obtain sb' w' eff where sx: "sb_step (sb, ap_width st) x = ((sb', w'), eff)" by (metis prod.collapse)
    with assms SettingsSidebarE have "pg = SettingsP s h sb'" "eff = n # ns" by auto
    with sx sb_step_reloads [of n "(sb, ap_width st)" x] show ?thesis by auto
  qed (use assms in auto)
  then obtain s' h' sb' u where pg: "pg = SettingsP s' h' sb'" and b: "page_browser s' = page_browser s"
    and n: "n = AssignHref u" by blast
  have "\<not> (\<exists>x. e = OpenUrl x)" using assms by (cases e) auto
  then have "app_step ctx st e = Some (follow ctx (st\<lparr>ap_page := pg, ap_width := w\<rparr>) (n # ns))"
    using assms(2) by (cases e) (simp_all add: app_step_def)
  then show ?thesis
    by (simp add: pg n b current_browser_def reload_def Let_def)
qed

theorem leaving_settings_resets_document_witness:
  "doc_attrs (current_browser dark_settings_state) = [(''data-theme'', ''dark'')] \<and>
   (\<exists>st'. app_step ctx0 dark_settings_state (SettingsSidebarE SbNewProjectClick) = Some st' \<and>
     doc_attrs (ap_browser st') = [] \<and> doc_classes (ap_browser st') = [] \<and>
     local_storage (ap_browser st') = [(''displaySettings'', ''{}'')])"
proof -
  have p: "ap_page dark_settings_state = SettingsP (settings_dark\<lparr>page_browser :=
         \<lparr>doc_attrs = [(''data-theme'', ''dark'')], doc_classes = [''dark''],
          local_storage = [(''displaySettings'', ''{}'')]\<rparr>\<rparr>) hdr_init sb_init"
    by (simp add: dark_settings_state_def)
  have s: "page_step ctx0 (ap_width dark_settings_state) (ap_page dark_settings_state)
             (SettingsSidebarE SbNewProjectClick) =
           Some (ap_page dark_settings_state, 1280, [AssignHref ''/project-detail-view''])"
    by (simp add: dark_settings_state_def sb_handleNavigation_def)
  show ?thesis
    using leaving_settings_resets_document [OF p s]
    by (simp add: dark_settings_state_def current_browser_def)
qed


lemma app_run_reachable: "app_reachable st \<Longrightarrow> app_run ctx es st = Some st' \<Longrightarrow> app_reachable st'"
proof (induction es arbitrary: st)
  case Nil
  then show ?case by simp
next
  case (Cons e es)
  then obtain s1 where s1: "app_step ctx st e = Some s1" and r: "app_run ctx es s1 = Some st'"
    by (auto split: option.splits)
  from app_reachable.step [OF Cons.prems(1) s1] r show ?case by (rule Cons.IH)
qed

lemma page_step_settings:
  assumes "page_step ctx w pg e = Some (pg', w', ns)"
  shows "is_settings pg' = is_settings pg \<and> (is_settings pg \<longrightarrow> (\<forall>n \<in> set ns. \<exists>u. n = AssignHref u))"
proof (cases pg)
  case (SettingsP s h sb)
  show ?thesis
  proof (cases e)
    case (SettingsHeaderE x)
    obtain h' eff where hx: "hdr_step h x = (h', eff)" by fastforce
    with assms SettingsP SettingsHeaderE have "pg' = SettingsP s h' sb" "eff = ns" by auto
    with hx hdr_step_reloads [of _ h x] SettingsP show ?thesis by auto
  next
    case (SettingsSidebarE x)
    obtain sb' w'' eff where sx: "sb_step (sb, w) x = ((sb', w''), eff)" by (metis prod.collapse)
    with assms SettingsP SettingsSidebarE have "pg' = SettingsP s h sb'" "eff = ns" by auto
    with sx sb_step_reloads [of _ "(sb, w)" x] SettingsP show ?thesis by auto
  qed (use assms SettingsP in auto)
next
  case (WhiteboardP h t q s)
  with assms show ?thesis by (cases e) (auto split: prod.splits option.splits)
next
  case (DashP d)
  with assms show ?thesis by (cases e) (auto split: prod.splits)
next
  case (ProjectP d)
  with assms show ?thesis by (cases e) (auto split: prod.splits)
next
  case (EditorP d)
  with assms show ?thesis by (cases e) (auto simp: Let_def)
next
  case (AuthP d)
  with assms show ?thesis by (cases e) (auto split: prod.splits)
next
  case NotFoundP
  with assms show ?thesis by (cases e) auto
qed


lemma current_browser_plain: "\<not> is_settings (ap_page st) \<Longrightarrow> current_browser st = ap_browser st"
  by (cases "ap_page st") (simp_all add: current_browser_def)

lemma navigate_clean:
  assumes "(\<exists>u. n = AssignHref u) \<or>
           \<not> is_settings (ap_page st) \<and> doc_attrs (ap_browser st) = [] \<and> doc_classes (ap_browser st) = []"
  shows "doc_clean (navigate ctx st n)"
proof (cases n)
  case (AssignHref u)
  then show ?thesis by (simp add: doc_clean_def reload_def Let_def)
next
  case (RouterNavigate u)
  with assms have "\<not> is_settings (ap_page st)" "doc_attrs (ap_browser st) = []" "doc_classes (ap_browser st) = []"
    by auto
  with RouterNavigate show ?thesis by (simp add: doc_clean_def current_browser_plain Let_def)
qed


lemma app_step_clean:
  assumes "doc_clean st" and "app_step ctx st e = Some st'"
  shows "doc_clean st'"
proof (cases "\<exists>h. e = OpenUrl h")
  case True
  then obtain h where "e = OpenUrl h" by blast
  with assms(2) have "st' = navigate ctx st (AssignHref h)" by (simp add: app_step_def del: navigate.simps)
  then show ?thesis using navigate_clean [of "AssignHref h" st ctx] by simp
next
  case False
  with assms(2) obtain pg w ns where
    ps: "page_step ctx (ap_width st) (ap_page st) e = Some (pg, w, ns)" and
    st': "st' = follow ctx (st\<lparr>ap_page := pg, ap_width := w\<rparr>) ns"
    by (cases e) (auto simp: app_step_def)
  note k = page_step_settings [OF ps]
  show ?thesis
  proof (cases ns)
    case Nil
    with st' k assms(1) show ?thesis by (simp add: doc_clean_def)
  next
    case (Cons n ns')
    have "(\<exists>u. n = AssignHref u) \<or>
          \<not> is_settings pg \<and> doc_attrs (ap_browser st) = [] \<and> doc_classes (ap_browser st) = []"
      using k assms(1) Cons by (auto simp: doc_clean_def)
    then have "doc_clean (navigate ctx (st\<lparr>ap_page := pg, ap_width := w\<rparr>) n)"
      by (intro navigate_clean) simp
    with st' Cons show ?thesis by simp
  qed
qed

text \<open>Every page of the route table is reached from the dashboard by clicks, and the
  dashboard is reached back from the card editor, the whiteboard, the project view
  and the settings page by one of their links. The authentication page is a dead
  end: its tabs and footer links never navigate, so only typing a URL leaves it
  (its forms are not in the repository).\<close>

lemma pages_reached_from_dashboard:
  "map_option (page_kind \<circ> ap_page) (app_run ctx0 [DashE (QuickActionClick 0)] dash_load) = Some CardEditorPage \<and>
   map_option (page_kind \<circ> ap_page) (app_run ctx0 [DashE HeaderNewWhiteboardClick] dash_load) =
     Some WhiteboardInterface \<and>
   map_option (page_kind \<circ> ap_page) (app_run ctx0 [DashE (QuickActionClick 2)] dash_load) = Some ProjectDetailView \<and>
   map_option (page_kind \<circ> ap_page)
     (app_run ctx0 [DashE (DashSidebarEv SbProfileToggle), DashE (DashSidebarEv SbSettingsClick)] dash_load) =
     Some ProfileAndSettings \<and>
   map_option (page_kind \<circ> ap_page)
     (app_run ctx0 [DashE (DashSidebarEv SbProfileToggle), DashE (DashSidebarEv SbSignOutClick)] dash_load) =
     Some AuthenticationLoginRegister \<and>
   map_option (page_kind \<circ> ap_page) (app_run ctx0 [DashE (DashSidebarEv (SbNavClick 1))] dash_load) = Some NotFoundPage"
  by code_simp

lemma dashboard_reached_back:
  "map_option (page_kind \<circ> ap_page) (app_run ctx0 [DashE (QuickActionClick 0), EditorE DashboardLinkClick] dash_load) =
     Some DashboardMainWorkspace \<and>
   map_option (page_kind \<circ> ap_page) (app_run ctx0 [DashE HeaderNewWhiteboardClick, WbHeaderE BackClick] dash_load) =
     Some DashboardMainWorkspace \<and>
   map_option (page_kind \<circ> ap_page)
     (app_run ctx0 [DashE (QuickActionClick 2), ProjE (PpSidebarEv (SbNavClick 0))] dash_load) =
     Some DashboardMainWorkspace \<and>
   map_option (page_kind \<circ> ap_page)
     (app_run ctx0 [DashE (DashSidebarEv SbProfileToggle), DashE (DashSidebarEv SbSettingsClick),
        SettingsSidebarE (SbNavClick 0)] dash_load) = Some DashboardMainWorkspace"
  by code_simp

lemma auth_page_dead_end:
  assumes "ap_page st = AuthP a" and "app_step ctx st e = Some st'"
  shows "(\<exists>h. e = OpenUrl h) \<or> (\<exists>a'. ap_page st' = AuthP a')"
proof (cases "\<exists>h. e = OpenUrl h")
  case False
  then show ?thesis
  proof (cases e)
    case (AuthE x)
    obtain a' eff where ax: "auth_step a x = (a', eff)" by fastforce
    have "[n. AuthNav n \<leftarrow> eff] = []"
      using ax by (cases x) (auto simp: handleLinkClick_def auth_handleTabChange_def)
    then have "page_step ctx (ap_width st) (ap_page st) e = Some (AuthP a', ap_width st, [])"
      using assms(1) AuthE ax by simp
    with assms(2) AuthE show ?thesis by (auto simp: app_step_def)
  qed (use assms in \<open>auto simp: app_step_def\<close>)
qed simp

text \<open>C35. The display settings apply only while the settings page is open: in every
  state the application reaches, a page other than the settings page has a document
  without the theme's attributes and classes. The settings page's links all assign
  \<open>window.location.href\<close>, which reloads the document, and no page reads the copy
  saved in \<open>localStorage\<close> back.\<close>

theorem display_settings_stay_on_settings_page:
  assumes "app_reachable st"
  shows "is_settings (ap_page st) \<or> doc_attrs (ap_browser st) = [] \<and> doc_classes (ap_browser st) = []"
proof -
  from assms have "doc_clean st"
  proof (induction rule: app_reachable.induct)
    case (load b ctx w h)
    then show ?case by (simp add: doc_clean_def)
  next
    case (step st ctx e st')
    from step.IH step.hyps(2) show ?case by (rule app_step_clean)
  qed
  then show ?thesis by (simp add: doc_clean_def)
qed

theorem display_settings_stay_on_settings_page_witness:
  "map_option (\<lambda>st. doc_attrs (current_browser st)) (app_run ctx0 dark_run settings_load) =
     Some [(''data-theme'', ''dark''), (''data-font-size'', ''medium''), (''data-density'', ''comfortable'')] \<and>
   (\<exists>st'. app_run ctx0 (dark_run @ [SettingsSidebarE SbNewProjectClick]) settings_load = Some st' \<and>
      \<not> is_settings (ap_page st') \<and> doc_attrs (ap_browser st') = [] \<and> doc_classes (ap_browser st') = [])"
proof -
  have d: "map_option (\<lambda>st. doc_attrs (current_browser st)) (app_run ctx0 dark_run settings_load) =
     Some [(''data-theme'', ''dark''), (''data-font-size'', ''medium''), (''data-density'', ''comfortable'')]"
    by code_simp
  have k: "map_option (\<lambda>st. is_settings (ap_page st))
             (app_run ctx0 (dark_run @ [SettingsSidebarE SbNewProjectClick]) settings_load) = Some False"
    by code_simp
  then obtain st' where run: "app_run ctx0 (dark_run @ [SettingsSidebarE SbNewProjectClick]) settings_load = Some st'"
    and ns: "\<not> is_settings (ap_page st')" by (auto split: option.splits)
  have "app_reachable settings_load"
    unfolding settings_load_def by (rule app_reachable.load) (simp_all add: blank_browser_def)
  from app_run_reachable [OF this run] have "app_reachable st'" .
  from display_settings_stay_on_settings_page [OF this] ns d run show ?thesis by auto
qed

end
