(* ===== verification/Spec2Isabelle.thy ===== *)
theory Spec2Isabelle
  imports Prelude Viewport Elements Whiteboard ProjectDetail CardEditor SettingsPage Navigation Dashboard Auth DashViews WbHeader WbToolbar WbSidebar WbRender ProjectPage ProjectViews App AppRun
begin

text \<open>
  \<^bold>\<open>VisualNotes: a verification development of the client-side application.\<close>

  VisualNotes (\<open>src/src\<close>) is a React single-page application: a dashboard, a
  project detail view, a card editor, a whiteboard, a settings area and an
  authentication screen. All data is mock state held in component memory; the
  parts interact only through React props (a parent's state and the handlers it
  passes down) and through navigation URLs. The development models the parts with
  internal structure as shallow embeddings: each component's state is a
  \<^theory_text>\<open>record\<close>, each handler a HOL function on that state, and the browser's
  events a \<^theory_text>\<open>datatype\<close> driving a step function.

  \<^bold>\<open>Theories.\<close>
  \<^item> \<open>Prelude\<close>: the JavaScript built-ins the handlers call (\<open>Math.max/min\<close>
    clamping, \<open>Math.round\<close>, \<open>a || b\<close> on numbers, \<open>toLowerCase\<close>,
    \<open>String.prototype.includes\<close> with its equivalence to the substring relation,
    \<open>[...new Set(xs)]\<close>, integer interpolation) and shared list lemmas.
  \<^item> \<open>Viewport\<close> (\<open>whiteboard-interface/components/WhiteboardCanvas.jsx\<close>,
    \<open>whiteboard-interface/index.jsx\<close>): zoom computations of \<open>handleWheel\<close>,
    \<open>handleZoomIn\<close>, \<open>handleZoomOut\<close>; the pointer conversion of
    \<open>handleMouseDown\<close> with the bounding box of the translated canvas; the render
    position of an element; the spec's transform as the abstract contract.
  \<^item> \<open>Elements\<close> (same files): elements as records of optional keys, the drafts
    the canvas creates, the store operations of \<open>handleElementCreate\<close>,
    \<open>handleElementSelect\<close>, \<open>handleElementUpdate\<close>, an abstraction \<open>store_map\<close>
    of the store to a map by id, and the render of \<open>renderElement\<close>, the minimap
    and the properties panel of \<open>WhiteboardSidebar.jsx\<close>.
  \<^item> \<open>Whiteboard\<close>: the page and canvas state in one record \<open>wb_state\<close>, one
    definition per handler (the canvas callbacks go through the page's
    \<open>handleZoomChange\<close> and \<open>handlePanChange\<close>), \<open>wb_step\<close> over browser events, \<open>wb_run\<close> over event
    lists, and \<open>wb_reachable\<close> (inductive) with the invariant \<open>wb_inv\<close>.
  \<^item> \<open>ProjectDetail\<close> (\<open>project-detail-view/\<close>): items, filter, search, the stable
    sort, the selection and bulk handlers, the rendered labels, and the project
    header's edit buffer as a small state machine \<open>header_step\<close>.
  \<^item> \<open>CardEditor\<close> (\<open>card-editor/\<close>): the card, the load, change-detection and
    autosave effects with React's dependency semantics (\<open>ce_commit\<close>,
    \<open>ce_settle\<close>: an effect runs when a dependency changed since the last render,
    object dependencies by identity), every handler of the page and its children
    (the toolbar's \<open>handleBold\<close> to \<open>handleList\<close> as logged \<open>execCommand\<close> effects;
    \<open>ce_handle\<close>, \<open>ce_step\<close>), \<open>ce_reachable\<close> with the invariant \<open>ce_inv\<close>, and
    the rendered panels.
  \<^item> \<open>SettingsSections\<close>, \<open>SettingsDisplay\<close>, \<open>SettingsPage\<close>
    (\<open>profile-and-settings/\<close>): each section's state, handlers, controls
    (\<open>security_step\<close>, \<open>data_step\<close>, \<open>notification_step\<close>, \<open>profile_step\<close>,
    \<open>billing_step\<close>, \<open>display_step\<close>) and view; the display section's document
    effect and its JSON save (with a reader, to state the round trip); billing
    dates through \<open>new Date(...)\<close> in the viewer's time zone; and the page, whose
    section switch unmounts one section and mounts the next with its defaults,
    sharing one \<open>browser\<close> record (document root, \<open>localStorage\<close>).
  \<^item> \<open>Navigation\<close> (\<open>Routes.jsx\<close>, \<open>components/ui/Header.jsx\<close>,
    \<open>components/ui/Sidebar.jsx\<close>): the route table with React Router's matching
    (case-insensitive, trailing slashes ignored), a location's pathname and query,
    the \<open>URLSearchParams\<close> parser behind \<open>searchParams.get\<close> (a loop over
    \<open>&\<close>-separated segments, defined with \<^theory_text>\<open>function\<close> and proved terminating by the
    length of the rest), and the header's and sidebar's state, handlers (\<open>hdr_step\<close>,
    \<open>sb_step\<close>), resize effect and rendered links. Navigation is an effect
    \<open>AssignHref\<close> or \<open>RouterNavigate\<close> a handler returns.
  \<^item> \<open>Dashboard\<close> (\<open>dashboard-main-workspace/\<close>): the mock projects, statistics and
    activity, the page's and its children's handlers and the embedded sidebar in
    \<open>dash_step\<close>; \<open>DashViews\<close> renders each child (\<open>WorkspaceHeader\<close> with its
    search dropdown, \<open>StatsOverview\<close> through \<open>toLocaleString\<close>, \<open>ProjectSection\<close>,
    \<open>RightPanel\<close> with \<open>QuickActions\<close>, \<open>RecentActivity\<close> and the insights) and the
    page, and collects the page's reachable states in \<open>dash_reachable\<close>.
  \<^item> \<open>WbHeader\<close>, \<open>WbToolbar\<close>, \<open>WbSidebar\<close> (\<open>WhiteboardHeader.jsx\<close>,
    \<open>WhiteboardToolbar.jsx\<close>, \<open>WhiteboardSidebar.jsx\<close>): the whiteboard's header with its
    title editor (\<open>isEditing\<close>, \<open>tempTitle\<close>) and save status, its tool bar (expand
    state, tool buttons, disabled undo/redo, zoom controls) and its sidebar with the
    library search and the four tabs, each a layer over \<open>wb_state\<close> that calls the
    page's handlers; \<open>WbRender\<close> gathers the canvas's render pass (grid, elements,
    the stroke in progress as SVG path commands, minimap, zoom indicator); \<open>wbp_step\<close> interleaves header and
    page events and \<open>wbp_reachable\<close> collects the states they reach.
  \<^item> \<open>ProjectPage\<close> (\<open>project-detail-view/\<close>): the project view composed with its
    filter bar, content cards (hover, grid and list), bulk toolbar and its dialogs,
    project tools panel and the global sidebar in \<open>pp_step\<close>, with the render.
  \<^item> \<open>Auth\<close> (\<open>authentication-login-register/\<close>): the tab state, the redirect on
    \<open>localStorage.isAuthenticated\<close>, titles, tabs and footer links.
  \<^item> \<open>App\<close>: the pages composed through URLs. \<open>app_open\<close> mounts the page a URL's
    route selects, with its chrome, and passes the card editor its \<open>id\<close> parameter;
    a handler's navigation effect followed by \<open>app_open\<close> is how one page leads to
    another.
  \<^item> \<open>AppRun\<close>: the application as one state machine over the page on screen, the
    window width and the browser (document attributes and classes, \<open>localStorage\<close>):
    \<open>page_step\<close> routes an event to the shown page or one of its components,
    \<open>follow\<close> takes the first navigation it returns (\<open>window.location.href\<close> reloads
    the document, \<open>navigate\<close> keeps it) and \<open>app_open\<close> mounts the target;
    \<open>app_reachable\<close> collects the states reached from loading any URL, \<open>app_run\<close>
    replays a sequence of events; every page is reached from the dashboard by clicks
    and the dashboard back from every page but the authentication page, which only a
    typed URL leaves.
  \<^item> \<open>DashViews\<close>, \<open>ProjectViews\<close>: the renders of the dashboard's and the project
    view's children (header, statistics, sections, panel; project header and filter
    bar) and the reachable states of each page with their option invariants.

  \<^bold>\<open>Modelling choices.\<close> JavaScript numbers are \<^typ>\<open>real\<close> (exact; IEEE rounding is
  not modelled, so round trips hold exactly rather than within tolerance) and
  timestamps \<^typ>\<open>int\<close> milliseconds; the mixed-type settings objects hold
  \<open>js_val\<close> values whose \<open>typeof\<close> is \<open>js_typeof\<close>. A React handler runs on the state of the last
  render and its \<open>setState\<close> calls take effect together, which each handler
  definition reproduces; consecutive browser events see each other's updates. Values
  the runtime supplies are parameters: \<open>Date.now() + Math.random()\<close> (\<open>fresh\<close>), the
  canvas container's position (\<open>canvasOrigin\<close>), \<open>window.confirm\<close>'s answer
  (\<open>confirmed\<close>), the page load time (\<open>now\<close>), the card editor's \<open>ce_env\<close>
  (date text, \<open>confirm\<close>, \<open>prompt\<close>, location), the viewer's time-zone offset
  (\<open>tz\<close>). \<open>setTimeout\<close> callbacks are events
  of their own (\<open>SaveTimeout\<close>), counted while pending, so every interleaving with
  user events is a run. Reads out of range (\<open>history[i]\<close>) are \<open>None\<close> and a step
  that would store \<open>undefined\<close> returns \<open>None\<close>. No loop of the code is unbounded:
  every recursion is structural over a list except the query-string parser, whose
  termination is proved, so no fuel is needed.

  \<^bold>\<open>What the lemmas show.\<close> Invariants of every reachable whiteboard state (zoom in
  \<open>[0.1, 3]\<close>, the undo stub, drawing iff a path is buffered) by rule induction
  over \<open>wb_reachable\<close>, with the total-step property; the spec's scenarios as
  witnesses of general theorems about pen and pan gestures; refinement of the
  render position to the spec's transform and of the store to a map by id; the
  sort as a stable permutation sorted by the chosen key; and the places where the
  code departs from the spec or from its own intent (recorded as findings): the
  pointer conversion subtracts the pan twice, the canvas draws mock elements and
  never the store, clicks never select, a tool switch mid-gesture commits the path,
  the save timer reports later edits as saved, updates of unknown ids are silent,
  clock-based ids may clash, select-all counts instead of comparing, same-ms
  duplicates share an id, and the project header writes back a stale status.

  The card editor adds: the dirty flag and pending autosave match the card in
  every reachable state, autosave completes, tags stay distinct, and the share
  URL's subject round-trips through percent-encoding; it also shows that
  reverting an edit leaves \<open>Saving...\<close> shown for good and that duplicating
  cancels a pending save. The settings theories show the deletion guard, the
  document staying in step with the display settings, the JSON round trip, and
  two defects: saved display settings are never restored, and billing dates are
  a day early west of UTC; every settings run keeps the mounted section matching
  the active category and the mixed-type objects at their field types.

  Across pages: the query parser terminates; of the sidebar's links exactly
  Inbox, Journal, Card Library and Help reach the not-found page; a dashboard
  card opens a blank editor, because the dashboard passes \<open>project\<close> and \<open>card\<close>
  and the editor reads \<open>id\<close>; and every sidebar project opens the same project view,
  which reads no parameter. On the whiteboard, the title editor opens on the
  current title in every reachable state of header and page; the project view's
  content is the library's stable \<^const>\<open>sort_key\<close> of the visible items, and
  deleting a selected item leaves its id selected, so the bulk toolbar still
  counts it. Composed in \<open>AppRun\<close>, every state the application reaches keeps each
  page's own invariant (each component's reachable set is closed under the events
  routed to it and every navigation lands in an initial state), and the display
  settings hold only while the settings page is open: all its links reload the
  document, which drops the theme, and the saved copy in \<open>localStorage\<close> is never
  read back.

  \<^bold>\<open>Not modelled.\<close> The login, registration and social sign-in forms,
  \<open>pages/NotFound\<close>, \<open>ScrollToTop\<close>, \<open>ErrorBoundary\<close> and the UI component library
  (\<open>Button\<close>, \<open>Input\<close>, \<open>Select\<close>, \<open>Checkbox\<close>, \<open>AppIcon\<close>) are imported from files
  that are not in the repository. The printing of numbers in the SVG path and CSS
  are not modelled; \<open>document.execCommand\<close>, \<open>FileReader\<close> and navigation are
  recorded as effects, not executed. \<open>toLocaleString\<close> is modelled for the en-US
  locale only.
\<close>

end
